(* ===== verification/Spice_Prelude.thy ===== *)
theory Spice_Prelude
  imports Main "HOL-Library.AList" "HOL-Library.Sublist"
begin

text \<open>
  The vocabulary the component theories share: results as sums, Rust strings and their
  \<open>split\<close>/\<open>find\<close>/\<open>starts_with\<close> operations, \<open>HashMap\<close>s as association lists in an unknown
  iteration order, durations in nanoseconds, and the generic interfaces (locales) that several
  components implement: a keyed store, a \<open>provider:selector\<close> reference, an event loop and a
  transition system with an invariant.
\<close>

section \<open>Results and collections of automation\<close>

text \<open>\<open>Result<T, E>\<close> is \<open>'e + 'a\<close>, with the error on the left as in the \<open>?\<close> operator's early
  return.\<close>

type_synonym ('e, 'a) result = "'e + 'a"

named_theorems split_str \<open>splitting strings at a separator\<close>
named_theorems store_laws \<open>lookups after updates of keyed stores\<close>
named_theorems step_simps \<open>one step of a component's state machine\<close>

fun result_ok :: "('e, 'a) result \<Rightarrow> 'a option" where
  "result_ok (Inr x) = Some x"
| "result_ok (Inl _) = None"

fun is_ok :: "('e, 'a) result \<Rightarrow> bool" where
  "is_ok (Inr _) = True"
| "is_ok (Inl _) = False"

fun and_then :: "('e, 'a) result \<Rightarrow> ('a \<Rightarrow> ('e, 'b) result) \<Rightarrow> ('e, 'b) result" where
  "and_then (Inl e) f = Inl e"
| "and_then (Inr x) f = f x"

fun map_err :: "('e \<Rightarrow> 'f) \<Rightarrow> ('e, 'a) result \<Rightarrow> ('f, 'a) result" where
  "map_err f (Inl e) = Inl (f e)"
| "map_err f (Inr x) = Inr x"

text \<open>\<open>Option<Result<T, E>>::transpose\<close>.\<close>

fun transpose_opt :: "('e, 'a) result option \<Rightarrow> ('e, 'a option) result" where
  "transpose_opt None = Inr None"
| "transpose_opt (Some (Inr x)) = Inr (Some x)"
| "transpose_opt (Some (Inl e)) = Inl e"

text \<open>\<open>iter().map(f).collect::<Result<Vec<_>, _>>()\<close>: the first error wins.\<close>

fun try_collect :: "('a \<Rightarrow> ('e, 'b) result) \<Rightarrow> 'a list \<Rightarrow> ('e, 'b list) result" where
  "try_collect f [] = Inr []"
| "try_collect f (x # xs) =
     and_then (f x) (\<lambda>y. and_then (try_collect f xs) (\<lambda>ys. Inr (y # ys)))"

lemma and_then_eq_Inr:
  "and_then r f = Inr y \<longleftrightarrow> (\<exists>x. r = Inr x \<and> f x = Inr y)"
  by (cases r) auto

lemma and_then_eq_Inl:
  "and_then r f = Inl e \<longleftrightarrow> r = Inl e \<or> (\<exists>x. r = Inr x \<and> f x = Inl e)"
  by (cases r) auto

lemma map_err_eq_Inr [simp]: "map_err f r = Inr x \<longleftrightarrow> r = Inr x"
  by (cases r) auto

lemma result_ok_eq_Some [simp]: "result_ok r = Some x \<longleftrightarrow> r = Inr x"
  by (cases r) auto

lemma is_ok_iff: "is_ok r \<longleftrightarrow> (\<exists>x. r = Inr x)"
  by (cases r) auto

lemma try_collect_Inr_iff:
  "try_collect f xs = Inr ys \<longleftrightarrow> list_all2 (\<lambda>x y. f x = Inr y) xs ys"
  by (induction xs arbitrary: ys) (auto simp: and_then_eq_Inr list_all2_Cons1)

lemma try_collect_Inl_first:
  "try_collect f xs = Inl e \<longleftrightarrow>
     (\<exists>ys x zs. xs = ys @ x # zs \<and> (\<forall>y\<in>set ys. is_ok (f y)) \<and> f x = Inl e)"
proof (induction xs)
  case (Cons a xs)
  show ?case
  proof (cases "f a")
    case (Inl b)
    then show ?thesis
      by (auto simp: Cons_eq_append_conv is_ok_iff)
         (metis empty_iff empty_set)
  next
    case (Inr b)
    then have "try_collect f (a # xs) = Inl e \<longleftrightarrow> try_collect f xs = Inl e"
      by (cases "try_collect f xs") auto
    also have "\<dots> \<longleftrightarrow> (\<exists>ys x zs. a # xs = ys @ x # zs \<and> (\<forall>y\<in>set ys. is_ok (f y)) \<and> f x = Inl e)"
      unfolding Cons.IH using Inr by (auto simp: Cons_eq_append_conv is_ok_iff) (metis set_ConsD)+
    finally show ?thesis .
  qed
qed simp

section \<open>Strings\<close>

text \<open>
  A Rust \<open>String\<close> is its UTF-8 bytes and a HOL \<open>string\<close> is a list of bytes, so byte offsets,
  \<open>len\<close>, \<open>find\<close> of an ASCII character and slices agree.
\<close>

abbreviation colon :: char where "colon \<equiv> CHR '':''"

text \<open>\<open>str::find(c)\<close>: the byte offset of the first occurrence.\<close>

fun find_char :: "char \<Rightarrow> string \<Rightarrow> nat option" where
  "find_char c [] = None"
| "find_char c (x # xs) = (if x = c then Some 0 else map_option Suc (find_char c xs))"

text \<open>The first piece of \<open>str::split(c)\<close>.\<close>

definition split_first :: "char \<Rightarrow> string \<Rightarrow> string" where
  "split_first c s = takeWhile (\<lambda>x. x \<noteq> c) s"

text \<open>\<open>str::splitn(2, c)\<close>, collected.\<close>

definition splitn2 :: "char \<Rightarrow> string \<Rightarrow> string list" where
  "splitn2 c s = (case find_char c s of
      None \<Rightarrow> [s]
    | Some i \<Rightarrow> [take i s, drop (Suc i) s])"

lemma find_char_None [split_str]: "find_char c s = None \<longleftrightarrow> c \<notin> set s"
  by (induction s) auto

lemma find_char_append [split_str]: "c \<notin> set p \<Longrightarrow> find_char c (p @ c # r) = Some (length p)"
  by (induction p) auto

lemma find_char_Some:
  "find_char c s = Some i \<longleftrightarrow>
     i < length s \<and> s ! i = c \<and> c \<notin> set (take i s)"
proof (induction s arbitrary: i)
  case (Cons x s)
  then show ?case by (cases i) auto
qed simp

lemma find_char_SomeD:
  assumes "find_char c s = Some i"
  shows "s = take i s @ c # drop (Suc i) s" and "c \<notin> set (take i s)"
  using assms by (auto simp: find_char_Some id_take_nth_drop)

lemma split_first_append [split_str]: "c \<notin> set p \<Longrightarrow> split_first c (p @ c # r) = p"
  unfolding split_first_def by (induction p) auto

lemma split_first_none [split_str]: "c \<notin> set s \<Longrightarrow> split_first c s = s"
  unfolding split_first_def by (induction s) auto

text \<open>
  \<open>str::to_lowercase\<close> on ASCII text; bytes above 127 are left as they are.
\<close>

definition lower_char :: "char \<Rightarrow> char" where
  "lower_char c = (let n = of_char c :: nat in
     if 65 \<le> n \<and> n \<le> 90 then char_of (n + 32) else c)"

definition to_lowercase :: "string \<Rightarrow> string" where
  "to_lowercase s = map lower_char s"

text \<open>\<open>Vec<String>::join(sep)\<close>.\<close>

fun join_str :: "string \<Rightarrow> string list \<Rightarrow> string" where
  "join_str sep [] = []"
| "join_str sep [x] = x"
| "join_str sep (x # y # ys) = x @ sep @ join_str sep (y # ys)"

text \<open>\<open>usize::to_string\<close>: decimal digits, most significant first.\<close>

fun digits :: "nat \<Rightarrow> string" where
  "digits n = (if n < 10 then [char_of (48 + n)]
               else digits (n div 10) @ [char_of (48 + n mod 10)])"

declare digits.simps [simp del]

lemma digits_nonempty [simp]: "digits n \<noteq> []"
  by (subst digits.simps) simp

section \<open>Hash maps\<close>

text \<open>
  A \<open>HashMap\<close> is an association list with distinct keys: the list is one iteration order, and
  results that may depend on the order are stated for every list.
\<close>

type_synonym ('k, 'v) hmap = "('k \<times> 'v) list"

definition hm_wf :: "('k, 'v) hmap \<Rightarrow> bool" where
  "hm_wf m \<longleftrightarrow> distinct (map fst m)"

abbreviation hm_get :: "('k, 'v) hmap \<Rightarrow> 'k \<Rightarrow> 'v option" where
  "hm_get m k \<equiv> map_of m k"

abbreviation hm_insert :: "'k \<Rightarrow> 'v \<Rightarrow> ('k, 'v) hmap \<Rightarrow> ('k, 'v) hmap" where
  "hm_insert k v m \<equiv> AList.update k v m"

abbreviation hm_remove :: "'k \<Rightarrow> ('k, 'v) hmap \<Rightarrow> ('k, 'v) hmap" where
  "hm_remove k m \<equiv> AList.delete k m"

text \<open>\<open>iter.collect::<HashMap<_, _>>()\<close>: a later pair replaces an earlier one.\<close>

definition hm_collect :: "('k \<times> 'v) list \<Rightarrow> ('k, 'v) hmap" where
  "hm_collect ps = fold (\<lambda>(k, v) m. hm_insert k v m) ps []"

text \<open>\<open>HashMap::extend\<close>.\<close>

definition hm_extend :: "('k, 'v) hmap \<Rightarrow> ('k, 'v) hmap \<Rightarrow> ('k, 'v) hmap" where
  "hm_extend m ps = fold (\<lambda>(k, v) m. hm_insert k v m) ps m"

text \<open>\<open>HashMap\<close> equality ignores the order.\<close>

definition hm_eq :: "('k, 'v) hmap \<Rightarrow> ('k, 'v) hmap \<Rightarrow> bool" where
  "hm_eq m n \<longleftrightarrow> map_of m = map_of n"

lemma hm_wf_Nil [simp]: "hm_wf []"
  by (simp add: hm_wf_def)

lemma hm_wf_insert [intro]: "hm_wf m \<Longrightarrow> hm_wf (hm_insert k v m)"
  by (simp add: hm_wf_def distinct_update)

lemma hm_wf_remove [intro]: "hm_wf m \<Longrightarrow> hm_wf (hm_remove k m)"
  by (simp add: hm_wf_def distinct_delete)

lemma hm_get_insert [store_laws]: "hm_get (hm_insert k v m) = (hm_get m)(k \<mapsto> v)"
  by (simp add: update_conv fun_eq_iff)

lemma hm_get_remove [store_laws]: "hm_get (hm_remove k m) = (hm_get m)(k := None)"
  by (simp add: delete_conv fun_eq_iff)

lemma hm_wf_fold_insert:
  "hm_wf m \<Longrightarrow> hm_wf (fold (\<lambda>(k, v) m. hm_insert k v m) ps m)"
  by (induction ps arbitrary: m) auto

lemma hm_wf_collect: "hm_wf (hm_collect ps)"
  by (simp add: hm_collect_def hm_wf_fold_insert)

lemma hm_get_extend [store_laws]:
  "hm_get (hm_extend m ps) = hm_get m ++ map_of (rev ps)"
  unfolding hm_extend_def
  by (induction ps arbitrary: m) (auto simp: hm_get_insert map_add_def fun_eq_iff split: option.splits)

lemma hm_get_collect [store_laws]: "hm_get (hm_collect ps) = map_of (rev ps)"
  using hm_get_extend [of "[]" ps] by (simp add: hm_collect_def hm_extend_def)

lemma map_of_rev_distinct: "distinct (map fst ps) \<Longrightarrow> map_of (rev ps) = map_of ps"
proof (induction ps)
  case (Cons p ps)
  obtain k v where p: "p = (k, v)" by (cases p)
  with Cons have "k \<notin> fst ` set ps" by simp
  then have "map_of ps k = None" by (simp add: map_of_eq_None_iff)
  with Cons p show ?case by (auto simp: map_add_def fun_eq_iff split: option.splits)
qed simp

text \<open>Entries whose value is a function of the key.\<close>

lemma hm_get_collect_fun:
  assumes "\<And>k v. (k, v) \<in> set ps \<Longrightarrow> f k = v"
  shows "hm_get (hm_collect ps) k = (if k \<in> fst ` set ps then Some (f k) else None)"
proof (cases "map_of (rev ps) k")
  case None
  then show ?thesis by (simp add: hm_get_collect map_of_eq_None_iff)
next
  case (Some v)
  then have "(k, v) \<in> set ps" by (auto dest: map_of_SomeD)
  with assms Some show ?thesis by (force simp: hm_get_collect)
qed

lemma hm_get_iff_mem: "hm_wf m \<Longrightarrow> hm_get m k = Some v \<longleftrightarrow> (k, v) \<in> set m"
  by (simp add: hm_wf_def)

section \<open>Folds\<close>

text \<open>A fold whose steps may not return, and a fold that keeps a part of its state.\<close>

lemma list_all2_mem1: "list_all2 P xs ys \<Longrightarrow> x \<in> set xs \<Longrightarrow> \<exists>y\<in>set ys. P x y"
  by (induction rule: list_all2_induct) auto

lemma list_all2_mem2: "list_all2 P xs ys \<Longrightarrow> y \<in> set ys \<Longrightarrow> \<exists>x\<in>set xs. P x y"
  by (induction rule: list_all2_induct) auto

lemma mem_map_filter: "y \<in> set (List.map_filter f xs) \<longleftrightarrow> (\<exists>x\<in>set xs. f x = Some y)"
  by (induction xs) (auto simp: List.map_filter_simps split: option.splits)

lemma map_filter_total:
  "\<forall>x\<in>set xs. f x \<noteq> None \<Longrightarrow> List.map_filter f xs = map (\<lambda>x. the (f x)) xs"
  by (induction xs) (auto simp: List.map_filter_simps)

lemma fold_bind_None: "fold (\<lambda>x m. Option.bind m (f x)) xs None = None"
  by (induction xs) simp_all

lemma fold_bind_invariant:
  assumes "fold (\<lambda>x m. Option.bind m (f x)) xs (Some s) = Some t" and "I s"
    and step: "\<And>x s t. f x s = Some t \<Longrightarrow> I s \<Longrightarrow> I t"
  shows "I t"
  using assms(1,2)
proof (induction xs arbitrary: s)
  case (Cons x xs)
  then obtain s' where "f x s = Some s'" by (cases "f x s") (simp_all add: fold_bind_None)
  with Cons step show ?case by auto
qed simp

lemma fold_keeps:
  assumes "\<And>x s. f (g x s) = f s"
  shows "f (fold g xs s) = f s"
  using assms by (induction xs arbitrary: s) simp_all

section \<open>Durations and machine integers\<close>

text \<open>A \<open>Duration\<close> is its length in nanoseconds.\<close>

type_synonym duration = nat

abbreviation nanos_per_sec :: nat where "nanos_per_sec \<equiv> 1000000000"

definition from_millis :: "nat \<Rightarrow> duration" where
  "from_millis ms = ms * 1000000"

definition from_secs :: "nat \<Rightarrow> duration" where
  "from_secs s = s * nanos_per_sec"

definition as_secs :: "duration \<Rightarrow> nat" where
  "as_secs d = d div nanos_per_sec"

section \<open>Interfaces\<close>

text \<open>
  A store that is filled by key and read by key: a connector's parameter set, the registries.
\<close>

locale lookup_store =
  fixes empty_store :: 'm
    and insert_at :: "'k \<Rightarrow> 'v \<Rightarrow> 'm \<Rightarrow> 'm"
    and find_at :: "'m \<Rightarrow> 'k \<Rightarrow> 'v option"
  assumes find_empty: "find_at empty_store k = None"
    and find_insert: "find_at (insert_at k v m) k' = (if k' = k then Some v else find_at m k')"
begin

lemma fold_insert_find:
  "find_at (fold (\<lambda>(k, v). insert_at k v) ps m) k =
     (case map_of (rev ps) k of Some v \<Rightarrow> Some v | None \<Rightarrow> find_at m k)"
  by (induction ps arbitrary: m) (auto simp: find_insert map_add_def split: option.splits)

lemma fill_find: "find_at (fold (\<lambda>(k, v). insert_at k v) ps empty_store) = map_of (rev ps)"
  by (auto simp: fun_eq_iff fold_insert_find find_empty split: option.splits)

lemma insert_twice_find: "find_at (insert_at k v (insert_at k w m)) = find_at (insert_at k v m)"
  by (simp add: fun_eq_iff find_insert)

end

text \<open>
  A store whose entries can be removed as well: the tables of a schema, the monitored datasets.
\<close>

locale keyed_store = lookup_store +
  fixes remove_at :: "'k \<Rightarrow> 'm \<Rightarrow> 'm"
  assumes find_remove: "find_at (remove_at k m) k' = (if k' = k then None else find_at m k')"
begin

lemma remove_insert_find:
  "find_at m k = None \<Longrightarrow> find_at (remove_at k (insert_at k v m)) = find_at m"
  by (auto simp: fun_eq_iff find_insert find_remove)

lemma fold_remove_find:
  "find_at (fold remove_at ks m) k = (if k \<in> set ks then None else find_at m k)"
  by (induction ks arbitrary: m) (auto simp: find_remove)

end

text \<open>
  A reference of the form \<open>provider:selector\<close>. Secret stores and catalogs both cut their \<open>from\<close>
  field this way, and rely on the pair determining the field.
\<close>

locale prefixed_reference =
  fixes provider_of :: "string \<Rightarrow> string"
    and selector_of :: "string \<Rightarrow> string option"
  assumes provider_with: "colon \<notin> set p \<Longrightarrow> provider_of (p @ colon # r) = p"
    and provider_without: "colon \<notin> set s \<Longrightarrow> provider_of s = s"
    and selector_with: "colon \<notin> set p \<Longrightarrow> selector_of (p @ colon # r) = Some r"
    and selector_without: "colon \<notin> set s \<Longrightarrow> selector_of s = None"
begin

lemma rebuild:
  "s = provider_of s @ (case selector_of s of None \<Rightarrow> [] | Some r \<Rightarrow> colon # r)"
proof (cases "colon \<in> set s")
  case True
  then obtain p r where "s = p @ colon # r" and "colon \<notin> set p"
    by (meson split_list_first)
  then show ?thesis by (simp add: provider_with selector_with)
next
  case False
  then show ?thesis by (simp add: provider_without selector_without)
qed

lemma determined:
  "provider_of s = provider_of t \<Longrightarrow> selector_of s = selector_of t \<Longrightarrow> s = t"
  using rebuild [of s] rebuild [of t] by simp

lemma provider_no_colon: "colon \<notin> set (provider_of s)"
proof (cases "colon \<in> set s")
  case True
  then obtain p r where "s = p @ colon # r" and "colon \<notin> set p"
    by (meson split_list_first)
  then show ?thesis by (simp add: provider_with)
qed (simp add: provider_without)

end

text \<open>
  A task that consumes a stream of events one at a time: an invariant of a single event's
  handler holds when the stream ends.
\<close>

locale event_loop =
  fixes handle :: "'e \<Rightarrow> 's \<Rightarrow> 's"
    and loop_inv :: "'s \<Rightarrow> bool"
  assumes handle_inv: "loop_inv s \<Longrightarrow> loop_inv (handle e s)"
begin

lemma run_inv: "loop_inv s \<Longrightarrow> loop_inv (fold handle es s)"
  by (induction es arbitrary: s) (auto intro: handle_inv)

end

text \<open>
  A transition system with an inductive invariant; tasks that talk over channels are such
  systems.
\<close>

inductive reaches :: "('s \<Rightarrow> 's \<Rightarrow> bool) \<Rightarrow> 's \<Rightarrow> 's \<Rightarrow> bool" for step s where
  start: "reaches step s s"
| next_step: "reaches step s t \<Longrightarrow> step t u \<Longrightarrow> reaches step s u"

lemma reaches_trans: "reaches step t u \<Longrightarrow> reaches step s t \<Longrightarrow> reaches step s u"
  by (induction rule: reaches.induct) (auto intro: reaches.intros)

locale invariant_system =
  fixes step :: "'s \<Rightarrow> 's \<Rightarrow> bool"
    and initial :: 's
    and sys_inv :: "'s \<Rightarrow> bool"
  assumes inv_initial: "sys_inv initial"
    and inv_step: "sys_inv s \<Longrightarrow> step s t \<Longrightarrow> sys_inv t"
begin

lemma reachable_inv: "reaches step initial s \<Longrightarrow> sys_inv s"
proof (induction s rule: reaches.induct)
  case start
  show ?case by (rule inv_initial)
next
  case (next_step t u)
  then show ?case by (blast intro: inv_step)
qed

end

end
