(* ===== verification/Spicepod_Params.thy ===== *)
theory Spicepod_Params
  imports Spice_Prelude
begin

text \<open>
  Parameter maps of a spicepod (\<open>crates/spicepod/src/component/params.rs\<close>): the untagged values
  and their conversion to the strings the runtime reads. An \<open>f64\<close> is represented by its
  \<open>Display\<close> text, the only thing the code reads of it; a \<open>serde_json\<close> value by its text.
\<close>

type_synonym json = string

datatype param_value = StringV string | IntV int | FloatV string | BoolV bool

definition i64_to_string :: "int \<Rightarrow> string" where
  "i64_to_string i = (if i < 0 then CHR ''-'' # digits (nat (- i)) else digits (nat i))"

definition bool_to_string :: "bool \<Rightarrow> string" where
  "bool_to_string b = (if b then ''true'' else ''false'')"

fun as_string :: "param_value \<Rightarrow> string" where
  "as_string (StringV v) = v"
| "as_string (IntV v) = i64_to_string v"
| "as_string (FloatV v) = v"
| "as_string (BoolV v) = bool_to_string v"

type_synonym params = "(string, param_value) hmap"

definition as_string_map :: "params \<Rightarrow> (string, string) hmap" where
  "as_string_map p = hm_collect (map (\<lambda>(k, v). (k, as_string v)) p)"

definition from_string_map :: "(string, string) hmap \<Rightarrow> params" where
  "from_string_map data = fold (\<lambda>(k, v) m. hm_insert k (StringV v) m) data []"

text \<open>\<open>opt.as_ref().map(Params::as_string_map).unwrap_or_default()\<close>\<close>

definition string_map_or_default :: "params option \<Rightarrow> (string, string) hmap" where
  "string_map_or_default p = (case p of None \<Rightarrow> [] | Some m \<Rightarrow> as_string_map m)"

lemma from_string_map_collect:
  "from_string_map data = hm_collect (map (\<lambda>(k, v). (k, StringV v)) data)"
proof -
  have "fold (\<lambda>(k, v) m. hm_insert k (StringV v) m) data m =
      fold (\<lambda>(k, v) m. hm_insert k v m) (map (\<lambda>(k, v). (k, StringV v)) data) m" for m
    by (induction data arbitrary: m) auto
  then show ?thesis by (simp add: from_string_map_def hm_collect_def)
qed

lemma map_of_map_value:
  "map_of (map (\<lambda>(k, v). (k, f v)) m) k = map_option f (map_of m k)"
  by (induction m) auto

lemma as_string_map_get:
  assumes "hm_wf p"
  shows "hm_get (as_string_map p) k = map_option as_string (hm_get p k)"
proof -
  have "distinct (map fst (map (\<lambda>(k, v). (k, as_string v)) p))"
    using assms by (simp add: hm_wf_def split_def comp_def)
  then show ?thesis
    by (simp add: as_string_map_def hm_get_collect map_of_rev_distinct map_of_map_value)
qed

lemma from_string_map_get:
  assumes "hm_wf m"
  shows "hm_get (from_string_map m) k = map_option StringV (hm_get m k)"
proof -
  have "distinct (map fst (map (\<lambda>(k, v). (k, StringV v)) m))"
    using assms by (simp add: hm_wf_def split_def comp_def)
  then show ?thesis
    by (simp add: from_string_map_collect hm_get_collect map_of_rev_distinct map_of_map_value)
qed

text \<open>
  Turning a string map into a parameter map and back loses nothing: the two are equal as
  \<open>HashMap\<close>s, and the intermediate parameter map has no duplicate keys.
\<close>

theorem params_string_map_roundtrip:
  assumes "hm_wf m"
  shows "hm_eq (as_string_map (from_string_map m)) m \<and> hm_wf (from_string_map m)"
proof
  show wf: "hm_wf (from_string_map m)"
    by (simp add: from_string_map_collect hm_wf_collect)
  show "hm_eq (as_string_map (from_string_map m)) m"
    by (auto simp: hm_eq_def fun_eq_iff as_string_map_get [OF wf] from_string_map_get [OF assms]
        option.map_comp comp_def option.map_ident)
qed

theorem params_string_map_roundtrip_witness:
  "hm_eq (as_string_map (from_string_map [(''mode'', ''file''), (''a'', ''1'')]))
     [(''mode'', ''file''), (''a'', ''1'')]"
proof -
  have "hm_wf [(''mode'', ''file''), (''a'', ''1'')]" by (simp add: hm_wf_def)
  from params_string_map_roundtrip [OF this] show ?thesis by simp
qed

end
