(* ===== verification/Spicepod_Models.thy ===== *)
theory Spicepod_Models
  imports Spicepod_Params
begin

text \<open>
  Models and embeddings of a spicepod (\<open>crates/spicepod/src/component/model.rs\<close> and
  \<open>embeddings.rs\<close>): the source prefix of the \<open>from\<close> field, the model id behind it, the file types
  guessed from paths, and the model type. \<open>std::path\<close> is modelled for Unix paths.
\<close>

section \<open>Paths\<close>

fun split_on :: "char \<Rightarrow> string \<Rightarrow> string list" where
  "split_on c [] = [[]]"
| "split_on c (x # xs) = (if x = c then [] # split_on c xs
     else (case split_on c xs of [] \<Rightarrow> [[x]] | p # ps \<Rightarrow> (x # p) # ps))"

definition path_file_name :: "string \<Rightarrow> string option" where
  "path_file_name p =
     (case rev (filter (\<lambda>c. c \<noteq> [] \<and> c \<noteq> ''.'') (split_on CHR ''/'' p)) of
        [] \<Rightarrow> None
      | c # _ \<Rightarrow> if c = ''..'' then None else Some c)"

definition path_extension :: "string \<Rightarrow> string option" where
  "path_extension p = (case path_file_name p of None \<Rightarrow> None
     | Some n \<Rightarrow> (case rev (split_on CHR ''.'' n) of
          after # before # [] \<Rightarrow> if before = [] then None else Some after
        | after # _ # _ # _ \<Rightarrow> Some after
        | _ \<Rightarrow> None))"

definition extension_or_default :: "string \<Rightarrow> string" where
  "extension_or_default p = (case path_extension p of None \<Rightarrow> [] | Some e \<Rightarrow> e)"

definition strip_prefix :: "string \<Rightarrow> string \<Rightarrow> string option" where
  "strip_prefix pre s = (if prefix pre s then Some (drop (length pre) s) else None)"

section \<open>Model files\<close>

datatype model_file_type = Weights | Config | Tokenizer | TokenizerConfig

record model_file =
  mf_path :: string
  mf_name :: "string option"
  mf_type :: "model_file_type option"

definition is_ml_file :: "string \<Rightarrow> bool" where
  "is_ml_file p \<longleftrightarrow> extension_or_default p = ''onnx''"

definition is_llm_file :: "string \<Rightarrow> bool" where
  "is_llm_file p \<longleftrightarrow> (case path_file_name p of None \<Rightarrow> False
     | Some filename \<Rightarrow>
         (let extension = extension_or_default p in
          extension = ''gguf'' \<or> extension = ''ggml'' \<or> extension = ''safetensors'' \<or>
          filename = ''pytorch_model.bin''))"

definition determine_type_from_path :: "string \<Rightarrow> model_file_type option" where
  "determine_type_from_path p =
     (if is_ml_file p \<or> is_llm_file p then Some Weights
      else (case path_file_name p of None \<Rightarrow> None
        | Some filename \<Rightarrow>
            if filename = ''config.json'' then Some Config
            else if filename = ''tokenizer.json'' then Some Tokenizer
            else if filename = ''tokenizer_config.json'' then Some TokenizerConfig
            else None))"

definition file_type :: "model_file \<Rightarrow> model_file_type option" where
  "file_type f = (case mf_type f of Some t \<Rightarrow> Some t
     | None \<Rightarrow> (case mf_type f of Some t \<Rightarrow> Some t
                | None \<Rightarrow> determine_type_from_path (mf_path f)))"

section \<open>Models\<close>

datatype model_source = OpenAi | HuggingFace | SpiceAI | File

definition model_source_try_from :: "string \<Rightarrow> (string, model_source) result" where
  "model_source_try_from v =
     (if prefix ''huggingface:huggingface.co'' v then Inr HuggingFace
      else if prefix ''file:'' v then Inr File
      else if prefix ''openai'' v then Inr OpenAi
      else if prefix ''spiceai'' v then Inr SpiceAI
      else Inl ''Unknown prefix'')"

fun display_model_source :: "model_source \<Rightarrow> string" where
  "display_model_source OpenAi = ''openai''"
| "display_model_source HuggingFace = ''huggingface:huggingface.co''"
| "display_model_source File = ''file:''"
| "display_model_source SpiceAI = ''spiceai''"

datatype model_type = Llm | Ml

fun display_model_type :: "model_type \<Rightarrow> string" where
  "display_model_type Llm = ''Llm''"
| "display_model_type Ml = ''Ml''"

record model =
  m_from :: string
  m_name :: string
  m_description :: "string option"
  m_metadata :: "(string, json) hmap"
  m_files :: "model_file list"
  m_params :: "(string, json) hmap"
  m_datasets :: "string list"
  m_depends_on :: "string list"

definition model_depends_on :: "string list \<Rightarrow> model \<Rightarrow> model" where
  "model_depends_on ds m =
     \<lparr>m_from = m_from m, m_name = m_name m, m_description = m_description m,
      m_metadata = m_metadata m, m_files = m_files m, m_params = m_params m,
      m_datasets = m_datasets m, m_depends_on = ds\<rparr>"

definition model_all_file_paths :: "model \<Rightarrow> string list" where
  "model_all_file_paths m = map mf_path (m_files m)"

definition model_find_any_file_path :: "model_file_type \<Rightarrow> model \<Rightarrow> string option" where
  "model_find_any_file_path t m =
     map_option mf_path (find (\<lambda>f. file_type f = Some t) (m_files m))"

definition model_get_source :: "model \<Rightarrow> model_source option" where
  "model_get_source m = result_ok (model_source_try_from (m_from m))"

definition model_get_model_id :: "model \<Rightarrow> string option" where
  "model_get_model_id m = (case model_get_source m of
      Some p \<Rightarrow> (case strip_prefix (display_model_source p @ ''/'') (m_from m) of
          Some stripped \<Rightarrow> Some stripped
        | None \<Rightarrow> strip_prefix (display_model_source p @ '':'') (m_from m))
    | None \<Rightarrow> None)"

definition model_model_type :: "model \<Rightarrow> model_type option" where
  "model_model_type m = (case model_source_try_from (m_from m) of
      Inl _ \<Rightarrow> None
    | Inr source \<Rightarrow>
        if source = OpenAi then Some Llm
        else if source = SpiceAI then Some Ml
        else if source = HuggingFace \<and> hm_get (m_params m) ''model_type'' \<noteq> None then Some Llm
        else
          (let files = m_files m @
                 (if source = File then
                    (case model_get_model_id m of
                       Some i \<Rightarrow> [\<lparr>mf_path = i, mf_name = Some ''from_id'', mf_type = Some Weights\<rparr>]
                     | None \<Rightarrow> [])
                  else []);
               is_llm = list_ex (\<lambda>f. case file_type f of
                   Some Tokenizer \<Rightarrow> True
                 | Some Config \<Rightarrow> True
                 | Some TokenizerConfig \<Rightarrow> True
                 | _ \<Rightarrow> is_llm_file (mf_path f)) files
           in if is_llm then Some Llm
              else if list_ex (\<lambda>f. is_ml_file (mf_path f)) files then Some Ml
              else None))"

definition model_openai_request_overrides :: "model \<Rightarrow> (string \<times> json) list" where
  "model_openai_request_overrides m =
     List.map_filter (\<lambda>(k, v). map_option (\<lambda>k'. (k', v)) (strip_prefix ''openai_'' k)) (m_params m)"

section \<open>Embeddings\<close>

datatype embedding_prefix = EmbOpenAi | EmbHuggingFace | EmbFile

definition embedding_prefix_try_from :: "string \<Rightarrow> (string, embedding_prefix) result" where
  "embedding_prefix_try_from v =
     (if prefix ''huggingface:huggingface.co'' v then Inr EmbHuggingFace
      else if prefix ''file:'' v then Inr EmbFile
      else if prefix ''openai'' v then Inr EmbOpenAi
      else Inl ''Unknown prefix'')"

fun display_embedding_prefix :: "embedding_prefix \<Rightarrow> string" where
  "display_embedding_prefix EmbOpenAi = ''openai''"
| "display_embedding_prefix EmbHuggingFace = ''huggingface:huggingface.co''"
| "display_embedding_prefix EmbFile = ''file:''"

record embeddings =
  e_from :: string
  e_name :: string
  e_files :: "model_file list"
  e_params :: "(string, string) hmap"
  e_datasets :: "string list"
  e_depends_on :: "string list"

definition embeddings_depends_on :: "string list \<Rightarrow> embeddings \<Rightarrow> embeddings" where
  "embeddings_depends_on ds e = e\<lparr>e_depends_on := ds\<rparr>"

definition embeddings_get_prefix :: "embeddings \<Rightarrow> embedding_prefix option" where
  "embeddings_get_prefix e = result_ok (embedding_prefix_try_from (e_from e))"

definition embeddings_all_file_paths :: "embeddings \<Rightarrow> string list" where
  "embeddings_all_file_paths e = map mf_path (e_files e)"

definition embeddings_find_any_file_path :: "model_file_type \<Rightarrow> embeddings \<Rightarrow> string option" where
  "embeddings_find_any_file_path t e =
     map_option mf_path (find (\<lambda>f. file_type f = Some t) (e_files e))"

definition embeddings_get_model_id :: "embeddings \<Rightarrow> string option" where
  "embeddings_get_model_id e = (case embeddings_get_prefix e of
      Some p \<Rightarrow> strip_prefix (display_embedding_prefix p @ ''/'') (e_from e)
    | None \<Rightarrow> None)"

record column_embedding_config =
  cec_column :: string
  cec_model :: string
  cec_primary_keys :: "string list option"

section \<open>Tools and extensions\<close>

record tool =
  t_from :: string
  t_name :: string
  t_description :: "string option"
  t_params :: "(string, string) hmap"
  t_depends_on :: "string list"

definition tool_depends_on :: "string list \<Rightarrow> tool \<Rightarrow> tool" where
  "tool_depends_on ds t =
     \<lparr>t_from = t_from t, t_name = t_name t, t_description = t_description t,
      t_params = t_params t, t_depends_on = ds\<rparr>"

record extension =
  ext_enabled :: bool
  ext_params :: "(string, string) hmap"

definition default_extension :: extension where
  "default_extension = \<lparr>ext_enabled = True, ext_params = []\<rparr>"

section \<open>Properties\<close>

lemma model_source_display_roundtrip [simp]:
  "model_source_try_from (display_model_source s) = Inr s"
  by (cases s) (simp_all add: model_source_try_from_def)

lemma model_source_prefix:
  "model_source_try_from v = Inr s \<Longrightarrow> prefix (display_model_source s) v"
  by (auto simp: model_source_try_from_def split: if_splits)

lemma model_source_append:
  "model_source_try_from (display_model_source s @ r) = Inr s"
  by (cases s) (simp_all add: model_source_try_from_def)

lemma strip_prefix_Some: "strip_prefix pre s = Some r \<longleftrightarrow> s = pre @ r"
  by (auto simp: strip_prefix_def prefix_def)

lemma strip_prefix_append [simp]: "strip_prefix pre (pre @ r) = Some r"
  by (simp add: strip_prefix_Some)

text \<open>
  A model's \<open>from\<close> built from a source, a separator \<open>/\<close> or \<open>:\<close> and an id gives that source and
  that id back, and whenever an id is found the \<open>from\<close> field is the source, one of the two
  separators and the id.
\<close>

theorem model_id_roundtrip:
  "(m_from m = display_model_source s @ ''/'' @ i \<longrightarrow>
      model_get_source m = Some s \<and> model_get_model_id m = Some i) \<and>
   (m_from m = display_model_source s @ '':'' @ i \<longrightarrow>
      model_get_source m = Some s \<and> model_get_model_id m = Some i) \<and>
   (model_get_model_id m = Some j \<longrightarrow>
      (\<exists>p sep. model_get_source m = Some p \<and> sep \<in> {''/'', '':''} \<and>
        m_from m = display_model_source p @ sep @ j))"
proof (intro conjI impI)
  assume fr: "m_from m = display_model_source s @ ''/'' @ i"
  then show src: "model_get_source m = Some s"
    by (simp add: model_get_source_def model_source_append)
  show "model_get_model_id m = Some i"
    using strip_prefix_append [of "display_model_source s @ ''/''" i]
    by (simp add: model_get_model_id_def src fr)
next
  assume fr: "m_from m = display_model_source s @ '':'' @ i"
  then show src: "model_get_source m = Some s"
    by (simp add: model_get_source_def model_source_append)
  have "strip_prefix (display_model_source s @ ''/'') (m_from m) = None"
    by (simp add: fr strip_prefix_def)
  then show "model_get_model_id m = Some i"
    using strip_prefix_append [of "display_model_source s @ '':''" i]
    by (simp add: model_get_model_id_def src fr)
next
  assume "model_get_model_id m = Some j"
  then show "\<exists>p sep. model_get_source m = Some p \<and> sep \<in> {''/'', '':''} \<and>
      m_from m = display_model_source p @ sep @ j"
    by (fastforce simp: model_get_model_id_def strip_prefix_Some split: option.splits)
qed

theorem model_id_roundtrip_witness:
  "model_get_model_id
     \<lparr>m_from = ''openai:gpt-4o'', m_name = ''m'', m_description = None, m_metadata = [],
      m_files = [], m_params = [], m_datasets = [], m_depends_on = []\<rparr> = Some ''gpt-4o''"
  using model_id_roundtrip [of
      "\<lparr>m_from = ''openai:gpt-4o'', m_name = ''m'', m_description = None, m_metadata = [],
        m_files = [], m_params = [], m_datasets = [], m_depends_on = []\<rparr>" OpenAi "''gpt-4o''"]
  by simp

text \<open>
  The two components disagree on the \<open>:\<close> separator: an OpenAI embedding written
  \<open>openai:id\<close>, the form the model component accepts, has no model id, so a caller falls back to
  its default model.
\<close>

theorem embeddings_ignore_colon_id:
  "embeddings_get_prefix (e\<lparr>e_from := ''openai:'' @ i\<rparr>) = Some EmbOpenAi \<and>
   embeddings_get_model_id (e\<lparr>e_from := ''openai:'' @ i\<rparr>) = None \<and>
   model_get_model_id (m\<lparr>m_from := ''openai:'' @ i\<rparr>) = Some i"
  by (simp add: embeddings_get_prefix_def embedding_prefix_try_from_def embeddings_get_model_id_def
      strip_prefix_def model_get_model_id_def model_get_source_def model_source_try_from_def)

end
