(* ===== verification/Spicepod.thy ===== *)
theory Spicepod
  imports Spicepod_Models
begin

text \<open>
  The spicepod crate (\<open>crates/spicepod/src\<close>): the component types as they are declared in
  \<open>spicepod.yaml\<close>, component references and their resolution, the check for duplicate names and
  \<open>Spicepod::load_from\<close>. The file system and \<open>serde_yaml\<close> are parameters: \<open>fs\<close> gives the reader
  of a path, a parser turns a reader into a component. Field names carry the initial of their
  struct; paths are UTF-8, so \<open>to_str\<close> always succeeds.
\<close>

section \<open>Secrets, catalogs and views\<close>

record secret =
  sec_from :: string
  sec_name :: string
  sec_description :: "string option"
  sec_params :: "params option"

record catalog_def =
  c_from :: string
  c_name :: string
  c_description :: "string option"
  c_metadata :: "(string, json) hmap"
  c_include :: "string list"
  c_params :: "params option"
  c_dataset_params :: "params option"
  c_depends_on :: "string list"

definition catalog_def_new :: "string \<Rightarrow> string \<Rightarrow> catalog_def" where
  "catalog_def_new fr nm =
     \<lparr>c_from = fr, c_name = nm, c_description = None, c_metadata = [], c_include = [],
      c_params = None, c_dataset_params = None, c_depends_on = []\<rparr>"

definition catalog_depends_on :: "string list \<Rightarrow> catalog_def \<Rightarrow> catalog_def" where
  "catalog_depends_on ds c =
     \<lparr>c_from = c_from c, c_name = c_name c, c_description = c_description c,
      c_metadata = c_metadata c, c_include = c_include c, c_params = c_params c,
      c_dataset_params = c_dataset_params c, c_depends_on = ds\<rparr>"

record view_def =
  v_name :: string
  v_description :: "string option"
  v_metadata :: "(string, json) hmap"
  v_sql :: "string option"
  v_sql_ref :: "string option"
  v_depends_on :: "string list"

definition view_def_new :: "string \<Rightarrow> view_def" where
  "view_def_new nm = \<lparr>v_name = nm, v_description = None, v_metadata = [], v_sql = None,
     v_sql_ref = None, v_depends_on = []\<rparr>"

definition view_depends_on :: "string list \<Rightarrow> view_def \<Rightarrow> view_def" where
  "view_depends_on ds v =
     \<lparr>v_name = v_name v, v_description = v_description v, v_metadata = v_metadata v,
      v_sql = v_sql v, v_sql_ref = v_sql_ref v, v_depends_on = ds\<rparr>"

section \<open>Datasets and their acceleration\<close>

datatype sp_mode = SpRead | SpReadWrite

datatype sp_time_format = SpTimestamp | SpTimestamptz | SpUnixSeconds | SpUnixMillis | SpISO8601

datatype sp_refresh_mode = SpFull | SpAppend | SpChanges

datatype sp_accel_mode = SpMemory | SpFile

datatype sp_zero_results_action = SpReturnEmpty | SpUseSource

datatype sp_index_type = SpEnabled | SpUnique

datatype sp_on_conflict_behavior = SpDrop | SpUpsert

record sp_acceleration =
  spa_enabled :: bool
  spa_mode :: sp_accel_mode
  spa_engine :: "string option"
  spa_refresh_mode :: "sp_refresh_mode option"
  spa_refresh_check_interval :: "string option"
  spa_refresh_sql :: "string option"
  spa_refresh_data_window :: "string option"
  spa_refresh_append_overlap :: "string option"
  spa_refresh_retry_enabled :: bool
  spa_refresh_retry_max_attempts :: "nat option"
  spa_refresh_jitter_enabled :: bool
  spa_refresh_jitter_max :: "string option"
  spa_params :: "params option"
  spa_retention_period :: "string option"
  spa_retention_check_interval :: "string option"
  spa_retention_check_enabled :: bool
  spa_on_zero_results :: sp_zero_results_action
  spa_indexes :: "(string, sp_index_type) hmap"
  spa_primary_key :: "string option"
  spa_on_conflict :: "(string, sp_on_conflict_behavior) hmap"

definition default_sp_acceleration :: sp_acceleration where
  "default_sp_acceleration =
     \<lparr>spa_enabled = True, spa_mode = SpMemory, spa_engine = None, spa_refresh_mode = None,
      spa_refresh_check_interval = None, spa_refresh_sql = None, spa_refresh_data_window = None,
      spa_refresh_append_overlap = None, spa_refresh_retry_enabled = True,
      spa_refresh_retry_max_attempts = None, spa_refresh_jitter_enabled = False,
      spa_refresh_jitter_max = None, spa_params = None, spa_retention_period = None,
      spa_retention_check_interval = None, spa_retention_check_enabled = False,
      spa_on_zero_results = SpReturnEmpty, spa_indexes = [], spa_primary_key = None,
      spa_on_conflict = []\<rparr>"

record sp_replication =
  spr_enabled :: bool

record dataset_def =
  d_from :: string
  d_name :: string
  d_description :: "string option"
  d_metadata :: "(string, json) hmap"
  d_mode :: sp_mode
  d_params :: "params option"
  d_has_metadata_table :: "bool option"
  d_replication :: "sp_replication option"
  d_time_column :: "string option"
  d_time_format :: "sp_time_format option"
  d_acceleration :: "sp_acceleration option"
  d_embeddings :: "column_embedding_config list"
  d_depends_on :: "string list"

definition dataset_def_new :: "string \<Rightarrow> string \<Rightarrow> dataset_def" where
  "dataset_def_new fr nm =
     \<lparr>d_from = fr, d_name = nm, d_description = None, d_metadata = [], d_mode = SpRead,
      d_params = None, d_has_metadata_table = None, d_replication = None, d_time_column = None,
      d_time_format = None, d_acceleration = None, d_embeddings = [], d_depends_on = []\<rparr>"

definition dataset_depends_on :: "string list \<Rightarrow> dataset_def \<Rightarrow> dataset_def" where
  "dataset_depends_on ds d =
     \<lparr>d_from = d_from d, d_name = d_name d, d_description = d_description d,
      d_metadata = d_metadata d, d_mode = d_mode d, d_params = d_params d,
      d_has_metadata_table = d_has_metadata_table d, d_replication = d_replication d,
      d_time_column = d_time_column d, d_time_format = d_time_format d,
      d_acceleration = d_acceleration d, d_embeddings = d_embeddings d, d_depends_on = ds\<rparr>"

section \<open>Runtime configuration\<close>

record results_cache =
  rc_enabled :: bool
  rc_cache_max_size :: "string option"
  rc_item_ttl :: "string option"
  rc_eviction_policy :: "string option"

definition default_results_cache :: results_cache where
  "default_results_cache =
     \<lparr>rc_enabled = True, rc_cache_max_size = None, rc_item_ttl = None, rc_eviction_policy = None\<rparr>"

record tls_config =
  tls_enabled :: bool
  tls_certificate_file :: "string option"
  tls_certificate :: "string option"
  tls_key_file :: "string option"
  tls_key :: "string option"

record tracing_config =
  zipkin_enabled :: bool
  zipkin_endpoint :: "string option"

record telemetry_config =
  telemetry_enabled :: bool

record runtime_config =
  r_results_cache :: results_cache
  r_num_of_parallel_loading_at_start_up :: "nat option"
  r_tls :: "tls_config option"
  r_tracing :: "tracing_config option"
  r_telemetry :: "telemetry_config option"

definition default_runtime_config :: runtime_config where
  "default_runtime_config =
     \<lparr>r_results_cache = default_results_cache, r_num_of_parallel_loading_at_start_up = None,
      r_tls = None, r_tracing = None, r_telemetry = None\<rparr>"

section \<open>References to components\<close>

record component_reference =
  cr_ref :: string
  cr_depends_on :: "string list"

datatype 'c component_or_reference = Component 'c | Reference component_reference

datatype 'y component_error =
    UnableToConvertPath
  | UnableToParseSpicepodComponent 'y string
  | InvalidComponentReference string

text \<open>\<open>PathBuf::join\<close>\<close>

definition path_join :: "string \<Rightarrow> string \<Rightarrow> string" where
  "path_join b p =
     (if p \<noteq> [] \<and> hd p = CHR ''/'' then p
      else if b = [] then p
      else if last b = CHR ''/'' then b @ p
      else b @ ''/'' @ p)"

type_synonym 'r file_system = "string \<Rightarrow> 'r option"

text \<open>The first of \<open>basename.yaml\<close> and \<open>basename.yml\<close> that opens.\<close>

fun open_first :: "'r file_system \<Rightarrow> string \<Rightarrow> string list \<Rightarrow> 'r option" where
  "open_first fs base_path [] = None"
| "open_first fs base_path (f # fls) =
     (case fs (path_join base_path f) of Some r \<Rightarrow> Some r | None \<Rightarrow> open_first fs base_path fls)"

definition open_yaml :: "'r file_system \<Rightarrow> string \<Rightarrow> string \<Rightarrow> 'r option" where
  "open_yaml fs base_path basename = open_first fs base_path [basename @ ''.yaml'', basename @ ''.yml'']"

definition resolve_component ::
    "'r file_system \<Rightarrow> ('r \<Rightarrow> ('y, 'c) result) \<Rightarrow> (string list \<Rightarrow> 'c \<Rightarrow> 'c) \<Rightarrow> string \<Rightarrow> string \<Rightarrow>
     'c component_or_reference \<Rightarrow> ('y component_error, 'c) result" where
  "resolve_component fs parse depends_on base_path component_name item = (case item of
      Component c \<Rightarrow> Inr c
    | Reference reference \<Rightarrow>
        (let component_base_path = path_join base_path (cr_ref reference) in
         case open_yaml fs component_base_path component_name of
           None \<Rightarrow> Inl (InvalidComponentReference component_base_path)
         | Some rdr \<Rightarrow> (case parse rdr of
               Inl e \<Rightarrow> Inl (UnableToParseSpicepodComponent e component_base_path)
             | Inr c \<Rightarrow> Inr (depends_on (cr_depends_on reference) c))))"

definition resolve_component_references ::
    "'r file_system \<Rightarrow> ('r \<Rightarrow> ('y, 'c) result) \<Rightarrow> (string list \<Rightarrow> 'c \<Rightarrow> 'c) \<Rightarrow> string \<Rightarrow>
     'c component_or_reference list \<Rightarrow> string \<Rightarrow> ('y component_error, 'c list) result" where
  "resolve_component_references fs parse depends_on base_path items component_name =
     try_collect (resolve_component fs parse depends_on base_path component_name) items"

section \<open>Spicepods\<close>

datatype spicepod_version = V1Beta1

datatype spicepod_kind = SpicepodKind

record spicepod_definition =
  sd_name :: string
  sd_version :: spicepod_version
  sd_kind :: spicepod_kind
  sd_runtime :: runtime_config
  sd_extensions :: "(string, extension) hmap"
  sd_secrets :: "secret list"
  sd_metadata :: "(string, json) hmap"
  sd_catalogs :: "catalog_def component_or_reference list"
  sd_datasets :: "dataset_def component_or_reference list"
  sd_views :: "view_def component_or_reference list"
  sd_models :: "model component_or_reference list"
  sd_embeddings :: "embeddings component_or_reference list"
  sd_tools :: "tool component_or_reference list"
  sd_dependencies :: "string list"

record spicepod =
  sp_version :: spicepod_version
  sp_name :: string
  sp_extensions :: "(string, extension) hmap"
  sp_secrets :: "secret list"
  sp_catalogs :: "catalog_def list"
  sp_datasets :: "dataset_def list"
  sp_views :: "view_def list"
  sp_models :: "model list"
  sp_dependencies :: "string list"
  sp_embeddings :: "embeddings list"
  sp_tools :: "tool list"
  sp_runtime :: runtime_config

datatype 'y spicepod_error =
    UnableToParseSpicepod 'y
  | UnableToResolveSpicepodComponents "'y component_error" string
  | SpicepodNotFound string
  | DuplicateComponent string string

fun detect_duplicates :: "('c \<Rightarrow> string) \<Rightarrow> string \<Rightarrow> string list \<Rightarrow> 'c list \<Rightarrow>
    ('y spicepod_error, unit) result" where
  "detect_duplicates name_of component_type component_names [] = Inr ()"
| "detect_duplicates name_of component_type component_names (c # cs) =
     (if name_of c \<in> set component_names
      then Inl (DuplicateComponent component_type (name_of c))
      else detect_duplicates name_of component_type (component_names @ [name_of c]) cs)"

definition detect_duplicate_component_names ::
    "('c \<Rightarrow> string) \<Rightarrow> string \<Rightarrow> 'c list \<Rightarrow> ('y spicepod_error, unit) result" where
  "detect_duplicate_component_names name_of component_type components =
     detect_duplicates name_of component_type [] components"

definition from_definition ::
    "spicepod_definition \<Rightarrow> catalog_def list \<Rightarrow> dataset_def list \<Rightarrow> view_def list \<Rightarrow>
     embeddings list \<Rightarrow> tool list \<Rightarrow> model list \<Rightarrow> spicepod" where
  "from_definition sd catalogs datasets views embs tools models =
     \<lparr>sp_version = sd_version sd, sp_name = sd_name sd, sp_extensions = sd_extensions sd,
      sp_secrets = sd_secrets sd, sp_catalogs = catalogs, sp_datasets = datasets,
      sp_views = views, sp_models = models, sp_dependencies = sd_dependencies sd,
      sp_embeddings = embs, sp_tools = tools, sp_runtime = sd_runtime sd\<rparr>"

text \<open>The \<open>serde_yaml\<close> deserialisers of the types \<open>load_from\<close> reads.\<close>

record ('r, 'y) yaml_parsers =
  parse_definition :: "'r \<Rightarrow> ('y, spicepod_definition) result"
  parse_dataset :: "'r \<Rightarrow> ('y, dataset_def) result"
  parse_catalog :: "'r \<Rightarrow> ('y, catalog_def) result"
  parse_view :: "'r \<Rightarrow> ('y, view_def) result"
  parse_model :: "'r \<Rightarrow> ('y, model) result"
  parse_embeddings :: "'r \<Rightarrow> ('y, embeddings) result"
  parse_tool :: "'r \<Rightarrow> ('y, tool) result"

definition load_definition_from ::
    "'r file_system \<Rightarrow> ('r, 'y) yaml_parsers \<Rightarrow> string \<Rightarrow>
     ('y spicepod_error, spicepod_definition) result" where
  "load_definition_from fs ps path = (case open_yaml fs path ''spicepod'' of
      None \<Rightarrow> Inl (SpicepodNotFound path)
    | Some rdr \<Rightarrow> map_err UnableToParseSpicepod (parse_definition ps rdr))"

definition resolving ::
    "string \<Rightarrow> ('y component_error, 'c) result \<Rightarrow> ('y spicepod_error, 'c) result" where
  "resolving path r = map_err (\<lambda>e. UnableToResolveSpicepodComponents e path) r"

definition load_spicepod ::
    "'r file_system \<Rightarrow> ('r, 'y) yaml_parsers \<Rightarrow> string \<Rightarrow> ('y spicepod_error, spicepod) result" where
  "load_spicepod fs ps path =
     and_then (case open_yaml fs path ''spicepod'' of
                 None \<Rightarrow> Inl (SpicepodNotFound path)
               | Some rdr \<Rightarrow> map_err UnableToParseSpicepod (parse_definition ps rdr)) (\<lambda>sd.
     and_then (resolving path (resolve_component_references fs (parse_dataset ps) dataset_depends_on path
        (sd_datasets sd) ''dataset'')) (\<lambda>datasets.
     and_then (resolving path (resolve_component_references fs (parse_catalog ps) catalog_depends_on path
        (sd_catalogs sd) ''catalog'')) (\<lambda>catalogs.
     and_then (resolving path (resolve_component_references fs (parse_view ps) view_depends_on path
        (sd_views sd) ''view'')) (\<lambda>views.
     and_then (resolving path (resolve_component_references fs (parse_model ps) model_depends_on path
        (sd_models sd) ''model'')) (\<lambda>models.
     and_then (resolving path (resolve_component_references fs (parse_embeddings ps) embeddings_depends_on
        path (sd_embeddings sd) ''embeddings'')) (\<lambda>embs.
     and_then (resolving path (resolve_component_references fs (parse_tool ps) tool_depends_on path
        (sd_tools sd) ''tools'')) (\<lambda>tools.
     and_then (detect_duplicate_component_names sec_name ''secrets'' (sd_secrets sd)) (\<lambda>_.
     and_then (detect_duplicate_component_names d_name ''dataset'' datasets) (\<lambda>_.
     and_then (detect_duplicate_component_names v_name ''view'' views) (\<lambda>_.
     and_then (detect_duplicate_component_names m_name ''model'' models) (\<lambda>_.
     and_then (detect_duplicate_component_names e_name ''embedding'' embs) (\<lambda>_.
     and_then (detect_duplicate_component_names t_name ''tool'' tools) (\<lambda>_.
     Inr (from_definition sd catalogs datasets views embs tools models))))))))))))))"

section \<open>Properties\<close>

lemma detect_duplicates_Inr:
  "detect_duplicates name_of ty seen cs = Inr u \<longleftrightarrow>
     distinct (map name_of cs) \<and> set (map name_of cs) \<inter> set seen = {}"
  by (induction name_of ty seen cs rule: detect_duplicates.induct) auto

lemma detect_duplicates_Inl:
  "detect_duplicates name_of ty seen cs = Inl e \<longleftrightarrow>
     (\<exists>ps c qs. cs = ps @ c # qs \<and> distinct (map name_of ps) \<and>
        set (map name_of ps) \<inter> set seen = {} \<and>
        (name_of c \<in> set seen \<or> name_of c \<in> set (map name_of ps)) \<and>
        e = DuplicateComponent ty (name_of c))"
proof (induction name_of ty seen cs rule: detect_duplicates.induct)
  case (2 name_of ty seen c cs)
  show ?case
  proof (cases "name_of c \<in> set seen")
    case True
    then have "c # cs = [] @ c # cs" and "detect_duplicates name_of ty seen (c # cs) = Inl e \<Longrightarrow>
        e = DuplicateComponent ty (name_of c)" by auto
    with True show ?thesis
      by (intro iffI exI [of _ "[]"] exI [of _ c] exI [of _ cs]) (auto simp: Cons_eq_append_conv)
  next
    case False
    define P where "P ps d \<longleftrightarrow> distinct (map name_of ps) \<and> set (map name_of ps) \<inter> set seen = {} \<and>
        (name_of d \<in> set seen \<or> name_of d \<in> set (map name_of ps)) \<and>
        e = DuplicateComponent ty (name_of d)" for ps d
    have "\<not> P [] c" using False by (simp add: P_def)
    then have "(\<exists>ps d qs. c # cs = ps @ d # qs \<and> P ps d) \<longleftrightarrow> (\<exists>ps d qs. cs = ps @ d # qs \<and> P (c # ps) d)"
      by (metis append_Cons append_Nil list.inject neq_Nil_conv)
    also have "\<dots> \<longleftrightarrow> detect_duplicates name_of ty (seen @ [name_of c]) cs = Inl e"
      unfolding 2 [OF False] P_def using False by (intro ex_cong1) auto
    finally show ?thesis using False by (simp add: P_def)
  qed
qed simp

text \<open>
  \<open>detect_duplicate_component_names\<close> accepts a list exactly when the names are pairwise
  distinct, and otherwise reports the first component whose name has occurred before it.
\<close>

theorem detect_duplicate_component_names_correct:
  "(detect_duplicate_component_names name_of ty cs = (Inr () :: ('y spicepod_error, unit) result) \<longleftrightarrow>
      distinct (map name_of cs)) \<and>
   (detect_duplicate_component_names name_of ty cs = (Inl e :: ('y spicepod_error, unit) result) \<longleftrightarrow>
     (\<exists>ps c qs. cs = ps @ c # qs \<and> distinct (map name_of ps) \<and> name_of c \<in> name_of ` set ps \<and>
        e = DuplicateComponent ty (name_of c)))"
  unfolding detect_duplicate_component_names_def
  by (auto simp: detect_duplicates_Inr detect_duplicates_Inl)

lemma resolve_component_references_Inr:
  "resolve_component_references fs parse dep path items nm = Inr cs \<longleftrightarrow>
     list_all2 (\<lambda>item c. resolve_component fs parse dep path nm item = Inr c) items cs"
  by (simp add: resolve_component_references_def try_collect_Inr_iff)

lemma resolve_component_Inr:
  assumes "resolve_component fs parse dep path nm item = Inr c"
  shows "item = Component c \<or> (\<exists>r rdr d. item = Reference r \<and>
    open_yaml fs (path_join path (cr_ref r)) nm = Some rdr \<and> parse rdr = Inr d \<and>
    c = dep (cr_depends_on r) d)"
  using assms
  by (auto simp: resolve_component_def Let_def split: component_or_reference.splits option.splits
      sum.splits)

definition unique_names :: "spicepod \<Rightarrow> bool" where
  "unique_names sp \<longleftrightarrow>
     distinct (map sec_name (sp_secrets sp)) \<and> distinct (map d_name (sp_datasets sp)) \<and>
     distinct (map v_name (sp_views sp)) \<and> distinct (map m_name (sp_models sp)) \<and>
     distinct (map e_name (sp_embeddings sp)) \<and> distinct (map t_name (sp_tools sp))"

lemma load_spicepod_parts:
  assumes "load_spicepod fs ps path = Inr sp"
  obtains sd datasets catalogs views models embs tools where
    "load_definition_from fs ps path = Inr sd"
    "resolve_component_references fs (parse_dataset ps) dataset_depends_on path
       (sd_datasets sd) ''dataset'' = Inr datasets"
    "sp = from_definition sd catalogs datasets views embs tools models"
    "unique_names sp"
  using assms
  unfolding load_spicepod_def Let_def load_definition_from_def [symmetric]
  by (auto simp: and_then_eq_Inr resolving_def from_definition_def unique_names_def
      detect_duplicate_component_names_def detect_duplicates_Inr)


definition example_definition :: spicepod_definition where
  "example_definition = \<lparr>sd_name = ''app'', sd_version = V1Beta1, sd_kind = SpicepodKind,
     sd_runtime = default_runtime_config, sd_extensions = [], sd_secrets = [], sd_metadata = [],
     sd_catalogs = [], sd_datasets = [Component (dataset_def_new ''s3:a'' ''t1''),
       Reference \<lparr>cr_ref = ''datasets/t2'', cr_depends_on = [''t1'']\<rparr>],
     sd_views = [], sd_models = [], sd_embeddings = [], sd_tools = [], sd_dependencies = []\<rparr>"

definition example_fs :: "string file_system" where
  "example_fs p = (if p = ''/app/spicepod.yaml'' \<or> p = ''/app/datasets/t2/dataset.yml'' then Some p else None)"

definition example_parsers :: "(string, string) yaml_parsers" where
  "example_parsers = \<lparr>parse_definition = (\<lambda>_. Inr example_definition),
     parse_dataset = (\<lambda>_. Inr (dataset_def_new ''s3:b'' ''t2'')), parse_catalog = Inl, parse_view = Inl,
     parse_model = Inl, parse_embeddings = Inl, parse_tool = Inl\<rparr>"

lemma load_spicepod_example:
  "\<exists>sp. load_spicepod example_fs example_parsers ''/app'' = Inr sp \<and>
     map d_name (sp_datasets sp) = [''t1'', ''t2'']"
  by (simp add: load_spicepod_def example_fs_def example_parsers_def example_definition_def
      open_yaml_def path_join_def resolve_component_references_def resolve_component_def
      detect_duplicate_component_names_def dataset_depends_on_def dataset_def_new_def
      from_definition_def resolving_def)


end
