(* ===== verification/Acceleration.thy ===== *)
theory Acceleration
  imports Spicepod "HOL-Library.Multiset"
begin

text \<open>
  The acceleration settings of a dataset as the runtime reads them
  (runtime/src/component/dataset/acceleration.rs, with constraints.rs and on_conflict.rs): the
  enumerations and their texts, the conversion from the spicepod's settings, the indexes, and
  the decision what to do on a conflicting insert. A column reference is the list of columns it
  iterates over; its parser, the duration parser and the constraint constructor are library code
  and parameters.
\<close>

section \<open>Enumerations\<close>

datatype refresh_mode = Disabled | Full | Append | Changes

fun refresh_mode_from :: "sp_refresh_mode \<Rightarrow> refresh_mode" where
  "refresh_mode_from SpFull = Full"
| "refresh_mode_from SpAppend = Append"
| "refresh_mode_from SpChanges = Changes"

datatype accel_mode = MemoryMode | FileMode

fun accel_mode_from :: "sp_accel_mode \<Rightarrow> accel_mode" where
  "accel_mode_from SpMemory = MemoryMode"
| "accel_mode_from SpFile = FileMode"

fun display_accel_mode :: "accel_mode \<Rightarrow> string" where
  "display_accel_mode MemoryMode = ''memory''"
| "display_accel_mode FileMode = ''file''"

datatype zero_results_action = ReturnEmpty | UseSource

fun zero_results_action_from :: "sp_zero_results_action \<Rightarrow> zero_results_action" where
  "zero_results_action_from SpReturnEmpty = ReturnEmpty"
| "zero_results_action_from SpUseSource = UseSource"

fun display_zero_results_action :: "zero_results_action \<Rightarrow> string" where
  "display_zero_results_action ReturnEmpty = ''return_empty''"
| "display_zero_results_action UseSource = ''use_source''"

datatype engine = Arrow | DuckDB | Sqlite | PostgreSQL

fun display_engine :: "engine \<Rightarrow> string" where
  "display_engine Arrow = ''arrow''"
| "display_engine DuckDB = ''duckdb''"
| "display_engine Sqlite = ''sqlite''"
| "display_engine PostgreSQL = ''postgres''"

datatype index_type = IndexEnabled | IndexUnique

fun index_type_from :: "sp_index_type \<Rightarrow> index_type" where
  "index_type_from SpEnabled = IndexEnabled"
| "index_type_from SpUnique = IndexUnique"

definition index_type_from_str :: "string \<Rightarrow> index_type" where
  "index_type_from_str s = (if to_lowercase s = ''unique'' then IndexUnique else IndexEnabled)"

fun display_index_type :: "index_type \<Rightarrow> string" where
  "display_index_type IndexEnabled = ''enabled''"
| "display_index_type IndexUnique = ''unique''"

datatype on_conflict_behavior = ConflictDrop | ConflictUpsert

fun on_conflict_behavior_from :: "sp_on_conflict_behavior \<Rightarrow> on_conflict_behavior" where
  "on_conflict_behavior_from SpDrop = ConflictDrop"
| "on_conflict_behavior_from SpUpsert = ConflictUpsert"

definition on_conflict_behavior_from_str :: "string \<Rightarrow> on_conflict_behavior" where
  "on_conflict_behavior_from_str s =
     (if to_lowercase s = ''upsert'' then ConflictUpsert else ConflictDrop)"

fun display_on_conflict_behavior :: "on_conflict_behavior \<Rightarrow> string" where
  "display_on_conflict_behavior ConflictDrop = ''drop''"
| "display_on_conflict_behavior ConflictUpsert = ''upsert''"

section \<open>Errors\<close>

datatype dataset_error =
    IndexColumnNotFound string string
  | UnableToGetTableConstraints string
  | UnableToConvertSchemaRefToDFSchema string
  | OnConflictTargetMismatch string
  | UnableToParseColumnReference string string
  | UnableToParseFieldAsDuration string string

text \<open>The variants of the runtime crate's error that the component conversions raise.\<close>

datatype runtime_error =
    InvalidSpicepodDataset dataset_error
  | AcceleratorEngineNotAvailable string
  | DatasetNameIncludesCatalog string string
  | InvalidGlobPattern string string
  | ErrorConvertingGlobSetToRegex string
  | NeedToSpecifySQLView string
  | UnableToLoadSqlFile string string

definition engine_try_from :: "string \<Rightarrow> (runtime_error, engine) result" where
  "engine_try_from e = (let l = to_lowercase e in
     if l = ''arrow'' then Inr Arrow
     else if l = ''duckdb'' then Inr DuckDB
     else if l = ''sqlite'' then Inr Sqlite
     else if l = ''postgres'' \<or> l = ''postgresql'' then Inr PostgreSQL
     else Inl (AcceleratorEngineNotAvailable e))"

section \<open>Settings\<close>

type_synonym column_reference = "string list"

record field_parsers =
  parse_column :: "string \<Rightarrow> (string, column_reference) result"
  parse_duration :: "string \<Rightarrow> (string, duration) result"

record acceleration =
  acc_enabled :: bool
  acc_mode :: accel_mode
  acc_engine :: engine
  acc_refresh_mode :: "refresh_mode option"
  acc_refresh_check_interval :: "duration option"
  acc_refresh_sql :: "string option"
  acc_refresh_data_window :: "string option"
  acc_refresh_append_overlap :: "duration option"
  acc_refresh_retry_enabled :: bool
  acc_refresh_retry_max_attempts :: "nat option"
  acc_refresh_jitter_enabled :: bool
  acc_refresh_jitter_max :: "duration option"
  acc_params :: "(string, string) hmap"
  acc_retention_period :: "string option"
  acc_retention_check_interval :: "string option"
  acc_retention_check_enabled :: bool
  acc_on_zero_results :: zero_results_action
  acc_indexes :: "(column_reference, index_type) hmap"
  acc_primary_key :: "column_reference option"
  acc_on_conflict :: "(column_reference, on_conflict_behavior) hmap"
  acc_disable_query_push_down :: bool

definition default_acceleration :: acceleration where
  "default_acceleration =
     \<lparr>acc_enabled = True, acc_mode = MemoryMode, acc_engine = Arrow, acc_refresh_mode = None,
      acc_refresh_check_interval = None, acc_refresh_sql = None, acc_refresh_data_window = None,
      acc_refresh_append_overlap = None, acc_refresh_retry_enabled = True,
      acc_refresh_retry_max_attempts = None, acc_refresh_jitter_enabled = False,
      acc_refresh_jitter_max = None, acc_params = [], acc_retention_period = None,
      acc_retention_check_interval = None, acc_retention_check_enabled = False,
      acc_on_zero_results = ReturnEmpty, acc_indexes = [], acc_primary_key = None,
      acc_on_conflict = [], acc_disable_query_push_down = False\<rparr>"

definition try_parse_column_reference ::
  "field_parsers \<Rightarrow> string \<Rightarrow> (runtime_error, column_reference) result" where
  "try_parse_column_reference P c =
     map_err (\<lambda>e. InvalidSpicepodDataset (UnableToParseColumnReference c e)) (parse_column P c)"

definition try_parse_duration ::
  "field_parsers \<Rightarrow> string \<Rightarrow> string option \<Rightarrow> (runtime_error, duration option) result" where
  "try_parse_duration P field d = (case d of
      None \<Rightarrow> Inr None
    | Some s \<Rightarrow> (case parse_duration P s of
        Inr v \<Rightarrow> Inr (Some v)
      | Inl e \<Rightarrow> Inl (InvalidSpicepodDataset (UnableToParseFieldAsDuration field e))))"

fun collect_columns ::
  "field_parsers \<Rightarrow> ('v \<Rightarrow> 'w) \<Rightarrow> (string, 'v) hmap \<Rightarrow> (column_reference, 'w) hmap \<Rightarrow>
   (runtime_error, (column_reference, 'w) hmap) result" where
  "collect_columns P conv [] m = Inr m"
| "collect_columns P conv ((k, v) # kvs) m =
     and_then (try_parse_column_reference P k) (\<lambda>c. collect_columns P conv kvs (hm_insert c (conv v) m))"

definition push_down_key :: string where
  "push_down_key = ''disable_query_push_down''"

definition acceleration_try_from ::
  "field_parsers \<Rightarrow> sp_acceleration \<Rightarrow> (runtime_error, acceleration) result" where
  "acceleration_try_from P a =
     and_then (case spa_primary_key a of
                 None \<Rightarrow> Inr None
               | Some pk \<Rightarrow> and_then (try_parse_column_reference P pk) (\<lambda>c. Inr (Some c))) (\<lambda>pk.
     and_then (collect_columns P index_type_from (spa_indexes a) []) (\<lambda>indexes.
     and_then (collect_columns P on_conflict_behavior_from (spa_on_conflict a) []) (\<lambda>on_conflict.
     and_then (engine_try_from (case spa_engine a of None \<Rightarrow> ''arrow'' | Some e \<Rightarrow> e)) (\<lambda>eng.
     let removed = Option.bind (spa_params a) (\<lambda>m. hm_get m push_down_key);
         params = map_option (hm_remove push_down_key) (spa_params a);
         disable = (case removed of Some (BoolV b) \<Rightarrow> b | _ \<Rightarrow> False)
     in
     and_then (try_parse_duration P ''refresh_check_interval'' (spa_refresh_check_interval a)) (\<lambda>interval.
     and_then (try_parse_duration P ''refresh_jitter_max'' (spa_refresh_jitter_max a)) (\<lambda>jitter.
     and_then (try_parse_duration P ''refresh_append_overlap'' (spa_refresh_append_overlap a)) (\<lambda>overlap.
     Inr \<lparr>acc_enabled = spa_enabled a, acc_mode = accel_mode_from (spa_mode a), acc_engine = eng,
       acc_refresh_mode = map_option refresh_mode_from (spa_refresh_mode a),
       acc_refresh_check_interval = interval, acc_refresh_sql = spa_refresh_sql a,
       acc_refresh_data_window = spa_refresh_data_window a, acc_refresh_append_overlap = overlap,
       acc_refresh_retry_enabled = spa_refresh_retry_enabled a,
       acc_refresh_retry_max_attempts = spa_refresh_retry_max_attempts a,
       acc_refresh_jitter_enabled = spa_refresh_jitter_enabled a, acc_refresh_jitter_max = jitter,
       acc_params = string_map_or_default params, acc_retention_period = spa_retention_period a,
       acc_retention_check_interval = spa_retention_check_interval a,
       acc_retention_check_enabled = spa_retention_check_enabled a,
       acc_on_zero_results = zero_results_action_from (spa_on_zero_results a),
       acc_indexes = indexes, acc_primary_key = pk, acc_on_conflict = on_conflict,
       acc_disable_query_push_down = disable\<rparr>)))))))"

section \<open>Indexes and constraints\<close>

definition hashmap_to_option_string :: "('k \<Rightarrow> string) \<Rightarrow> ('v \<Rightarrow> string) \<Rightarrow> ('k, 'v) hmap \<Rightarrow> string" where
  "hashmap_to_option_string dk dv m = join_str '';'' (map (\<lambda>(k, v). dk k @ '':'' @ dv v) m)"

text \<open>A schema is read through its flattened field names and the test for a top-level field.\<close>

record schema_view =
  flattened_names :: "string list"
  has_field :: "string \<Rightarrow> bool"

definition valid_columns :: "schema_view \<Rightarrow> string" where
  "valid_columns schema = join_str '', '' (flattened_names schema)"

definition validate_indexes :: "schema_view \<Rightarrow> acceleration \<Rightarrow> (dataset_error, unit) result" where
  "validate_indexes schema a =
     (case find (\<lambda>c. \<not> has_field schema c) (concat (map fst (acc_indexes a))) of
        None \<Rightarrow> Inr ()
      | Some c \<Rightarrow> Inl (IndexColumnNotFound c (valid_columns schema)))"

datatype table_constraint = UniqueConstraint "string list" | PrimaryKeyConstraint "string list"

definition constraint_list :: "acceleration \<Rightarrow> table_constraint list" where
  "constraint_list a =
     map (\<lambda>(c, _). UniqueConstraint c) (filter (\<lambda>(_, t). t = IndexUnique) (acc_indexes a)) @
     (case acc_primary_key a of None \<Rightarrow> [] | Some pk \<Rightarrow> [PrimaryKeyConstraint pk])"

definition table_constraints ::
  "('s \<Rightarrow> (string, 'd) result) \<Rightarrow> (table_constraint list \<Rightarrow> 'd \<Rightarrow> (string, 'c) result) \<Rightarrow> 's \<Rightarrow>
   acceleration \<Rightarrow> (dataset_error, 'c option) result" where
  "table_constraints to_df new_constraints schema a =
     (if acc_indexes a = [] \<and> acc_primary_key a = None then Inr None
      else and_then (map_err UnableToConvertSchemaRefToDFSchema (to_df schema)) (\<lambda>df.
           and_then (map_err UnableToGetTableConstraints (new_constraints (constraint_list a) df)) (\<lambda>c.
           Inr (Some c))))"

section \<open>Conflicting inserts\<close>

datatype on_conflict = DoNothingAll | DoNothing column_reference | Upsert column_reference

definition on_conflict_targets :: "acceleration \<Rightarrow> column_reference list" where
  "on_conflict_targets a =
     map fst (filter (\<lambda>(_, t). t = IndexUnique) (acc_indexes a)) @
     (case acc_primary_key a of None \<Rightarrow> [] | Some pk \<Rightarrow> [pk])"

definition on_conflict_decision :: "acceleration \<Rightarrow> (dataset_error, on_conflict option) result" where
  "on_conflict_decision a =
     (let targets = on_conflict_targets a; oc = acc_on_conflict a
      in if length oc > 1 \<and> length targets \<noteq> length oc
         then Inl (OnConflictTargetMismatch
           (''The number of column references gathered from primary key/unique indexes ('' @
            digits (length targets) @ '') does not match the number of on_conflict targets ('' @
            digits (length oc) @ '')''))
         else if length oc > 1 \<and> \<not> list_all (\<lambda>(_, b). b = ConflictDrop) oc
         then Inl (OnConflictTargetMismatch [])
         else if length oc > 1 then Inr (Some DoNothingAll)
         else case oc of
                [] \<Rightarrow> Inr None
              | (c, ConflictDrop) # _ \<Rightarrow> Inr (Some (DoNothing c))
              | (c, ConflictUpsert) # _ \<Rightarrow> Inr (Some (Upsert c)))"

section \<open>The conversion\<close>

lemma collect_columns_ok:
  "is_ok (collect_columns P conv kvs m) \<longleftrightarrow> (\<forall>k\<in>fst ` set kvs. is_ok (parse_column P k))"
proof (induction P conv kvs m rule: collect_columns.induct)
  case (2 P conv k v kvs m)
  then show ?case by (cases "parse_column P k") (auto simp: try_parse_column_reference_def)
qed simp

definition duration_ok :: "field_parsers \<Rightarrow> string option \<Rightarrow> bool" where
  "duration_ok P d = (case d of None \<Rightarrow> True | Some s \<Rightarrow> is_ok (parse_duration P s))"

lemma try_parse_duration_ok: "is_ok (try_parse_duration P f d) \<longleftrightarrow> duration_ok P d"
  by (auto simp: try_parse_duration_def duration_ok_def split: option.splits sum.splits)

lemma is_ok_and_then: "is_ok (and_then r f) \<longleftrightarrow> (\<exists>x. r = Inr x \<and> is_ok (f x))"
  by (cases r) auto

definition known_engine :: "string option \<Rightarrow> bool" where
  "known_engine e = (case e of None \<Rightarrow> True
     | Some s \<Rightarrow> to_lowercase s \<in> {''arrow'', ''duckdb'', ''sqlite'', ''postgres'', ''postgresql''})"

lemma to_lowercase_arrow [simp]: "to_lowercase ''arrow'' = ''arrow''"
  by (simp add: to_lowercase_def lower_char_def Let_def)

lemma engine_try_from_ok:
  "is_ok (engine_try_from (case e of None \<Rightarrow> ''arrow'' | Some s \<Rightarrow> s)) \<longleftrightarrow> known_engine e"
  by (cases e) (simp_all add: engine_try_from_def known_engine_def Let_def)

lemma primary_key_ok:
  "is_ok (case pk of None \<Rightarrow> Inr None | Some c \<Rightarrow> and_then (try_parse_column_reference P c) (\<lambda>r. Inr (Some r))) \<longleftrightarrow>
   (case pk of None \<Rightarrow> True | Some c \<Rightarrow> is_ok (parse_column P c))"
  by (cases pk) (auto simp: and_then_eq_Inr is_ok_iff try_parse_column_reference_def)

lemma hm_wf_hm_remove_get: "hm_wf m \<Longrightarrow> hm_get (as_string_map (hm_remove k m)) k' =
    (if k' = k then None else map_option as_string (hm_get m k'))"
proof -
  assume wf: "hm_wf m"
  have "map fst (map (\<lambda>(k, v). (k, as_string v)) (hm_remove k m)) = map fst (hm_remove k m)"
    by (simp add: comp_def case_prod_beta)
  then have "distinct (map fst (map (\<lambda>(k, v). (k, as_string v)) (hm_remove k m)))"
    using hm_wf_remove [OF wf] unfolding hm_wf_def by (simp only:)
  then have "hm_get (as_string_map (hm_remove k m)) k' = map_of (map (\<lambda>(k, v). (k, as_string v)) (hm_remove k m)) k'"
    by (simp add: as_string_map_def hm_get_collect map_of_rev_distinct)
  also have "\<dots> = map_option as_string (hm_get (hm_remove k m) k')"
    by (simp add: map_of_map)
  finally show ?thesis by (simp add: hm_get_remove)
qed

text \<open>
  Acceleration settings are accepted exactly when every column reference (primary key,
  indexes, conflict targets) parses, the engine is a known name in any letter case or absent, and
  the refresh interval, jitter and overlap parse as durations. The data window, the retention
  period and its interval are not looked at.
\<close>

theorem acceleration_try_from_succeeds_iff:
  "is_ok (acceleration_try_from P a) \<longleftrightarrow>
     (case spa_primary_key a of None \<Rightarrow> True | Some c \<Rightarrow> is_ok (parse_column P c)) \<and>
     (\<forall>c\<in>fst ` set (spa_indexes a) \<union> fst ` set (spa_on_conflict a). is_ok (parse_column P c)) \<and>
     known_engine (spa_engine a) \<and> duration_ok P (spa_refresh_check_interval a) \<and>
     duration_ok P (spa_refresh_jitter_max a) \<and> duration_ok P (spa_refresh_append_overlap a)"
proof -
  let ?pk = "case spa_primary_key a of None \<Rightarrow> Inr None
     | Some c \<Rightarrow> and_then (try_parse_column_reference P c) (\<lambda>r. Inr (Some r))"
  have "is_ok (acceleration_try_from P a) \<longleftrightarrow> is_ok ?pk \<and>
      is_ok (collect_columns P index_type_from (spa_indexes a) []) \<and>
      is_ok (collect_columns P on_conflict_behavior_from (spa_on_conflict a) []) \<and>
      is_ok (engine_try_from (case spa_engine a of None \<Rightarrow> ''arrow'' | Some e \<Rightarrow> e)) \<and>
      is_ok (try_parse_duration P ''refresh_check_interval'' (spa_refresh_check_interval a)) \<and>
      is_ok (try_parse_duration P ''refresh_jitter_max'' (spa_refresh_jitter_max a)) \<and>
      is_ok (try_parse_duration P ''refresh_append_overlap'' (spa_refresh_append_overlap a))"
    unfolding acceleration_try_from_def Let_def is_ok_and_then by (auto simp: is_ok_iff)
  then show ?thesis
    unfolding primary_key_ok collect_columns_ok engine_try_from_ok try_parse_duration_ok by blast
qed

definition demo_parsers :: field_parsers where
  "demo_parsers = \<lparr>parse_column = (\<lambda>c. if c = [] then Inl ''empty'' else Inr [c]),
     parse_duration = (\<lambda>d. if d = ''1s'' then Inr (from_secs 1) else Inl ''bad'')\<rparr>"

theorem acceleration_try_from_succeeds_iff_witness:
  "is_ok (acceleration_try_from demo_parsers
     (default_sp_acceleration\<lparr>spa_engine := Some ''DuckDB'', spa_refresh_check_interval := Some ''1s'',
        spa_indexes := [(''a'', SpUnique)], spa_retention_period := Some ''x''\<rparr>)) \<and>
   \<not> is_ok (acceleration_try_from demo_parsers (default_sp_acceleration\<lparr>spa_refresh_jitter_max := Some ''x''\<rparr>))"
proof -
  have "to_lowercase ''DuckDB'' = ''duckdb''" by code_simp
  then show ?thesis
    unfolding acceleration_try_from_succeeds_iff
    by (simp add: demo_parsers_def default_sp_acceleration_def known_engine_def duration_ok_def)
qed

text \<open>
  The query push-down switch is taken out of the parameters handed to the engine, and every
  other parameter reaches it as text.
\<close>

theorem acceleration_params_without_switch:
  assumes "acceleration_try_from P a = Inr b" and "spa_params a = Some m" and "hm_wf m"
  shows "hm_get (acc_params b) k =
      (if k = push_down_key then None else map_option as_string (hm_get m k)) \<and>
    (acc_disable_query_push_down b \<longleftrightarrow> hm_get m push_down_key = Some (BoolV True))"
proof -
  have "acc_params b = as_string_map (hm_remove push_down_key m)"
    and "acc_disable_query_push_down b \<longleftrightarrow> (case hm_get m push_down_key of Some (BoolV b) \<Rightarrow> b | _ \<Rightarrow> False)"
    using assms(1,2)
    by (auto simp: acceleration_try_from_def Let_def and_then_eq_Inr string_map_or_default_def)
  then show ?thesis
    using hm_wf_hm_remove_get [OF assms(3)] by (auto split: option.splits param_value.splits)
qed

theorem acceleration_params_without_switch_witness:
  "\<exists>b. acceleration_try_from demo_parsers (default_sp_acceleration\<lparr>spa_params :=
         Some [(''x'', IntV 1), (push_down_key, BoolV True)]\<rparr>) = Inr b \<and>
       hm_get (acc_params b) push_down_key = None \<and> acc_disable_query_push_down b"
proof -
  let ?m = "[(''x'', IntV 1), (push_down_key, BoolV True)]"
  let ?a = "default_sp_acceleration\<lparr>spa_params := Some ?m\<rparr>"
  have "is_ok (acceleration_try_from demo_parsers ?a)" by code_simp
  then obtain b where b: "acceleration_try_from demo_parsers ?a = Inr b" by (auto simp: is_ok_iff)
  have "hm_wf ?m" by (simp add: hm_wf_def push_down_key_def)
  with acceleration_params_without_switch [OF b, of ?m] b show ?thesis
    by (auto simp: push_down_key_def)
qed

section \<open>Conflict decisions\<close>

text \<open>
  The decision what to do on conflicting inserts does not depend on the order in which the
  hash maps are iterated.
\<close>

theorem on_conflict_order_irrelevant:
  assumes "mset (acc_indexes a) = mset (acc_indexes b)" and "acc_primary_key a = acc_primary_key b"
    and "mset (acc_on_conflict a) = mset (acc_on_conflict b)"
  shows "on_conflict_decision a = on_conflict_decision b"
proof -
  have "length (on_conflict_targets a) = length (on_conflict_targets b)"
    using arg_cong [OF assms(1), of "\<lambda>M. size (filter_mset (\<lambda>(_, t). t = IndexUnique) M)"] assms(2)
    by (simp add: on_conflict_targets_def flip: mset_filter)
  moreover have len: "length (acc_on_conflict a) = length (acc_on_conflict b)"
    using assms(3) mset_eq_length by blast
  moreover have "list_all (\<lambda>(_, d). d = ConflictDrop) (acc_on_conflict a) =
      list_all (\<lambda>(_, d). d = ConflictDrop) (acc_on_conflict b)"
    using mset_eq_setD [OF assms(3)] by (simp add: list_all_iff)
  moreover have "acc_on_conflict a = acc_on_conflict b" if "length (acc_on_conflict a) \<le> 1"
    using that assms(3) len by (cases "acc_on_conflict a"; cases "acc_on_conflict b") auto
  ultimately show ?thesis
    unfolding on_conflict_decision_def Let_def by (cases "length (acc_on_conflict a) > 1") auto
qed

definition conflict_demo :: "(column_reference \<times> on_conflict_behavior) list \<Rightarrow> acceleration" where
  "conflict_demo oc = default_acceleration\<lparr>acc_indexes := [([''a''], IndexUnique)],
     acc_primary_key := Some [''b''], acc_on_conflict := oc\<rparr>"

theorem on_conflict_order_irrelevant_witness:
  "on_conflict_decision (conflict_demo [([''a''], ConflictDrop), ([''b''], ConflictDrop)]) =
   on_conflict_decision (conflict_demo [([''b''], ConflictDrop), ([''a''], ConflictDrop)])"
  by (rule on_conflict_order_irrelevant) (simp_all add: conflict_demo_def)

text \<open>
  With several conflict targets, all of them dropping, only their number is compared with
  the unique indexes and the primary key: the decision is to drop on any conflict whichever
  columns the targets name.
\<close>

theorem on_conflict_counts_only:
  assumes "length (acc_on_conflict a) > 1" and "\<forall>(c, d)\<in>set (acc_on_conflict a). d = ConflictDrop"
  shows "on_conflict_decision a = Inr (Some DoNothingAll) \<longleftrightarrow>
         length (on_conflict_targets a) = length (acc_on_conflict a)"
  using assms by (auto simp: on_conflict_decision_def Let_def list_all_iff)

theorem on_conflict_counts_only_witness:
  "on_conflict_decision (conflict_demo [([''x''], ConflictDrop), ([''y''], ConflictDrop)]) = Inr (Some DoNothingAll) \<and>
   on_conflict_targets (conflict_demo [([''x''], ConflictDrop), ([''y''], ConflictDrop)]) = [[''a''], [''b'']]"
  using on_conflict_counts_only [of "conflict_demo [([''x''], ConflictDrop), ([''y''], ConflictDrop)]"]
  by (simp add: conflict_demo_def on_conflict_targets_def)

end
