(* ===== verification/App_Builder.thy ===== *)
theory App_Builder
  imports Spicepod
begin

text \<open>
  The app crate (\<open>crates/app/src/lib.rs\<close>): an \<open>App\<close> merged from a root spicepod and its
  dependencies, or put together with the builder's methods. \<open>Spicepod::load\<close> is
  \<open>load_spicepod\<close> on the real file system.
\<close>

record app =
  app_name :: string
  app_secrets :: "secret list"
  app_extensions :: "(string, extension) hmap"
  app_catalogs :: "catalog_def list"
  app_datasets :: "dataset_def list"
  app_views :: "view_def list"
  app_models :: "model list"
  app_embeddings :: "embeddings list"
  app_tools :: "tool list"
  app_spicepods :: "spicepod list"
  app_runtime :: runtime_config

text \<open>\<open>AppBuilder\<close> has the fields of \<open>App\<close>.\<close>

record app_builder =
  b_name :: string
  b_secrets :: "secret list"
  b_extensions :: "(string, extension) hmap"
  b_catalogs :: "catalog_def list"
  b_datasets :: "dataset_def list"
  b_views :: "view_def list"
  b_models :: "model list"
  b_embeddings :: "embeddings list"
  b_tools :: "tool list"
  b_spicepods :: "spicepod list"
  b_runtime :: runtime_config

datatype 'y app_error = UnableToLoadSpicepod "'y spicepod_error" string

definition app_builder_new :: "string \<Rightarrow> app_builder" where
  "app_builder_new nm =
     \<lparr>b_name = nm, b_secrets = [], b_extensions = [], b_catalogs = [], b_datasets = [],
      b_views = [], b_models = [], b_embeddings = [], b_tools = [], b_spicepods = [],
      b_runtime = default_runtime_config\<rparr>"

definition with_spicepod :: "spicepod \<Rightarrow> app_builder \<Rightarrow> app_builder" where
  "with_spicepod sp b = b
     \<lparr>b_secrets := b_secrets b @ sp_secrets sp,
      b_extensions := hm_extend (b_extensions b) (sp_extensions sp),
      b_catalogs := b_catalogs b @ sp_catalogs sp,
      b_datasets := b_datasets b @ sp_datasets sp,
      b_views := b_views b @ sp_views sp,
      b_models := b_models b @ sp_models sp,
      b_embeddings := b_embeddings b @ sp_embeddings sp,
      b_tools := b_tools b @ sp_tools sp,
      b_spicepods := b_spicepods b @ [sp]\<rparr>"

definition with_extension :: "string \<Rightarrow> extension \<Rightarrow> app_builder \<Rightarrow> app_builder" where
  "with_extension nm ext b = b\<lparr>b_extensions := hm_insert nm ext (b_extensions b)\<rparr>"

definition with_secret :: "secret \<Rightarrow> app_builder \<Rightarrow> app_builder" where
  "with_secret x b = b\<lparr>b_secrets := b_secrets b @ [x]\<rparr>"

definition with_catalog :: "catalog_def \<Rightarrow> app_builder \<Rightarrow> app_builder" where
  "with_catalog x b = b\<lparr>b_catalogs := b_catalogs b @ [x]\<rparr>"

definition with_dataset :: "dataset_def \<Rightarrow> app_builder \<Rightarrow> app_builder" where
  "with_dataset x b = b\<lparr>b_datasets := b_datasets b @ [x]\<rparr>"

definition with_view :: "view_def \<Rightarrow> app_builder \<Rightarrow> app_builder" where
  "with_view x b = b\<lparr>b_views := b_views b @ [x]\<rparr>"

definition with_model :: "model \<Rightarrow> app_builder \<Rightarrow> app_builder" where
  "with_model x b = b\<lparr>b_models := b_models b @ [x]\<rparr>"

definition with_embedding :: "embeddings \<Rightarrow> app_builder \<Rightarrow> app_builder" where
  "with_embedding x b = b\<lparr>b_embeddings := b_embeddings b @ [x]\<rparr>"

definition with_tool :: "tool \<Rightarrow> app_builder \<Rightarrow> app_builder" where
  "with_tool x b = b\<lparr>b_tools := b_tools b @ [x]\<rparr>"

definition with_results_cache :: "results_cache \<Rightarrow> app_builder \<Rightarrow> app_builder" where
  "with_results_cache x b = b\<lparr>b_runtime := (b_runtime b)\<lparr>r_results_cache := x\<rparr>\<rparr>"

definition with_tls_config :: "tls_config \<Rightarrow> app_builder \<Rightarrow> app_builder" where
  "with_tls_config x b = b\<lparr>b_runtime := (b_runtime b)\<lparr>r_tls := Some x\<rparr>\<rparr>"

definition app_build :: "app_builder \<Rightarrow> app" where
  "app_build b =
     \<lparr>app_name = b_name b, app_secrets = b_secrets b, app_extensions = b_extensions b,
      app_catalogs = b_catalogs b, app_datasets = b_datasets b, app_views = b_views b,
      app_models = b_models b, app_embeddings = b_embeddings b, app_tools = b_tools b,
      app_spicepods = b_spicepods b, app_runtime = b_runtime b\<rparr>"

text \<open>One iteration of the loop over the root's dependencies.\<close>

definition add_dependency :: "spicepod \<Rightarrow> app \<Rightarrow> app" where
  "add_dependency sp a = a
     \<lparr>app_catalogs := app_catalogs a @ sp_catalogs sp,
      app_datasets := app_datasets a @ sp_datasets sp,
      app_views := app_views a @ sp_views sp,
      app_models := app_models a @ sp_models sp,
      app_embeddings := app_embeddings a @ sp_embeddings sp,
      app_tools := app_tools a @ sp_tools sp,
      app_spicepods := app_spicepods a @ [sp]\<rparr>"

fun load_dependencies ::
    "(string \<Rightarrow> ('y spicepod_error, spicepod) result) \<Rightarrow> string \<Rightarrow> string list \<Rightarrow> app \<Rightarrow>
     ('y app_error, app) result" where
  "load_dependencies load path [] a = Inr a"
| "load_dependencies load path (dependency # ds) a =
     (let dependency_path = path_join (path_join path ''spicepods'') dependency in
      case load dependency_path of
        Inl e \<Rightarrow> Inl (UnableToLoadSpicepod e dependency_path)
      | Inr sp \<Rightarrow> load_dependencies load path ds (add_dependency sp a))"

definition build_from_filesystem_path ::
    "(string \<Rightarrow> ('y spicepod_error, spicepod) result) \<Rightarrow> string \<Rightarrow> ('y app_error, app) result" where
  "build_from_filesystem_path load path = (case load path of
      Inl e \<Rightarrow> Inl (UnableToLoadSpicepod e path)
    | Inr root \<Rightarrow>
        (case load_dependencies load path (sp_dependencies root)
           \<lparr>app_name = sp_name root, app_secrets = sp_secrets root,
            app_extensions = sp_extensions root, app_catalogs = sp_catalogs root,
            app_datasets = sp_datasets root, app_views = sp_views root,
            app_models = sp_models root, app_embeddings = sp_embeddings root,
            app_tools = sp_tools root, app_spicepods = [], app_runtime = sp_runtime root\<rparr> of
           Inl e \<Rightarrow> Inl e
         | Inr a \<Rightarrow> Inr (a\<lparr>app_spicepods := app_spicepods a @ [root]\<rparr>)))"

section \<open>Properties\<close>

lemma add_dependencies_app:
  "fold add_dependency sps a = a
     \<lparr>app_catalogs := app_catalogs a @ concat (map sp_catalogs sps),
      app_datasets := app_datasets a @ concat (map sp_datasets sps),
      app_views := app_views a @ concat (map sp_views sps),
      app_models := app_models a @ concat (map sp_models sps),
      app_embeddings := app_embeddings a @ concat (map sp_embeddings sps),
      app_tools := app_tools a @ concat (map sp_tools sps),
      app_spicepods := app_spicepods a @ sps\<rparr>"
  by (induction sps arbitrary: a) (simp_all add: add_dependency_def)

lemma load_dependencies_Inr:
  "load_dependencies load path ds a = Inr a' \<longleftrightarrow>
     (\<exists>sps. list_all2 (\<lambda>d sp. load (path_join (path_join path ''spicepods'') d) = Inr sp) ds sps \<and>
        a' = fold add_dependency sps a)"
  by (induction ds arbitrary: a)
     (auto simp: Let_def list_all2_Cons1 split: sum.splits)

text \<open>
  An app built from a path has the root spicepod's name, secrets, extensions and runtime
  only, every dependency's spicepod is loaded from \<open>path/spicepods/<dependency>\<close>, the datasets
  and models are the root's followed by the dependencies' in declaration order, and the
  spicepods end with the root.
\<close>

theorem build_from_filesystem_path_merges:
  assumes "build_from_filesystem_path load path = Inr a"
  shows "\<exists>root sps. load path = Inr root \<and>
    list_all2 (\<lambda>d sp. load (path_join (path_join path ''spicepods'') d) = Inr sp)
      (sp_dependencies root) sps \<and>
    app_name a = sp_name root \<and> app_secrets a = sp_secrets root \<and>
    app_extensions a = sp_extensions root \<and> app_runtime a = sp_runtime root \<and>
    app_datasets a = concat (map sp_datasets (root # sps)) \<and>
    app_models a = concat (map sp_models (root # sps)) \<and>
    app_views a = concat (map sp_views (root # sps)) \<and>
    app_catalogs a = concat (map sp_catalogs (root # sps)) \<and>
    app_spicepods a = sps @ [root]"
  using assms
  by (auto simp: build_from_filesystem_path_def load_dependencies_Inr add_dependencies_app
      split: sum.splits)

definition tiny_spicepod :: "string \<Rightarrow> string list \<Rightarrow> spicepod" where
  "tiny_spicepod nm deps =
     \<lparr>sp_version = V1Beta1, sp_name = nm, sp_extensions = [], sp_secrets = [], sp_catalogs = [],
      sp_datasets = [dataset_def_new ''s3:x'' nm], sp_views = [], sp_models = [],
      sp_dependencies = deps, sp_embeddings = [], sp_tools = [], sp_runtime = default_runtime_config\<rparr>"

definition tiny_load :: "string \<Rightarrow> (unit spicepod_error, spicepod) result" where
  "tiny_load p = (if p = ''/app'' then Inr (tiny_spicepod ''root'' [''dep''])
     else if p = ''/app/spicepods/dep'' then Inr (tiny_spicepod ''dep'' [])
     else Inl (SpicepodNotFound p))"

theorem build_from_filesystem_path_merges_witness:
  "\<exists>a. build_from_filesystem_path tiny_load ''/app'' = Inr a \<and> app_name a = ''root'' \<and>
     map d_name (app_datasets a) = [''root'', ''dep'']"
proof -
  have ex: "\<exists>a. build_from_filesystem_path tiny_load ''/app'' = Inr a"
    by (simp add: build_from_filesystem_path_def tiny_load_def tiny_spicepod_def path_join_def Let_def)
  then obtain a where a: "build_from_filesystem_path tiny_load ''/app'' = Inr a" by blast
  have deps: "sp_dependencies (tiny_spicepod ''root'' [''dep'']) = [''dep'']"
    by (simp add: tiny_spicepod_def)
  from build_from_filesystem_path_merges [OF a] obtain root sps where
    root: "tiny_load ''/app'' = Inr root" and
    sps: "list_all2 (\<lambda>d sp. tiny_load (path_join (path_join ''/app'' ''spicepods'') d) = Inr sp)
      (sp_dependencies root) sps" and
    nm: "app_name a = sp_name root" and ds: "app_datasets a = concat (map sp_datasets (root # sps))"
    by blast
  have r: "root = tiny_spicepod ''root'' [''dep'']" using root by (simp add: tiny_load_def)
  have "sps = [tiny_spicepod ''dep'' []]"
    using sps unfolding r deps
    by (auto simp: list_all2_Cons1 tiny_load_def path_join_def)
  with a r nm ds show ?thesis by (auto simp: tiny_spicepod_def dataset_def_new_def)
qed

end
