(* ===== verification/Dataset.thy ===== *)
theory Dataset
  imports Acceleration App_Builder
begin

text \<open>
  The components a running instance is made of (runtime/src/component): datasets with their
  derived settings, catalogs and views, and their conversion from the spicepod. Durations, table
  references (and their text) and glob patterns are handled by libraries, and the file system is
  read for a view's SQL; all are parameters. The schema attached to a dataset is an opaque value.
\<close>

section \<open>Table references\<close>

datatype table_reference = Bare string | Partial string string | FullRef string string string

definition parse_table_reference ::
  "(string \<Rightarrow> table_reference) \<Rightarrow> string \<Rightarrow> (runtime_error, table_reference) result" where
  "parse_table_reference parse_str nm = (case parse_str nm of
      Bare t \<Rightarrow> Inr (Bare t)
    | Partial s t \<Rightarrow> Inr (Partial s t)
    | FullRef c s t \<Rightarrow> Inl (DatasetNameIncludesCatalog c nm))"

section \<open>Datasets\<close>

datatype ds_mode = Read | ReadWrite

fun ds_mode_from :: "sp_mode \<Rightarrow> ds_mode" where
  "ds_mode_from SpRead = Read"
| "ds_mode_from SpReadWrite = ReadWrite"

datatype time_format = Timestamp | Timestamptz | UnixSeconds | UnixMillis | ISO8601

fun time_format_from :: "sp_time_format \<Rightarrow> time_format" where
  "time_format_from SpUnixSeconds = UnixSeconds"
| "time_format_from SpUnixMillis = UnixMillis"
| "time_format_from SpISO8601 = ISO8601"
| "time_format_from SpTimestamp = Timestamp"
| "time_format_from SpTimestamptz = Timestamptz"

fun display_time_format :: "time_format \<Rightarrow> string" where
  "display_time_format Timestamp = ''Timestamp''"
| "display_time_format Timestamptz = ''Timestamptz''"
| "display_time_format UnixSeconds = ''UnixSeconds''"
| "display_time_format UnixMillis = ''UnixMillis''"
| "display_time_format ISO8601 = ''ISO8601''"

record replication =
  rep_enabled :: bool

definition replication_from :: "sp_replication \<Rightarrow> replication" where
  "replication_from r = \<lparr>rep_enabled = spr_enabled r\<rparr>"

record 's dataset =
  ds_from :: string
  ds_name :: table_reference
  ds_mode :: ds_mode
  ds_params :: "(string, string) hmap"
  ds_has_metadata_table :: bool
  ds_replication :: "replication option"
  ds_time_column :: "string option"
  ds_time_format :: "time_format option"
  ds_acceleration :: "acceleration option"
  ds_embeddings :: "column_embedding_config list"
  ds_app :: "app option"
  ds_schema :: "'s option"

text \<open>The equality the runtime uses between reloads; hash maps are compared as maps.\<close>

definition acceleration_eq :: "acceleration \<Rightarrow> acceleration \<Rightarrow> bool" where
  "acceleration_eq a b \<longleftrightarrow>
     hm_eq (acc_params a) (acc_params b) \<and> hm_eq (acc_indexes a) (acc_indexes b) \<and>
     hm_eq (acc_on_conflict a) (acc_on_conflict b) \<and>
     a\<lparr>acc_params := [], acc_indexes := [], acc_on_conflict := []\<rparr> =
     b\<lparr>acc_params := [], acc_indexes := [], acc_on_conflict := []\<rparr>"

definition dataset_eq :: "'s dataset \<Rightarrow> 's dataset \<Rightarrow> bool" where
  "dataset_eq d e \<longleftrightarrow>
     ds_from d = ds_from e \<and> ds_name d = ds_name e \<and> ds_mode d = ds_mode e \<and>
     hm_eq (ds_params d) (ds_params e) \<and> ds_has_metadata_table d = ds_has_metadata_table e \<and>
     ds_replication d = ds_replication e \<and> ds_time_column d = ds_time_column e \<and>
     ds_time_format d = ds_time_format e \<and>
     rel_option acceleration_eq (ds_acceleration d) (ds_acceleration e) \<and>
     ds_embeddings d = ds_embeddings e \<and> ds_schema d = ds_schema e"

definition have_metadata_table_by_default :: bool where
  "have_metadata_table_by_default = False"

definition dataset_try_from ::
  "field_parsers \<Rightarrow> (string \<Rightarrow> table_reference) \<Rightarrow> dataset_def \<Rightarrow> (runtime_error, 's dataset) result" where
  "dataset_try_from P parse_str d =
     and_then (transpose_opt (map_option (acceleration_try_from P) (d_acceleration d))) (\<lambda>acc.
     and_then (parse_table_reference parse_str (d_name d)) (\<lambda>tr.
     Inr \<lparr>ds_from = d_from d, ds_name = tr, ds_mode = ds_mode_from (d_mode d),
       ds_params = string_map_or_default (d_params d),
       ds_has_metadata_table = (case d_has_metadata_table d of
          None \<Rightarrow> have_metadata_table_by_default | Some b \<Rightarrow> b),
       ds_replication = map_option replication_from (d_replication d),
       ds_time_column = d_time_column d, ds_time_format = map_option time_format_from (d_time_format d),
       ds_acceleration = acc, ds_embeddings = d_embeddings d, ds_app = None, ds_schema = None\<rparr>))"

definition dataset_try_new ::
  "(string \<Rightarrow> table_reference) \<Rightarrow> string \<Rightarrow> string \<Rightarrow> (runtime_error, 's dataset) result" where
  "dataset_try_new parse_str fr nm =
     and_then (parse_table_reference parse_str nm) (\<lambda>tr.
     Inr \<lparr>ds_from = fr, ds_name = tr, ds_mode = Read, ds_params = [],
       ds_has_metadata_table = have_metadata_table_by_default, ds_replication = None,
       ds_time_column = None, ds_time_format = None, ds_acceleration = None, ds_embeddings = [],
       ds_app = None, ds_schema = None\<rparr>)"

definition with_app :: "app \<Rightarrow> 's dataset \<Rightarrow> 's dataset" where
  "with_app a d = d\<lparr>ds_app := Some a\<rparr>"

definition with_schema :: "'s \<Rightarrow> 's dataset \<Rightarrow> 's dataset" where
  "with_schema s d = d\<lparr>ds_schema := Some s\<rparr>"

definition dataset_source :: "'s dataset \<Rightarrow> string" where
  "dataset_source d = (let parts = splitn2 colon (ds_from d) in
     if length parts > 1 then parts ! 0
     else if ds_from d = ''sink'' \<or> ds_from d = [] then ''sink''
     else ''spiceai'')"

definition dataset_path :: "'s dataset \<Rightarrow> string" where
  "dataset_path d = (case find_char colon (ds_from d) of
      Some i \<Rightarrow> drop (i + 1) (ds_from d)
    | None \<Rightarrow> ds_from d)"

definition refresh_check_interval :: "'s dataset \<Rightarrow> duration option" where
  "refresh_check_interval d = Option.bind (ds_acceleration d) acc_refresh_check_interval"

text \<open>\<open>tenth\<close> is \<open>Duration::mul_f64(0.1)\<close>.\<close>

definition refresh_max_jitter :: "(duration \<Rightarrow> duration) \<Rightarrow> 's dataset \<Rightarrow> duration option" where
  "refresh_max_jitter tenth d = (case ds_acceleration d of
      None \<Rightarrow> None
    | Some a \<Rightarrow>
        if acc_refresh_jitter_enabled a
        then (case acc_refresh_jitter_max a of
                Some j \<Rightarrow> Some j
              | None \<Rightarrow> map_option tenth (refresh_check_interval d))
        else None)"

text \<open>The three settings that are parsed when they are read: a text that does not parse counts
  as absent.\<close>

definition parsed_setting ::
  "field_parsers \<Rightarrow> (acceleration \<Rightarrow> string option) \<Rightarrow> 's dataset \<Rightarrow> duration option" where
  "parsed_setting P field d = (case ds_acceleration d of
      None \<Rightarrow> None
    | Some a \<Rightarrow> (case field a of None \<Rightarrow> None | Some s \<Rightarrow> result_ok (parse_duration P s)))"

definition retention_check_interval :: "field_parsers \<Rightarrow> 's dataset \<Rightarrow> duration option" where
  "retention_check_interval P d = parsed_setting P acc_retention_check_interval d"

definition retention_period :: "field_parsers \<Rightarrow> 's dataset \<Rightarrow> duration option" where
  "retention_period P d = parsed_setting P acc_retention_period d"

definition refresh_data_window :: "field_parsers \<Rightarrow> 's dataset \<Rightarrow> duration option" where
  "refresh_data_window P d = parsed_setting P acc_refresh_data_window d"

definition refresh_sql :: "'s dataset \<Rightarrow> string option" where
  "refresh_sql d = Option.bind (ds_acceleration d) acc_refresh_sql"

definition refresh_retry_enabled :: "'s dataset \<Rightarrow> bool" where
  "refresh_retry_enabled d = (case ds_acceleration d of None \<Rightarrow> False | Some a \<Rightarrow> acc_refresh_retry_enabled a)"

definition refresh_retry_max_attempts :: "'s dataset \<Rightarrow> nat option" where
  "refresh_retry_max_attempts d = Option.bind (ds_acceleration d) acc_refresh_retry_max_attempts"

definition is_accelerated :: "'s dataset \<Rightarrow> bool" where
  "is_accelerated d = (case ds_acceleration d of None \<Rightarrow> False | Some a \<Rightarrow> acc_enabled a)"

definition is_file_accelerated :: "'s dataset \<Rightarrow> bool" where
  "is_file_accelerated d = (case ds_acceleration d of
      None \<Rightarrow> False
    | Some a \<Rightarrow> if acc_engine a = PostgreSQL then True
                else acc_enabled a \<and> acc_mode a = FileMode)"

definition is_accelerator_initialized ::
  "(engine \<Rightarrow> ('s dataset \<Rightarrow> bool) option) \<Rightarrow> 's dataset \<Rightarrow> bool" where
  "is_accelerator_initialized engines d = (case ds_acceleration d of
      None \<Rightarrow> False
    | Some a \<Rightarrow> (case engines (acc_engine a) of None \<Rightarrow> False | Some initialized \<Rightarrow> initialized d))"

section \<open>Catalogs\<close>

record 'g catalog =
  cat_provider :: string
  cat_catalog_id :: "string option"
  cat_from :: string
  cat_name :: string
  cat_orig_include :: "string list"
  cat_include :: "'g option"
  cat_params :: "(string, string) hmap"
  cat_dataset_params :: "(string, string) hmap"

definition catalog_eq :: "'g catalog \<Rightarrow> 'g catalog \<Rightarrow> bool" where
  "catalog_eq c d \<longleftrightarrow> cat_from c = cat_from d \<and> cat_name c = cat_name d \<and>
     cat_orig_include c = cat_orig_include d \<and> hm_eq (cat_params c) (cat_params d) \<and>
     hm_eq (cat_dataset_params c) (cat_dataset_params d)"

definition catalog_provider :: "string \<Rightarrow> string" where
  "catalog_provider fr = split_first colon fr"

definition catalog_id :: "string \<Rightarrow> string option" where
  "catalog_id fr = (case find_char colon fr of Some i \<Rightarrow> Some (drop (i + 1) fr) | None \<Rightarrow> None)"

definition catalog_try_from ::
  "(string \<Rightarrow> (string, 'p) result) \<Rightarrow> ('p list \<Rightarrow> (string, 'g) result) \<Rightarrow> catalog_def \<Rightarrow>
   (runtime_error, 'g catalog) result" where
  "catalog_try_from glob_new build_set c =
     and_then (if c_include c = [] then Inr None
               else and_then (try_collect (\<lambda>p. map_err (InvalidGlobPattern p) (glob_new p)) (c_include c)) (\<lambda>globs.
                    and_then (map_err ErrorConvertingGlobSetToRegex (build_set globs)) (\<lambda>g. Inr (Some g)))) (\<lambda>include.
     Inr \<lparr>cat_provider = catalog_provider (c_from c), cat_catalog_id = catalog_id (c_from c),
       cat_from = c_from c, cat_name = c_name c, cat_orig_include = c_include c,
       cat_include = include, cat_params = string_map_or_default (c_params c),
       cat_dataset_params = string_map_or_default (c_dataset_params c)\<rparr>)"

definition catalog_new :: "string \<Rightarrow> string \<Rightarrow> 'g catalog" where
  "catalog_new fr nm =
     \<lparr>cat_provider = catalog_provider fr, cat_catalog_id = catalog_id fr, cat_from = fr,
      cat_name = nm, cat_orig_include = [], cat_include = None, cat_params = [], cat_dataset_params = []\<rparr>"

section \<open>Views\<close>

record view =
  vw_name :: table_reference
  vw_sql :: string

definition load_sql_ref :: "(string \<Rightarrow> (string, string) result) \<Rightarrow> string \<Rightarrow> (runtime_error, string) result" where
  "load_sql_ref read_file sql_ref = map_err (UnableToLoadSqlFile sql_ref) (read_file sql_ref)"

definition view_try_from ::
  "(string \<Rightarrow> table_reference) \<Rightarrow> (table_reference \<Rightarrow> string) \<Rightarrow> (string \<Rightarrow> (string, string) result) \<Rightarrow>
   view_def \<Rightarrow> (runtime_error, view) result" where
  "view_try_from parse_str show_ref read_file v =
     and_then (parse_table_reference parse_str (v_name v)) (\<lambda>tr.
     and_then (case v_sql v of
                 Some sql \<Rightarrow> Inr sql
               | None \<Rightarrow> (case v_sql_ref v of
                   Some r \<Rightarrow> load_sql_ref read_file r
                 | None \<Rightarrow> Inl (NeedToSpecifySQLView (show_ref tr)))) (\<lambda>sql.
     Inr \<lparr>vw_name = tr, vw_sql = sql\<rparr>))"

definition view_try_new ::
  "(string \<Rightarrow> table_reference) \<Rightarrow> string \<Rightarrow> string \<Rightarrow> (runtime_error, view) result" where
  "view_try_new parse_str nm sql =
     and_then (parse_table_reference parse_str nm) (\<lambda>tr. Inr \<lparr>vw_name = tr, vw_sql = sql\<rparr>)"

section \<open>The from field of a dataset\<close>

text \<open>
  The source and the path of a dataset cut its from field at the first colon and lose
  nothing of it; without a colon the path is the whole field and the source is the sink
  connector for \<open>sink\<close> or an empty field and Spice.ai otherwise.
\<close>

theorem dataset_source_path:
  "if colon \<in> set (ds_from d)
   then ds_from d = dataset_source d @ '':'' @ dataset_path d \<and> colon \<notin> set (dataset_source d)
   else dataset_path d = ds_from d \<and>
        dataset_source d = (if ds_from d \<in> {''sink'', []} then ''sink'' else ''spiceai'')"
proof (cases "find_char colon (ds_from d)")
  case None
  then show ?thesis
    using find_char_None [of colon "ds_from d"]
    by (simp add: dataset_source_def dataset_path_def splitn2_def Let_def)
next
  case (Some i)
  then have "colon \<in> set (ds_from d)" by (metis find_char_None option.distinct(1))
  with Some find_char_SomeD [OF Some] show ?thesis
    by (simp add: dataset_source_def dataset_path_def splitn2_def)
qed

section \<open>Equality between reloads\<close>

definition accel_settings :: "acceleration \<Rightarrow> (string option \<times> string option \<times> string option \<times> string option) \<times>
    (duration option \<times> duration option) \<times> (bool \<times> bool \<times> bool) \<times> nat option \<times> engine \<times> accel_mode" where
  "accel_settings a =
     ((acc_retention_check_interval a, acc_retention_period a, acc_refresh_data_window a, acc_refresh_sql a),
      (acc_refresh_check_interval a, acc_refresh_jitter_max a),
      (acc_refresh_jitter_enabled a, acc_refresh_retry_enabled a, acc_enabled a),
      acc_refresh_retry_max_attempts a, acc_engine a, acc_mode a)"

lemma acceleration_eq_settings:
  assumes "acceleration_eq a b"
  shows "accel_settings a = accel_settings b"
proof -
  have "accel_settings a = accel_settings (a\<lparr>acc_params := [], acc_indexes := [], acc_on_conflict := []\<rparr>)"
    by (simp add: accel_settings_def)
  also have "\<dots> = accel_settings (b\<lparr>acc_params := [], acc_indexes := [], acc_on_conflict := []\<rparr>)"
    using assms by (simp only: acceleration_eq_def)
  also have "\<dots> = accel_settings b"
    by (simp add: accel_settings_def)
  finally show ?thesis .
qed

lemma rel_settings:
  assumes "rel_option acceleration_eq x y"
  shows "x = None \<and> y = None \<or> (\<exists>a b. x = Some a \<and> y = Some b \<and> accel_settings a = accel_settings b)"
  using assms acceleration_eq_settings by (cases x; cases y) auto

text \<open>
  Datasets the runtime takes for unchanged between two loads of the app behave alike: the
  app is ignored, and everything the dataset derives from its settings agrees.
\<close>

theorem dataset_eq_same_behaviour:
  assumes "dataset_eq d e"
  shows "dataset_eq (with_app a d) e \<and> dataset_source d = dataset_source e \<and> dataset_path d = dataset_path e \<and>
    refresh_check_interval d = refresh_check_interval e \<and>
    refresh_max_jitter tenth d = refresh_max_jitter tenth e \<and>
    retention_check_interval P d = retention_check_interval P e \<and> retention_period P d = retention_period P e \<and>
    refresh_data_window P d = refresh_data_window P e \<and> refresh_sql d = refresh_sql e \<and>
    refresh_retry_enabled d = refresh_retry_enabled e \<and>
    refresh_retry_max_attempts d = refresh_retry_max_attempts e \<and>
    is_accelerated d = is_accelerated e \<and> is_file_accelerated d = is_file_accelerated e"
proof -
  have fr: "ds_from d = ds_from e" and acc: "rel_option acceleration_eq (ds_acceleration d) (ds_acceleration e)"
    and app: "dataset_eq (with_app a d) e"
    using assms by (simp_all add: dataset_eq_def with_app_def)
  have "dataset_source d = dataset_source e" and "dataset_path d = dataset_path e"
    by (simp_all only: dataset_source_def dataset_path_def fr)
  moreover have interval: "refresh_check_interval d = refresh_check_interval e"
    using rel_settings [OF acc] by (auto simp: refresh_check_interval_def accel_settings_def)
  moreover have "refresh_max_jitter tenth d = refresh_max_jitter tenth e"
    unfolding refresh_max_jitter_def interval
    using rel_settings [OF acc] by (auto simp: accel_settings_def)
  moreover have "retention_check_interval P d = retention_check_interval P e \<and>
      retention_period P d = retention_period P e \<and> refresh_data_window P d = refresh_data_window P e"
    using rel_settings [OF acc]
    by (auto simp: retention_check_interval_def retention_period_def refresh_data_window_def
        parsed_setting_def accel_settings_def)
  moreover have "refresh_sql d = refresh_sql e \<and> refresh_retry_enabled d = refresh_retry_enabled e \<and>
      refresh_retry_max_attempts d = refresh_retry_max_attempts e \<and>
      is_accelerated d = is_accelerated e \<and> is_file_accelerated d = is_file_accelerated e"
    using rel_settings [OF acc]
    by (auto simp: refresh_sql_def refresh_retry_enabled_def refresh_retry_max_attempts_def
        is_accelerated_def is_file_accelerated_def accel_settings_def)
  ultimately show ?thesis using app by blast
qed

theorem dataset_eq_same_behaviour_witness:
  "refresh_max_jitter (\<lambda>i. i div 10)
     (with_app (app_build (app_builder_new ''x'')) \<lparr>ds_from = ''pg:t'', ds_name = Bare ''t'', ds_mode = Read,
       ds_params = [(''a'', ''1''), (''b'', ''2'')], ds_has_metadata_table = False, ds_replication = None,
       ds_time_column = None, ds_time_format = None,
       ds_acceleration = Some (default_acceleration\<lparr>acc_refresh_jitter_enabled := True,
          acc_refresh_check_interval := Some 50\<rparr>),
       ds_embeddings = [], ds_app = None, ds_schema = None :: unit option\<rparr>) = Some 5"
proof -
  let ?d = "\<lparr>ds_from = ''pg:t'', ds_name = Bare ''t'', ds_mode = Read,
       ds_params = [(''a'', ''1''), (''b'', ''2'')], ds_has_metadata_table = False, ds_replication = None,
       ds_time_column = None, ds_time_format = None,
       ds_acceleration = Some (default_acceleration\<lparr>acc_refresh_jitter_enabled := True,
          acc_refresh_check_interval := Some 50\<rparr>),
       ds_embeddings = [], ds_app = None, ds_schema = None :: unit option\<rparr>"
  have "dataset_eq (with_app (app_build (app_builder_new ''x'')) ?d) (?d\<lparr>ds_params := [(''b'', ''2''), (''a'', ''1'')]\<rparr>)"
    by (auto simp: dataset_eq_def with_app_def hm_eq_def fun_eq_iff acceleration_eq_def)
  from dataset_eq_same_behaviour [OF this, of _ "\<lambda>i. i div 10"] show ?thesis
    by (simp add: refresh_max_jitter_def refresh_check_interval_def default_acceleration_def)
qed

section \<open>Names and catalogs\<close>

text \<open>
  A dataset becomes a component exactly when its acceleration settings are accepted and its
  name carries no catalog; the component keeps the source, the parsed name and the parameters,
  with an acceleration exactly when one was configured.
\<close>

theorem dataset_try_from_ok:
  "(is_ok (dataset_try_from P parse_str d :: (runtime_error, 's dataset) result) \<longleftrightarrow>
      (case d_acceleration d of None \<Rightarrow> True | Some a \<Rightarrow> is_ok (acceleration_try_from P a)) \<and>
      (case parse_str (d_name d) of FullRef _ _ _ \<Rightarrow> False | _ \<Rightarrow> True)) \<and>
   (\<forall>c :: 's dataset. dataset_try_from P parse_str d = Inr c \<longrightarrow>
      ds_name c = parse_str (d_name d) \<and> ds_from c = d_from d \<and> ds_schema c = None \<and> ds_app c = None \<and>
      (ds_acceleration c = None \<longleftrightarrow> d_acceleration d = None))"
proof (intro conjI allI impI)
  let ?acc = "transpose_opt (map_option (acceleration_try_from P) (d_acceleration d))"
  have acc: "is_ok ?acc \<longleftrightarrow> (case d_acceleration d of None \<Rightarrow> True | Some a \<Rightarrow> is_ok (acceleration_try_from P a))"
    by (cases "d_acceleration d"; cases "acceleration_try_from P (the (d_acceleration d))") auto
  have "is_ok (dataset_try_from P parse_str d :: (runtime_error, 's dataset) result) \<longleftrightarrow>
      is_ok ?acc \<and> is_ok (parse_table_reference parse_str (d_name d))"
    unfolding dataset_try_from_def is_ok_and_then by (auto simp: is_ok_iff)
  then show "is_ok (dataset_try_from P parse_str d :: (runtime_error, 's dataset) result) \<longleftrightarrow>
      (case d_acceleration d of None \<Rightarrow> True | Some a \<Rightarrow> is_ok (acceleration_try_from P a)) \<and>
      (case parse_str (d_name d) of FullRef _ _ _ \<Rightarrow> False | _ \<Rightarrow> True)"
    unfolding acc by (auto simp: parse_table_reference_def split: table_reference.splits)
  fix c :: "'s dataset" assume "dataset_try_from P parse_str d = Inr c"
  then obtain a tr where a: "?acc = Inr a" and tr: "parse_table_reference parse_str (d_name d) = Inr tr"
    and c: "ds_name c = tr" "ds_from c = d_from d" "ds_schema c = None" "ds_app c = None" "ds_acceleration c = a"
    by (auto simp: dataset_try_from_def and_then_eq_Inr)
  from tr have "tr = parse_str (d_name d)"
    by (auto simp: parse_table_reference_def split: table_reference.splits)
  moreover from a have "a = None \<longleftrightarrow> d_acceleration d = None"
    by (cases "d_acceleration d"; cases "acceleration_try_from P (the (d_acceleration d))") auto
  ultimately show "ds_name c = parse_str (d_name d)" "ds_from c = d_from d" "ds_schema c = None"
      "ds_app c = None" "ds_acceleration c = None \<longleftrightarrow> d_acceleration d = None"
    using c by simp_all
qed

theorem dataset_try_from_ok_witness:
  "\<exists>c :: unit dataset. dataset_try_from demo_parsers Bare (dataset_def_new ''s3:x'' ''t'') = Inr c \<and>
     ds_name c = Bare ''t'' \<and> ds_acceleration c = None"
proof -
  have "is_ok (dataset_try_from demo_parsers Bare (dataset_def_new ''s3:x'' ''t'') :: (runtime_error, unit dataset) result)"
    using dataset_try_from_ok [where ?'s = unit, of demo_parsers Bare "dataset_def_new ''s3:x'' ''t''"]
    by (simp add: dataset_def_new_def)
  then show ?thesis
    using dataset_try_from_ok [where ?'s = unit, of demo_parsers Bare "dataset_def_new ''s3:x'' ''t''"]
    by (auto simp: is_ok_iff dataset_def_new_def)
qed

interpretation catalog_ref: prefixed_reference catalog_provider catalog_id
proof
  fix p r s :: string
  show "colon \<notin> set p \<Longrightarrow> catalog_provider (p @ colon # r) = p"
    and "colon \<notin> set s \<Longrightarrow> catalog_provider s = s"
    by (simp_all add: catalog_provider_def split_str)
  show "colon \<notin> set p \<Longrightarrow> catalog_id (p @ colon # r) = Some r"
    by (simp add: catalog_id_def find_char_append)
  show "colon \<notin> set s \<Longrightarrow> catalog_id s = None"
    using find_char_None [of colon s] by (simp add: catalog_id_def)
qed

text \<open>
  Catalogs the runtime takes for unchanged are unchanged: equality of the configured fields
  carries over to the provider, the catalog id and the compiled include patterns, and a catalog's
  provider and id determine where it came from.
\<close>

theorem catalog_eq_determines:
  assumes "catalog_try_from glob_new build_set c = Inr a" and "catalog_try_from glob_new build_set c' = Inr b"
  shows "(catalog_eq a b \<longrightarrow> cat_provider a = cat_provider b \<and> cat_catalog_id a = cat_catalog_id b \<and>
            cat_include a = cat_include b) \<and>
         (cat_provider a = cat_provider b \<and> cat_catalog_id a = cat_catalog_id b \<longrightarrow> cat_from a = cat_from b)"
  using assms catalog_ref.determined [of "cat_from a" "cat_from b"]
  by (auto simp: catalog_try_from_def catalog_eq_def and_then_eq_Inr split: if_splits)

theorem catalog_eq_determines_witness:
  "\<exists>a b. catalog_try_from Inr Inr (catalog_def_new ''uc:m'' ''x'') = Inr a \<and>
     catalog_try_from Inr Inr ((catalog_def_new ''uc:m'' ''x'')\<lparr>c_description := Some ''d''\<rparr>) = Inr b \<and>
     cat_catalog_id a = cat_catalog_id b"
proof -
  obtain a b where a: "catalog_try_from Inr Inr (catalog_def_new ''uc:m'' ''x'') = Inr a"
    and b: "catalog_try_from Inr Inr ((catalog_def_new ''uc:m'' ''x'')\<lparr>c_description := Some ''d''\<rparr>) = Inr b"
    by (simp add: catalog_try_from_def catalog_def_new_def)
  then have "catalog_eq a b"
    by (auto simp: catalog_try_from_def catalog_def_new_def catalog_eq_def hm_eq_def)
  with catalog_eq_determines [OF a b] a b show ?thesis by blast
qed

end
