(* ===== verification/Backoff.thy ===== *)
theory Backoff
  imports Complex_Main Spice_Prelude
begin

text \<open>
  The Fibonacci backoff of \<open>crates/util/src/fibonacci_backoff.rs\<close>: the interval table, the state
  with its retry counter, the randomisation of an interval and the builder. A drawn random
  number (\<open>rand::random::<f64>()\<close>) is an argument. An \<open>f64\<close> operation is the exact operation on
  rationals followed by a rounding function \<open>rnd\<close>, an argument of the definitions; the facts of
  IEEE 754 the properties use are collected in \<open>f64_rounding\<close>.
\<close>

section \<open>The interval table and the state\<close>

definition BACKOFF_INTERVALS_MS :: "nat list" where
  "BACKOFF_INTERVALS_MS = [1000, 1000, 2000, 3000, 5000, 8000, 13000, 21000, 34000, 55000, 89000,
     144000, 233000, 300000]"

record fibonacci_backoff =
  num_retries :: nat
  randomization_factor :: rat
  max_retries :: "nat option"

definition default_backoff :: fibonacci_backoff where
  "default_backoff = \<lparr>num_retries = 0, randomization_factor = 3 / 10, max_retries = None\<rparr>"

section \<open>Randomisation\<close>

definition f64_rounding :: "(rat \<Rightarrow> rat) \<Rightarrow> bool" where
  "f64_rounding rnd \<longleftrightarrow>
     (\<forall>x y. x \<le> y \<longrightarrow> rnd x \<le> rnd y) \<and> (\<forall>x. rnd (rnd x) = rnd x) \<and>
     (\<forall>n::nat. n \<le> 2 ^ 53 \<longrightarrow> rnd (of_nat n) = of_nat n)"

text \<open>\<open>x as u64\<close>: truncation, saturating at both ends.\<close>

definition as_u64 :: "rat \<Rightarrow> nat" where
  "as_u64 x = min (nat \<lfloor>x\<rfloor>) (2 ^ 64 - 1)"

definition duration_to_nanos :: "(rat \<Rightarrow> rat) \<Rightarrow> duration \<Rightarrow> rat" where
  "duration_to_nanos rnd d =
     rnd (rnd (rnd (of_nat (as_secs d)) * 1000000000) + of_nat (d mod nanos_per_sec))"

definition nanos_to_duration :: "(rat \<Rightarrow> rat) \<Rightarrow> rat \<Rightarrow> duration" where
  "nanos_to_duration rnd nanos =
     (let secs = rnd (nanos / 1000000000); n = as_u64 nanos mod nanos_per_sec
      in as_u64 secs * nanos_per_sec + n)"

definition random_nanos :: "(rat \<Rightarrow> rat) \<Rightarrow> rat \<Rightarrow> rat \<Rightarrow> duration \<Rightarrow> rat" where
  "random_nanos rnd factor random current_interval =
     (let current_interval_nanos = duration_to_nanos rnd current_interval;
          delta = rnd (factor * current_interval_nanos);
          min_interval = rnd (current_interval_nanos - delta);
          max_interval = rnd (current_interval_nanos + delta);
          diff = rnd (max_interval - min_interval)
      in rnd (min_interval + rnd (random * rnd (diff + 1))))"

definition get_random_value_from_interval ::
    "(rat \<Rightarrow> rat) \<Rightarrow> rat \<Rightarrow> rat \<Rightarrow> duration \<Rightarrow> duration" where
  "get_random_value_from_interval rnd factor random current_interval =
     nanos_to_duration rnd (random_nanos rnd factor random current_interval)"

section \<open>The Backoff implementation\<close>

definition reset :: "fibonacci_backoff \<Rightarrow> fibonacci_backoff" where
  "reset b = b\<lparr>num_retries := 0\<rparr>"

text \<open>The interval chosen for the counter's value after it has been incremented.\<close>

definition base_interval :: "nat \<Rightarrow> duration" where
  "base_interval n = from_millis
     (if n \<ge> length BACKOFF_INTERVALS_MS
      then BACKOFF_INTERVALS_MS ! (length BACKOFF_INTERVALS_MS - 1)
      else BACKOFF_INTERVALS_MS ! n)"

definition next_backoff ::
    "(rat \<Rightarrow> rat) \<Rightarrow> rat \<Rightarrow> fibonacci_backoff \<Rightarrow> duration option \<times> fibonacci_backoff" where
  "next_backoff rnd random b =
     (let b' = b\<lparr>num_retries := num_retries b + 1\<rparr>;
          exhausted = (case max_retries b' of None \<Rightarrow> False | Some m \<Rightarrow> num_retries b' > m)
      in if exhausted then (None, b')
         else (Some (get_random_value_from_interval rnd (randomization_factor b') random
                      (base_interval (num_retries b'))), b'))"

section \<open>The builder\<close>

record fibonacci_backoff_builder =
  builder_randomization_factor :: rat
  builder_max_retries :: "nat option"

definition builder_new :: fibonacci_backoff_builder where
  "builder_new = \<lparr>builder_randomization_factor = 3 / 10, builder_max_retries = None\<rparr>"

definition with_randomization_factor ::
    "rat \<Rightarrow> fibonacci_backoff_builder \<Rightarrow> fibonacci_backoff_builder" where
  "with_randomization_factor v b = b\<lparr>builder_randomization_factor := v\<rparr>"

definition with_max_retries ::
    "nat option \<Rightarrow> fibonacci_backoff_builder \<Rightarrow> fibonacci_backoff_builder" where
  "with_max_retries v b = b\<lparr>builder_max_retries := v\<rparr>"

definition build :: "fibonacci_backoff_builder \<Rightarrow> fibonacci_backoff" where
  "build b = default_backoff
     \<lparr>randomization_factor := builder_randomization_factor b,
      max_retries := builder_max_retries b\<rparr>"

text \<open>A run of \<open>next_backoff\<close>, one call per drawn random number.\<close>

fun backoff_run :: "(rat \<Rightarrow> rat) \<Rightarrow> rat list \<Rightarrow> fibonacci_backoff \<Rightarrow> duration option list" where
  "backoff_run rnd [] b = []"
| "backoff_run rnd (r # rs) b =
     (let (d, b') = next_backoff rnd r b in d # backoff_run rnd rs b')"

section \<open>Properties\<close>

lemma next_backoff_state:
  "snd (next_backoff rnd r b) = b\<lparr>num_retries := num_retries b + 1\<rparr>"
  by (auto simp: next_backoff_def Let_def)

lemma next_backoff_None:
  "fst (next_backoff rnd r b) = None \<longleftrightarrow> (\<exists>m. max_retries b = Some m \<and> m \<le> num_retries b)"
  by (auto simp: next_backoff_def Let_def split: option.splits)

lemma backoff_run_length [simp]: "length (backoff_run rnd rs b) = length rs"
  by (induction rs arbitrary: b) (auto simp: Let_def split: prod.splits)

lemma backoff_run_nth:
  "i < length rs \<Longrightarrow>
   backoff_run rnd rs b ! i = fst (next_backoff rnd (rs ! i) (b\<lparr>num_retries := num_retries b + i\<rparr>))"
proof (induction rs arbitrary: b i)
  case (Cons r rs)
  have run: "backoff_run rnd (r # rs) b =
      fst (next_backoff rnd r b) # backoff_run rnd rs (b\<lparr>num_retries := num_retries b + 1\<rparr>)"
    by (simp add: Let_def split_beta next_backoff_state)
  show ?case
  proof (cases i)
    case 0
    then show ?thesis unfolding run by simp
  next
    case (Suc j)
    with Cons.prems have "j < length rs" by simp
    from Cons.IH [OF this, of "b\<lparr>num_retries := num_retries b + 1\<rparr>"] Suc show ?thesis
      unfolding run by simp
  qed
qed simp

text \<open>
  (C2) A backoff built with \<open>max_retries = Some m\<close> gives a delay on exactly the first \<open>m\<close> calls
  of \<open>next_backoff\<close> and \<open>None\<close> on every later one; built with \<open>None\<close> it never gives up.
\<close>

theorem backoff_gives_up_after_max_retries:
  assumes "i < length rs"
  shows "backoff_run rnd rs (build (with_max_retries m builder_new)) ! i = None \<longleftrightarrow>
     (case m of None \<Rightarrow> False | Some k \<Rightarrow> k \<le> i)"
  using assms
  by (auto simp: backoff_run_nth next_backoff_None build_def with_max_retries_def
      default_backoff_def builder_new_def split: option.splits)

theorem backoff_gives_up_after_max_retries_witness:
  "backoff_run id [0, 0, 0] (build (with_max_retries (Some 2) builder_new)) ! 2 = None"
  using backoff_gives_up_after_max_retries [of 2 "[0, 0, 0]" id "Some 2"] by simp

lemma less_numeral_cases: "n < 14 \<Longrightarrow> n \<in> set [0, 1, 2, 3, 4, 5, 6, 7, 8, 9, 10, 11, 12, 13::nat]"
  by simp arith

lemma base_interval_le: "base_interval n \<le> from_secs 300"
proof (cases "n < 14")
  case True
  then show ?thesis
    using less_numeral_cases [OF True]
    by (auto simp: base_interval_def BACKOFF_INTERVALS_MS_def from_millis_def from_secs_def)
qed (simp add: base_interval_def BACKOFF_INTERVALS_MS_def from_millis_def from_secs_def)

lemma base_interval_late: "n \<ge> 13 \<Longrightarrow> base_interval n = from_secs 300"
  by (cases "n = 13") (auto simp: base_interval_def BACKOFF_INTERVALS_MS_def from_millis_def from_secs_def)

lemma base_interval_suc: "base_interval n \<le> base_interval (Suc n)"
proof (cases "n < 13")
  case True
  then show ?thesis
    using less_numeral_cases [of n]
    by (auto simp: base_interval_def BACKOFF_INTERVALS_MS_def from_millis_def)
next
  case False
  then show ?thesis by (simp add: base_interval_late)
qed

text \<open>
  The base interval never decreases from one call to the next, is at least one second and
  at most the documented five minutes, follows the Fibonacci recurrence up to the cap, and stays
  at the cap from the thirteenth retry on.
\<close>

theorem base_interval_fibonacci_capped:
  "mono base_interval \<and>
   (\<forall>n. from_secs 1 \<le> base_interval n \<and> base_interval n \<le> from_secs 300) \<and>
   (\<forall>n. base_interval (n + 2) = min (base_interval (n + 1) + base_interval n) (from_secs 300))"
proof (intro conjI allI)
  show mono: "mono base_interval"
    by (rule mono_iff_le_Suc [THEN iffD2]) (simp add: base_interval_suc)
  fix n
  have "base_interval 0 = from_secs 1"
    by (simp add: base_interval_def BACKOFF_INTERVALS_MS_def from_millis_def from_secs_def)
  then show "from_secs 1 \<le> base_interval n"
    using mono monoD [of base_interval 0 n] by simp
  show "base_interval n \<le> from_secs 300" by (rule base_interval_le)
  show "base_interval (n + 2) = min (base_interval (n + 1) + base_interval n) (from_secs 300)"
  proof (cases "n < 14")
    case True
    then show ?thesis
      using less_numeral_cases [OF True]
      by (auto simp: base_interval_def BACKOFF_INTERVALS_MS_def from_millis_def from_secs_def)
  next
    case False
    then show ?thesis by (simp add: base_interval_late)
  qed
qed

lemma duration_to_nanos_exact:
  assumes "f64_rounding rnd" and "d \<le> 2 ^ 53"
  shows "duration_to_nanos rnd d = of_nat d"
proof -
  have le: "as_secs d * nanos_per_sec \<le> d" and le': "as_secs d \<le> d"
    by (simp_all add: as_secs_def)
  then have "as_secs d * nanos_per_sec \<le> 2 ^ 53" "as_secs d \<le> 2 ^ 53"
    using assms(2) by linarith+
  then have "rnd (rnd (of_nat (as_secs d)) * 1000000000) = of_nat (as_secs d * nanos_per_sec)"
    using assms(1) unfolding f64_rounding_def
    by (metis of_nat_mult of_nat_numeral)
  moreover have "as_secs d * nanos_per_sec + d mod nanos_per_sec = d"
    by (simp add: as_secs_def)
  then have "of_nat (as_secs d * nanos_per_sec) + of_nat (d mod nanos_per_sec) = (of_nat d :: rat)"
    by (metis of_nat_add)
  ultimately show ?thesis
    using assms unfolding duration_to_nanos_def f64_rounding_def by simp
qed

lemma rnd_nonneg: "f64_rounding rnd \<Longrightarrow> 0 \<le> x \<Longrightarrow> 0 \<le> rnd x"
  unfolding f64_rounding_def by (metis of_nat_0 zero_le)

lemma rnd_ge: "f64_rounding rnd \<Longrightarrow> rnd y = y \<Longrightarrow> y \<le> x \<Longrightarrow> y \<le> rnd x"
  unfolding f64_rounding_def by metis

lemma rnd_le: "f64_rounding rnd \<Longrightarrow> rnd y = y \<Longrightarrow> x \<le> y \<Longrightarrow> rnd x \<le> y"
  unfolding f64_rounding_def by metis

text \<open>
  Whatever the random draw in \<open>[0, 1)\<close> and whatever the rounding of \<open>f64\<close>, the randomised
  delay is never shorter than the interval shrunk by the randomisation factor, and with a factor
  of zero it is the interval itself to within one nanosecond.
\<close>

theorem random_nanos_bounds:
  assumes rnd: "f64_rounding rnd" and d: "d < 2 ^ 53"
    and r: "0 \<le> random" "random < 1" and f: "0 \<le> factor"
  shows "rnd (of_nat d - rnd (factor * of_nat d)) \<le> random_nanos rnd factor random d \<and>
    of_nat d \<le> random_nanos rnd 0 random d \<and> random_nanos rnd 0 random d \<le> of_nat (d + 1)"
proof (intro conjI)
  have nanos: "duration_to_nanos rnd d = of_nat d"
    using duration_to_nanos_exact [OF rnd] d by simp
  have idem: "rnd (rnd x) = rnd x" for x
    using rnd by (simp add: f64_rounding_def)
  have nat_exact: "n \<le> 2 ^ 53 \<Longrightarrow> rnd (of_nat n) = of_nat n" for n
    using rnd by (simp add: f64_rounding_def)
  have r0: "rnd 0 = 0" and r1: "rnd 1 = 1"
    using nat_exact [of 0] nat_exact [of 1] by simp_all
  have delta: "0 \<le> rnd (factor * of_nat d)"
    by (rule rnd_nonneg [OF rnd]) (use f in simp)
  define lo hi where "lo = rnd (of_nat d - rnd (factor * of_nat d))"
    and "hi = rnd (of_nat d + rnd (factor * of_nat d))"
  have "lo \<le> hi"
    using rnd delta unfolding lo_def hi_def f64_rounding_def by simp
  then have "0 \<le> rnd (random * rnd (rnd (hi - lo) + 1))"
    by (intro rnd_nonneg [OF rnd] mult_nonneg_nonneg r)
       (simp_all add: rnd_nonneg [OF rnd] add_nonneg_nonneg)
  then have "lo \<le> rnd (lo + rnd (random * rnd (rnd (hi - lo) + 1)))"
    by (intro rnd_ge [OF rnd]) (simp_all add: lo_def idem)
  then show "rnd (of_nat d - rnd (factor * of_nat d)) \<le> random_nanos rnd factor random d"
    by (simp add: random_nanos_def Let_def nanos lo_def hi_def)
  have zero: "random_nanos rnd 0 random d = rnd (of_nat d + rnd random)"
    using nat_exact [of d] d by (simp add: random_nanos_def Let_def nanos r0 r1)
  have "0 \<le> rnd random" "rnd random \<le> 1"
    using rnd_nonneg [OF rnd r(1)] rnd_le [OF rnd r1, of random] r(2) by simp_all
  then show "of_nat d \<le> random_nanos rnd 0 random d" "random_nanos rnd 0 random d \<le> of_nat (d + 1)"
    unfolding zero using d nat_exact [of d] nat_exact [of "d + 1"]
    by (simp_all add: rnd_ge [OF rnd] rnd_le [OF rnd, of "1 + of_nat d"])
qed

theorem random_nanos_bounds_witness:
  "(900000000 :: rat) \<le> random_nanos id (1 / 10) (1 / 2) 1000000000 \<and>
   random_nanos id 0 (1 / 2) 1000000000 \<le> 1000000001"
proof -
  have "f64_rounding id" by (simp add: f64_rounding_def)
  from random_nanos_bounds [OF this, of 1000000000 "1 / 2" "1 / 10"] show ?thesis by simp
qed

end
