(* ===== verification/Refresh_Config.thy ===== *)
theory Refresh_Config
  imports Dataset Backoff "HOL-Library.Word"
begin

text \<open>
  The refresh settings of an accelerated table (runtime/src/accelerated_table/refresh.rs and the
  retention settings of accelerated_table.rs), the check that the time column fits the time
  format, the delay before a scheduled refresh, and the conversion of a point in time into a
  filter on the time column (runtime/src/datafusion/filter_converter.rs). Payloads of Arrow's
  data types that the code does not read are left out; the text of a data type is a parameter.
\<close>

section \<open>Data types and schemas\<close>

datatype data_type =
    DT_Null | DT_Boolean
  | DT_Int8 | DT_Int16 | DT_Int32 | DT_Int64 | DT_UInt8 | DT_UInt16 | DT_UInt32 | DT_UInt64
  | DT_Float16 | DT_Float32 | DT_Float64
  | DT_Timestamp "string option"
  | DT_Date32 | DT_Date64 | DT_Time32 | DT_Time64 | DT_Duration | DT_Interval
  | DT_Binary | DT_FixedSizeBinary | DT_LargeBinary | DT_BinaryView
  | DT_Utf8 | DT_LargeUtf8 | DT_Utf8View
  | DT_List | DT_ListView | DT_FixedSizeList | DT_LargeList | DT_LargeListView
  | DT_Struct | DT_Union | DT_Dictionary | DT_Decimal128 | DT_Decimal256 | DT_Map | DT_RunEndEncoded

record field_def =
  fd_name :: string
  fd_type :: data_type

type_synonym schema = "field_def list"

definition column_with_name :: "schema \<Rightarrow> string \<Rightarrow> field_def option" where
  "column_with_name s n = find (\<lambda>f. fd_name f = n) s"

definition is_int :: "data_type \<Rightarrow> bool" where
  "is_int d \<longleftrightarrow> d \<in> {DT_Int8, DT_Int16, DT_Int32, DT_Int64, DT_UInt8, DT_UInt16, DT_UInt32, DT_UInt64}"

definition is_float :: "data_type \<Rightarrow> bool" where
  "is_float d \<longleftrightarrow> d \<in> {DT_Float16, DT_Float32, DT_Float64}"

section \<open>Settings\<close>

record refresh =
  rf_time_column :: "string option"
  rf_time_format :: "time_format option"
  rf_check_interval :: "duration option"
  rf_max_jitter :: "duration option"
  rf_sql :: "string option"
  rf_mode :: refresh_mode
  rf_period :: "duration option"
  rf_append_overlap :: "duration option"
  rf_retry_enabled :: bool
  rf_retry_max_attempts :: "nat option"

definition default_refresh :: refresh where
  "default_refresh = \<lparr>rf_time_column = None, rf_time_format = None, rf_check_interval = None,
     rf_max_jitter = None, rf_sql = None, rf_mode = Full, rf_period = None, rf_append_overlap = None,
     rf_retry_enabled = False, rf_retry_max_attempts = None\<rparr>"

definition refresh_new :: "refresh_mode \<Rightarrow> refresh" where
  "refresh_new m = default_refresh\<lparr>rf_mode := m\<rparr>"

definition with_time_column :: "string \<Rightarrow> refresh \<Rightarrow> refresh" where
  "with_time_column c r = r\<lparr>rf_time_column := Some c\<rparr>"

definition with_time_format :: "time_format \<Rightarrow> refresh \<Rightarrow> refresh" where
  "with_time_format f r = r\<lparr>rf_time_format := Some f\<rparr>"

definition with_check_interval :: "duration \<Rightarrow> refresh \<Rightarrow> refresh" where
  "with_check_interval d r = r\<lparr>rf_check_interval := Some d\<rparr>"

definition with_max_jitter :: "duration \<Rightarrow> refresh \<Rightarrow> refresh" where
  "with_max_jitter d r = r\<lparr>rf_max_jitter := Some d\<rparr>"

definition with_sql :: "string \<Rightarrow> refresh \<Rightarrow> refresh" where
  "with_sql q r = r\<lparr>rf_sql := Some q\<rparr>"

definition with_period :: "duration \<Rightarrow> refresh \<Rightarrow> refresh" where
  "with_period d r = r\<lparr>rf_period := Some d\<rparr>"

definition with_append_overlap :: "duration \<Rightarrow> refresh \<Rightarrow> refresh" where
  "with_append_overlap d r = r\<lparr>rf_append_overlap := Some d\<rparr>"

definition with_retry :: "bool \<Rightarrow> nat option \<Rightarrow> refresh \<Rightarrow> refresh" where
  "with_retry enabled attempts r = r\<lparr>rf_retry_enabled := enabled, rf_retry_max_attempts := attempts\<rparr>"

datatype refresh_error =
    TimeFormatMismatch string string string string
  | NoTimeColumnFound string string

definition format_mismatch :: "data_type \<Rightarrow> time_format \<Rightarrow> bool" where
  "format_mismatch d f = (case d of
      DT_Utf8 \<Rightarrow> f \<noteq> ISO8601
    | DT_LargeUtf8 \<Rightarrow> f \<noteq> ISO8601
    | DT_Timestamp None \<Rightarrow> f \<noteq> Timestamp
    | DT_Timestamp (Some _) \<Rightarrow> f \<noteq> Timestamptz
    | _ \<Rightarrow> if is_int d \<or> is_float d then f \<noteq> UnixSeconds \<and> f \<noteq> UnixMillis else True)"

definition validate_time_format ::
  "(data_type \<Rightarrow> string) \<Rightarrow> string \<Rightarrow> schema \<Rightarrow> refresh \<Rightarrow> (refresh_error, unit) result" where
  "validate_time_format show_type table s r = (case rf_time_column r of
      None \<Rightarrow> Inr ()
    | Some c \<Rightarrow> (case column_with_name s c of
        None \<Rightarrow> Inl (NoTimeColumnFound table c)
      | Some field \<Rightarrow>
          (let f = (case rf_time_format r of None \<Rightarrow> Timestamp | Some f \<Rightarrow> f)
           in if format_mismatch (fd_type field) f
              then Inl (TimeFormatMismatch table c (display_time_format f) (show_type (fd_type field)))
              else Inr ())))"

text \<open>\<open>gen_range(0..max)\<close> panics on an empty range (\<open>None\<close>); \<open>draw\<close> is the number drawn.\<close>

definition compute_delay :: "nat \<Rightarrow> duration \<Rightarrow> duration option \<Rightarrow> duration option" where
  "compute_delay draw period max_jitter = (case max_jitter of
      Some j \<Rightarrow> if j = 0 then None else Some (period + draw mod j)
    | None \<Rightarrow> Some period)"

text \<open>The retry strategy of a refresh: without retries the backoff gives up at once.\<close>

definition retry_strategy :: "refresh \<Rightarrow> fibonacci_backoff" where
  "retry_strategy r =
     build (with_max_retries (if rf_retry_enabled r then rf_retry_max_attempts r else Some 0) builder_new)"

record retention =
  rt_time_column :: string
  rt_time_format :: "time_format option"
  rt_period :: duration
  rt_check_interval :: duration

definition retention_new ::
  "string option \<Rightarrow> time_format option \<Rightarrow> duration option \<Rightarrow> duration option \<Rightarrow> bool \<Rightarrow> retention option" where
  "retention_new column format period interval enabled =
     (if \<not> enabled then None
      else case (column, period, interval) of
             (Some c, Some p, Some i) \<Rightarrow>
               Some \<lparr>rt_time_column = c, rt_time_format = format, rt_period = p, rt_check_interval = i\<rparr>
           | _ \<Rightarrow> None)"

section \<open>Filters on the time column\<close>

datatype expr_time_format = ExprISO8601 | ExprUnixTimestamp nat | ExprTimestamp | ExprTimestamptz "string option"

record timestamp_filter_convert =
  tfc_column :: string
  tfc_format :: expr_time_format

definition filter_create ::
  "field_def option \<Rightarrow> string option \<Rightarrow> time_format option \<Rightarrow> timestamp_filter_convert option" where
  "filter_create field column format =
     Option.bind field (\<lambda>f. Option.bind column (\<lambda>c.
       map_option (\<lambda>e. \<lparr>tfc_column = c, tfc_format = e\<rparr>)
        (let d = fd_type f in
         if is_int d \<or> is_float d
         then Some (ExprUnixTimestamp (if format = Some UnixMillis then 1000000 else 1000000000))
         else (case d of
             DT_Date32 \<Rightarrow> Some ExprTimestamp
           | DT_Date64 \<Rightarrow> Some ExprTimestamp
           | DT_Time32 \<Rightarrow> Some ExprTimestamp
           | DT_Time64 \<Rightarrow> Some ExprTimestamp
           | DT_Timestamp tz \<Rightarrow> Some (ExprTimestamptz tz)
           | DT_Utf8 \<Rightarrow> Some ExprISO8601
           | DT_LargeUtf8 \<Rightarrow> Some ExprISO8601
           | _ \<Rightarrow> None))))"

datatype compare_op = Gt | Lt

text \<open>The two shapes of filter: a bare comparison with a \<open>u64\<close>, and a comparison of the column cast
  to nanoseconds with an \<open>i64\<close> timestamp literal of a time zone.\<close>

datatype filter_expr =
    CompareUnix string compare_op "64 word"
  | CompareNanos string compare_op "64 word" "string option"

definition quoted :: "string \<Rightarrow> string" where
  "quoted c = ''\"'' @ c @ ''\"''"

definition filter_convert :: "timestamp_filter_convert \<Rightarrow> nat \<Rightarrow> compare_op \<Rightarrow> filter_expr" where
  "filter_convert c ts op = (case tfc_format c of
      ExprUnixTimestamp scale \<Rightarrow> CompareUnix (quoted (tfc_column c)) op (word_of_nat (ts div scale))
    | ExprTimestamp \<Rightarrow> CompareNanos (quoted (tfc_column c)) op (word_of_nat ts) None
    | ExprISO8601 \<Rightarrow> CompareNanos (quoted (tfc_column c)) op (word_of_nat ts) None
    | ExprTimestamptz tz \<Rightarrow> CompareNanos (quoted (tfc_column c)) op (word_of_nat ts) tz)"

text \<open>How the query engine compares a column value: the number itself for a bare comparison, its
  nanoseconds since the epoch for a cast one.\<close>

fun compare_holds :: "compare_op \<Rightarrow> int \<Rightarrow> int \<Rightarrow> bool" where
  "compare_holds Gt v l = (v > l)"
| "compare_holds Lt v l = (v < l)"

fun filter_holds :: "filter_expr \<Rightarrow> int \<Rightarrow> bool" where
  "filter_holds (CompareUnix _ op w) v = compare_holds op v (uint w)"
| "filter_holds (CompareNanos _ op w _) v = compare_holds op v (sint w)"

section \<open>Properties\<close>

lemma uint_word_of_nat_small: "n < 2 ^ 64 \<Longrightarrow> uint (word_of_nat n :: 64 word) = int n"
  by (simp add: uint_nat unat_of_nat)

lemma sint_word_of_nat_small: "n < 2 ^ 63 \<Longrightarrow> sint (word_of_nat n :: 64 word) = int n"
  by (simp add: signed_of_nat signed_take_bit_int_eq_self)

text \<open>What the filter of a converter compares a column value with.\<close>

fun filter_bound :: "expr_time_format \<Rightarrow> nat \<Rightarrow> int" where
  "filter_bound (ExprUnixTimestamp scale) ts = int (ts div scale)"
| "filter_bound _ ts = int ts"

text \<open>
  The filter made for a point in time before the year 2262 compares the column with that time
  exactly: in the unit of the column for a Unix timestamp, in nanoseconds otherwise; the
  narrowing casts of the literal lose nothing.
\<close>

lemma filter_convert_compares:
  assumes "ts < 2 ^ 63"
  shows "filter_holds (filter_convert c ts op) v \<longleftrightarrow> compare_holds op v (filter_bound (tfc_format c) ts)"
proof (cases "tfc_format c")
  case (ExprUnixTimestamp scale)
  have "ts div scale < 2 ^ 64"
    by (rule le_less_trans [OF div_le_dividend]) (use assms in simp)
  with ExprUnixTimestamp show ?thesis
    by (simp add: filter_convert_def uint_word_of_nat_small)
qed (use assms in \<open>simp_all add: filter_convert_def sint_word_of_nat_small\<close>)

text \<open>
  A time column that passes validation can be filtered: a converter exists for it, and for
  numeric columns the time format is given and is one of the two Unix formats, with the
  converter's scale the number of nanoseconds in its unit.
\<close>

theorem validated_time_column_filterable:
  assumes "validate_time_format show_type table s r = Inr ()" and "rf_time_column r = Some c"
  shows "\<exists>f conv. column_with_name s c = Some f \<and> filter_create (Some f) (Some c) (rf_time_format r) = Some conv \<and>
    (is_int (fd_type f) \<or> is_float (fd_type f) \<longrightarrow>
       rf_time_format r = Some UnixSeconds \<and> tfc_format conv = ExprUnixTimestamp 1000000000 \<or>
       rf_time_format r = Some UnixMillis \<and> tfc_format conv = ExprUnixTimestamp 1000000)"
proof -
  obtain f where f: "column_with_name s c = Some f"
    and ok: "\<not> format_mismatch (fd_type f) (case rf_time_format r of None \<Rightarrow> Timestamp | Some t \<Rightarrow> t)"
    using assms by (auto simp: validate_time_format_def Let_def split: option.splits if_splits)
  have "filter_create (Some f) (Some c) (rf_time_format r) \<noteq> None"
    using ok by (cases "fd_type f") (auto simp: filter_create_def format_mismatch_def Let_def is_int_def is_float_def)
  then obtain conv where conv: "filter_create (Some f) (Some c) (rf_time_format r) = Some conv" by blast
  have "is_int (fd_type f) \<or> is_float (fd_type f) \<Longrightarrow>
      rf_time_format r = Some UnixSeconds \<or> rf_time_format r = Some UnixMillis"
    using ok by (cases "rf_time_format r") (auto simp: format_mismatch_def is_int_def is_float_def)
  then show ?thesis
    using f conv by (auto simp: filter_create_def Let_def)
qed

theorem validated_time_column_filterable_witness:
  "\<exists>conv. filter_create (Some \<lparr>fd_name = ''at'', fd_type = DT_Int64\<rparr>) (Some ''at'') (Some UnixMillis) = Some conv \<and>
     tfc_format conv = ExprUnixTimestamp 1000000"
proof -
  let ?r = "with_time_format UnixMillis (with_time_column ''at'' (refresh_new Append))"
  have "validate_time_format (\<lambda>_. []) ''t'' [\<lparr>fd_name = ''at'', fd_type = DT_Int64\<rparr>] ?r = Inr ()"
    and "rf_time_column ?r = Some ''at''"
    by code_simp+
  from validated_time_column_filterable [OF this] show ?thesis
    by (auto simp: column_with_name_def with_time_format_def with_time_column_def refresh_new_def
        default_refresh_def is_int_def)
qed

text \<open>
  The delay before a scheduled refresh lies between the period and the period plus the
  jitter, excluded; with a configured jitter of zero the random draw panics, and with it the task
  that schedules the refreshes.
\<close>

theorem compute_delay_range:
  "(compute_delay draw period max_jitter = None \<longleftrightarrow> max_jitter = Some 0) \<and>
   (case compute_delay draw period max_jitter of
      None \<Rightarrow> True
    | Some d \<Rightarrow> period \<le> d \<and> (case max_jitter of None \<Rightarrow> d = period | Some j \<Rightarrow> d < period + j))"
  by (auto simp: compute_delay_def split: option.splits)

text \<open>
  Retries follow the settings: with retries disabled the strategy gives up before the first
  delay; enabled with a limit it gives up after that many delays; enabled without a limit it
  never does.
\<close>

theorem retry_strategy_follows_settings:
  "map (\<lambda>d. d = None) (backoff_run rnd draws (retry_strategy r)) =
     map (\<lambda>i. case (if rf_retry_enabled r then rf_retry_max_attempts r else Some 0) of
                None \<Rightarrow> False | Some m \<Rightarrow> m \<le> i) [0..<length draws]"
  by (rule nth_equalityI)
     (auto simp: backoff_run_nth next_backoff_None retry_strategy_def build_def
       with_max_retries_def default_backoff_def builder_new_def split: option.splits)

end
