(* ===== verification/Refresh_Task.thy ===== *)
theory Refresh_Task
  imports Refresh_Config
begin

text \<open>
  One refresh of an accelerated table (runtime/src/accelerated_table/refresh_task.rs): which rows
  are fetched from the source, how an incremental append finds where to continue and drops what
  it already has, and how the outcome is written and reported. Rows are lists of values in the
  order of the schema's columns. Parameters stand for the query engine and the sources: the
  federated table's content or the error it gives, the evaluation of a refresh SQL over it, the
  time column's value of a row as the engine compares it, and the accelerator's \<open>insert_into\<close>. A
  status that is reported twice in a row is recorded once.
\<close>

section \<open>Errors\<close>

datatype df_error = Retriable string | Fatal string

datatype accelerated_table_error =
    UnableToGetDataFromConnector df_error
  | FailedToRefreshDataset df_error
  | UnableToScanTableProvider df_error
  | FailedToQueryLatestTimestamp df_error
  | FailedToFindLatestTimestamp string
  | FailedToFilterUpdates string
  | FailedToWriteData df_error
  | UnableToCreateMemTableFromUpdate df_error
  | FailedToTriggerRefresh
  | ManualRefreshIsNotSupported
  | AcceleratedTableDoesntSupportDelete
  | ExpectedSchemaToHaveField string
  | ArrayDataTypeMismatch string string
  | PrimaryKeyTypeNotYetSupported string
  | InvalidTimeColumnTimeFormat refresh_error

text \<open>\<open>backoff::Error\<close>; an error converted by \<open>?\<close> is transient.\<close>

datatype 'e retry_error = Permanent 'e | Transient 'e

fun retry_from_df_error :: "df_error \<Rightarrow> accelerated_table_error retry_error" where
  "retry_from_df_error (Retriable m) = Transient (UnableToGetDataFromConnector (Retriable m))"
| "retry_from_df_error (Fatal m) = Permanent (FailedToRefreshDataset (Fatal m))"

fun inner_err_from_retry :: "'e retry_error \<Rightarrow> 'e" where
  "inner_err_from_retry (Permanent e) = e"
| "inner_err_from_retry (Transient e) = e"

section \<open>Dropping rows that are already there\<close>

type_synonym 'v row = "'v list"

record 'v batch =
  b_columns :: "string list"
  b_rows :: "'v row list"

fun index_of :: "string list \<Rightarrow> string \<Rightarrow> nat option" where
  "index_of [] n = None"
| "index_of (c # cs) n = (if c = n then Some 0 else map_option Suc (index_of cs n))"

text \<open>The struct array over the filter schema's fields: the rows restricted to these columns.\<close>

definition struct_rows :: "string list \<Rightarrow> 'v batch \<Rightarrow> (accelerated_table_error, 'v row list) result" where
  "struct_rows flds b =
     and_then (try_collect (\<lambda>f. case index_of (b_columns b) f of
                  Some i \<Rightarrow> Inr i | None \<Rightarrow> Inl (FailedToFilterUpdates f)) flds) (\<lambda>is.
     Inr (map (\<lambda>r. map (\<lambda>i. r ! i) is) (b_rows b)))"

definition filter_records ::
  "'v batch \<Rightarrow> 'v batch list \<Rightarrow> string list \<Rightarrow> (accelerated_table_error, 'v batch) result" where
  "filter_records update existing flds =
     and_then (struct_rows flds update) (\<lambda>u.
     and_then (try_collect (struct_rows flds) existing) (\<lambda>es.
     let not_matched = map (\<lambda>k. \<not> list_ex (\<lambda>e. list_ex (\<lambda>k'. k = k') e) es) u
     in Inr (update\<lparr>b_rows := map fst (filter snd (zip (b_rows update) not_matched))\<rparr>)))"

section \<open>The task\<close>

datatype component_status = Initializing | Ready | StatusDisabled | StatusError | Refreshing

datatype update_type = AppendUpdate | OverwriteUpdate | ChangesUpdate

datatype insert_error = PlanError df_error | ExecError df_error

record 'v refresh_task =
  tk_dataset_name :: string
  tk_source_schema :: schema
  tk_accelerator_schema :: schema
  tk_filter_fields :: "string list"
  tk_refresh :: refresh

record 'v query_engine =
  en_time_of :: "'v row \<Rightarrow> int"
  en_run_sql :: "string \<Rightarrow> 'v row list \<Rightarrow> (df_error, 'v row list) result"
  en_insert_into :: "bool \<Rightarrow> 'v row list \<Rightarrow> 'v row list \<Rightarrow> (insert_error, 'v row list) result"
  en_show_type :: "data_type \<Rightarrow> string"

record 'v task_state =
  st_federated :: "(df_error, 'v row list) result"
  st_accelerated :: "'v row list"
  st_statuses :: "component_status list"
  st_refresh_errors :: nat

definition mark_dataset_status :: "component_status \<Rightarrow> 'v task_state \<Rightarrow> 'v task_state" where
  "mark_dataset_status c st = st\<lparr>st_statuses := st_statuses st @ [c],
     st_refresh_errors := st_refresh_errors st + (if c = StatusError then 1 else 0)\<rparr>"

definition get_filter_converter :: "'v refresh_task \<Rightarrow> timestamp_filter_convert option" where
  "get_filter_converter t =
     (let column = (case rf_time_column (tk_refresh t) of None \<Rightarrow> [] | Some c \<Rightarrow> c)
      in filter_create (column_with_name (tk_source_schema t) column) (rf_time_column (tk_refresh t))
           (rf_time_format (tk_refresh t)))"

definition apply_filters :: "'v query_engine \<Rightarrow> filter_expr list \<Rightarrow> 'v row list \<Rightarrow> 'v row list" where
  "apply_filters en fs rows = fold (\<lambda>f. filter (\<lambda>r. filter_holds f (en_time_of en r))) fs rows"

text \<open>\<open>dataconnector::get_data\<close>: the source's rows, or the refresh SQL over them, filtered.\<close>

definition get_data ::
  "'v query_engine \<Rightarrow> 'v task_state \<Rightarrow> string option \<Rightarrow> filter_expr list \<Rightarrow> (df_error, 'v row list) result" where
  "get_data en st sql filters =
     and_then (case sql of
                 None \<Rightarrow> st_federated st
               | Some q \<Rightarrow> and_then (st_federated st) (en_run_sql en q)) (\<lambda>rows.
     Inr (apply_filters en filters rows))"

text \<open>\<open>None\<close> is the \<open>unreachable!\<close> of the modes that never get here.\<close>

definition update_type_of :: "refresh_mode \<Rightarrow> update_type option" where
  "update_type_of m = (case m of
      Full \<Rightarrow> Some OverwriteUpdate | Append \<Rightarrow> Some AppendUpdate | Disabled \<Rightarrow> None | Changes \<Rightarrow> None)"

definition get_data_update ::
  "'v query_engine \<Rightarrow> 'v refresh_task \<Rightarrow> 'v task_state \<Rightarrow> filter_expr list \<Rightarrow>
   (accelerated_table_error retry_error, 'v row list) result" where
  "get_data_update en t st filters =
     map_err retry_from_df_error (get_data en st (rf_sql (tk_refresh t)) filters)"

definition get_full_or_incremental_append_update ::
  "'v query_engine \<Rightarrow> nat \<Rightarrow> 'v refresh_task \<Rightarrow> nat option \<Rightarrow> 'v task_state \<Rightarrow>
   (accelerated_table_error retry_error, 'v row list) result" where
  "get_full_or_incremental_append_update en now t overwrite_timestamp st =
     (let filters = (case get_filter_converter t of
           None \<Rightarrow> []
         | Some converter \<Rightarrow> (case overwrite_timestamp of
             Some ts \<Rightarrow> [filter_convert converter ts Gt]
           | None \<Rightarrow> (case rf_period (tk_refresh t) of
               Some period \<Rightarrow> [filter_convert converter (now - period) Gt]
             | None \<Rightarrow> [])))
      in get_data_update en t st filters)"

text \<open>
  \<open>accelerator_df\<close>: the session has the dataset's name registered to the federated table, so a
  refresh SQL reads the source.
\<close>

definition accelerator_df :: "'v query_engine \<Rightarrow> 'v refresh_task \<Rightarrow> 'v task_state \<Rightarrow> (df_error, 'v row list) result" where
  "accelerator_df en t st = (case rf_sql (tk_refresh t) of
      Some q \<Rightarrow> and_then (st_federated st) (en_run_sql en q)
    | None \<Rightarrow> Inr (st_accelerated st))"

definition latest_time :: "'v query_engine \<Rightarrow> 'v row list \<Rightarrow> int option" where
  "latest_time en rows = (if rows = [] then None else Some (Max (en_time_of en ` set rows)))"

text \<open>\<open>u128\<close> arithmetic on the latest timestamp; the outer \<open>None\<close> is the \<open>unreachable!\<close>.\<close>

definition scale_timestamp :: "data_type \<Rightarrow> time_format option \<Rightarrow> int \<Rightarrow> nat option" where
  "scale_timestamp d f v =
     (let value = nat (v mod 2 ^ 128)
      in if is_int d
         then (case f of
                 Some UnixMillis \<Rightarrow> Some (value * 1000000 mod 2 ^ 128)
               | Some UnixSeconds \<Rightarrow> Some (value * 1000000000 mod 2 ^ 128)
               | _ \<Rightarrow> None)
         else Some value)"

definition timestamp_nanos_for_append_query ::
  "'v query_engine \<Rightarrow> 'v refresh_task \<Rightarrow> 'v task_state \<Rightarrow> (accelerated_table_error, nat option) result option" where
  "timestamp_nanos_for_append_query en t st =
     (let r = tk_refresh t
      in case validate_time_format (en_show_type en) (tk_dataset_name t) (tk_accelerator_schema t) r of
           Inl e \<Rightarrow> Some (Inl (InvalidTimeColumnTimeFormat e))
         | Inr _ \<Rightarrow> (case rf_time_column r of
             None \<Rightarrow> Some (Inl (FailedToFindLatestTimestamp
               ''Failed to get latest timestamp due to time column not specified''))
           | Some column \<Rightarrow> (case accelerator_df en t st of
               Inl e \<Rightarrow> Some (Inl (FailedToQueryLatestTimestamp e))
             | Inr rows \<Rightarrow> (case latest_time en rows of
                 None \<Rightarrow> Some (Inr None)
               | Some v \<Rightarrow> (case column_with_name (tk_accelerator_schema t) column of
                   None \<Rightarrow> Some (Inl (FailedToFindLatestTimestamp
                     ''Failed to get latest timestamp due to time column not specified''))
                 | Some field \<Rightarrow> (case scale_timestamp (fd_type field) (rf_time_format r) v of
                     None \<Rightarrow> None
                   | Some value \<Rightarrow>
                       (let overlap = (case rf_append_overlap r of None \<Rightarrow> 0 | Some d \<Rightarrow> d)
                        in Some (Inr (Some (if overlap > value then 0 else value - overlap))))))))))"

definition except_existing_records_from ::
  "'v query_engine \<Rightarrow> 'v refresh_task \<Rightarrow> 'v task_state \<Rightarrow> 'v row list \<Rightarrow>
   (accelerated_table_error retry_error, 'v row list) result option" where
  "except_existing_records_from en t st update =
     (case timestamp_nanos_for_append_query en t st of
        None \<Rightarrow> None
      | Some (Inl e) \<Rightarrow> Some (Inl (Transient e))
      | Some (Inr None) \<Rightarrow> Some (Inr update)
      | Some (Inr (Some value)) \<Rightarrow> (case get_filter_converter t of
          None \<Rightarrow> Some (Inr update)
        | Some converter \<Rightarrow> Some (
            and_then (map_err (\<lambda>e. Transient (UnableToScanTableProvider e)) (accelerator_df en t st)) (\<lambda>rows.
            let columns = map fd_name (tk_source_schema t);
                existing = \<lparr>b_columns = columns,
                  b_rows = apply_filters en [filter_convert converter value Gt] rows\<rparr>
            in map_err Transient
                 (and_then (filter_records \<lparr>b_columns = columns, b_rows = update\<rparr> [existing] (tk_filter_fields t))
                   (\<lambda>b. Inr (b_rows b)))))))"

definition get_incremental_append_update ::
  "'v query_engine \<Rightarrow> nat \<Rightarrow> 'v refresh_task \<Rightarrow> 'v task_state \<Rightarrow>
   (accelerated_table_error retry_error, 'v row list) result option" where
  "get_incremental_append_update en now t st =
     (case timestamp_nanos_for_append_query en t st of
        None \<Rightarrow> None
      | Some (Inl e) \<Rightarrow> Some (Inl (Permanent e))
      | Some (Inr timestamp) \<Rightarrow>
          (case get_full_or_incremental_append_update en now t timestamp st of
             Inl e \<Rightarrow> Some (Inl e)
           | Inr rows \<Rightarrow> except_existing_records_from en t st rows))"

text \<open>\<open>write_streaming_data_update\<close>: plan the insertion, run it, report the status.\<close>

definition write_streaming_data_update ::
  "'v query_engine \<Rightarrow> update_type \<Rightarrow> 'v row list \<Rightarrow> 'v task_state \<Rightarrow>
   (accelerated_table_error retry_error, unit) result \<times> 'v task_state" where
  "write_streaming_data_update en ty rows st =
     (case en_insert_into en (ty = OverwriteUpdate) rows (st_accelerated st) of
        Inl (PlanError m) \<Rightarrow> (Inl (Permanent (FailedToWriteData m)), mark_dataset_status StatusError st)
      | Inl (ExecError e) \<Rightarrow> (Inl (retry_from_df_error e), mark_dataset_status StatusError st)
      | Inr acc \<Rightarrow> (Inr (), mark_dataset_status Ready (st\<lparr>st_accelerated := acc\<rparr>)))"

text \<open>\<open>run_once\<close>; \<open>None\<close> is a panic on one of the \<open>unreachable!\<close> branches.\<close>

definition run_once ::
  "'v query_engine \<Rightarrow> nat \<Rightarrow> 'v refresh_task \<Rightarrow> 'v task_state \<Rightarrow>
   ((accelerated_table_error retry_error, unit) result \<times> 'v task_state) option" where
  "run_once en now t st =
     (let st1 = mark_dataset_status Refreshing st
      in case update_type_of (rf_mode (tk_refresh t)) of
           None \<Rightarrow> None
         | Some ty \<Rightarrow>
             (case (if ty = OverwriteUpdate
                    then Some (get_full_or_incremental_append_update en now t None st1)
                    else get_incremental_append_update en now t st1) of
                None \<Rightarrow> None
              | Some (Inl e) \<Rightarrow> Some (Inl e, mark_dataset_status StatusError st1)
              | Some (Inr rows) \<Rightarrow> Some (write_streaming_data_update en ty rows st1)))"

section \<open>Rows that are already there\<close>

definition row_key :: "string list \<Rightarrow> string list \<Rightarrow> 'v row \<Rightarrow> 'v row" where
  "row_key cols flds r = map (\<lambda>f. r ! the (index_of cols f)) flds"

lemma index_of_None: "index_of cols f = None \<longleftrightarrow> f \<notin> set cols"
  by (induction cols) auto

lemma try_collect_map: "(\<And>x. x \<in> set xs \<Longrightarrow> f x = Inr (g x)) \<Longrightarrow> try_collect f xs = Inr (map g xs)"
  by (induction xs) auto

lemma struct_rows_ok:
  assumes "set flds \<subseteq> set (b_columns b)"
  shows "struct_rows flds b = Inr (map (row_key (b_columns b) flds) (b_rows b))"
proof -
  have "try_collect (\<lambda>f. case index_of (b_columns b) f of Some i \<Rightarrow> Inr i | None \<Rightarrow> Inl (FailedToFilterUpdates f)) flds =
      Inr (map (\<lambda>f. the (index_of (b_columns b) f)) flds)"
    using assms index_of_None by (intro try_collect_map) (fastforce split: option.splits)
  then show ?thesis by (simp add: struct_rows_def row_key_def comp_def)
qed

lemma filter_zip_map: "map fst (filter snd (zip xs (map p xs))) = filter p xs"
  by (induction xs) auto

lemma filter_records_ok:
  assumes "set flds \<subseteq> set (b_columns update)" and "\<forall>e\<in>set existing. set flds \<subseteq> set (b_columns e)"
  shows "filter_records update existing flds = Inr (update\<lparr>b_rows := filter (\<lambda>r.
      \<not> (\<exists>e\<in>set existing. row_key (b_columns update) flds r \<in> row_key (b_columns e) flds ` set (b_rows e))) (b_rows update)\<rparr>)"
proof -
  have es: "try_collect (struct_rows flds) existing = Inr (map (\<lambda>e. map (row_key (b_columns e) flds) (b_rows e)) existing)"
    using assms(2) struct_rows_ok by (intro try_collect_map) blast
  have "map (\<lambda>k. \<not> list_ex (\<lambda>e. list_ex (\<lambda>k'. k = k') e) (map (\<lambda>e. map (row_key (b_columns e) flds) (b_rows e)) existing))
          (map (row_key (b_columns update) flds) (b_rows update)) =
      map (\<lambda>r. \<not> (\<exists>e\<in>set existing. row_key (b_columns update) flds r \<in> row_key (b_columns e) flds ` set (b_rows e))) (b_rows update)"
    by (auto simp: list_ex_iff)
  then show ?thesis
    unfolding filter_records_def es struct_rows_ok [OF assms(1)] and_then.simps Let_def by (simp only: filter_zip_map)
qed

section \<open>Where an append continues\<close>

definition time_unit :: "data_type \<Rightarrow> time_format option \<Rightarrow> nat" where
  "time_unit d f = (if is_int d then (if f = Some UnixMillis then 1000000 else 1000000000) else 1)"

lemma scale_timestamp_ok:
  assumes "\<not> format_mismatch d (case f of None \<Rightarrow> Timestamp | Some t \<Rightarrow> t)"
    and "0 \<le> v" and "v * int (time_unit d f) < 2 ^ 63"
  shows "scale_timestamp d f v = Some (nat v * time_unit d f)"
proof -
  have unix: "is_int d \<Longrightarrow> f = Some UnixSeconds \<or> f = Some UnixMillis"
    using assms(1) by (cases f) (auto simp: format_mismatch_def is_int_def)
  have "v * 1 \<le> v * int (time_unit d f)"
    using assms(2) by (intro mult_left_mono) (auto simp: time_unit_def)
  then have v: "v mod 2 ^ 128 = v" using assms(2,3) by simp
  have "int (nat v * time_unit d f) < 2 ^ 63" using assms(2,3) by simp
  then have "nat v * time_unit d f < 2 ^ 63" by (simp only: of_nat_less_numeral_power_cancel_iff)
  then have m: "nat v * time_unit d f mod 2 ^ 128 = nat v * time_unit d f" by (intro mod_less) simp
  show ?thesis
    using unix v m by (auto simp: scale_timestamp_def time_unit_def Let_def)
qed

lemma scale_timestamp_no_panic:
  "\<not> format_mismatch d (case f of None \<Rightarrow> Timestamp | Some t \<Rightarrow> t) \<Longrightarrow> scale_timestamp d f v \<noteq> None"
  by (cases f) (auto simp: scale_timestamp_def format_mismatch_def is_int_def Let_def split: time_format.splits)

lemma validated_column:
  "validate_time_format sh tbl s r = Inr () \<Longrightarrow> rf_time_column r = Some c \<Longrightarrow>
   \<exists>f. column_with_name s c = Some f \<and> \<not> format_mismatch (fd_type f) (case rf_time_format r of None \<Rightarrow> Timestamp | Some t \<Rightarrow> t)"
  by (auto simp: validate_time_format_def Let_def split: option.splits if_splits)

lemma timestamp_query_no_panic: "timestamp_nanos_for_append_query en t st \<noteq> None"
proof (cases "validate_time_format (en_show_type en) (tk_dataset_name t) (tk_accelerator_schema t) (tk_refresh t)")
  case (Inr u)
  show ?thesis
  proof (cases "rf_time_column (tk_refresh t)")
    case (Some c)
    with validated_column [of _ _ _ "tk_refresh t"] Inr obtain f where
      "column_with_name (tk_accelerator_schema t) c = Some f" and
      fits: "\<not> format_mismatch (fd_type f) (case rf_time_format (tk_refresh t) of None \<Rightarrow> Timestamp | Some t \<Rightarrow> t)"
      by fastforce
    moreover define g where "g v = the (scale_timestamp (fd_type f) (rf_time_format (tk_refresh t)) v)" for v
    have "scale_timestamp (fd_type f) (rf_time_format (tk_refresh t)) v = Some (g v)" for v
      using scale_timestamp_no_panic [OF fits, of v] by (auto simp: g_def)
    ultimately show ?thesis
      using Some Inr by (auto simp: timestamp_nanos_for_append_query_def Let_def split: option.splits sum.splits)
  qed (use Inr in \<open>simp add: timestamp_nanos_for_append_query_def Let_def\<close>)
qed (simp add: timestamp_nanos_for_append_query_def Let_def)

lemma write_status:
  assumes "write_streaming_data_update en ty rows st = (res, st')"
  shows "last (st_statuses st') = (if is_ok res then Ready else StatusError) \<and>
    st_refresh_errors st' = st_refresh_errors st + (if is_ok res then 0 else 1) \<and>
    (\<not> is_ok res \<longrightarrow> st_accelerated st' = st_accelerated st)"
  using assms by (auto simp: write_streaming_data_update_def mark_dataset_status_def
      split: sum.splits insert_error.splits)

text \<open>
  A refresh never runs into one of its unreachable branches in the modes it is used for: in
  full and in append mode there is a result, whatever the schema, the settings and the data; its
  last reported status is Ready exactly when it succeeded and Error otherwise, and a failed one
  leaves the accelerated data as it was.
\<close>

theorem run_once_status:
  assumes "rf_mode (tk_refresh t) \<in> {Full, Append}"
  shows "\<exists>res st'. run_once en now t st = Some (res, st') \<and>
    last (st_statuses st') = (if is_ok res then Ready else StatusError) \<and>
    st_refresh_errors st' = st_refresh_errors st + (if is_ok res then 0 else 1) \<and>
    (\<not> is_ok res \<longrightarrow> st_accelerated st' = st_accelerated st)"
proof -
  let ?st = "mark_dataset_status Refreshing st"
  have q: "timestamp_nanos_for_append_query en t ?st \<noteq> None" by (rule timestamp_query_no_panic)
  have "except_existing_records_from en t ?st rows \<noteq> None" for rows
    using q by (auto simp: except_existing_records_from_def split: option.splits sum.splits)
  then have inc: "get_incremental_append_update en now t ?st \<noteq> None"
    using q by (auto simp: get_incremental_append_update_def split: option.splits sum.splits)
  obtain ty where ty: "update_type_of (rf_mode (tk_refresh t)) = Some ty"
    using assms by (auto simp: update_type_of_def)
  let ?get = "if ty = OverwriteUpdate then Some (get_full_or_incremental_append_update en now t None ?st)
      else get_incremental_append_update en now t ?st"
  obtain g where g: "?get = Some g" using inc by (cases "ty = OverwriteUpdate") auto
  have run: "run_once en now t st = Some (case g of
      Inl e \<Rightarrow> (Inl e, mark_dataset_status StatusError ?st)
    | Inr rows \<Rightarrow> write_streaming_data_update en ty rows ?st)"
    unfolding run_once_def Let_def ty option.case g by (cases g) simp_all
  show ?thesis
  proof (cases g)
    case (Inl e)
    then show ?thesis unfolding run by (simp add: mark_dataset_status_def)
  next
    case (Inr rows)
    obtain res st' where w: "write_streaming_data_update en ty rows ?st = (res, st')" by fastforce
    with write_status [OF w] Inr show ?thesis unfolding run by (simp add: mark_dataset_status_def)
  qed
qed

section \<open>Incremental appends\<close>

text \<open>The lower bound of an append, in the unit of the filter: the latest accelerated time less
  the overlap.\<close>

definition append_bound :: "refresh \<Rightarrow> data_type \<Rightarrow> timestamp_filter_convert \<Rightarrow> int \<Rightarrow> int" where
  "append_bound r d conv v = filter_bound (tfc_format conv)
     (nat v * time_unit d (rf_time_format r) - (case rf_append_overlap r of None \<Rightarrow> 0 | Some o' \<Rightarrow> o'))"

lemma apply_filters_convert:
  assumes "ts < 2 ^ 63"
  shows "apply_filters en [filter_convert conv ts Gt] rows =
    filter (\<lambda>r. en_time_of en r > filter_bound (tfc_format conv) ts) rows"
  by (simp add: apply_filters_def filter_convert_compares [OF assms])

text \<open>The situation of an append without refresh SQL: a validated time column on a table that is
  stored as the source has it, and an accelerator that appends.\<close>

definition append_ready :: "'v query_engine \<Rightarrow> 'v refresh_task \<Rightarrow> field_def \<Rightarrow> timestamp_filter_convert \<Rightarrow> bool" where
  "append_ready en t f conv \<longleftrightarrow>
     rf_mode (tk_refresh t) = Append \<and> rf_sql (tk_refresh t) = None \<and>
     validate_time_format (en_show_type en) (tk_dataset_name t) (tk_accelerator_schema t) (tk_refresh t) = Inr () \<and>
     tk_source_schema t = tk_accelerator_schema t \<and>
     Option.bind (rf_time_column (tk_refresh t)) (column_with_name (tk_accelerator_schema t)) = Some f \<and>
     get_filter_converter t = Some conv \<and>
     set (tk_filter_fields t) \<subseteq> fd_name ` set (tk_source_schema t) \<and>
     (\<forall>rows acc. en_insert_into en False rows acc = Inr (acc @ rows))"

lemma append_ready_timestamp:
  assumes "append_ready en t f conv" and "st_accelerated st \<noteq> []"
    and "v = Max (en_time_of en ` set (st_accelerated st))" and "0 \<le> v"
    and "v * int (time_unit (fd_type f) (rf_time_format (tk_refresh t))) < 2 ^ 63"
  shows "timestamp_nanos_for_append_query en t st =
    Some (Inr (Some (nat v * time_unit (fd_type f) (rf_time_format (tk_refresh t)) -
       (case rf_append_overlap (tk_refresh t) of None \<Rightarrow> 0 | Some o' \<Rightarrow> o'))))"
proof -
  obtain c where c: "rf_time_column (tk_refresh t) = Some c" "column_with_name (tk_accelerator_schema t) c = Some f"
    using assms(1) by (auto simp: append_ready_def bind_eq_Some_conv)
  have ok: "validate_time_format (en_show_type en) (tk_dataset_name t) (tk_accelerator_schema t) (tk_refresh t) = Inr ()"
    using assms(1) by (simp add: append_ready_def)
  with validated_column [OF ok c(1)] c have
    "\<not> format_mismatch (fd_type f) (case rf_time_format (tk_refresh t) of None \<Rightarrow> Timestamp | Some t \<Rightarrow> t)"
    by auto
  from scale_timestamp_ok [OF this assms(4,5)] ok c assms(1-3) show ?thesis
    by (auto simp: timestamp_nanos_for_append_query_def accelerator_df_def append_ready_def latest_time_def Let_def)
qed

lemma append_bound_le:
  assumes "append_ready en t f conv" and "0 \<le> v"
  shows "append_bound (tk_refresh t) (fd_type f) conv v \<le> v"
proof -
  let ?u = "time_unit (fd_type f) (rf_time_format (tk_refresh t))"
  let ?ov = "case rf_append_overlap (tk_refresh t) of None \<Rightarrow> 0 | Some o' \<Rightarrow> o'"
  obtain c where c: "rf_time_column (tk_refresh t) = Some c" "column_with_name (tk_accelerator_schema t) c = Some f"
    using assms(1) by (auto simp: append_ready_def bind_eq_Some_conv)
  then have conv: "filter_create (Some f) (Some c) (rf_time_format (tk_refresh t)) = Some conv"
    using assms(1) by (auto simp: append_ready_def get_filter_converter_def)
  show ?thesis
  proof (cases "is_int (fd_type f)")
    case True
    then have fmt: "tfc_format conv = ExprUnixTimestamp ?u"
      using conv by (auto simp: filter_create_def Let_def time_unit_def)
    have "(nat v * ?u - ?ov) div ?u \<le> nat v * ?u div ?u" by (intro div_le_mono) simp
    also have "\<dots> = nat v" by (simp add: time_unit_def)
    finally show ?thesis using assms(2) by (simp add: append_bound_def fmt)
  next
    case False
    then have "?u = 1" by (simp add: time_unit_def)
    moreover have "(nat v - ?ov) div s \<le> nat v" for s
      by (rule le_trans [OF div_le_dividend diff_le_self])
    ultimately show ?thesis
      using assms(2) by (cases "tfc_format conv") (auto simp: append_bound_def le_nat_iff [symmetric])
  qed
qed

definition source_key :: "'v refresh_task \<Rightarrow> 'v row \<Rightarrow> 'v row" where
  "source_key t = row_key (map fd_name (tk_source_schema t)) (tk_filter_fields t)"

lemma append_rows:
  assumes ready: "append_ready en t f conv" and src: "st_federated st = Inr src"
    and ts: "timestamp_nanos_for_append_query en t st = Some (Inr (Some ts))" and small: "ts < 2 ^ 63"
  defines "b \<equiv> filter_bound (tfc_format conv) ts"
  shows "get_incremental_append_update en now t st = Some (Inr (filter (\<lambda>r. en_time_of en r > b \<and>
     source_key t r \<notin> source_key t ` {a \<in> set (st_accelerated st). en_time_of en a > b}) src))"
proof -
  note flt = apply_filters_convert [OF small, of en conv, folded b_def]
  have conv: "get_filter_converter t = Some conv" and sql: "rf_sql (tk_refresh t) = None"
    and flds: "set (tk_filter_fields t) \<subseteq> set (map fd_name (tk_source_schema t))"
    using ready by (auto simp: append_ready_def)
  let ?cols = "map fd_name (tk_source_schema t)"
  have "get_full_or_incremental_append_update en now t (Some ts) st =
      Inr (filter (\<lambda>r. en_time_of en r > b) src)"
    by (simp add: get_full_or_incremental_append_update_def conv get_data_update_def get_data_def sql src flt)
  moreover have fr: "filter_records \<lparr>b_columns = ?cols, b_rows = rows\<rparr> [\<lparr>b_columns = ?cols, b_rows = ex\<rparr>] (tk_filter_fields t) =
      Inr \<lparr>b_columns = ?cols, b_rows = filter (\<lambda>r. source_key t r \<notin> source_key t ` set ex) rows\<rparr>" for rows ex
    using flds by (subst filter_records_ok) (simp_all add: source_key_def)
  have "except_existing_records_from en t st rows =
      Some (Inr (filter (\<lambda>r. source_key t r \<notin> source_key t ` {a \<in> set (st_accelerated st). en_time_of en a > b}) rows))" for rows
    by (simp add: except_existing_records_from_def ts conv accelerator_df_def sql flt Let_def fr)
  ultimately show ?thesis
    by (simp add: get_incremental_append_update_def ts conj_commute)
qed


text \<open>
  (C26) With a refresh SQL an append stores nothing at all: both the latest time and the rows that
  count as already present are read through the SQL from the source itself, so every fetched row
  is dropped, on the first load of an empty table as on any later refresh.
\<close>

theorem append_with_refresh_sql_stores_nothing:
  assumes "rf_mode (tk_refresh t) = Append" and "rf_sql (tk_refresh t) = Some q"
    and "st_federated st = Inr src" and "en_run_sql en q src = Inr rows"
    and "get_filter_converter t = Some conv"
    and "set (tk_filter_fields t) \<subseteq> fd_name ` set (tk_source_schema t)"
    and "\<forall>new acc. en_insert_into en False new acc = Inr (acc @ new)"
    and "validate_time_format (en_show_type en) (tk_dataset_name t) (tk_accelerator_schema t) (tk_refresh t) = Inr ()"
    and "rf_time_column (tk_refresh t) = Some c"
  shows "\<exists>st'. run_once en now t st = Some (Inr (), st') \<and> st_accelerated st' = st_accelerated st"
proof -
  let ?st = "mark_dataset_status Refreshing st"
  let ?cols = "map fd_name (tk_source_schema t)"
  have src: "st_federated ?st = Inr src" "st_accelerated ?st = st_accelerated st"
    using assms(3) by (simp_all add: mark_dataset_status_def)
  have df: "accelerator_df en t ?st = Inr rows" and get: "get_data en ?st (rf_sql (tk_refresh t)) fs = Inr (apply_filters en fs rows)" for fs
    using assms(2,4) src by (simp_all add: accelerator_df_def get_data_def)
  have dropped: "filter_records \<lparr>b_columns = ?cols, b_rows = ex\<rparr> [\<lparr>b_columns = ?cols, b_rows = ex\<rparr>] (tk_filter_fields t) =
      Inr \<lparr>b_columns = ?cols, b_rows = []\<rparr>" for ex :: "'a row list"
    using assms(6) by (subst filter_records_ok) auto
  obtain res where q: "timestamp_nanos_for_append_query en t ?st = Some res"
    using timestamp_query_no_panic by blast
  have inc: "get_incremental_append_update en now t ?st = Some (Inr [])" if "is_ok res"
  proof -
    from that obtain ts where r: "res = Inr ts" by (auto simp: is_ok_iff)
    show ?thesis
    proof (cases ts)
      case None
      have "rows = []"
        using q r None df
        by (auto simp: timestamp_nanos_for_append_query_def latest_time_def Let_def split: sum.splits option.splits if_splits)
      with q r None show ?thesis
        by (simp add: get_incremental_append_update_def get_full_or_incremental_append_update_def assms(5)
            get_data_update_def get except_existing_records_from_def apply_filters_def split: option.splits)
    next
      case (Some n)
      with q r show ?thesis
        by (simp add: get_incremental_append_update_def get_full_or_incremental_append_update_def assms(5)
            get_data_update_def get except_existing_records_from_def df dropped Let_def)
    qed
  qed
  have "is_ok res"
    using validated_column [OF assms(8,9)] assms(8,9) q df
    by (auto simp: timestamp_nanos_for_append_query_def Let_def split: option.splits)
  with inc assms(1,7) src show ?thesis
    by (auto simp: run_once_def update_type_of_def write_streaming_data_update_def mark_dataset_status_def Let_def)
qed

section \<open>Examples\<close>

definition demo_schema :: "data_type \<Rightarrow> schema" where
  "demo_schema d = [\<lparr>fd_name = ''at'', fd_type = d\<rparr>, \<lparr>fd_name = ''x'', fd_type = DT_Int64\<rparr>]"

definition demo_task :: "data_type \<Rightarrow> time_format \<Rightarrow> string option \<Rightarrow> int refresh_task" where
  "demo_task d f sql = \<lparr>tk_dataset_name = ''t'', tk_source_schema = demo_schema d,
     tk_accelerator_schema = demo_schema d, tk_filter_fields = [''at'', ''x''],
     tk_refresh = default_refresh\<lparr>rf_mode := Append, rf_time_column := Some ''at'', rf_time_format := Some f,
       rf_append_overlap := Some (from_secs 5), rf_sql := sql\<rparr>\<rparr>"

definition demo_engine :: "int query_engine" where
  "demo_engine = \<lparr>en_time_of = (\<lambda>r. r ! 0), en_run_sql = (\<lambda>_. Inr),
     en_insert_into = (\<lambda>overwrite rows acc. Inr (if overwrite then rows else acc @ rows)), en_show_type = (\<lambda>_. [])\<rparr>"

definition demo_state :: "int row list \<Rightarrow> int row list \<Rightarrow> int task_state" where
  "demo_state src acc = \<lparr>st_federated = Inr src, st_accelerated = acc, st_statuses = [], st_refresh_errors = 0\<rparr>"

definition demo_conv :: timestamp_filter_convert where
  "demo_conv = \<lparr>tfc_column = ''at'', tfc_format = ExprUnixTimestamp 1000000000\<rparr>"

lemma demo_task_simps:
  "tk_refresh (demo_task d f sql) = default_refresh\<lparr>rf_mode := Append, rf_time_column := Some ''at'',
     rf_time_format := Some f, rf_append_overlap := Some 5000000000, rf_sql := sql\<rparr>"
  "tk_source_schema (demo_task d f sql) = demo_schema d" "tk_accelerator_schema (demo_task d f sql) = demo_schema d"
  "tk_filter_fields (demo_task d f sql) = [''at'', ''x'']"
  by (simp_all add: demo_task_def from_secs_def)

lemma demo_converter: "get_filter_converter (demo_task DT_Int64 UnixSeconds sql) = Some demo_conv"
  by (simp add: get_filter_converter_def demo_task_simps demo_schema_def column_with_name_def filter_create_def
      is_int_def demo_conv_def)

lemma demo_validated:
  "validate_time_format sh tbl (demo_schema DT_Int64) (tk_refresh (demo_task DT_Int64 UnixSeconds sql)) = Inr ()"
  by (simp add: validate_time_format_def demo_task_simps demo_schema_def column_with_name_def format_mismatch_def is_int_def)

lemma demo_append_ready:
  "append_ready demo_engine (demo_task DT_Int64 UnixSeconds None) \<lparr>fd_name = ''at'', fd_type = DT_Int64\<rparr> demo_conv"
  unfolding append_ready_def
  using demo_validated [of "en_show_type demo_engine" "tk_dataset_name (demo_task DT_Int64 UnixSeconds None)" None]
  by (simp add: demo_converter demo_task_simps demo_engine_def demo_schema_def column_with_name_def)


theorem append_with_refresh_sql_stores_nothing_witness:
  "\<exists>st'. run_once demo_engine 0 (demo_task DT_Int64 UnixSeconds (Some ''SELECT * FROM t''))
       (demo_state [[3, 0], [97, 1]] []) = Some (Inr (), st') \<and> st_accelerated st' = []"
proof -
  let ?t = "demo_task DT_Int64 UnixSeconds (Some ''SELECT * FROM t'')"
  let ?st = "demo_state [[3, 0], [97, 1]] []"
  have "\<exists>st'. run_once demo_engine 0 ?t ?st = Some (Inr (), st') \<and> st_accelerated st' = st_accelerated ?st"
    by (rule append_with_refresh_sql_stores_nothing [OF _ _ _ _ demo_converter, where src = "[[3, 0], [97, 1]]" and c = "''at''"])
       (use demo_validated in \<open>simp_all add: demo_task_simps demo_state_def demo_engine_def demo_schema_def\<close>)
  then show ?thesis by (simp add: demo_state_def)
qed

theorem run_once_status_witness:
  "\<exists>res st'. run_once demo_engine 0 (demo_task DT_Int64 UnixSeconds None) (demo_state [[1, 2]] []) = Some (res, st') \<and>
     last (st_statuses st') = (if is_ok res then Ready else StatusError)"
proof -
  have "rf_mode (tk_refresh (demo_task DT_Int64 UnixSeconds None)) \<in> {Full, Append}" by (simp add: demo_task_simps)
  from run_once_status [OF this, of demo_engine 0 "demo_state [[1, 2]] []"] show ?thesis by blast
qed

end
