(* ===== verification/Change_Batch.thy ===== *)
theory Change_Batch
  imports Refresh_Task
begin

text \<open>
  Change events as Arrow record batches (data_components/src/cdc.rs): the schema of a batch of
  changes, the check that a record batch has it, and the readers of a row's operation, keys and
  data. A record batch carries its schema and one array per field, and Arrow's constructor makes
  sure that they fit; an \<open>unreachable!\<close> of the readers is \<open>None\<close>. A struct array is given by its
  rows.
\<close>

section \<open>Schemas and arrays\<close>

datatype cdc_type = Prim data_type | ListOf cdc_field | StructOf "cdc_field list"
  and cdc_field = CField (cf_name: string) (cf_type: cdc_type) (cf_nullable: bool) (cf_metadata: "(string \<times> string) list")

record cdc_schema =
  cs_fields :: "cdc_field list"
  cs_metadata :: "(string, string) hmap"

definition field_new :: "string \<Rightarrow> cdc_type \<Rightarrow> bool \<Rightarrow> cdc_field" where
  "field_new n t nullable = CField n t nullable []"

definition schema_new :: "cdc_field list \<Rightarrow> cdc_schema" where
  "schema_new fs = \<lparr>cs_fields = fs, cs_metadata = []\<rparr>"

datatype 'v cdc_array =
    StringArray "string list"
  | ListArray cdc_field "'v cdc_array list"
  | StructArray "cdc_field list" "'v row list"
  | OtherArray data_type "'v list"

fun array_fits :: "'v cdc_array \<Rightarrow> cdc_type \<Rightarrow> bool" where
  "array_fits (StringArray xs) t = (t = Prim DT_Utf8)"
| "array_fits (ListArray f xs) t = (t = ListOf f \<and> (\<forall>x\<in>set xs. array_fits x (cf_type f)))"
| "array_fits (StructArray fs rows) t = (t = StructOf fs \<and> (\<forall>r\<in>set rows. length r = length fs))"
| "array_fits (OtherArray d xs) t = (t = Prim d \<and> d \<noteq> DT_Utf8)"

fun array_len :: "'v cdc_array \<Rightarrow> nat" where
  "array_len (StringArray xs) = length xs"
| "array_len (ListArray f xs) = length xs"
| "array_len (StructArray fs rows) = length rows"
| "array_len (OtherArray d xs) = length xs"

record 'v cdc_record =
  rec_schema :: cdc_schema
  rec_columns :: "'v cdc_array list"
  rec_num_rows :: nat

text \<open>What \<open>RecordBatch::try_new\<close> guarantees of every record batch.\<close>

definition record_ok :: "'v cdc_record \<Rightarrow> bool" where
  "record_ok r \<longleftrightarrow>
     list_all2 (\<lambda>c f. array_fits c (cf_type f) \<and> array_len c = rec_num_rows r) (rec_columns r) (cs_fields (rec_schema r))"

section \<open>Changes\<close>

definition changes_schema :: "cdc_schema \<Rightarrow> cdc_schema" where
  "changes_schema table_schema = schema_new
     [field_new ''op'' (Prim DT_Utf8) False,
      field_new ''primary_keys'' (ListOf (field_new ''item'' (Prim DT_Utf8) False)) True,
      field_new ''data'' (StructOf (cs_fields table_schema)) True]"

datatype change_operation = Create | Update | Delete | ReadOp | Truncate | Unknown string

definition operation_from :: "string \<Rightarrow> change_operation" where
  "operation_from op =
     (if op = ''c'' then Create else if op = ''u'' then Update else if op = ''d'' then Delete
      else if op = ''r'' then ReadOp else if op = ''t'' then Truncate else Unknown op)"

fun display_operation :: "change_operation \<Rightarrow> string" where
  "display_operation Create = ''c''"
| "display_operation Update = ''u''"
| "display_operation Delete = ''d''"
| "display_operation ReadOp = ''r''"
| "display_operation Truncate = ''t''"
| "display_operation (Unknown op) = ''Unknown('' @ op @ '')''"

datatype stream_error = Kafka string | SerdeJsonError string | Flight string

fun display_stream_error :: "stream_error \<Rightarrow> string" where
  "display_stream_error (Kafka e) = ''Kafka error: '' @ e"
| "display_stream_error (SerdeJsonError e) = ''Serde JSON error: '' @ e"
| "display_stream_error (Flight e) = ''Arrow Flight error: '' @ e"

datatype change_batch_error = SchemaMismatch string cdc_schema

record 'v change_batch =
  cb_record :: "'v cdc_record"
  cb_op_idx :: nat
  cb_primary_keys_idx :: nat
  cb_data_idx :: nat

definition validate_schema :: "cdc_schema \<Rightarrow> (change_batch_error, unit) result" where
  "validate_schema schema = (case find (\<lambda>f. cf_name f = ''data'') (cs_fields schema) of
      None \<Rightarrow> Inl (SchemaMismatch ''Missing 'data' field'' schema)
    | Some data_col \<Rightarrow> (case cf_type data_col of
        StructOf fs \<Rightarrow>
          (if schema \<noteq> changes_schema (schema_new fs)
           then Inl (SchemaMismatch ''Schema didn't match expected change batch format'' schema)
           else Inr ())
      | _ \<Rightarrow> Inl (SchemaMismatch ''Unexpected data type for 'data' field, expected Struct'' schema)))"

text \<open>The index \<open>Schema::column_with_name\<close> returns.\<close>

definition column_idx :: "cdc_schema \<Rightarrow> string \<Rightarrow> nat option" where
  "column_idx schema n = index_of (map cf_name (cs_fields schema)) n"

definition change_batch_try_new :: "'v cdc_record \<Rightarrow> (change_batch_error, 'v change_batch) result option" where
  "change_batch_try_new r = (case validate_schema (rec_schema r) of
      Inl e \<Rightarrow> Some (Inl e)
    | Inr _ \<Rightarrow> (case (column_idx (rec_schema r) ''op'', column_idx (rec_schema r) ''primary_keys'', column_idx (rec_schema r) ''data'') of
        (Some i, Some j, Some k) \<Rightarrow>
          Some (Inr \<lparr>cb_record = r, cb_op_idx = i, cb_primary_keys_idx = j, cb_data_idx = k\<rparr>)
      | _ \<Rightarrow> None))"

text \<open>\<open>nth_opt\<close> is indexing that panics out of range.\<close>

definition nth_opt :: "'a list \<Rightarrow> nat \<Rightarrow> 'a option" where
  "nth_opt xs i = (if i < length xs then Some (xs ! i) else None)"

definition cb_op :: "'v change_batch \<Rightarrow> nat \<Rightarrow> change_operation option" where
  "cb_op b row = (case nth_opt (rec_columns (cb_record b)) (cb_op_idx b) of
      Some (StringArray xs) \<Rightarrow> map_option operation_from (nth_opt xs row)
    | _ \<Rightarrow> None)"

definition cb_primary_keys :: "'v change_batch \<Rightarrow> nat \<Rightarrow> string list option" where
  "cb_primary_keys b row = (case nth_opt (rec_columns (cb_record b)) (cb_primary_keys_idx b) of
      Some (ListArray f xs) \<Rightarrow> (case nth_opt xs row of
          Some (StringArray keys) \<Rightarrow> Some keys
        | _ \<Rightarrow> None)
    | _ \<Rightarrow> None)"

text \<open>\<open>data_col.slice(row, 1).into()\<close>: a batch of one row, its columns the struct's fields.\<close>

record 'v data_row =
  dr_fields :: "cdc_field list"
  dr_values :: "'v row"

definition cb_data :: "'v change_batch \<Rightarrow> nat \<Rightarrow> 'v data_row option" where
  "cb_data b row = (case nth_opt (rec_columns (cb_record b)) (cb_data_idx b) of
      Some (StructArray fs rows) \<Rightarrow> map_option (\<lambda>r. \<lparr>dr_fields = fs, dr_values = r\<rparr>) (nth_opt rows row)
    | _ \<Rightarrow> None)"

section \<open>What a valid batch has\<close>

lemma validate_schema_ok_iff:
  "validate_schema s = Inr () \<longleftrightarrow> (\<exists>fs. s = changes_schema (schema_new fs))"
proof
  assume "validate_schema s = Inr ()"
  then show "\<exists>fs. s = changes_schema (schema_new fs)"
    by (auto simp: validate_schema_def split: option.splits cdc_type.splits if_splits)
next
  assume "\<exists>fs. s = changes_schema (schema_new fs)"
  then show "validate_schema s = Inr ()"
    by (auto simp: validate_schema_def changes_schema_def schema_new_def field_new_def)
qed

lemma changes_schema_fields:
  "cs_fields (changes_schema (schema_new fs)) =
     [field_new ''op'' (Prim DT_Utf8) False,
      field_new ''primary_keys'' (ListOf (field_new ''item'' (Prim DT_Utf8) False)) True,
      field_new ''data'' (StructOf fs) True]"
  by (simp add: changes_schema_def schema_new_def)

lemma array_fits_utf8: "array_fits a (Prim DT_Utf8) \<Longrightarrow> \<exists>xs. a = StringArray xs"
  by (cases a) auto

lemma array_fits_list: "array_fits a (ListOf f) \<Longrightarrow> \<exists>xs. a = ListArray f xs \<and> (\<forall>x\<in>set xs. array_fits x (cf_type f))"
  by (cases a) auto

lemma array_fits_struct: "array_fits a (StructOf fs) \<Longrightarrow> \<exists>rows. a = StructArray fs rows \<and> (\<forall>r\<in>set rows. length r = length fs)"
  by (cases a) auto

text \<open>A batch of the right schema consists of the operations, the key lists and the rows.\<close>

definition change_batch_of :: "cdc_field list \<Rightarrow> (string \<times> string list \<times> 'v row) list \<Rightarrow> 'v change_batch" where
  "change_batch_of fs cs = \<lparr>
     cb_record = \<lparr>rec_schema = changes_schema (schema_new fs),
       rec_columns = [StringArray (map fst cs),
         ListArray (field_new ''item'' (Prim DT_Utf8) False) (map (\<lambda>c. StringArray (fst (snd c))) cs),
         StructArray fs (map (\<lambda>c. snd (snd c)) cs)],
       rec_num_rows = length cs\<rparr>,
     cb_op_idx = 0, cb_primary_keys_idx = 1, cb_data_idx = 2\<rparr>"

lemma list_of_string_arrays: "\<forall>x\<in>set xs. \<exists>ks. x = StringArray ks \<Longrightarrow> \<exists>kss. xs = map StringArray kss"
proof (induction xs)
  case (Cons x xs)
  then obtain ks kss where "x = StringArray ks" "xs = map StringArray kss" by auto
  then have "x # xs = map StringArray (ks # kss)" by simp
  then show ?case by (rule exI)
qed simp

lemma three_lists:
  assumes "length xs = n" and "length ys = n" and "length zs = n"
  shows "\<exists>cs. length cs = n \<and> map fst cs = xs \<and> map (\<lambda>c. fst (snd c)) cs = ys \<and> map (\<lambda>c. snd (snd c)) cs = zs"
proof -
  have "length (zip xs (zip ys zs)) = n \<and> map fst (zip xs (zip ys zs)) = xs \<and>
      map (\<lambda>c. fst (snd c)) (zip xs (zip ys zs)) = ys \<and> map (\<lambda>c. snd (snd c)) (zip xs (zip ys zs)) = zs"
    using assms by (auto simp: map_snd_zip_take map_fst_zip_take simp flip: map_map [unfolded comp_def])
  then show ?thesis by blast
qed

lemma record_columns:
  assumes "record_ok r" and "rec_schema r = changes_schema (schema_new fs)"
  obtains cs where "rec_columns r = rec_columns (cb_record (change_batch_of fs cs))" and "length cs = rec_num_rows r"
    and "\<forall>c\<in>set cs. length (snd (snd c)) = length fs"
proof -
  from assms obtain a b c where cols: "rec_columns r = [a, b, c]"
    and fits: "array_fits a (Prim DT_Utf8)" "array_fits b (ListOf (field_new ''item'' (Prim DT_Utf8) False))" "array_fits c (StructOf fs)"
    and lens: "array_len a = rec_num_rows r" "array_len b = rec_num_rows r" "array_len c = rec_num_rows r"
    by (auto simp: record_ok_def changes_schema_fields field_new_def list_all2_Cons2)
  obtain ops where a: "a = StringArray ops" using array_fits_utf8 [OF fits(1)] by blast
  obtain xs where b: "b = ListArray (field_new ''item'' (Prim DT_Utf8) False) xs"
      and "\<forall>x\<in>set xs. array_fits x (Prim DT_Utf8)" using array_fits_list [OF fits(2)] by (auto simp: field_new_def)
  then have "\<forall>x\<in>set xs. \<exists>ks. x = StringArray ks" by (blast dest: array_fits_utf8)
  then obtain kss where xs: "xs = map StringArray kss" by (blast dest: list_of_string_arrays)
  obtain rows where c: "c = StructArray fs rows" "\<forall>r\<in>set rows. length r = length fs"
    using array_fits_struct [OF fits(3)] by blast
  obtain cs where cs: "length cs = rec_num_rows r" "map fst cs = ops" "map (\<lambda>c. fst (snd c)) cs = kss" "map (\<lambda>c. snd (snd c)) cs = rows"
    using three_lists [of ops "rec_num_rows r" kss rows] lens a b c xs by auto
  have "rec_columns r = rec_columns (cb_record (change_batch_of fs cs))"
    by (simp add: cols a b c(1) xs change_batch_of_def cs(2,4) cs(3) [symmetric])
  moreover have "\<forall>c\<in>set cs. length (snd (snd c)) = length fs"
    using c(2) unfolding cs(4) [symmetric] by simp
  ultimately show ?thesis using cs(1) that by blast
qed

lemma change_batch_try_new_of:
  assumes "record_ok r" and "change_batch_try_new r = Some (Inr b)"
  obtains fs cs where "b = change_batch_of fs cs" and "length cs = rec_num_rows r"
    and "\<forall>c\<in>set cs. length (snd (snd c)) = length fs"
proof -
  from assms(2) have "validate_schema (rec_schema r) = Inr ()"
    by (auto simp: change_batch_try_new_def split: sum.splits)
  then obtain fs where fs: "rec_schema r = changes_schema (schema_new fs)"
    by (auto simp: validate_schema_ok_iff)
  have idx: "b = \<lparr>cb_record = r, cb_op_idx = 0, cb_primary_keys_idx = 1, cb_data_idx = 2\<rparr>"
    using assms(2) by (auto simp: change_batch_try_new_def fs column_idx_def changes_schema_fields field_new_def split: sum.splits)
  obtain cs where cs: "rec_columns r = rec_columns (cb_record (change_batch_of fs cs))" "length cs = rec_num_rows r"
      "\<forall>c\<in>set cs. length (snd (snd c)) = length fs"
    using record_columns [OF assms(1) fs] by blast
  then have "r = cb_record (change_batch_of fs cs)"
    using fs by (intro cdc_record.equality) (simp_all add: change_batch_of_def)
  then have "b = change_batch_of fs cs" by (simp add: idx change_batch_of_def)
  then show ?thesis using cs that by blast
qed

lemma change_batch_readers:
  assumes "i < length cs"
  shows "cb_op (change_batch_of fs cs) i = Some (operation_from (fst (cs ! i)))"
    and "cb_primary_keys (change_batch_of fs cs) i = Some (fst (snd (cs ! i)))"
    and "cb_data (change_batch_of fs cs) i = Some \<lparr>dr_fields = fs, dr_values = snd (snd (cs ! i))\<rparr>"
  using assms by (simp_all add: cb_op_def cb_primary_keys_def cb_data_def change_batch_of_def nth_opt_def)

lemma change_batch_of_ok:
  assumes "\<forall>c\<in>set cs. length (snd (snd c)) = length fs"
  shows "record_ok (cb_record (change_batch_of fs cs))"
    and "change_batch_try_new (cb_record (change_batch_of fs cs)) = Some (Inr (change_batch_of fs cs))"
proof -
  show "record_ok (cb_record (change_batch_of fs cs))"
    using assms by (auto simp: record_ok_def change_batch_of_def changes_schema_fields field_new_def)
  have "validate_schema (changes_schema (schema_new fs)) = Inr ()"
    by (auto simp: validate_schema_ok_iff)
  then show "change_batch_try_new (cb_record (change_batch_of fs cs)) = Some (Inr (change_batch_of fs cs))"
    by (simp add: change_batch_try_new_def change_batch_of_def column_idx_def changes_schema_fields field_new_def)
qed



end
