(* ===== verification/Execution_Plans.thy ===== *)
theory Execution_Plans
  imports Change_Batch
begin

text \<open>
  The runtime's own physical plan nodes (runtime/src/execution_plan): duplicating a plan
  (\<open>TeeExec\<close>), picking a partition (\<open>SliceExec\<close>), casting to a schema (\<open>SchemaCastScanExec\<close>),
  falling back to the source when the accelerator has no result
  (\<open>FallbackOnZeroResultsScanExec\<close>), and the plan that hands out a stream of updates
  (\<open>StreamingDataUpdateExecutionPlan\<close> in dataupdate.rs), with the cast of a record batch
  (arrow_tools/src/record_batch.rs).

  A plan has a number of partitions and executes each of them. A stream is the list of what it
  yields; executing reads and changes a state \<open>'w\<close>, which holds whatever the leaves of the plan
  share. DataFusion's \<open>CoalescePartitionsExec\<close> and \<open>FilterExec\<close> and Arrow's casts are parameters.
\<close>

section \<open>Plans\<close>

type_synonym 'b stream = "(df_error, 'b) result list"

record ('w, 'b) plan =
  pl_partitions :: nat
  pl_execute :: "nat \<Rightarrow> 'w \<Rightarrow> (df_error, 'b stream) result \<times> 'w"

text \<open>
  The update's stream is behind a mutex which the first reader holds until the stream is
  exhausted; a later reader finds it empty.
\<close>

definition streaming_update_exec :: "('w \<Rightarrow> 'b stream) \<Rightarrow> ('b stream \<Rightarrow> 'w \<Rightarrow> 'w) \<Rightarrow> ('w, 'b) plan" where
  "streaming_update_exec get_stream set_stream =
     \<lparr>pl_partitions = 1, pl_execute = (\<lambda>partition w. (Inr (get_stream w), set_stream [] w))\<rparr>"

definition tee_exec :: "(('w, 'b) plan \<Rightarrow> ('w, 'b) plan) \<Rightarrow> ('w, 'b) plan \<Rightarrow> nat \<Rightarrow> ('w, 'b) plan" where
  "tee_exec coalesce input n = \<lparr>pl_partitions = n, pl_execute = (\<lambda>partition w.
     if partition \<ge> n
     then (Inl (Fatal (''TeeExec only supports '' @ digits n @ '' partitions, but partition '' @ digits partition @ '' was requested'')), w)
     else pl_execute (coalesce input) 0 w)\<rparr>"

definition slice_exec :: "('w, 'b) plan \<Rightarrow> nat \<Rightarrow> ('w, 'b) plan" where
  "slice_exec input k = \<lparr>pl_partitions = 1, pl_execute = (\<lambda>partition w.
     if partition > 0
     then (Inl (Fatal (''SliceExec only supports 1 partitions, but partition '' @ digits partition @ '' was requested'')), w)
     else pl_execute input k w)\<rparr>"

text \<open>\<open>with_new_children\<close>, the same for all of them.\<close>

definition with_new_children :: "string \<Rightarrow> ('p \<Rightarrow> 'p) \<Rightarrow> 'p list \<Rightarrow> (df_error, 'p) result" where
  "with_new_children node rebuild children =
     (case children of [c] \<Rightarrow> Inr (rebuild c) | _ \<Rightarrow> Inl (Fatal (node @ '' expects exactly one input'')))"

section \<open>Casting a batch\<close>

record 'c col_batch =
  cb_fields :: "cdc_field list"
  cb_columns :: "'c list"
  cb_num_rows :: nat

datatype cast_error = UnableToConvertRecordBatch string | FieldNotNullable string

record 'c arrow_ops =
  ar_schema_contains :: "cdc_field list \<Rightarrow> cdc_field list \<Rightarrow> bool"
  ar_field_contains :: "cdc_field \<Rightarrow> cdc_field \<Rightarrow> bool"
  ar_cast :: "'c \<Rightarrow> cdc_type \<Rightarrow> (string, 'c) result"
  ar_null_array :: "cdc_type \<Rightarrow> nat \<Rightarrow> 'c"
  ar_with_schema :: "'c col_batch \<Rightarrow> cdc_field list \<Rightarrow> (string, 'c col_batch) result"
  ar_batch_new :: "cdc_field list \<Rightarrow> 'c list \<Rightarrow> (string, 'c col_batch) result"

definition cast_column :: "'c arrow_ops \<Rightarrow> 'c col_batch \<Rightarrow> cdc_field \<Rightarrow> (cast_error, 'c) result" where
  "cast_column A b field =
     (case index_of (map cf_name (cb_fields b)) (cf_name field) of
        Some i \<Rightarrow>
          (if ar_field_contains A field (cb_fields b ! i) then Inr (cb_columns b ! i)
           else map_err UnableToConvertRecordBatch (ar_cast A (cb_columns b ! i) (cf_type field)))
      | None \<Rightarrow>
          (if cf_nullable field then Inr (ar_null_array A (cf_type field) (cb_num_rows b))
           else Inl (FieldNotNullable (cf_name field))))"

definition try_cast_to :: "'c arrow_ops \<Rightarrow> 'c col_batch \<Rightarrow> cdc_field list \<Rightarrow> (cast_error, 'c col_batch) result" where
  "try_cast_to A b schema =
     (if ar_schema_contains A schema (cb_fields b)
      then map_err UnableToConvertRecordBatch (ar_with_schema A b schema)
      else and_then (try_collect (cast_column A b) schema) (\<lambda>cols.
        map_err UnableToConvertRecordBatch (ar_batch_new A schema cols)))"

section \<open>Casting a plan\<close>

text \<open>\<open>SchemaCastScanExec::schema\<close>: the input's columns, each with the target's field if it has one.\<close>

definition cast_schema :: "cdc_field list \<Rightarrow> cdc_field list \<Rightarrow> cdc_field list" where
  "cast_schema input target =
     map (\<lambda>f. case find (\<lambda>g. cf_name g = cf_name f) target of Some g \<Rightarrow> g | None \<Rightarrow> f) input"

text \<open>An error of the input ends the stream, a batch that cannot be cast does not.\<close>

fun cast_stream :: "('b \<Rightarrow> (df_error, 'b) result) \<Rightarrow> 'b stream \<Rightarrow> 'b stream" where
  "cast_stream cast [] = []"
| "cast_stream cast (Inl e # rest) = [Inl e]"
| "cast_stream cast (Inr b # rest) = cast b # cast_stream cast rest"

definition schema_cast_exec :: "('b \<Rightarrow> (df_error, 'b) result) \<Rightarrow> ('w, 'b) plan \<Rightarrow> ('w, 'b) plan" where
  "schema_cast_exec cast input = \<lparr>pl_partitions = pl_partitions input, pl_execute = (\<lambda>partition w.
     let (r, w') = pl_execute input partition w in (and_then r (\<lambda>s. Inr (cast_stream cast s)), w'))\<rparr>"

section \<open>Falling back to the source\<close>

text \<open>\<open>filter_plan\<close>: the conjunction of the filters in front of the plan, if there is any filter;
  \<open>filter_exec\<close> is the creation of the physical expression and of the \<open>FilterExec\<close>.\<close>

datatype 'f joined = Single 'f | AndExpr "'f joined" "'f joined"

fun join_filters :: "'f list \<Rightarrow> 'f joined option" where
  "join_filters [] = None"
| "join_filters (f # fs) = Some (foldl AndExpr (Single f) (map Single fs))"

definition filter_plan ::
  "('f joined \<Rightarrow> ('w, 'b) plan \<Rightarrow> (df_error, ('w, 'b) plan) result) \<Rightarrow> 'f list \<Rightarrow> ('w, 'b) plan \<Rightarrow>
   (df_error, ('w, 'b) plan) result" where
  "filter_plan filter_exec filters input = (case join_filters filters of
      None \<Rightarrow> Inr input
    | Some e \<Rightarrow> filter_exec e input)"

definition fallback_new :: "(('w, 'b) plan \<Rightarrow> ('w, 'b) plan) \<Rightarrow> ('w, 'b) plan \<Rightarrow> ('w, 'b) plan" where
  "fallback_new coalesce input = (if pl_partitions input \<noteq> 1 then coalesce input else input)"

text \<open>What the fallback yields: the scan of the source, its partition 0.\<close>

definition fallback_stream ::
  "(df_error \<Rightarrow> string) \<Rightarrow> (df_error, ('w, 'b) plan) result \<Rightarrow> 'w \<Rightarrow> 'b stream \<times> 'w" where
  "fallback_stream show_error fallback_scan w = (case fallback_scan of
      Inl e \<Rightarrow> ([Inl e], w)
    | Inr plan \<Rightarrow> (case pl_execute plan 0 w of
        (Inr s, w') \<Rightarrow> (s, w')
      | (Inl e, w') \<Rightarrow> ([Inl (Fatal (''Error executing fallback plan: '' @ show_error e))], w')))"

definition fallback_exec ::
  "(('w, 'b) plan \<Rightarrow> ('w, 'b) plan) \<Rightarrow> ('b \<Rightarrow> (df_error, 'b) result) \<Rightarrow>
   ('f joined \<Rightarrow> ('w, 'b) plan \<Rightarrow> (df_error, ('w, 'b) plan) result) \<Rightarrow> 'f list \<Rightarrow> (df_error \<Rightarrow> string) \<Rightarrow>
   ('w, 'b) plan \<Rightarrow> (df_error, ('w, 'b) plan) result \<Rightarrow> ('w, 'b) plan" where
  "fallback_exec coalesce cast filter_exec filters show_error input fallback_scan =
     \<lparr>pl_partitions = 1, pl_execute = (\<lambda>partition w.
        if partition > 0
        then (Inl (Fatal (''FallbackOnZeroResultsScanExec only supports 1 partitions, but partition '' @ digits partition @ '' was requested'')), w)
        else case filter_plan filter_exec filters (schema_cast_exec cast (fallback_new coalesce input)) of
            Inl e \<Rightarrow> (Inl e, w)
          | Inr filtered_input \<Rightarrow> (case pl_execute filtered_input 0 w of
              (Inl e, w1) \<Rightarrow> (Inl e, w1)
            | (Inr (x # rest), w1) \<Rightarrow> (Inr (x # rest), w1)
            | (Inr [], w1) \<Rightarrow> (let (s, w2) = fallback_stream show_error fallback_scan w1 in (Inr s, w2))))\<rparr>"

section \<open>Lemmas\<close>

text \<open>The documented behaviour of \<open>CoalescePartitionsExec\<close> that is relied on: a single partition is
  passed through.\<close>

definition coalesce_ok :: "(('w, 'b) plan \<Rightarrow> ('w, 'b) plan) \<Rightarrow> bool" where
  "coalesce_ok coalesce \<longleftrightarrow> (\<forall>p. pl_partitions p = 1 \<longrightarrow> pl_execute (coalesce p) 0 = pl_execute p 0)"

lemma tee_slice:
  assumes "coalesce_ok coalesce" and "pl_partitions input = 1" and "k < n"
  shows "pl_execute (slice_exec (tee_exec coalesce input n) k) 0 = pl_execute input 0"
  using assms by (auto simp: coalesce_ok_def slice_exec_def tee_exec_def fun_eq_iff)

lemma cast_stream_ok:
  "(\<forall>x\<in>set s. is_ok x) \<Longrightarrow> cast_stream cast s = map (\<lambda>x. case x of Inr b \<Rightarrow> cast b | Inl e \<Rightarrow> Inl e) s"
  by (induction cast s rule: cast_stream.induct) auto

lemma cast_stream_Nil_iff [simp]: "cast_stream cast s = [] \<longleftrightarrow> s = []"
  by (induction cast s rule: cast_stream.induct) auto

end
