(* ===== verification/Results_Cache.thy ===== *)
theory Results_Cache
  imports Dataset "HOL-Library.Word"
begin

text \<open>
  The query results cache (crates/cache): the plans it applies to, the tables a plan reads, the
  stream that fills the cache while a query's result is delivered, invalidation after a refresh,
  and the metrics. The concurrent cache library behind it is a record of operations, a parameter,
  whose documented behaviour is the predicate \<open>moka_laws\<close>. Sizes are \<open>nat\<close> (\<open>usize\<close> is 64 bits wide
  and batch sizes add up to less); the clock difference of the metrics is kept at its width.
\<close>

section \<open>Plans\<close>

datatype plan_kind = Explain | Analyze | DescribeTable | Statement | Operator string

datatype logical_plan = TableScan table_reference | Node plan_kind "logical_plan list"

fun inputs :: "logical_plan \<Rightarrow> logical_plan list" where
  "inputs (TableScan _) = []"
| "inputs (Node _ ps) = ps"

fun schema_of :: "table_reference \<Rightarrow> string option" where
  "schema_of (Bare t) = None"
| "schema_of (Partial s t) = Some s"
| "schema_of (FullRef c s t) = Some s"

text \<open>The \<open>Vec\<close> used as a stack has its top at the head of the list.\<close>

abbreviation push_all :: "logical_plan list \<Rightarrow> logical_plan list \<Rightarrow> logical_plan list" where
  "push_all ps stack \<equiv> rev ps @ stack"

lemma size_list_rev [simp]: "size_list f (rev xs) = size_list f xs"
  by (induction xs) simp_all

function input_tables_loop :: "logical_plan list \<Rightarrow> table_reference set \<Rightarrow> table_reference set" where
  "input_tables_loop [] names = names"
| "input_tables_loop (p # stack) names =
     input_tables_loop (push_all (inputs p) stack)
       (case p of TableScan t \<Rightarrow> insert t names | _ \<Rightarrow> names)"
  by pat_completeness auto
termination
proof (relation "measure (\<lambda>(stack, _). size_list size stack)")
  fix p :: logical_plan and stack :: "logical_plan list" and names :: "table_reference set"
  show "((push_all (inputs p) stack, case p of TableScan t \<Rightarrow> insert t names | _ \<Rightarrow> names), p # stack, names)
      \<in> measure (\<lambda>(stack, _). size_list size stack)"
    by (cases p) simp_all
qed simp

definition get_logical_plan_input_tables :: "logical_plan \<Rightarrow> table_reference set" where
  "get_logical_plan_input_tables plan = input_tables_loop [plan] {}"

function cache_enabled_loop :: "string list \<Rightarrow> logical_plan list \<Rightarrow> bool" where
  "cache_enabled_loop ignored [] = True"
| "cache_enabled_loop ignored (p # stack) =
     (case p of
        TableScan t \<Rightarrow> (case schema_of t of
            None \<Rightarrow> cache_enabled_loop ignored stack
          | Some s \<Rightarrow> if s \<in> set ignored then False
                      else cache_enabled_loop ignored (push_all (inputs p) stack))
      | Node k ps \<Rightarrow>
          if k \<in> {Explain, Analyze, DescribeTable, Statement} then False
          else cache_enabled_loop ignored (push_all (inputs p) stack))"
  by pat_completeness auto
termination
  by (relation "measure (\<lambda>(_, stack). size_list size stack)") simp_all

section \<open>The cache\<close>

record ('b, 's) cached_query_result =
  cr_records :: "'b list"
  cr_schema :: 's
  cr_input_tables :: "table_reference set"

record ('c, 'b, 's) moka =
  m_get :: "'c \<Rightarrow> nat \<Rightarrow> ('b, 's) cached_query_result option"
  m_insert :: "nat \<Rightarrow> ('b, 's) cached_query_result \<Rightarrow> 'c \<Rightarrow> 'c"
  m_invalidate_if :: "(('b, 's) cached_query_result \<Rightarrow> bool) \<Rightarrow> 'c \<Rightarrow> (string, 'c) result"
  m_weighted_size :: "'c \<Rightarrow> nat"
  m_entry_count :: "'c \<Rightarrow> nat"

datatype cache_error =
    FailedToParseCacheMaxSize string
  | FailedToParseItemTtl string
  | FailedToInvalidateCache string string

text \<open>The weigher handed to the cache: the memory of all batches, capped at \<open>u32::MAX\<close>.\<close>

definition result_weight :: "('b \<Rightarrow> nat) \<Rightarrow> ('b, 's) cached_query_result \<Rightarrow> nat" where
  "result_weight bytes r =
     (let val = sum_list (map bytes (cr_records r)) in if val < 2 ^ 32 then val else 2 ^ 32 - 1)"

definition lru_get :: "('c, 'b, 's) moka \<Rightarrow> (logical_plan \<Rightarrow> nat) \<Rightarrow> logical_plan \<Rightarrow> 'c \<Rightarrow>
    (cache_error, ('b, 's) cached_query_result option) result" where
  "lru_get M hash plan c = (case m_get M c (hash plan) of Some v \<Rightarrow> Inr (Some v) | None \<Rightarrow> Inr None)"

definition lru_put :: "('c, 'b, 's) moka \<Rightarrow> (logical_plan \<Rightarrow> nat) \<Rightarrow> logical_plan \<Rightarrow>
    ('b, 's) cached_query_result \<Rightarrow> 'c \<Rightarrow> (cache_error, unit) result \<times> 'c" where
  "lru_put M hash plan r c = (Inr (), m_insert M (hash plan) r c)"

definition lru_put_key :: "('c, 'b, 's) moka \<Rightarrow> nat \<Rightarrow> ('b, 's) cached_query_result \<Rightarrow> 'c \<Rightarrow>
    (cache_error, unit) result \<times> 'c" where
  "lru_put_key M key r c = (Inr (), m_insert M key r c)"

fun table_of :: "table_reference \<Rightarrow> string" where
  "table_of (Bare t) = t"
| "table_of (Partial s t) = t"
| "table_of (FullRef c s t) = t"

definition lru_invalidate_for_table :: "('c, 'b, 's) moka \<Rightarrow> table_reference \<Rightarrow> 'c \<Rightarrow>
    (cache_error, unit) result \<times> 'c" where
  "lru_invalidate_for_table M t c =
     (case m_invalidate_if M (\<lambda>v. t \<in> cr_input_tables v) c of
        Inr c' \<Rightarrow> (Inr (), c')
      | Inl e \<Rightarrow> (Inl (FailedToInvalidateCache (table_of t) e), c))"

section \<open>The provider\<close>

record cache_metrics =
  size_gauge :: nat
  max_size_gauge :: nat
  request_count :: nat
  hit_count :: nat
  item_count_counter :: nat

record 'c cache_provider =
  cp_cache :: 'c
  cp_max_size :: nat
  cp_ttl :: duration
  cp_reported :: "64 word"
  cp_ignore_schemas :: "string list"
  cp_metrics :: cache_metrics

definition provider_try_new ::
  "(string \<Rightarrow> (string, nat) result) \<Rightarrow> (string \<Rightarrow> (string, duration) result) \<Rightarrow> (nat \<Rightarrow> duration \<Rightarrow> 'c) \<Rightarrow>
   cache_metrics \<Rightarrow> results_cache \<Rightarrow> string list \<Rightarrow> (cache_error, 'c cache_provider) result" where
  "provider_try_new parse_bytes parse_dur new_cache metrics config ignored =
     and_then (case rc_cache_max_size config of
                 Some s \<Rightarrow> map_err FailedToParseCacheMaxSize (parse_bytes s)
               | None \<Rightarrow> Inr (128 * 1024 * 1024)) (\<lambda>max_size.
     and_then (case rc_item_ttl config of
                 Some s \<Rightarrow> map_err FailedToParseItemTtl (parse_dur s)
               | None \<Rightarrow> Inr (from_secs 1)) (\<lambda>ttl.
     Inr \<lparr>cp_cache = new_cache max_size ttl, cp_max_size = max_size, cp_ttl = ttl, cp_reported = 0,
       cp_ignore_schemas = ignored, cp_metrics = metrics\<lparr>max_size_gauge := max_size\<rparr>\<rparr>))"

definition provider_get :: "('c, 'b, 's) moka \<Rightarrow> (logical_plan \<Rightarrow> nat) \<Rightarrow> logical_plan \<Rightarrow> 'c cache_provider \<Rightarrow>
    (cache_error, ('b, 's) cached_query_result option) result \<times> 'c cache_provider" where
  "provider_get M hash plan p =
     (let p1 = p\<lparr>cp_metrics := (cp_metrics p)\<lparr>request_count := request_count (cp_metrics p) + 1\<rparr>\<rparr>
      in case lru_get M hash plan (cp_cache p1) of
           Inr (Some r) \<Rightarrow>
             (Inr (Some r), p1\<lparr>cp_metrics := (cp_metrics p1)\<lparr>hit_count := hit_count (cp_metrics p1) + 1\<rparr>\<rparr>)
         | Inr None \<Rightarrow> (Inr None, p1)
         | Inl e \<Rightarrow> (Inl e, p1))"

text \<open>\<open>now - last\<close> is a \<open>u64\<close> subtraction: it wraps when the clock went back.\<close>

definition report_size_metrics :: "('c, 'b, 's) moka \<Rightarrow> 64 word \<Rightarrow> 'c cache_provider \<Rightarrow> 'c cache_provider" where
  "report_size_metrics M now p =
     (if now - cp_reported p \<ge> 5
      then p\<lparr>cp_reported := now,
             cp_metrics := (cp_metrics p)\<lparr>size_gauge := m_weighted_size M (cp_cache p),
               item_count_counter := item_count_counter (cp_metrics p) + m_entry_count M (cp_cache p)\<rparr>\<rparr>
      else p)"

definition provider_put :: "('c, 'b, 's) moka \<Rightarrow> (logical_plan \<Rightarrow> nat) \<Rightarrow> 64 word \<Rightarrow> logical_plan \<Rightarrow>
    ('b, 's) cached_query_result \<Rightarrow> 'c cache_provider \<Rightarrow> (cache_error, unit) result \<times> 'c cache_provider" where
  "provider_put M hash now plan r p =
     (let (res, c) = lru_put M hash plan r (cp_cache p)
      in (res, report_size_metrics M now (p\<lparr>cp_cache := c\<rparr>)))"

definition provider_put_key :: "('c, 'b, 's) moka \<Rightarrow> 64 word \<Rightarrow> nat \<Rightarrow>
    ('b, 's) cached_query_result \<Rightarrow> 'c cache_provider \<Rightarrow> (cache_error, unit) result \<times> 'c cache_provider" where
  "provider_put_key M now key r p =
     (let (res, c) = lru_put_key M key r (cp_cache p)
      in (res, report_size_metrics M now (p\<lparr>cp_cache := c\<rparr>)))"

definition provider_invalidate_for_table :: "('c, 'b, 's) moka \<Rightarrow> table_reference \<Rightarrow> 'c cache_provider \<Rightarrow>
    (cache_error, unit) result \<times> 'c cache_provider" where
  "provider_invalidate_for_table M t p =
     (let (res, c) = lru_invalidate_for_table M t (cp_cache p) in (res, p\<lparr>cp_cache := c\<rparr>))"

definition cache_is_enabled_for_plan :: "'c cache_provider \<Rightarrow> logical_plan \<Rightarrow> bool" where
  "cache_is_enabled_for_plan p plan = cache_enabled_loop (cp_ignore_schemas p) [plan]"

section \<open>Filling the cache from a result stream\<close>

text \<open>One batch coming by: kept while the batches kept so far are below the limit.\<close>

definition collect_batch :: "('b \<Rightarrow> nat) \<Rightarrow> nat \<Rightarrow> ('e, 'b) result \<Rightarrow> 'b list \<times> nat \<Rightarrow> 'b list \<times> nat" where
  "collect_batch bytes max_size item st =
     (let (records, records_size) = st
      in if records_size < max_size
         then (case item of
                 Inr b \<Rightarrow> (records @ [b], records_size + bytes b)
               | Inl _ \<Rightarrow> (records, records_size))
         else (records, records_size))"

text \<open>
  The generator behind the returned stream, polled \<open>polls\<close> times: every item is passed on, and
  only the poll that finds the end of the inner stream reaches the code that fills the cache.
\<close>

definition to_cached_record_batch_stream ::
  "('c, 'b, 's) moka \<Rightarrow> ('b \<Rightarrow> nat) \<Rightarrow> 64 word \<Rightarrow> nat \<Rightarrow> table_reference set \<Rightarrow> 's \<Rightarrow> ('e, 'b) result list \<Rightarrow>
   nat \<Rightarrow> 'c cache_provider \<Rightarrow> ('e, 'b) result list \<times> 'c cache_provider" where
  "to_cached_record_batch_stream M bytes now key tables schema items polls p =
     (if polls \<le> length items then (take polls items, p)
      else let (records, records_size) = fold (collect_batch bytes (cp_max_size p)) items ([], 0)
           in (items,
               if records_size < cp_max_size p
               then snd (provider_put_key M now key
                      \<lparr>cr_records = records, cr_schema = schema, cr_input_tables = tables\<rparr> p)
               else p))"

section \<open>What a plan reads\<close>

text \<open>The reference definitions: all scans of the tree, and all its operator kinds.\<close>

fun scans :: "logical_plan \<Rightarrow> table_reference set" where
  "scans (TableScan t) = {t}"
| "scans (Node _ ps) = (\<Union>p\<in>set ps. scans p)"

fun cacheable :: "string list \<Rightarrow> logical_plan \<Rightarrow> bool" where
  "cacheable ignored (TableScan t) = (case schema_of t of None \<Rightarrow> True | Some s \<Rightarrow> s \<notin> set ignored)"
| "cacheable ignored (Node k ps) =
     (k \<notin> {Explain, Analyze, DescribeTable, Statement} \<and> (\<forall>p\<in>set ps. cacheable ignored p))"

lemma input_tables_loop_scans:
  "input_tables_loop stack names = names \<union> (\<Union>p\<in>set stack. scans p)"
proof (induction stack names rule: input_tables_loop.induct)
  case (2 p stack names)
  then show ?case by (cases p) auto
qed simp

lemma cache_enabled_loop_cacheable:
  "cache_enabled_loop ignored stack \<longleftrightarrow> (\<forall>p\<in>set stack. cacheable ignored p)"
proof (induction ignored stack rule: cache_enabled_loop.induct)
  case (2 ignored p stack)
  show ?case
  proof (cases p)
    case (TableScan t)
    then show ?thesis using 2 by (cases "schema_of t") auto
  next
    case (Node k ps)
    then show ?thesis using 2(3) [OF Node] by auto
  qed
qed simp


section \<open>What is cached\<close>

definition total_bytes :: "('b \<Rightarrow> nat) \<Rightarrow> 'b list \<Rightarrow> nat" where
  "total_bytes bytes bs = sum_list (map bytes bs)"

definition oks :: "('e, 'b) result list \<Rightarrow> 'b list" where
  "oks items = List.map_filter result_ok items"

lemma collect_batch_simps [step_simps]:
  "collect_batch bytes max_size (Inr b) (recs, n) =
     (if n < max_size then (recs @ [b], n + bytes b) else (recs, n))"
  "collect_batch bytes max_size (Inl e) (recs, n) = (recs, n)"
  by (simp_all add: collect_batch_def)

lemma collect_batch_stopped:
  "max_size \<le> n \<Longrightarrow> fold (collect_batch bytes max_size) items (recs, n) = (recs, n)"
  by (induction items) (simp_all add: collect_batch_def)

lemma collect_batches:
  "n < max_size \<Longrightarrow> n + total_bytes bytes (oks items) < max_size \<Longrightarrow>
   fold (collect_batch bytes max_size) items (recs, n) = (recs @ oks items, n + total_bytes bytes (oks items))"
proof (induction items arbitrary: recs n)
  case (Cons i items)
  then show ?case
    by (cases i) (simp_all add: step_simps oks_def total_bytes_def List.map_filter_simps)
qed (simp add: oks_def total_bytes_def List.map_filter_simps)

lemma collect_batches_over:
  "n < max_size \<Longrightarrow> n + total_bytes bytes (oks items) \<ge> max_size \<Longrightarrow>
   snd (fold (collect_batch bytes max_size) items (recs, n)) \<ge> max_size"
proof (induction items arbitrary: recs n)
  case (Cons i items)
  show ?case
  proof (cases i)
    case (Inl e)
    then show ?thesis using Cons by (simp add: step_simps oks_def List.map_filter_simps)
  next
    case (Inr b)
    then show ?thesis
      using Cons by (cases "n + bytes b < max_size")
        (simp_all add: step_simps oks_def total_bytes_def List.map_filter_simps collect_batch_stopped)
  qed
qed (simp add: oks_def total_bytes_def List.map_filter_simps)

lemma stream_to_the_end:
  assumes "length items < polls" and "0 < cp_max_size p"
  shows "to_cached_record_batch_stream M bytes now key tables schema items polls p =
    (items, if total_bytes bytes (oks items) < cp_max_size p
            then snd (provider_put_key M now key
                   \<lparr>cr_records = oks items, cr_schema = schema, cr_input_tables = tables\<rparr> p)
            else p)"
proof (cases "total_bytes bytes (oks items) < cp_max_size p")
  case True
  with assms collect_batches [of 0 "cp_max_size p" bytes items "[]"] show ?thesis
    by (simp add: to_cached_record_batch_stream_def)
next
  case False
  then have "snd (fold (collect_batch bytes (cp_max_size p)) items ([], 0)) \<ge> cp_max_size p"
    using assms collect_batches_over [of 0 "cp_max_size p" bytes items "[]"] by simp
  with False assms show ?thesis
    by (auto simp: to_cached_record_batch_stream_def split: prod.splits)
qed

text \<open>
  (C11) The caching stream is transparent and never caches a truncated result of a query that
  succeeds: whatever is polled is what the query delivers; a result is stored only when the
  stream has been read to its end, and then exactly when its size is below the limit, with all
  of its batches.
\<close>

theorem cached_stream_complete:
  assumes "\<forall>i\<in>set items. is_ok i" and "0 < cp_max_size p"
  shows "fst (to_cached_record_batch_stream M bytes now key tables schema items polls p) = take polls items \<and>
    snd (to_cached_record_batch_stream M bytes now key tables schema items polls p) =
      (if polls > length items \<and> total_bytes bytes (oks items) < cp_max_size p
       then snd (provider_put_key M now key
              \<lparr>cr_records = oks items, cr_schema = schema, cr_input_tables = tables\<rparr> p)
       else p) \<and>
    map Inr (oks items) = items"
proof -
  have "map Inr (oks items) = items"
    using assms(1) by (induction items) (auto simp: oks_def List.map_filter_simps is_ok_iff)
  then show ?thesis
    using stream_to_the_end [of items polls p M bytes now key tables schema] assms(2)
    by (cases "length items < polls") (auto simp: to_cached_record_batch_stream_def)
qed

text \<open>A cache that never evicts, as an instance of the library's operations.\<close>

definition map_moka :: "(nat \<rightharpoonup> ('b, 's) cached_query_result, 'b, 's) moka" where
  "map_moka = \<lparr>m_get = (\<lambda>c k. c k), m_insert = (\<lambda>k v c. c(k \<mapsto> v)),
     m_invalidate_if = (\<lambda>P c. Inr (\<lambda>k. case c k of Some v \<Rightarrow> if P v then None else Some v | None \<Rightarrow> None)),
     m_weighted_size = (\<lambda>c. 0), m_entry_count = (\<lambda>c. 0)\<rparr>"

definition demo_provider :: "nat \<Rightarrow> (nat \<rightharpoonup> (string, unit) cached_query_result) cache_provider" where
  "demo_provider n = \<lparr>cp_cache = Map.empty, cp_max_size = n, cp_ttl = from_secs 1, cp_reported = 0,
     cp_ignore_schemas = [], cp_metrics = \<lparr>size_gauge = 0, max_size_gauge = n, request_count = 0,
       hit_count = 0, item_count_counter = 0\<rparr>\<rparr>"

theorem cached_stream_complete_witness:
  "let items = [Inr ''ab'', Inr ''c'' :: (unit, string) result];
       r = to_cached_record_batch_stream map_moka length 100 7 {Bare ''t''} () items 3 (demo_provider 10)
   in fst r = items \<and>
      cp_cache (snd r) 7 = Some \<lparr>cr_records = [''ab'', ''c''], cr_schema = (), cr_input_tables = {Bare ''t''}\<rparr>"
proof -
  let ?items = "[Inr ''ab'', Inr ''c'' :: (unit, string) result]"
  have ok: "\<forall>i\<in>set ?items. is_ok i" and pos: "0 < cp_max_size (demo_provider 10)"
    by (simp_all add: demo_provider_def)
  show ?thesis
    using cached_stream_complete [OF ok pos, of map_moka length 100 7 "{Bare ''t''}" "()" 3]
    by (simp add: oks_def List.map_filter_simps total_bytes_def demo_provider_def provider_put_key_def
        lru_put_key_def map_moka_def report_size_metrics_def)
qed

text \<open>
  A failed query can be cached as if it had succeeded: when the consumer keeps reading after
  an error, the batches before and after the error are stored under the plan's key, and the next
  lookup is answered with them.
\<close>

theorem failed_stream_cached:
  assumes "length items < polls" and "total_bytes bytes (oks items) < cp_max_size p"
    and "\<And>r c. m_get M (m_insert M (hash plan) r c) (hash plan) = Some r"
  shows "fst (provider_get M hash plan
           (snd (to_cached_record_batch_stream M bytes now (hash plan) tables schema items polls p))) =
         Inr (Some \<lparr>cr_records = oks items, cr_schema = schema, cr_input_tables = tables\<rparr>)"
proof -
  have "0 < cp_max_size p" using assms(2) by simp
  then show ?thesis
    using assms by (simp add: stream_to_the_end provider_get_def Let_def lru_get_def provider_put_key_def
        lru_put_key_def report_size_metrics_def)
qed

theorem failed_stream_cached_witness:
  "fst (provider_get map_moka (\<lambda>_. 7) (TableScan (Bare ''t''))
     (snd (to_cached_record_batch_stream map_moka length 100 7 {Bare ''t''} ()
        [Inr ''ab'', Inl ''source failed''] 3 (demo_provider 10)))) =
   Inr (Some \<lparr>cr_records = [''ab''], cr_schema = (), cr_input_tables = {Bare ''t''}\<rparr>)"
  using failed_stream_cached [of "[Inr ''ab'', Inl ''source failed'']" 3 length "demo_provider 10" map_moka "\<lambda>_. 7"
      "TableScan (Bare ''t'')" 100 "{Bare ''t''}" "()"]
  by (simp add: oks_def List.map_filter_simps total_bytes_def demo_provider_def map_moka_def)

section \<open>Invalidation\<close>

text \<open>
  The documented behaviour of predicate invalidation: afterwards no entry that satisfies the
  predicate is returned, and the others are not touched.
\<close>

definition moka_laws :: "('c, 'b, 's) moka \<Rightarrow> bool" where
  "moka_laws M \<longleftrightarrow>
     (\<forall>P c c'. m_invalidate_if M P c = Inr c' \<longrightarrow>
        (\<forall>k. m_get M c' k = (case m_get M c k of
            Some v \<Rightarrow> if P v then None else Some v | None \<Rightarrow> None)))"

text \<open>
  After a table is invalidated, no cached result that names it is returned and every other
  one still is. What counts is the reference as the query wrote it: a result that read the same
  table under a qualified name keeps being returned.
\<close>

theorem invalidate_for_table_by_reference:
  assumes "moka_laws M" and "provider_invalidate_for_table M t p = (Inr (), p')"
  shows "fst (provider_get M hash plan p') =
    (case fst (provider_get M hash plan p) of
       Inr (Some r) \<Rightarrow> if t \<in> cr_input_tables r then Inr None else Inr (Some r)
     | other \<Rightarrow> other)"
proof -
  obtain c where c: "m_invalidate_if M (\<lambda>v. t \<in> cr_input_tables v) (cp_cache p) = Inr c" "cp_cache p' = c"
    using assms(2) by (auto simp: provider_invalidate_for_table_def lru_invalidate_for_table_def
        split: sum.splits)
  with assms(1) have "m_get M c (hash plan) = (case m_get M (cp_cache p) (hash plan) of
      Some v \<Rightarrow> if t \<in> cr_input_tables v then None else Some v | None \<Rightarrow> None)"
    unfolding moka_laws_def by blast
  with c show ?thesis
    by (cases "m_get M (cp_cache p) (hash plan)") (simp_all add: provider_get_def Let_def lru_get_def)
qed

theorem invalidate_for_table_by_reference_witness:
  "let r = \<lparr>cr_records = [''x''], cr_schema = (), cr_input_tables = {Partial ''public'' ''t''}\<rparr>;
       p = (demo_provider 10)\<lparr>cp_cache := [7 \<mapsto> r]\<rparr>
   in fst (provider_get map_moka (\<lambda>_. 7) (TableScan (Partial ''public'' ''t''))
        (snd (provider_invalidate_for_table map_moka (Bare ''t'') p))) = Inr (Some r) \<and>
      fst (provider_get map_moka (\<lambda>_. 7) (TableScan (Partial ''public'' ''t''))
        (snd (provider_invalidate_for_table map_moka (Partial ''public'' ''t'') p))) = Inr None"
proof -
  let ?r = "\<lparr>cr_records = [''x''], cr_schema = (), cr_input_tables = {Partial ''public'' ''t''}\<rparr>"
  let ?p = "(demo_provider 10)\<lparr>cp_cache := [7 \<mapsto> ?r]\<rparr>"
  have laws: "moka_laws (map_moka :: (nat \<rightharpoonup> (string, unit) cached_query_result, string, unit) moka)"
    by (simp add: moka_laws_def map_moka_def)
  have inv: "provider_invalidate_for_table map_moka t ?p = (Inr (), snd (provider_invalidate_for_table map_moka t ?p))" for t
    by (simp add: provider_invalidate_for_table_def lru_invalidate_for_table_def map_moka_def)
  have "fst (provider_get map_moka (\<lambda>_. 7) (TableScan (Partial ''public'' ''t'')) ?p) = Inr (Some ?r)"
    by (simp add: provider_get_def Let_def lru_get_def map_moka_def demo_provider_def)
  then show ?thesis
    using invalidate_for_table_by_reference [OF laws inv, of "\<lambda>_. 7" "TableScan (Partial ''public'' ''t'')"]
    by (simp add: Let_def)
qed

section \<open>Metrics\<close>

text \<open>
  The size report is sent at most every five seconds as long as the clock does not go back,
  and a clock that went back triggers it at once because the unsigned difference wraps around;
  the counter described as the number of items in the cache grows by the whole item count with
  every report.
\<close>

theorem report_size_metrics_spec:
  "report_size_metrics M now p =
     (if unat now \<ge> unat (cp_reported p) \<and> unat now < unat (cp_reported p) + 5
        \<or> unat now + 2 ^ 64 < unat (cp_reported p) + 5
      then p
      else p\<lparr>cp_reported := now,
             cp_metrics := (cp_metrics p)\<lparr>size_gauge := m_weighted_size M (cp_cache p),
               item_count_counter := item_count_counter (cp_metrics p) + m_entry_count M (cp_cache p)\<rparr>\<rparr>)"
proof -
  let ?l = "cp_reported p"
  have lt: "unat ?l < 2 ^ 64" "unat now < 2 ^ 64" using unsigned_less [of ?l, where ?'a = nat] unsigned_less [of now, where ?'a = nat] by simp_all
  have "unat (now - ?l) = (if unat ?l \<le> unat now then unat now - unat ?l else unat now + 2 ^ 64 - unat ?l)"
    using lt by (auto simp: unat_sub_if')
  then have "5 \<le> now - ?l \<longleftrightarrow> \<not> (unat now \<ge> unat ?l \<and> unat now < unat ?l + 5 \<or> unat now + 2 ^ 64 < unat ?l + 5)"
    using lt by (auto simp: word_le_nat_alt)
  then show ?thesis by (simp add: report_size_metrics_def)
qed

end
