(* ===== verification/Mem_Table.thy ===== *)
theory Mem_Table
  imports Refresh_Task "HOL-Library.Multiset"
begin

text \<open>
  The in-memory accelerator (data_components/src/arrow/write.rs) with the deletion interface of
  data_components/src/delete.rs and the provider that combines a writer with a deleter
  (data_components/src/poly.rs). A table is a vector of partitions, a partition a vector of record
  batches; insertion buffers the incoming stream round robin and then writes every partition, and
  deletion drains the table, filters it through a data frame and writes back what is left. The
  parameters are Arrow's schema tests and DataFusion's data frames: which rows a predicate holds
  for, and what executing the frame's plan returns. A panic is \<open>None\<close>.
\<close>

section \<open>The table\<close>

record ('sc, 'v) record_batch =
  rb_schema :: 'sc
  rb_rows :: "'v row list"

type_synonym ('sc, 'v) partitions = "('sc, 'v) record_batch list list"

record ('sc, 'v, 'f) mem_table =
  mt_schema :: 'sc
  mt_batches :: "('sc, 'v) partitions"
  mt_constraints :: "string list"
  mt_column_defaults :: "(string, 'f) hmap"

definition mem_table_try_new ::
  "('sc \<Rightarrow> 'sc \<Rightarrow> bool) \<Rightarrow> 'sc \<Rightarrow> ('sc, 'v) partitions \<Rightarrow> (df_error, ('sc, 'v, 'f) mem_table) result" where
  "mem_table_try_new contains sc partitions =
     (if list_ex (\<lambda>b. \<not> contains sc (rb_schema b)) (concat partitions)
      then Inl (Fatal ''Mismatch between schema and batches'')
      else Inr \<lparr>mt_schema = sc,
                mt_batches = (if partitions = [] then [[]] else partitions),
                mt_constraints = [], mt_column_defaults = []\<rparr>)"

definition with_constraints :: "string list \<Rightarrow> ('sc, 'v, 'f) mem_table \<Rightarrow> ('sc, 'v, 'f) mem_table" where
  "with_constraints cs t = t\<lparr>mt_constraints := cs\<rparr>"

definition with_column_defaults :: "(string, 'f) hmap \<Rightarrow> ('sc, 'v, 'f) mem_table \<Rightarrow> ('sc, 'v, 'f) mem_table" where
  "with_column_defaults ds t = t\<lparr>mt_column_defaults := ds\<rparr>"

definition get_column_default :: "('sc, 'v, 'f) mem_table \<Rightarrow> string \<Rightarrow> 'f option" where
  "get_column_default t c = hm_get (mt_column_defaults t) c"

text \<open>\<open>scan\<close> hands a copy of the partitions to \<open>MemoryExec\<close>.\<close>

definition mem_scan ::
  "(('sc, 'v) partitions \<Rightarrow> 'sc \<Rightarrow> nat list option \<Rightarrow> (df_error, 'p) result) \<Rightarrow> nat list option \<Rightarrow>
   ('sc, 'v, 'f) mem_table \<Rightarrow> (df_error, 'p) result" where
  "mem_scan memory_exec projection t = memory_exec (mt_batches t) (mt_schema t) projection"

section \<open>Insertion\<close>

record ('sc, 'v) mem_sink =
  ms_batches :: "('sc, 'v) partitions"
  ms_overwrite :: bool

definition mem_insert_into ::
  "('sc \<Rightarrow> 'sc \<Rightarrow> bool) \<Rightarrow> 'sc \<Rightarrow> bool \<Rightarrow> ('sc, 'v, 'f) mem_table \<Rightarrow> (df_error, ('sc, 'v) mem_sink) result" where
  "mem_insert_into equivalent input_schema overwrite t =
     (if \<not> equivalent (mt_schema t) input_schema
      then Inl (Fatal ''Inserting query must have the same schema with the table.'')
      else Inr \<lparr>ms_batches = mt_batches t, ms_overwrite = overwrite\<rparr>)"

text \<open>\<open>new_batches[i].push(b)\<close>, for each of the given batches, and the index that follows.\<close>

definition push_at :: "nat \<Rightarrow> 'b list \<Rightarrow> 'b list list \<Rightarrow> 'b list list option" where
  "push_at i xs bs = (if xs = [] then Some bs
     else if i < length bs then Some (bs[i := bs ! i @ xs]) else None)"

definition next_index :: "nat \<Rightarrow> nat \<Rightarrow> nat option" where
  "next_index i n = (if n = 0 then None else Some ((i + 1) mod n))"

text \<open>The loop of \<open>write_all\<close> over the incoming stream; \<open>mark\<close> is
  \<open>check_and_mark_retriable_error\<close>.\<close>

fun buffer_stream ::
  "(df_error \<Rightarrow> df_error) \<Rightarrow> (df_error, ('sc, 'v) record_batch) result list \<Rightarrow> nat \<Rightarrow> nat \<Rightarrow>
   ('sc, 'v) partitions \<Rightarrow> (df_error, nat \<times> ('sc, 'v) partitions) result option" where
  "buffer_stream mark [] i row_count new_batches = Some (Inr (row_count, new_batches))"
| "buffer_stream mark (Inl e # data) i row_count new_batches = Some (Inl (mark e))"
| "buffer_stream mark (Inr b # data) i row_count new_batches =
     (case push_at i [b] new_batches of
        None \<Rightarrow> None
      | Some bs \<Rightarrow> (case next_index i (length bs) of
          None \<Rightarrow> None
        | Some j \<Rightarrow> buffer_stream mark data j (row_count + length (rb_rows b)) bs))"

definition write_targets :: "bool \<Rightarrow> ('sc, 'v) partitions \<Rightarrow> ('sc, 'v) partitions \<Rightarrow> ('sc, 'v) partitions" where
  "write_targets overwrite targets new =
     map2 (\<lambda>target bs. (if overwrite then [] else target) @ bs) targets new"

definition write_all ::
  "(df_error \<Rightarrow> df_error) \<Rightarrow> (df_error, ('sc, 'v) record_batch) result list \<Rightarrow> ('sc, 'v) mem_sink \<Rightarrow>
   ((df_error, nat) result \<times> ('sc, 'v) mem_sink) option" where
  "write_all mark data s =
     (case buffer_stream mark data 0 0 (replicate (length (ms_batches s)) []) of
        None \<Rightarrow> None
      | Some (Inl e) \<Rightarrow> Some (Inl e, s)
      | Some (Inr (row_count, new_batches)) \<Rightarrow>
          Some (Inr row_count,
                s\<lparr>ms_batches := write_targets (ms_overwrite s) (ms_batches s) new_batches\<rparr>))"

text \<open>
  Planning an insertion and running its plan: the sink holds the table's own partitions (they are
  shared behind \<open>Arc\<close>s), so what it wrote is the table's new content.
\<close>

definition mem_insert ::
  "('sc \<Rightarrow> 'sc \<Rightarrow> bool) \<Rightarrow> (df_error \<Rightarrow> df_error) \<Rightarrow> 'sc \<Rightarrow> bool \<Rightarrow>
   (df_error, ('sc, 'v) record_batch) result list \<Rightarrow> ('sc, 'v, 'f) mem_table \<Rightarrow>
   ((df_error, nat) result \<times> ('sc, 'v, 'f) mem_table) option" where
  "mem_insert equivalent mark input_schema overwrite data t =
     (case mem_insert_into equivalent input_schema overwrite t of
        Inl e \<Rightarrow> Some (Inl e, t)
      | Inr sink \<Rightarrow> map_option (\<lambda>(r, s). (r, t\<lparr>mt_batches := ms_batches s\<rparr>)) (write_all mark data sink))"

section \<open>Deletion\<close>

text \<open>
  A data frame over a temporary table: \<open>df_value\<close> is what a predicate evaluates to on a row
  (\<open>None\<close> is \<open>NULL\<close>), the other three are what planning, counting and collecting return for the
  frame that keeps the rows for which none of the listed predicates is true.
\<close>

record ('sc, 'v, 'f) data_frames =
  df_value :: "'f \<Rightarrow> 'v row \<Rightarrow> bool option"
  df_plan :: "'sc \<Rightarrow> 'f list \<Rightarrow> (df_error, unit) result"
  df_count :: "('sc, 'v, 'f) mem_table \<Rightarrow> 'f list \<Rightarrow> (df_error, nat) result"
  df_collect_partitioned :: "('sc, 'v, 'f) mem_table \<Rightarrow> 'f list \<Rightarrow> (df_error, ('sc, 'v) partitions) result"

record ('sc, 'v, 'f) mem_deletion_sink =
  mds_batches :: "('sc, 'v) partitions"
  mds_schema :: 'sc
  mds_filters :: "'f list"

definition mem_delete_plan :: "'f list \<Rightarrow> ('sc, 'v, 'f) mem_table \<Rightarrow> ('sc, 'v, 'f) mem_deletion_sink" where
  "mem_delete_plan filters t = \<lparr>mds_batches = mt_batches t, mds_schema = mt_schema t, mds_filters = filters\<rparr>"

text \<open>The partitions that come back, dealt out to the table's own.\<close>

fun deal :: "('sc, 'v) partitions \<Rightarrow> nat \<Rightarrow> ('sc, 'v) partitions \<Rightarrow> ('sc, 'v) partitions option" where
  "deal [] i new_batches = Some new_batches"
| "deal (vec # vecs) i new_batches =
     (case push_at i vec new_batches of
        None \<Rightarrow> None
      | Some bs \<Rightarrow> (case next_index i (length bs) of
          None \<Rightarrow> None
        | Some j \<Rightarrow> deal vecs j bs))"

text \<open>
  The sink's \<open>delete_from\<close>. The partitions are drained first; every later \<open>?\<close> returns with the
  table as it is then.
\<close>

definition sink_delete_from ::
  "('sc \<Rightarrow> 'sc \<Rightarrow> bool) \<Rightarrow> ('sc, 'v, 'f) data_frames \<Rightarrow> ('sc, 'v, 'f) mem_deletion_sink \<Rightarrow>
   ((df_error, nat) result \<times> ('sc, 'v, 'f) mem_deletion_sink) option" where
  "sink_delete_from contains fr s =
     (let n = length (mds_batches s);
          tmp_batches = mds_batches s;
          drained = s\<lparr>mds_batches := replicate n []\<rparr>
      in case
           and_then (mem_table_try_new contains (mds_schema s) tmp_batches) (\<lambda>provider.
           and_then (df_plan fr (mds_schema s) []) (\<lambda>_.
           and_then (df_count fr provider []) (\<lambda>all.
           and_then (df_plan fr (mds_schema s) (mds_filters s)) (\<lambda>_.
           and_then (df_count fr provider (mds_filters s)) (\<lambda>kept.
           and_then (df_collect_partitioned fr provider (mds_filters s)) (\<lambda>vecs.
           Inr (all - kept, vecs)))))))
         of Inl e \<Rightarrow> Some (Inl e, drained)
          | Inr (deleted, vecs) \<Rightarrow> (case deal vecs 0 (replicate n []) of
              None \<Rightarrow> None
            | Some new_batches \<Rightarrow>
                Some (Inr deleted, drained\<lparr>mds_batches := write_targets False (mds_batches drained) new_batches\<rparr>)))"

text \<open>\<open>DeletionExec::execute\<close>: run the sink once; the count is the only row returned.\<close>

definition deletion_exec :: "((df_error, nat) result \<times> 's) option \<Rightarrow> ((df_error, nat list) result \<times> 's) option" where
  "deletion_exec r = map_option (\<lambda>(res, s). (and_then res (\<lambda>count. Inr [count]), s)) r"

definition mem_delete ::
  "('sc \<Rightarrow> 'sc \<Rightarrow> bool) \<Rightarrow> ('sc, 'v, 'f) data_frames \<Rightarrow> 'f list \<Rightarrow> ('sc, 'v, 'f) mem_table \<Rightarrow>
   ((df_error, nat list) result \<times> ('sc, 'v, 'f) mem_table) option" where
  "mem_delete contains fr filters t =
     map_option (\<lambda>(r, s). (r, t\<lparr>mt_batches := mds_batches s\<rparr>))
       (deletion_exec (sink_delete_from contains fr (mem_delete_plan filters t)))"

section \<open>The deletion interface\<close>

text \<open>
  The providers \<open>get_deletion_provider\<close> can be asked about: \<open>Poly\<close> carries a writer, a deleter and
  a federated provider, \<open>Adapter\<close> wraps a deletion provider, \<open>Plain\<close> is any other provider.
\<close>

datatype ('p, 'd) provider = Poly 'p 'd 'p | Adapter 'd | Plain 'p

datatype ('p, 'd) deleter = DeletePoly 'p 'd 'p | DeleteSource 'd

fun get_deletion_provider :: "('p, 'd) provider \<Rightarrow> ('p, 'd) deleter option" where
  "get_deletion_provider (Poly w d f) = Some (DeletePoly w d f)"
| "get_deletion_provider (Adapter d) = Some (DeleteSource d)"
| "get_deletion_provider (Plain p) = None"

fun poly_delete_from :: "('d \<Rightarrow> 'f list \<Rightarrow> 'r) \<Rightarrow> ('p, 'd) deleter \<Rightarrow> 'f list \<Rightarrow> 'r" where
  "poly_delete_from delete_from (DeletePoly w d fed) filters = delete_from d filters"
| "poly_delete_from delete_from (DeleteSource d) filters = delete_from d filters"

text \<open>\<open>ArrowFactory::create\<close>: an empty table behind the adapter.\<close>

definition arrow_factory_create ::
  "('sc \<Rightarrow> 'sc \<Rightarrow> bool) \<Rightarrow> 'sc \<Rightarrow> (df_error, ('p, ('sc, 'v, 'f) mem_table) provider) result" where
  "arrow_factory_create contains sc = and_then (mem_table_try_new contains sc []) (\<lambda>t. Inr (Adapter t))"

section \<open>Dealing batches round robin\<close>

lemma push_at_ok:
  assumes "i < length bs"
  shows "\<exists>bs'. push_at i xs bs = Some bs' \<and> length bs' = length bs \<and>
           mset (concat bs') = mset (concat bs) + mset xs"
proof -
  have "mset (concat (bs[i := bs ! i @ xs])) = mset (concat bs) + mset xs"
    using assms
  proof (induction bs arbitrary: i)
    case (Cons b bs)
    then show ?case by (cases i) (auto simp: ac_simps)
  qed simp
  then show ?thesis using assms by (auto simp: push_at_def)
qed

lemma deal_ok:
  assumes "i < length bs"
  shows "\<exists>bs'. deal vecs i bs = Some bs' \<and> length bs' = length bs \<and>
           mset (concat bs') = mset (concat bs) + mset (concat vecs)"
  using assms
proof (induction vecs arbitrary: i bs)
  case (Cons vec vecs)
  from push_at_ok [OF Cons.prems, of vec] obtain bs1 where
    bs1: "push_at i vec bs = Some bs1" "length bs1 = length bs" "mset (concat bs1) = mset (concat bs) + mset vec"
    by blast
  then have "(i + 1) mod length bs1 < length bs1" using Cons.prems by (intro mod_less_divisor) auto
  from Cons.IH [OF this] bs1 Cons.prems show ?case
    by (auto simp: next_index_def ac_simps)
qed simp

text \<open>The stream loop reads the stream to its first error and deals single batches.\<close>

lemma buffer_stream_deal:
  "i < length bs \<Longrightarrow> buffer_stream mark data i n bs =
     (case try_collect (\<lambda>r. r) data of
        Inl e \<Rightarrow> Some (Inl (mark e))
      | Inr xs \<Rightarrow> map_option (\<lambda>bs'. Inr (n + (\<Sum>b\<leftarrow>xs. length (rb_rows b)), bs')) (deal (map (\<lambda>b. [b]) xs) i bs))"
proof (induction mark data i n bs rule: buffer_stream.induct)
  case (3 mark b data i n bs)
  from push_at_ok [OF "3.prems", of "[b]"] obtain bs1 where
    bs1: "push_at i [b] bs = Some bs1" "length bs1 = length bs" by blast
  then have pos: "length bs1 \<noteq> 0" using "3.prems" by auto
  with bs1 have nx: "next_index i (length bs1) = Some ((i + 1) mod length bs1)" by (simp add: next_index_def)
  show ?case
    using "3.IH" [OF bs1(1) nx] pos by (cases "try_collect (\<lambda>r. r) data") (auto simp: bs1(1) nx [simplified] ac_simps)
qed auto

section \<open>The table as a multiset of rows\<close>

definition batch_rows :: "('sc, 'v) partitions \<Rightarrow> 'v row list" where
  "batch_rows ps = concat (map rb_rows (concat ps))"

definition mem_content :: "('sc, 'v, 'f) mem_table \<Rightarrow> 'v row multiset" where
  "mem_content t = mset (batch_rows (mt_batches t))"

definition mem_valid :: "('sc, 'v, 'f) mem_table \<Rightarrow> bool" where
  "mem_valid t \<longleftrightarrow> mt_batches t \<noteq> []"

lemma mset_concat_rows: "mset (concat (map rb_rows bs)) = (\<Sum>b\<in>#mset bs. mset (rb_rows b))"
  by (induction bs) auto

lemma mset_batch_rows: "mset (batch_rows ps) = (\<Sum>b\<in>#mset (concat ps). mset (rb_rows b))"
  unfolding batch_rows_def by (rule mset_concat_rows)

lemma write_targets_mset:
  "length new = length targets \<Longrightarrow>
   mset (concat (write_targets ow targets new)) = (if ow then {#} else mset (concat targets)) + mset (concat new)"
  unfolding write_targets_def
  by (induction targets new rule: list_induct2') (auto simp: ac_simps)

lemma write_targets_length: "length new = length targets \<Longrightarrow> length (write_targets ow targets new) = length targets"
  by (simp add: write_targets_def)

lemma concat_replicate_Nil [simp]: "concat (replicate n []) = []"
  by (induction n) auto

text \<open>What an insertion means: nothing happens unless the whole stream arrives.\<close>

definition spec_insert :: "bool \<Rightarrow> ('e, 'r list) result \<Rightarrow> 'r multiset \<Rightarrow> ('e, nat) result \<times> 'r multiset" where
  "spec_insert overwrite input m = (case input of
      Inl e \<Rightarrow> (Inl e, m)
    | Inr rows \<Rightarrow> (Inr (length rows), (if overwrite then {#} else m) + mset rows))"

text \<open>What arrives: the schema is checked before the stream is read.\<close>

definition mem_input ::
  "('sc \<Rightarrow> 'sc \<Rightarrow> bool) \<Rightarrow> (df_error \<Rightarrow> df_error) \<Rightarrow> 'sc \<Rightarrow> 'sc \<Rightarrow> (df_error, ('sc, 'v) record_batch) result list \<Rightarrow>
   (df_error, 'v row list) result" where
  "mem_input equivalent mark sc input_schema data =
     (if \<not> equivalent sc input_schema
      then Inl (Fatal ''Inserting query must have the same schema with the table.'')
      else map_err mark (and_then (try_collect (\<lambda>r. r) data) (\<lambda>bs. Inr (concat (map rb_rows bs)))))"

lemma concat_singletons: "concat (map (\<lambda>b. [b]) xs) = xs"
  by (induction xs) auto

lemma length_concat_rows: "length (concat (map rb_rows xs)) = (\<Sum>b\<leftarrow>xs. length (rb_rows b))"
  by (induction xs) auto

lemma mem_insert_spec:
  assumes "mem_valid t"
  shows "\<exists>r t'. mem_insert equivalent mark input_schema overwrite data t = Some (r, t') \<and> mem_valid t' \<and>
           mt_schema t' = mt_schema t \<and>
           (r, mem_content t') = spec_insert overwrite (mem_input equivalent mark (mt_schema t) input_schema data) (mem_content t)"
proof (cases "equivalent (mt_schema t) input_schema")
  case False
  then show ?thesis using assms by (auto simp: mem_insert_def mem_insert_into_def spec_insert_def mem_input_def)
next
  case eqv: True
  let ?n = "length (mt_batches t)" and ?sink = "\<lparr>ms_batches = mt_batches t, ms_overwrite = overwrite\<rparr>"
  have pos: "0 < length (replicate ?n ([] :: ('a, 'b) record_batch list))" using assms by (simp add: mem_valid_def)
  have ins: "mem_insert equivalent mark input_schema overwrite data t =
      map_option (\<lambda>(r, s). (r, t\<lparr>mt_batches := ms_batches s\<rparr>)) (write_all mark data ?sink)"
    using eqv by (simp add: mem_insert_def mem_insert_into_def)
  show ?thesis
  proof (cases "try_collect (\<lambda>r. r) data")
    case (Inl e)
    then have "write_all mark data ?sink = Some (Inl (mark e), ?sink)"
      using buffer_stream_deal [OF pos, of mark data 0] by (simp add: write_all_def)
    then show ?thesis using eqv assms Inl by (simp add: ins spec_insert_def mem_input_def)
  next
    case (Inr xs)
    from deal_ok [OF pos, of "map (\<lambda>b. [b]) xs"] obtain bs where
      bs: "deal (map (\<lambda>b. [b]) xs) 0 (replicate ?n []) = Some bs" "length bs = ?n" "mset (concat bs) = mset xs"
      by (auto simp: concat_singletons)
    then have w: "write_all mark data ?sink = Some (Inr (\<Sum>b\<leftarrow>xs. length (rb_rows b)),
        ?sink\<lparr>ms_batches := write_targets overwrite (mt_batches t) bs\<rparr>)"
      using buffer_stream_deal [OF pos, of mark data 0] Inr by (simp add: write_all_def)
    have valid: "write_targets overwrite (mt_batches t) bs \<noteq> []"
      using write_targets_length [OF bs(2), of overwrite] pos by auto
    have "mem_content (t\<lparr>mt_batches := write_targets overwrite (mt_batches t) bs\<rparr>) =
        (if overwrite then {#} else mem_content t) + mset (concat (map rb_rows xs))"
      by (simp add: mem_content_def mset_batch_rows write_targets_mset [OF bs(2)] bs(3) mset_concat_rows)
    then show ?thesis
      using eqv Inr valid by (simp add: ins w spec_insert_def mem_input_def mem_valid_def length_concat_rows)
  qed
qed

section \<open>The interface of an accelerator\<close>

text \<open>
  What the refresh code relies on: an accelerator's content is a multiset of rows, an insertion
  does what \<open>spec_insert\<close> says, and nothing ever leaves the set of valid tables.
\<close>

locale row_store =
  fixes content :: "'t \<Rightarrow> 'r multiset"
    and valid :: "'t \<Rightarrow> bool"
    and incoming :: "'t \<Rightarrow> 'd \<Rightarrow> ('e, 'r list) result"
    and insert_rows :: "bool \<Rightarrow> 'd \<Rightarrow> 't \<Rightarrow> (('e, nat) result \<times> 't) option"
  assumes insert_refines: "valid t \<Longrightarrow> \<exists>r t'. insert_rows ow d t = Some (r, t') \<and> valid t' \<and>
      incoming t' = incoming t \<and> (r, content t') = spec_insert ow (incoming t d) (content t)"
begin

lemma insert_commutes:
  assumes "valid t"
  shows "map_option (map_prod id content) (insert_rows ow d t) = Some (spec_insert ow (incoming t d) (content t))"
  using insert_refines [OF assms, of ow d] by auto

lemma run_refines:
  "valid t \<Longrightarrow> \<exists>t'. fold (\<lambda>(ow, d) s. Option.bind s (\<lambda>t. map_option snd (insert_rows ow d t))) ops (Some t) = Some t' \<and>
     valid t' \<and> incoming t' = incoming t \<and>
     content t' = fold (\<lambda>(ow, d) m. snd (spec_insert ow (incoming t d) m)) ops (content t)"
proof (induction ops arbitrary: t)
  case (Cons op ops)
  obtain ow d where op: "op = (ow, d)" by (cases op)
  from insert_refines [OF Cons.prems, of ow d] obtain r t1 where
    t1: "insert_rows ow d t = Some (r, t1)" "valid t1" "incoming t1 = incoming t"
      "(r, content t1) = spec_insert ow (incoming t d) (content t)" by blast
  then have "content t1 = snd (spec_insert ow (incoming t d) (content t))" by (metis snd_conv)
  with Cons.IH [OF t1(2)] t1 show ?case by (auto simp: op)
qed simp

end

text \<open>A full refresh replaces whatever was there, whatever happened before it.\<close>

lemma spec_insert_overwrite: "snd (spec_insert True (Inr rows) m) = mset rows"
  by (simp add: spec_insert_def)

interpretation mem: row_store mem_content mem_valid
    "\<lambda>t (sc', data). mem_input equivalent mark (mt_schema t) sc' data"
    "\<lambda>ow (sc', data) t. mem_insert equivalent mark sc' ow data t"
  for equivalent mark
  using mem_insert_spec by unfold_locales (fastforce split: prod.splits)

section \<open>Deletion keeps the rows that match no filter\<close>

definition matches_some :: "('sc, 'v, 'f) data_frames \<Rightarrow> 'f list \<Rightarrow> 'v row \<Rightarrow> bool" where
  "matches_some fr fs r \<longleftrightarrow> (\<exists>f\<in>set fs. df_value fr f r = Some True)"

text \<open>
  What is relied on of a data frame: filtering by \<open>is_not_true\<close> of each predicate keeps the rows
  on which none is true, counting and collecting see the same rows, and the filtered rows come
  back in some partitions and some order.
\<close>

definition frames_ok :: "('sc, 'v, 'f) data_frames \<Rightarrow> bool" where
  "frames_ok fr \<longleftrightarrow>
     (\<forall>t fs n. df_count fr t fs = Inr n \<longrightarrow> n = size (filter_mset (\<lambda>r. \<not> matches_some fr fs r) (mem_content t))) \<and>
     (\<forall>t fs vecs. df_collect_partitioned fr t fs = Inr vecs \<longrightarrow>
        mset (batch_rows vecs) = filter_mset (\<lambda>r. \<not> matches_some fr fs r) (mem_content t))"

lemma frames_count:
  "frames_ok fr \<Longrightarrow> df_count fr t fs = Inr n \<Longrightarrow> n = size (filter_mset (\<lambda>r. \<not> matches_some fr fs r) (mem_content t))"
  unfolding frames_ok_def by blast

lemma try_new_content: "mem_table_try_new contains sc ps = Inr t \<Longrightarrow> mem_content t = mset (batch_rows ps)"
  by (auto simp: mem_table_try_new_def mem_content_def batch_rows_def split: if_splits)

lemma try_new_valid: "mem_table_try_new contains sc ps = Inr t \<Longrightarrow> mem_valid t"
  by (auto simp: mem_table_try_new_def mem_valid_def split: if_splits)

lemma deal_content:
  assumes "deal vecs 0 (replicate n []) = Some bs" and "0 < n"
  shows "length bs = n" and "mset (batch_rows bs) = mset (batch_rows vecs)"
  using deal_ok [of 0 "replicate n []" vecs] assms by (auto simp: mset_batch_rows)

lemma write_drained: "length bs = n \<Longrightarrow> write_targets False (replicate n []) bs = bs"
  unfolding write_targets_def by (induction bs arbitrary: n) auto

lemma mem_delete_total:
  assumes "mem_valid t"
  shows "\<exists>r t'. mem_delete contains fr filters t = Some (r, t') \<and> mem_valid t' \<and> mt_schema t' = mt_schema t"
proof -
  define n where "n = length (mt_batches t)"
  have pos: "0 < n" using assms by (simp add: n_def mem_valid_def)
  have "\<exists>bs. deal vecs 0 (replicate n []) = Some bs \<and> length bs = n" for vecs :: "('a, 'b) partitions"
    using deal_ok [of 0 "replicate n []" vecs] pos by auto
  then have deal: "\<exists>bs. deal vecs 0 (replicate n []) = Some bs \<and> bs \<noteq> [] \<and> write_targets False (replicate n []) bs = bs"
    for vecs :: "('a, 'b) partitions"
    using pos write_drained by (metis length_0_conv less_numeral_extra(3))
  let ?r = "and_then (mem_table_try_new contains (mt_schema t) (mt_batches t)) (\<lambda>provider.
      and_then (df_plan fr (mt_schema t) []) (\<lambda>_. and_then (df_count fr provider []) (\<lambda>all.
      and_then (df_plan fr (mt_schema t) filters) (\<lambda>_. and_then (df_count fr provider filters) (\<lambda>kept.
      and_then (df_collect_partitioned fr provider filters) (\<lambda>vecs. Inr (all - kept, vecs)))))))"
  show ?thesis
  proof (cases ?r)
    case (Inl e)
    then show ?thesis
      using pos by (simp add: mem_delete_def deletion_exec_def sink_delete_from_def mem_delete_plan_def Let_def mem_valid_def n_def)
  next
    case (Inr p)
    obtain d vecs where p: "p = (d, vecs)" by (cases p)
    from deal [of vecs] obtain bs where
      "deal vecs 0 (replicate n []) = Some bs" "bs \<noteq> []" "write_targets False (replicate n []) bs = bs" by blast
    with Inr show ?thesis
      by (simp add: p mem_delete_def deletion_exec_def sink_delete_from_def mem_delete_plan_def Let_def mem_valid_def n_def)
  qed
qed

lemma size_filter_split: "size M - size (filter_mset (\<lambda>x. \<not> P x) M) = size (filter_mset P M)"
  by (metis add_diff_cancel_right' multiset_partition size_union)

lemma mem_delete_ok:
  assumes "frames_ok fr" and "mem_valid t" and "mem_delete contains fr filters t = Some (Inr ns, t')"
  shows "mem_content t' = filter_mset (\<lambda>r. \<not> matches_some fr filters r) (mem_content t)"
    and "ns = [size (filter_mset (matches_some fr filters) (mem_content t))]"
proof -
  define n where "n = length (mt_batches t)"
  have pos: "0 < n" using assms(2) by (simp add: n_def mem_valid_def)
  from assms(3) obtain provider a k vecs bs where
    tmp: "mem_table_try_new contains (mt_schema t) (mt_batches t) = Inr provider" and
    cnt: "df_count fr provider [] = Inr a" "df_count fr provider filters = Inr k" and
    col: "df_collect_partitioned fr provider filters = Inr vecs" and
    deal: "deal vecs 0 (replicate n []) = Some bs" and
    t': "ns = [a - k]" "t' = t\<lparr>mt_batches := write_targets False (replicate n []) bs\<rparr>"
    by (auto simp: mem_delete_def deletion_exec_def sink_delete_from_def mem_delete_plan_def Let_def n_def
        and_then_eq_Inr and_then_eq_Inl split: sum.splits option.splits)
  have content: "mem_content provider = mem_content t"
    using try_new_content [OF tmp] by (simp add: mem_content_def)
  have "mem_content t' = mset (batch_rows bs)"
    using write_drained [OF deal_content(1) [OF deal pos]] by (simp add: t'(2) mem_content_def)
  with deal_content(2) [OF deal pos] col assms(1) content
  show "mem_content t' = filter_mset (\<lambda>r. \<not> matches_some fr filters r) (mem_content t)"
    by (simp add: frames_ok_def)
  have "a = size (filter_mset (\<lambda>r. \<not> matches_some fr [] r) (mem_content t))"
    using frames_count [OF assms(1) cnt(1)] by (simp add: content)
  then have "a = size (mem_content t)" by (simp add: matches_some_def)
  moreover have "k = size (filter_mset (\<lambda>r. \<not> matches_some fr filters r) (mem_content t))"
    using frames_count [OF assms(1) cnt(2)] by (simp add: content)
  ultimately show "ns = [size (filter_mset (matches_some fr filters) (mem_content t))]"
    using t'(1) by (simp add: size_filter_split)
qed

lemma mem_delete_error:
  assumes "mem_delete contains fr filters t = Some (Inl e, t')"
  shows "mem_content t' = {#}"
proof -
  have "t' = t\<lparr>mt_batches := replicate (length (mt_batches t)) []\<rparr>"
    using assms
    by (auto simp: mem_delete_def deletion_exec_def sink_delete_from_def mem_delete_plan_def Let_def
        and_then_eq_Inl split: sum.splits option.splits)
  then show ?thesis by (simp add: mem_content_def batch_rows_def)
qed

section \<open>Properties\<close>

datatype ('sc, 'v, 'f) mem_op =
    InsertRows 'sc bool "(df_error, ('sc, 'v) record_batch) result list"
  | DeleteRows "'f list"

fun mem_apply ::
  "('sc \<Rightarrow> 'sc \<Rightarrow> bool) \<Rightarrow> ('sc \<Rightarrow> 'sc \<Rightarrow> bool) \<Rightarrow> (df_error \<Rightarrow> df_error) \<Rightarrow> ('sc, 'v, 'f) data_frames \<Rightarrow>
   ('sc, 'v, 'f) mem_op \<Rightarrow> ('sc, 'v, 'f) mem_table \<Rightarrow> ('sc, 'v, 'f) mem_table option" where
  "mem_apply contains equivalent mark fr (InsertRows sc ow data) t =
     map_option snd (mem_insert equivalent mark sc ow data t)"
| "mem_apply contains equivalent mark fr (DeleteRows fs) t = map_option snd (mem_delete contains fr fs t)"

text \<open>A small instance of the parameters: predicates compare a column with a value.\<close>

definition demo_frames :: "(string, int, nat \<times> int) data_frames" where
  "demo_frames = \<lparr>
     df_value = (\<lambda>(i, v) r. if i < length r then Some (r ! i = v) else None),
     df_plan = (\<lambda>_ _. Inr ()),
     df_count = (\<lambda>t fs. Inr (length (filter (\<lambda>r. list_all (\<lambda>(i, v). \<not> (i < length r \<and> r ! i = v)) fs) (batch_rows (mt_batches t))))),
     df_collect_partitioned = (\<lambda>t fs. Inr (map (map (\<lambda>b. b\<lparr>rb_rows :=
        filter (\<lambda>r. list_all (\<lambda>(i, v). \<not> (i < length r \<and> r ! i = v)) fs) (rb_rows b)\<rparr>)) (mt_batches t)))\<rparr>"

definition demo_table :: "(string, int, nat \<times> int) mem_table" where
  "demo_table = \<lparr>mt_schema = ''s'',
     mt_batches = [[\<lparr>rb_schema = ''s'', rb_rows = [[1, 7], [2, 8]]\<rparr>], [\<lparr>rb_schema = ''s'', rb_rows = [[1, 9]]\<rparr>]],
     mt_constraints = [], mt_column_defaults = []\<rparr>"

lemma demo_matches: "matches_some demo_frames fs r \<longleftrightarrow> \<not> list_all (\<lambda>(i, v). \<not> (i < length r \<and> r ! i = v)) fs"
  by (induction fs) (auto simp: matches_some_def demo_frames_def split: if_splits)

lemma demo_frames_ok: "frames_ok demo_frames"
proof -
  have "batch_rows (map (map (\<lambda>b. b\<lparr>rb_rows := filter P (rb_rows b)\<rparr>)) ps) = filter P (batch_rows ps)"
    for P :: "int row \<Rightarrow> bool" and ps :: "(string, int) partitions"
    by (simp add: batch_rows_def filter_concat map_concat comp_def)
  then show ?thesis
    unfolding frames_ok_def demo_matches
    by (auto simp: demo_frames_def mem_content_def simp flip: mset_filter)
qed

text \<open>
  (C5) The in-memory table refines a multiset of rows: seen through its content, an insertion is
  \<open>spec_insert\<close>. Round robin dealing loses and repeats no batch, an overwrite replaces every
  partition, the count is the number of rows, and on a stream error or a schema mismatch the
  content stays as it was.
\<close>

theorem mem_insert_refines:
  assumes "mem_valid t"
  shows "map_option (map_prod id mem_content) (mem_insert equivalent mark sc overwrite data t) =
    Some (spec_insert overwrite (mem_input equivalent mark (mt_schema t) sc data) (mem_content t))"
  using mem.insert_commutes [OF assms, where d = "(sc, data)"] by simp

theorem mem_insert_refines_witness:
  "map_option (map_prod id mem_content)
     (mem_insert (=) id ''s'' False [Inr \<lparr>rb_schema = ''s'', rb_rows = [[3, 3]]\<rparr>, Inr \<lparr>rb_schema = ''s'', rb_rows = [[4, 4]]\<rparr>] demo_table) =
   Some (Inr 2, {#[1, 7], [2, 8], [1, 9], [3, 3], [4, 4]#})"
proof -
  have "mem_valid demo_table" by (simp add: mem_valid_def demo_table_def)
  from mem_insert_refines [OF this, of "(=)" id "''s''" False
      "[Inr \<lparr>rb_schema = ''s'', rb_rows = [[3, 3]]\<rparr>, Inr \<lparr>rb_schema = ''s'', rb_rows = [[4, 4]]\<rparr>]"]
  have "map_option (map_prod id mem_content)
     (mem_insert (=) id ''s'' False [Inr \<lparr>rb_schema = ''s'', rb_rows = [[3, 3]]\<rparr>, Inr \<lparr>rb_schema = ''s'', rb_rows = [[4, 4]]\<rparr>] demo_table) =
     Some (Inr 2, mem_content demo_table + {#[3, 3], [4, 4]#})"
    by (simp add: spec_insert_def mem_input_def demo_table_def numeral_2_eq_2)
  then show ?thesis by (simp add: demo_table_def mem_content_def batch_rows_def add_mset_commute)
qed

text \<open>
  (C19) A table made by \<open>try_new\<close> always has a partition, every insertion and deletion keeps it so, and
  none of the index operations and remainders of the round robin loops panics, whatever sequence
  of operations is run.
\<close>

theorem mem_table_never_panics:
  assumes "mem_table_try_new contains sc partitions = Inr t"
  shows "\<exists>t'. fold (\<lambda>op s. Option.bind s (mem_apply contains equivalent mark fr op)) ops (Some t) = Some t' \<and> mem_valid t'"
proof -
  have "mem_valid t" using assms by (rule try_new_valid)
  then show ?thesis
  proof (induction ops arbitrary: t)
    case (Cons op ops)
    have "\<exists>t'. mem_apply contains equivalent mark fr op t = Some t' \<and> mem_valid t'"
      using mem_insert_spec [OF Cons.prems, of equivalent mark] mem_delete_total [OF Cons.prems, of contains fr]
      by (cases op) fastforce+
    then show ?case using Cons.IH by auto
  qed simp
qed

theorem mem_table_never_panics_witness:
  "\<exists>t'. fold (\<lambda>op s. Option.bind s (mem_apply (=) (=) id demo_frames op))
      [InsertRows ''s'' True [Inr \<lparr>rb_schema = ''s'', rb_rows = [[1, 2]]\<rparr>], DeleteRows [(0, 1)]]
      (Some \<lparr>mt_schema = ''s'', mt_batches = [[]], mt_constraints = [], mt_column_defaults = []\<rparr>) = Some t' \<and> mem_valid t'"
  by (rule mem_table_never_panics [of "(=)" "''s''" "[]"]) (simp add: mem_table_try_new_def)



text \<open>
  A deletion that fails leaves the table empty: the partitions are drained before any step that
  can fail, and no error path puts the rows back.
\<close>

theorem mem_delete_failure_empties:
  assumes "mem_delete contains fr filters t = Some (Inl e, t')"
  shows "mem_content t' = {#}"
  using assms by (rule mem_delete_error)

theorem mem_delete_failure_empties_witness:
  "mem_content demo_table \<noteq> {#} \<and>
   (\<exists>t'. mem_delete (\<lambda>_ _. False) demo_frames [(0, 5)] demo_table =
      Some (Inl (Fatal ''Mismatch between schema and batches''), t') \<and> mem_content t' = {#})"
proof -
  have "\<exists>t'. mem_delete (\<lambda>_ _. False) demo_frames [(0, 5)] demo_table = Some (Inl (Fatal ''Mismatch between schema and batches''), t')"
    by (simp add: mem_delete_def deletion_exec_def sink_delete_from_def mem_delete_plan_def demo_table_def mem_table_try_new_def)
  then show ?thesis
    using mem_delete_failure_empties by (fastforce simp: mem_content_def demo_table_def batch_rows_def)
qed

end
