(* ===== verification/Refresh_Changes.thy ===== *)
theory Refresh_Changes
  imports Change_Batch Results_Cache Mem_Table
begin

text \<open>
  The streaming refreshes: applying a stream of change events to the accelerator
  (runtime/src/accelerated_table/refresh_task/changes.rs) and appending a stream of batches
  (\<open>start_streaming_append\<close> in refresh_task.rs). The accelerator is given by its deletion provider
  and its \<open>insert_into\<close>, both planned and collected at once. A stream is the list of what it
  yields; a task that panicked is \<open>None\<close>.
\<close>

section \<open>Keys of a row\<close>

text \<open>A cell as its array stores it; \<open>value(0)\<close> of a null slot reads the slot's content.\<close>

datatype 'o scalar = I32 "32 word" | I64 "64 word" | Str string | OtherValue 'o

definition show_int :: "int \<Rightarrow> string" where
  "show_int i = (if i < 0 then CHR ''-'' # digits (nat (- i)) else digits (nat i))"

text \<open>\<open>col(key).eq(lit(value))\<close>.\<close>

datatype 'o where_expr = ColumnEq string "'o scalar"

definition get_primary_key_value ::
  "(cdc_type \<Rightarrow> string) \<Rightarrow> 'o scalar data_row \<Rightarrow> string \<Rightarrow> (accelerated_table_error, string \<times> 'o scalar) result" where
  "get_primary_key_value show_type d key =
     (case index_of (map cf_name (dr_fields d)) key of
        None \<Rightarrow> Inl (ExpectedSchemaToHaveField key)
      | Some i \<Rightarrow>
          (let t = cf_type (dr_fields d ! i); v = dr_values d ! i
           in if t = Prim DT_Int32
              then (case v of I32 w \<Rightarrow> Inr (show_int (sint w), I32 w) | _ \<Rightarrow> Inl (ArrayDataTypeMismatch key ''Int32''))
              else if t = Prim DT_Int64
              then (case v of I64 w \<Rightarrow> Inr (show_int (sint w), I64 w) | _ \<Rightarrow> Inl (ArrayDataTypeMismatch key ''Int64''))
              else if t = Prim DT_Utf8
              then (case v of Str s \<Rightarrow> Inr (s, Str s) | _ \<Rightarrow> Inl (ArrayDataTypeMismatch key ''String''))
              else Inl (PrimaryKeyTypeNotYetSupported (show_type t))))"

definition get_primary_key_log_fmt ::
  "(cdc_type \<Rightarrow> string) \<Rightarrow> 'o scalar data_row \<Rightarrow> string list \<Rightarrow> (accelerated_table_error, string) result" where
  "get_primary_key_log_fmt show_type d keys =
     and_then (try_collect (\<lambda>key. and_then (get_primary_key_value show_type d key) (\<lambda>(value, _).
                 Inr (key @ ''='' @ value))) keys) (\<lambda>ks. Inr (join_str '', '' ks))"

definition get_delete_where_expr ::
  "(cdc_type \<Rightarrow> string) \<Rightarrow> 'o scalar data_row \<Rightarrow> string list \<Rightarrow> (accelerated_table_error, 'o where_expr list) result" where
  "get_delete_where_expr show_type d keys =
     try_collect (\<lambda>key. and_then (get_primary_key_value show_type d key) (\<lambda>(_, expr_val).
       Inr (ColumnEq key expr_val))) keys"

section \<open>Writing a batch of changes\<close>

record ('t, 'o) accelerator =
  ac_deletion_provider :: "('o where_expr list \<Rightarrow> 't \<Rightarrow> ((df_error, unit) result \<times> 't) option) option"
  ac_insert :: "'o scalar data_row \<Rightarrow> 't \<Rightarrow> ((df_error, unit) result \<times> 't) option"

text \<open>Planning and collecting both report \<open>FailedToWriteData\<close>.\<close>

definition written ::
  "((df_error, unit) result \<times> 't) option \<Rightarrow> ((accelerated_table_error, unit) result \<times> 't) option" where
  "written r = map_option (\<lambda>(res, t). (map_err FailedToWriteData res, t)) r"

definition write_upsert ::
  "(cdc_type \<Rightarrow> string) \<Rightarrow> ('t, 'o) accelerator \<Rightarrow> string list \<Rightarrow> 'o scalar data_row \<Rightarrow> 't \<Rightarrow>
   ((accelerated_table_error, unit) result \<times> 't) option" where
  "write_upsert show_type ac keys d t =
     (case (if keys = [] then Inr [] else get_primary_key_log_fmt show_type d keys) of
        Inl e \<Rightarrow> Some (Inl e, t)
      | Inr _ \<Rightarrow> written (ac_insert ac d t))"

definition write_row ::
  "(cdc_type \<Rightarrow> string) \<Rightarrow> ('t, 'o) accelerator \<Rightarrow> ('o where_expr list \<Rightarrow> 't \<Rightarrow> ((df_error, unit) result \<times> 't) option) \<Rightarrow>
   change_operation \<Rightarrow> string list \<Rightarrow> 'o scalar data_row \<Rightarrow> 't \<Rightarrow> ((accelerated_table_error, unit) result \<times> 't) option" where
  "write_row show_type ac delete_from op keys d t =
     (case op of
        Delete \<Rightarrow>
          (case and_then (get_primary_key_log_fmt show_type d keys) (\<lambda>_. get_delete_where_expr show_type d keys) of
             Inl e \<Rightarrow> Some (Inl e, t)
           | Inr exprs \<Rightarrow> written (delete_from exprs t))
      | Create \<Rightarrow> write_upsert show_type ac keys d t
      | Update \<Rightarrow> write_upsert show_type ac keys d t
      | ReadOp \<Rightarrow> write_upsert show_type ac keys d t
      | _ \<Rightarrow> Some (Inr (), t))"

text \<open>The loop over the rows; the first error ends it, with the earlier rows written.\<close>

fun write_rows ::
  "(cdc_type \<Rightarrow> string) \<Rightarrow> ('t, 'o) accelerator \<Rightarrow> ('o where_expr list \<Rightarrow> 't \<Rightarrow> ((df_error, unit) result \<times> 't) option) \<Rightarrow>
   'o scalar change_batch \<Rightarrow> nat list \<Rightarrow> 't \<Rightarrow> ((accelerated_table_error, unit) result \<times> 't) option" where
  "write_rows show_type ac delete_from b [] t = Some (Inr (), t)"
| "write_rows show_type ac delete_from b (row # rows) t =
     (case (cb_op b row, cb_data b row, cb_primary_keys b row) of
        (Some op, Some d, Some keys) \<Rightarrow>
          (case write_row show_type ac delete_from op keys d t of
             None \<Rightarrow> None
           | Some (Inl e, t') \<Rightarrow> Some (Inl e, t')
           | Some (Inr _, t') \<Rightarrow> write_rows show_type ac delete_from b rows t')
      | _ \<Rightarrow> None)"

definition write_change ::
  "(cdc_type \<Rightarrow> string) \<Rightarrow> ('t, 'o) accelerator \<Rightarrow> 'o scalar change_batch \<Rightarrow> 't \<Rightarrow>
   ((accelerated_table_error, unit) result \<times> 't) option" where
  "write_change show_type ac b t =
     (case ac_deletion_provider ac of
        None \<Rightarrow> Some (Inl AcceleratedTableDoesntSupportDelete, t)
      | Some delete_from \<Rightarrow> write_rows show_type ac delete_from b [0..<rec_num_rows (cb_record b)] t)"

section \<open>The change stream\<close>

datatype 'k change_event = ReadySent | Committed 'k

record ('t, 'c, 'k) stream_state =
  ss_table :: 't
  ss_cache :: "'c cache_provider option"
  ss_statuses :: "component_status list"
  ss_refresh_errors :: nat
  ss_ready_sender :: bool
  ss_events :: "'k change_event list"

definition mark_status :: "component_status \<Rightarrow> ('t, 'c, 'k) stream_state \<Rightarrow> ('t, 'c, 'k) stream_state" where
  "mark_status c s = s\<lparr>ss_statuses := ss_statuses s @ [c],
     ss_refresh_errors := ss_refresh_errors s + (if c = StatusError then 1 else 0)\<rparr>"

text \<open>\<open>ready_sender.take()\<close> and \<open>send\<close>.\<close>

definition send_ready :: "('t, 'c, 'k) stream_state \<Rightarrow> ('t, 'c, 'k) stream_state" where
  "send_ready s = (if ss_ready_sender s
     then s\<lparr>ss_ready_sender := False, ss_events := ss_events s @ [ReadySent]\<rparr> else s)"

text \<open>A failed invalidation is logged.\<close>

definition invalidate_cache ::
  "('c, 'b, 's) moka \<Rightarrow> table_reference \<Rightarrow> ('t, 'c, 'k) stream_state \<Rightarrow> ('t, 'c, 'k) stream_state" where
  "invalidate_cache M name s = (case ss_cache s of
      None \<Rightarrow> s
    | Some p \<Rightarrow> s\<lparr>ss_cache := Some (snd (provider_invalidate_for_table M name p))\<rparr>)"

text \<open>An envelope is the token to commit with the batch; a failed commit is logged.\<close>

definition change_written ::
  "('c, 'b, 's) moka \<Rightarrow> table_reference \<Rightarrow> 'k \<Rightarrow> ('t, 'c, 'k) stream_state \<Rightarrow> ('t, 'c, 'k) stream_state" where
  "change_written M name k s =
     (let s1 = send_ready s
      in invalidate_cache M name (s1\<lparr>ss_events := ss_events s1 @ [Committed k]\<rparr>))"

definition handle_change ::
  "(cdc_type \<Rightarrow> string) \<Rightarrow> ('t, 'o) accelerator \<Rightarrow> ('c, 'b, 's) moka \<Rightarrow> table_reference \<Rightarrow>
   (stream_error, 'k \<times> 'o scalar change_batch) result \<Rightarrow> ('t, 'c, 'k) stream_state \<Rightarrow> ('t, 'c, 'k) stream_state option" where
  "handle_change show_type ac M name update s =
     (case update of
        Inl e \<Rightarrow> Some (mark_status StatusError s)
      | Inr (k, b) \<Rightarrow> (case write_change show_type ac b (ss_table s) of
          None \<Rightarrow> None
        | Some (Inr _, t) \<Rightarrow>
            Some (change_written M name k (s\<lparr>ss_table := t\<rparr>))
        | Some (Inl e, t) \<Rightarrow> Some (mark_status StatusError (s\<lparr>ss_table := t\<rparr>))))"

definition change_task_step ::
  "(cdc_type \<Rightarrow> string) \<Rightarrow> ('t, 'o) accelerator \<Rightarrow> ('c, 'b, 's) moka \<Rightarrow> table_reference \<Rightarrow>
   (stream_error, 'k \<times> 'o scalar change_batch) result \<Rightarrow> ('t, 'c, 'k) stream_state option \<Rightarrow> ('t, 'c, 'k) stream_state option" where
  "change_task_step show_type ac M name update s = Option.bind s (handle_change show_type ac M name update)"

definition start_changes_stream ::
  "(cdc_type \<Rightarrow> string) \<Rightarrow> ('t, 'o) accelerator \<Rightarrow> ('c, 'b, 's) moka \<Rightarrow> table_reference \<Rightarrow>
   (stream_error, 'k \<times> 'o scalar change_batch) result list \<Rightarrow> ('t, 'c, 'k) stream_state \<Rightarrow> ('t, 'c, 'k) stream_state option" where
  "start_changes_stream show_type ac M name updates s =
     fold (change_task_step show_type ac M name) updates (Some (mark_status Refreshing s))"

section \<open>The append stream\<close>

text \<open>\<open>get_append_stream\<close>: a scan of the source with one partition, batch by batch; more than one
  partition gives no updates at all.\<close>

definition get_append_stream ::
  "(df_error, nat) result \<Rightarrow> (df_error, (df_error, 'v batch) result list) result \<Rightarrow>
   (accelerated_table_error, 'v batch list) result list" where
  "get_append_stream scan execute =
     (case scan of
        Inl e \<Rightarrow> [Inl (UnableToScanTableProvider e)]
      | Inr partition_count \<Rightarrow>
          (if partition_count > 1 then []
           else case execute of
             Inl e \<Rightarrow> [Inl (UnableToScanTableProvider e)]
           | Inr items \<Rightarrow> map (\<lambda>x. case x of Inr b \<Rightarrow> Inr [b] | Inl e \<Rightarrow> Inl (UnableToScanTableProvider e)) items))"

text \<open>
  \<open>write_data_update\<close> of an append: nothing to write when there is no batch or the first has no
  columns. \<open>memory_stream\<close> is \<open>MemoryStream::try_new\<close>, \<open>ins\<close> the accelerator's planned and
  collected insertion.
\<close>

definition write_data_update ::
  "('v batch list \<Rightarrow> (df_error, 'v row list) result) \<Rightarrow> ('v row list \<Rightarrow> 't \<Rightarrow> (insert_error, 't) result) \<Rightarrow>
   'v batch list \<Rightarrow> ('t, 'c, 'k) stream_state \<Rightarrow> (accelerated_table_error, unit) result \<times> ('t, 'c, 'k) stream_state" where
  "write_data_update memory_stream ins data s =
     (if data = [] \<or> b_columns (hd data) = []
      then (Inr (), mark_status Ready s)
      else case memory_stream data of
        Inl e \<Rightarrow> (Inl (UnableToCreateMemTableFromUpdate e), s)
      | Inr rows \<Rightarrow> (case ins rows (ss_table s) of
          Inl (PlanError e) \<Rightarrow> (Inl (FailedToWriteData e), mark_status StatusError s)
        | Inl (ExecError e) \<Rightarrow> (Inl (inner_err_from_retry (retry_from_df_error e)), mark_status StatusError s)
        | Inr t \<Rightarrow> (Inr (), mark_status Ready (s\<lparr>ss_table := t\<rparr>))))"

definition handle_append ::
  "('v batch list \<Rightarrow> (df_error, 'v row list) result) \<Rightarrow> ('v row list \<Rightarrow> 't \<Rightarrow> (insert_error, 't) result) \<Rightarrow>
   ('c, 'b, 's) moka \<Rightarrow> table_reference \<Rightarrow> (accelerated_table_error, 'v batch list) result \<Rightarrow>
   ('t, 'c, 'k) stream_state \<Rightarrow> ('t, 'c, 'k) stream_state" where
  "handle_append memory_stream ins M name update s =
     (case update of
        Inl e \<Rightarrow> mark_status StatusError s
      | Inr data \<Rightarrow> (case write_data_update memory_stream ins data s of
          (Inl e, s') \<Rightarrow> s'
        | (Inr _, s') \<Rightarrow> invalidate_cache M name (send_ready s')))"

definition start_streaming_append ::
  "('v batch list \<Rightarrow> (df_error, 'v row list) result) \<Rightarrow> ('v row list \<Rightarrow> 't \<Rightarrow> (insert_error, 't) result) \<Rightarrow>
   ('c, 'b, 's) moka \<Rightarrow> table_reference \<Rightarrow> (accelerated_table_error, 'v batch list) result list \<Rightarrow>
   ('t, 'c, 'k) stream_state \<Rightarrow> ('t, 'c, 'k) stream_state" where
  "start_streaming_append memory_stream ins M name updates s =
     fold (handle_append memory_stream ins M name) updates (mark_status Refreshing s)"

section \<open>What the change stream does\<close>

text \<open>The writes alone: the tokens of the batches that were written, how many updates failed, and
  the table.\<close>

fun apply_changes ::
  "(cdc_type \<Rightarrow> string) \<Rightarrow> ('t, 'o) accelerator \<Rightarrow> (stream_error, 'k \<times> 'o scalar change_batch) result list \<Rightarrow> 't \<Rightarrow>
   ('k list \<times> nat \<times> 't) option" where
  "apply_changes show_type ac [] t = Some ([], 0, t)"
| "apply_changes show_type ac (Inl e # us) t =
     map_option (\<lambda>(ks, n, t'). (ks, Suc n, t')) (apply_changes show_type ac us t)"
| "apply_changes show_type ac (Inr (k, b) # us) t =
     (case write_change show_type ac b t of
        None \<Rightarrow> None
      | Some (r, t1) \<Rightarrow> map_option (\<lambda>(ks, n, t'). if is_ok r then (k # ks, n, t') else (ks, Suc n, t'))
          (apply_changes show_type ac us t1))"

definition after_changes ::
  "('c, 'b, 's) moka \<Rightarrow> table_reference \<Rightarrow> ('t, 'c, 'k) stream_state \<Rightarrow> 'k list \<times> nat \<times> 't \<Rightarrow> ('t, 'c, 'k) stream_state" where
  "after_changes M name s = (\<lambda>(ks, n, t). s\<lparr>ss_table := t,
     ss_cache := map_option ((\<lambda>p. snd (provider_invalidate_for_table M name p)) ^^ length ks) (ss_cache s),
     ss_statuses := ss_statuses s @ replicate n StatusError,
     ss_refresh_errors := ss_refresh_errors s + n,
     ss_ready_sender := (ss_ready_sender s \<and> ks = []),
     ss_events := ss_events s @ (if ss_ready_sender s \<and> ks \<noteq> [] then [ReadySent] else []) @ map Committed ks\<rparr>)"

lemma fold_panicked: "fold (change_task_step show_type ac M name) us None = None"
  by (induction us) (auto simp: change_task_step_def)

lemma after_failure:
  "after_changes M name (mark_status StatusError (s\<lparr>ss_table := t1\<rparr>)) (ks, n, t) = after_changes M name s (ks, Suc n, t)"
  by (simp add: after_changes_def mark_status_def replicate_append_same)

lemma after_success:
  "after_changes M name (change_written M name k (s\<lparr>ss_table := t1\<rparr>)) (ks, n, t) = after_changes M name s (k # ks, n, t)"
  by (cases "ss_cache s") (auto simp: after_changes_def change_written_def send_ready_def invalidate_cache_def Let_def funpow_Suc_right simp del: funpow.simps)

lemma changes_fold:
  "fold (change_task_step show_type ac M name) us (Some s) =
     map_option (after_changes M name s) (apply_changes show_type ac us (ss_table s))"
proof (induction us arbitrary: s)
  case Nil
  show ?case by (cases "ss_cache s") (simp_all add: after_changes_def)
next
  case (Cons u us)
  show ?case
  proof (cases u)
    case (Inl e)
    have "ss_table (mark_status StatusError s) = ss_table s" by (simp add: mark_status_def)
    then show ?thesis
      using Cons.IH [of "mark_status StatusError s"] after_failure [of M name "ss_table s" s]
      by (cases "apply_changes show_type ac us (ss_table s)")
         (auto simp: Inl change_task_step_def handle_change_def)
  next
    case (Inr kb)
    obtain k b where u: "u = Inr (k, b)" using Inr by (cases kb) simp
    show ?thesis
    proof (cases "write_change show_type ac b (ss_table s)")
      case None
      then have "change_task_step show_type ac M name u (Some s) = None"
        by (simp add: u change_task_step_def handle_change_def)
      with None show ?thesis by (simp add: u fold_panicked)
    next
      case (Some p)
      then obtain r t1 where p: "write_change show_type ac b (ss_table s) = Some (r, t1)" by (cases p) simp
      define s' where "s' = (if is_ok r then change_written M name k (s\<lparr>ss_table := t1\<rparr>) else mark_status StatusError (s\<lparr>ss_table := t1\<rparr>))"
      have "ss_table s' = t1"
        by (auto simp: s'_def mark_status_def change_written_def send_ready_def invalidate_cache_def Let_def split: option.splits)
      moreover have "change_task_step show_type ac M name u (Some s) = Some s'"
        using p by (cases r) (auto simp: u change_task_step_def handle_change_def s'_def Let_def)
      ultimately show ?thesis
        using Cons.IH [of s'] by (cases "apply_changes show_type ac us t1")
          (auto simp: u p s'_def after_failure after_success)
    qed
  qed
qed

section \<open>Ready at most once\<close>

definition stream_inv :: "('t, 'c, 'k) stream_state \<Rightarrow> bool" where
  "stream_inv s \<longleftrightarrow>
     count_list (ss_events s) ReadySent + (if ss_ready_sender s then 1 else 0) \<le> 1 \<and>
     (ss_ready_sender s \<longrightarrow> ss_events s = [])"

lemma send_ready_inv: "stream_inv s \<Longrightarrow> stream_inv (send_ready s)"
  by (simp add: stream_inv_def send_ready_def)

lemma send_ready_sender: "\<not> ss_ready_sender (send_ready s)"
  by (simp add: send_ready_def)

lemma stream_inv_mark [simp]: "stream_inv (mark_status c s) = stream_inv s"
  by (simp add: stream_inv_def mark_status_def)

lemma stream_inv_table [simp]: "stream_inv (s\<lparr>ss_table := t\<rparr>) = stream_inv s"
  by (simp add: stream_inv_def)

lemma stream_inv_cache [simp]: "stream_inv (invalidate_cache M name s) = stream_inv s"
  by (simp add: stream_inv_def invalidate_cache_def split: option.splits)

lemma stream_inv_commit:
  "stream_inv s \<Longrightarrow> \<not> ss_ready_sender s \<Longrightarrow> stream_inv (s\<lparr>ss_events := ss_events s @ [Committed k]\<rparr>)"
  by (simp add: stream_inv_def)

lemma write_data_update_inv:
  "stream_inv s \<Longrightarrow> write_data_update memory_stream ins data s = (r, s') \<Longrightarrow> stream_inv s'"
  by (auto simp: write_data_update_def split: sum.splits insert_error.splits if_splits)

interpretation changes_loop: event_loop "change_task_step show_type ac M name"
    "\<lambda>s. case s of None \<Rightarrow> True | Some s \<Rightarrow> stream_inv s"
  for show_type ac M name
  by unfold_locales
     (auto simp: change_task_step_def handle_change_def change_written_def Let_def send_ready_inv send_ready_sender
        intro!: stream_inv_commit split: option.splits sum.splits)

interpretation append_loop: event_loop "handle_append memory_stream ins M name" stream_inv
  for memory_stream ins M name
  by unfold_locales
     (auto simp: handle_append_def send_ready_inv split: sum.splits prod.splits
        dest: write_data_update_inv)

section \<open>No panic on batches that were checked\<close>

definition checked_batch :: "'o scalar change_batch \<Rightarrow> bool" where
  "checked_batch b \<longleftrightarrow> (\<exists>r. record_ok r \<and> change_batch_try_new r = Some (Inr b))"

definition never_panics :: "('t, 'o) accelerator \<Rightarrow> ('t \<Rightarrow> bool) \<Rightarrow> bool" where
  "never_panics ac valid \<longleftrightarrow>
     (\<forall>delete_from exprs t. ac_deletion_provider ac = Some delete_from \<longrightarrow> valid t \<longrightarrow>
        (\<exists>r t'. delete_from exprs t = Some (r, t') \<and> valid t')) \<and>
     (\<forall>d t. valid t \<longrightarrow> (\<exists>r t'. ac_insert ac d t = Some (r, t') \<and> valid t'))"

lemma write_row_total:
  assumes "never_panics ac valid" and "ac_deletion_provider ac = Some delete_from" and "valid t"
  shows "\<exists>r t'. write_row show_type ac delete_from op keys d t = Some (r, t') \<and> valid t'"
proof -
  have ups: "\<exists>r t'. write_upsert show_type ac keys d t = Some (r, t') \<and> valid t'"
    using assms unfolding never_panics_def
    by (cases "if keys = [] then Inr [] else get_primary_key_log_fmt show_type d keys")
       (force simp: write_upsert_def written_def)+
  have del: "\<exists>r t'. written (delete_from exprs t) = Some (r, t') \<and> valid t'" for exprs
    using assms unfolding never_panics_def by (force simp: written_def)
  show ?thesis using assms(3) ups del by (cases op) (auto simp: write_row_def split: sum.splits)
qed

lemma write_rows_total:
  assumes "never_panics ac valid" and "ac_deletion_provider ac = Some delete_from"
    and "\<forall>i\<in>set rows. i < length cs"
  shows "valid t \<Longrightarrow> \<exists>r t'. write_rows show_type ac delete_from (change_batch_of fs cs) rows t = Some (r, t') \<and> valid t'"
  using assms(3)
proof (induction rows arbitrary: t)
  case (Cons i rows)
  obtain r t1 where t1: "write_row show_type ac delete_from (operation_from (fst (cs ! i))) (fst (snd (cs ! i)))
      \<lparr>dr_fields = fs, dr_values = snd (snd (cs ! i))\<rparr> t = Some (r, t1)" "valid t1"
    using write_row_total [OF assms(1,2) Cons.prems(1)] by blast
  with Cons show ?case by (cases r) (auto simp: change_batch_readers)
qed simp

lemma write_change_total:
  assumes "never_panics ac valid" and "checked_batch b" and "valid t"
  shows "\<exists>r t'. write_change show_type ac b t = Some (r, t') \<and> valid t'"
proof -
  obtain fs cs where b: "b = change_batch_of fs cs"
    using assms(2) change_batch_try_new_of unfolding checked_batch_def by metis
  show ?thesis
  proof (cases "ac_deletion_provider ac")
    case (Some delete_from)
    have "\<forall>i\<in>set [0..<length cs]. i < length cs" by simp
    from write_rows_total [OF assms(1) Some this assms(3)] show ?thesis
      by (simp add: write_change_def Some b) (simp add: change_batch_of_def)
  qed (simp add: write_change_def assms(3))
qed

lemma apply_changes_total:
  assumes "never_panics ac valid"
  shows "valid t \<Longrightarrow> \<forall>u\<in>set us. \<forall>k b. u = Inr (k, b) \<longrightarrow> checked_batch b \<Longrightarrow>
    \<exists>ks n t'. apply_changes show_type ac us t = Some (ks, n, t') \<and> valid t'"
proof (induction us arbitrary: t)
  case (Cons u us)
  show ?case
  proof (cases u)
    case (Inl e)
    have "\<exists>ks n t'. apply_changes show_type ac us t = Some (ks, n, t') \<and> valid t'"
      using Cons.prems by (intro Cons.IH) auto
    then show ?thesis by (auto simp: Inl)
  next
    case (Inr kb)
    obtain k b where kb: "kb = (k, b)" by (cases kb)
    obtain r t1 where w: "write_change show_type ac b t = Some (r, t1)" "valid t1"
      using write_change_total [OF assms, of b t] Cons.prems Inr kb by (metis list.set_intros(1))
    have "\<exists>ks n t'. apply_changes show_type ac us t1 = Some (ks, n, t') \<and> valid t'"
      using Cons.prems w(2) by (intro Cons.IH) auto
    then show ?thesis by (cases "is_ok r") (auto simp: Inr kb w(1))
  qed
qed simp

section \<open>The in-memory table as the accelerator\<close>

definition discard_count :: "((df_error, 'n) result \<times> 't) option \<Rightarrow> ((df_error, unit) result \<times> 't) option" where
  "discard_count r = map_option (\<lambda>(res, t). (and_then res (\<lambda>_. Inr ()), t)) r"

text \<open>The batch inserted is the row alone, with the struct's fields as its schema.\<close>

definition mem_accelerator ::
  "('sc \<Rightarrow> 'sc \<Rightarrow> bool) \<Rightarrow> ('sc \<Rightarrow> 'sc \<Rightarrow> bool) \<Rightarrow> (df_error \<Rightarrow> df_error) \<Rightarrow> (cdc_field list \<Rightarrow> 'sc) \<Rightarrow>
   ('sc, 'o scalar, 'o where_expr) data_frames \<Rightarrow> (('sc, 'o scalar, 'o where_expr) mem_table, 'o) accelerator" where
  "mem_accelerator contains equivalent mark schema_for fr = \<lparr>
     ac_deletion_provider = Some (\<lambda>exprs t. discard_count (mem_delete contains fr exprs t)),
     ac_insert = (\<lambda>d t. discard_count (mem_insert equivalent mark (schema_for (dr_fields d)) False
       [Inr \<lparr>rb_schema = schema_for (dr_fields d), rb_rows = [dr_values d]\<rparr>] t))\<rparr>"

lemma mem_accelerator_total: "never_panics (mem_accelerator contains equivalent mark schema_for fr) mem_valid"
proof -
  have "\<exists>r t'. discard_count (mem_delete contains fr exprs t) = Some (r, t') \<and> mem_valid t'" if "mem_valid t" for exprs t
    using mem_delete_total [OF that, of contains fr exprs] by (auto simp: discard_count_def)
  moreover have "\<exists>r t'. discard_count (mem_insert equivalent mark sc False data t) = Some (r, t') \<and> mem_valid t'"
    if "mem_valid t" for sc data t
    using mem_insert_spec [OF that, of equivalent mark sc False data] by (auto simp: discard_count_def)
  ultimately show ?thesis unfolding never_panics_def mem_accelerator_def by simp blast
qed

text \<open>Some column of the key has the event's value.\<close>

definition some_key_matches ::
  "(cdc_type \<Rightarrow> string) \<Rightarrow> ('sc, 'o scalar, 'o where_expr) data_frames \<Rightarrow> 'o scalar data_row \<Rightarrow> string list \<Rightarrow> 'o scalar row \<Rightarrow> bool" where
  "some_key_matches show_type fr d keys x \<longleftrightarrow>
     (\<exists>k\<in>set keys. \<exists>tx v. get_primary_key_value show_type d k = Inr (tx, v) \<and> df_value fr (ColumnEq k v) x = Some True)"

lemma delete_where_matches:
  "get_delete_where_expr show_type d keys = Inr exprs \<Longrightarrow>
   matches_some fr exprs x \<longleftrightarrow> some_key_matches show_type fr d keys x"
proof (induction keys arbitrary: exprs)
  case Nil
  then show ?case by (simp add: get_delete_where_expr_def matches_some_def some_key_matches_def)
next
  case (Cons k keys)
  from Cons.prems obtain tx v es where
    k: "get_primary_key_value show_type d k = Inr (tx, v)" and
    es: "get_delete_where_expr show_type d keys = Inr es" and exprs: "exprs = ColumnEq k v # es"
    by (auto simp: get_delete_where_expr_def and_then_eq_Inr)
  show ?case using Cons.IH [OF es] k by (auto simp: exprs matches_some_def some_key_matches_def)
qed

lemma written_discard_ok:
  "written (discard_count r) = Some (Inr (), t') \<longleftrightarrow> (\<exists>n. r = Some (Inr n, t'))"
  by (auto simp: written_def discard_count_def and_then_eq_Inr)

lemma mem_insert_one:
  assumes "mem_valid t" and "mem_insert equivalent mark sc False [Inr \<lparr>rb_schema = sc, rb_rows = [r]\<rparr>] t = Some (Inr n, t')"
  shows "mem_content t' = mem_content t + {#r#}"
  using mem_insert_spec [OF assms(1), of equivalent mark sc False "[Inr \<lparr>rb_schema = sc, rb_rows = [r]\<rparr>]"] assms(2)
  by (auto simp: spec_insert_def mem_input_def split: if_splits)

lemma write_change_single:
  "ac_deletion_provider ac = Some delete_from \<Longrightarrow>
   write_change show_type ac (change_batch_of fs [(op, keys, r)]) t =
     (case write_row show_type ac delete_from (operation_from op) keys \<lparr>dr_fields = fs, dr_values = r\<rparr> t of
        None \<Rightarrow> None
      | Some (Inl e, t') \<Rightarrow> Some (Inl e, t')
      | Some (Inr _, t') \<Rightarrow> Some (Inr (), t'))"
  using change_batch_readers [of 0 "[(op, keys, r)]" fs]
  by (simp add: write_change_def) (simp add: change_batch_of_def split: option.splits sum.splits)

section \<open>Properties\<close>

text \<open>
  (C8) The change stream applies every update in order and accounts for each: exactly the tokens of
  the batches that were written in full are committed, in the order of the stream; readiness is
  announced once, right before the first commit; the query results cache is invalidated once for
  every batch written; every other update adds one \<open>Error\<close> status and one refresh error; and no
  status but the initial \<open>Refreshing\<close> and the errors is ever reported.
\<close>

theorem changes_stream_accounts:
  "start_changes_stream show_type ac M name updates s =
     (case apply_changes show_type ac updates (ss_table s) of
        None \<Rightarrow> None
      | Some (ks, n, t) \<Rightarrow> Some (s\<lparr>ss_table := t,
          ss_cache := map_option ((\<lambda>p. snd (provider_invalidate_for_table M name p)) ^^ length ks) (ss_cache s),
          ss_statuses := ss_statuses s @ [Refreshing] @ replicate n StatusError,
          ss_refresh_errors := ss_refresh_errors s + n,
          ss_ready_sender := (ss_ready_sender s \<and> ks = []),
          ss_events := ss_events s @ (if ss_ready_sender s \<and> ks \<noteq> [] then [ReadySent] else []) @ map Committed ks\<rparr>))"
proof -
  have "ss_table (mark_status Refreshing s) = ss_table s" by (simp add: mark_status_def)
  then have "start_changes_stream show_type ac M name updates s =
      map_option (after_changes M name (mark_status Refreshing s)) (apply_changes show_type ac updates (ss_table s))"
    by (simp add: start_changes_stream_def changes_fold)
  then show ?thesis by (auto simp: after_changes_def mark_status_def split: option.splits)
qed


text \<open>
  Whatever arrives on the stream of batches to append, readiness is announced at most once.
\<close>

theorem append_stream_ready_once:
  assumes "stream_inv s"
  shows "count_list (ss_events (start_streaming_append memory_stream ins M name updates s)) ReadySent \<le> 1"
proof -
  have "stream_inv (start_streaming_append memory_stream ins M name updates s)"
    unfolding start_streaming_append_def by (rule append_loop.run_inv) (simp add: assms)
  then show ?thesis by (simp add: stream_inv_def)
qed

text \<open>
  (C36) What one change does to an in-memory table: a create, update or read event adds the row and
  leaves every row with the same key in place, and a delete event removes every row that agrees
  with the event in at least one column of the key, not only the rows that agree in all of them.
\<close>

theorem mem_table_change_semantics:
  assumes "frames_ok fr" and "mem_valid t"
    and "write_change show_type (mem_accelerator contains equivalent mark schema_for fr)
      (change_batch_of fs [(op, keys, r)]) t = Some (Inr (), t')"
  shows "mem_content t' =
    (if op \<in> {''c'', ''u'', ''r''} then mem_content t + {#r#}
     else if op = ''d''
     then filter_mset (\<lambda>x. \<not> some_key_matches show_type fr \<lparr>dr_fields = fs, dr_values = r\<rparr> keys x) (mem_content t)
     else mem_content t)"
proof -
  let ?ac = "mem_accelerator contains equivalent mark schema_for fr" and ?d = "\<lparr>dr_fields = fs, dr_values = r\<rparr>"
  let ?del = "\<lambda>exprs t. discard_count (mem_delete contains fr exprs t)"
  have del: "ac_deletion_provider ?ac = Some ?del" by (simp add: mem_accelerator_def)
  from assms(3) have row: "write_row show_type ?ac ?del (operation_from op) keys ?d t = Some (Inr (), t')"
    by (auto simp: write_change_single [OF del] split: option.splits sum.splits)
  consider (add) "op \<in> {''c'', ''u'', ''r''}" | (del) "op = ''d''" | (other) "op \<notin> {''c'', ''u'', ''r'', ''d''}" by blast
  then show ?thesis
  proof cases
    case add
    then have "written (discard_count (mem_insert equivalent mark (schema_for fs) False
        [Inr \<lparr>rb_schema = schema_for fs, rb_rows = [r]\<rparr>] t)) = Some (Inr (), t')"
      using row by (auto simp: write_row_def operation_from_def write_upsert_def mem_accelerator_def split: sum.splits)
    then show ?thesis using add mem_insert_one [OF assms(2)] by (auto simp: written_discard_ok)
  next
    case del
    then obtain exprs n where "get_delete_where_expr show_type ?d keys = Inr exprs" "mem_delete contains fr exprs t = Some (Inr n, t')"
      using row by (auto simp: write_row_def operation_from_def written_discard_ok and_then_eq_Inr split: sum.splits)
    then show ?thesis using del mem_delete_ok(1) [OF assms(1,2)] by (simp add: delete_where_matches)
  next
    case other
    then have "t' = t" using row by (auto simp: write_row_def operation_from_def split: if_splits)
    then show ?thesis using other by auto
  qed
qed

text \<open>A concrete instance: rows of an id and a region, compared by column position.\<close>

definition key_fields :: "cdc_field list" where
  "key_fields = [field_new ''id'' (Prim DT_Int64) False, field_new ''region'' (Prim DT_Utf8) False]"

fun key_holds :: "unit where_expr \<Rightarrow> unit scalar row \<Rightarrow> bool option" where
  "key_holds (ColumnEq k v) r = (case index_of (map cf_name key_fields) k of
      Some i \<Rightarrow> if i < length r then Some (r ! i = v) else None
    | None \<Rightarrow> None)"

definition key_keeps :: "unit where_expr list \<Rightarrow> unit scalar row \<Rightarrow> bool" where
  "key_keeps fs r = list_all (\<lambda>f. key_holds f r \<noteq> Some True) fs"

definition key_frames :: "(string, unit scalar, unit where_expr) data_frames" where
  "key_frames = \<lparr>df_value = key_holds, df_plan = (\<lambda>_ _. Inr ()),
     df_count = (\<lambda>t fs. Inr (length (filter (key_keeps fs) (batch_rows (mt_batches t))))),
     df_collect_partitioned = (\<lambda>t fs. Inr (map (map (\<lambda>b. b\<lparr>rb_rows := filter (key_keeps fs) (rb_rows b)\<rparr>)) (mt_batches t)))\<rparr>"

definition key_table :: "unit scalar row list \<Rightarrow> (string, unit scalar, unit where_expr) mem_table" where
  "key_table rows = \<lparr>mt_schema = ''s'', mt_batches = [[\<lparr>rb_schema = ''s'', rb_rows = rows\<rparr>]],
     mt_constraints = [], mt_column_defaults = []\<rparr>"

abbreviation key_accelerator :: "((string, unit scalar, unit where_expr) mem_table, unit) accelerator" where
  "key_accelerator \<equiv> mem_accelerator (=) (=) id (\<lambda>_. ''s'') key_frames"

lemma key_frames_ok: "frames_ok key_frames"
proof -
  have keeps: "\<not> matches_some key_frames fs r \<longleftrightarrow> key_keeps fs r" for fs r
    by (auto simp: matches_some_def key_frames_def key_keeps_def list_all_iff)
  have "batch_rows (map (map (\<lambda>b. b\<lparr>rb_rows := filter P (rb_rows b)\<rparr>)) ps) = filter P (batch_rows ps)"
    for P :: "unit scalar row \<Rightarrow> bool" and ps :: "(string, unit scalar) partitions"
    by (simp add: batch_rows_def filter_concat map_concat comp_def)
  then show ?thesis
    unfolding frames_ok_def keeps by (auto simp: key_frames_def mem_content_def simp flip: mset_filter)
qed

lemma key_table_valid: "mem_valid (key_table rows)"
  by (simp add: mem_valid_def key_table_def)

lemmas key_eval = write_change_def change_batch_of_def write_row_def write_upsert_def written_def discard_count_def
  mem_accelerator_def mem_delete_def deletion_exec_def sink_delete_from_def mem_delete_plan_def key_frames_def
  mem_table_try_new_def key_table_def get_primary_key_log_fmt_def get_delete_where_expr_def get_primary_key_value_def
  key_fields_def field_new_def cb_op_def cb_data_def cb_primary_keys_def nth_opt_def operation_from_def
  push_at_def next_index_def key_keeps_def Let_def

lemma key_delete_runs:
  "\<exists>t'. write_change (\<lambda>_. []) key_accelerator (change_batch_of key_fields [(''d'', [''id'', ''region''], [I64 1, Str ''eu''])])
     (key_table [[I64 1, Str ''eu''], [I64 1, Str ''us''], [I64 2, Str ''eu''], [I64 2, Str ''us'']]) = Some (Inr (), t')"
  by (simp add: key_eval)

theorem mem_table_change_semantics_witness:
  "\<exists>t'. write_change (\<lambda>_. []) key_accelerator (change_batch_of key_fields [(''d'', [''id'', ''region''], [I64 1, Str ''eu''])])
     (key_table [[I64 1, Str ''eu''], [I64 1, Str ''us''], [I64 2, Str ''eu''], [I64 2, Str ''us'']]) = Some (Inr (), t') \<and>
     mem_content t' = {#[I64 2, Str ''us'']#}"
proof -
  obtain t' where run: "write_change (\<lambda>_. []) key_accelerator (change_batch_of key_fields [(''d'', [''id'', ''region''], [I64 1, Str ''eu''])])
     (key_table [[I64 1, Str ''eu''], [I64 1, Str ''us''], [I64 2, Str ''eu''], [I64 2, Str ''us'']]) = Some (Inr (), t')"
    using key_delete_runs by blast
  from mem_table_change_semantics [OF key_frames_ok key_table_valid run] have
    "mem_content t' = filter_mset (\<lambda>x. \<not> some_key_matches (\<lambda>_. []) key_frames \<lparr>dr_fields = key_fields, dr_values = [I64 1, Str ''eu'']\<rparr>
       [''id'', ''region''] x) (mem_content (key_table [[I64 1, Str ''eu''], [I64 1, Str ''us''], [I64 2, Str ''eu''], [I64 2, Str ''us'']]))"
    by simp
  also have "\<dots> = {#[I64 2, Str ''us'']#}"
    by (simp add: some_key_matches_def mem_content_def batch_rows_def key_table_def get_primary_key_value_def
        key_fields_def field_new_def key_frames_def)
  finally show ?thesis using run by blast
qed

definition fresh_stream :: "'t \<Rightarrow> ('t, 'c, nat) stream_state" where
  "fresh_stream t = \<lparr>ss_table = t, ss_cache = None, ss_statuses = [], ss_refresh_errors = 0, ss_ready_sender = True, ss_events = []\<rparr>"


theorem append_stream_ready_once_witness:
  "count_list (ss_events (start_streaming_append (\<lambda>bs. Inr (concat (map b_rows bs))) (\<lambda>rows t. Inr (t @ rows)) map_moka (Bare ''t'')
      [Inr [\<lparr>b_columns = [''c''], b_rows = [[1]]\<rparr>], Inr []]
      (fresh_stream [] :: (int row list, nat \<rightharpoonup> (string, unit) cached_query_result, nat) stream_state))) ReadySent \<le> 1"
  by (rule append_stream_ready_once) (simp add: stream_inv_def fresh_stream_def)

end
