(* ===== verification/Accelerated_Table.thy ===== *)
theory Accelerated_Table
  imports Execution_Plans Refresh_Changes
begin

text \<open>
  The accelerated table (runtime/src/accelerated_table.rs): the builder and the background tasks it
  starts, manual refreshes, the retention check, and reading and writing through the table. The
  accelerator's and the source's own plans are parameters.
\<close>

section \<open>Building\<close>

text \<open>\<open>None\<close> is no warning.\<close>

definition validate_refresh_data_window :: "refresh \<Rightarrow> string \<Rightarrow> schema \<Rightarrow> string option" where
  "validate_refresh_data_window r dataset s =
     (if rf_period r = None then None
      else case rf_time_column r of
        Some c \<Rightarrow>
          (if column_with_name s c = None
           then Some (''No matching column '' @ c @ '' found in the source table, refresh_data_window will be ignored for dataset '' @ dataset)
           else None)
      | None \<Rightarrow> Some (''No time_column was provided, refresh_data_window will be ignored for '' @ dataset))"

record ('st, 'c) builder =
  bd_refresh :: refresh
  bd_retention :: "retention option"
  bd_zero_results_action :: zero_results_action
  bd_cache_provider :: "'c option"
  bd_changes_stream :: "'st option"
  bd_append_stream :: "'st option"
  bd_disable_query_push_down :: bool

definition table_builder_new :: "refresh \<Rightarrow> ('st, 'c) builder" where
  "table_builder_new r = \<lparr>bd_refresh = r, bd_retention = None, bd_zero_results_action = ReturnEmpty,
     bd_cache_provider = None, bd_changes_stream = None, bd_append_stream = None, bd_disable_query_push_down = False\<rparr>"

definition set_retention :: "retention option \<Rightarrow> ('st, 'c) builder \<Rightarrow> ('st, 'c) builder" where
  "set_retention r b = b\<lparr>bd_retention := r\<rparr>"

definition set_zero_results_action :: "zero_results_action \<Rightarrow> ('st, 'c) builder \<Rightarrow> ('st, 'c) builder" where
  "set_zero_results_action z b = b\<lparr>bd_zero_results_action := z\<rparr>"

definition set_cache_provider :: "'c option \<Rightarrow> ('st, 'c) builder \<Rightarrow> ('st, 'c) builder" where
  "set_cache_provider c b = b\<lparr>bd_cache_provider := c\<rparr>"

definition disable_query_push_down :: "('st, 'c) builder \<Rightarrow> ('st, 'c) builder" where
  "disable_query_push_down b = b\<lparr>bd_disable_query_push_down := True\<rparr>"

text \<open>The two setters that assert the refresh mode; a failed assertion is \<open>None\<close>.\<close>

definition set_changes_stream :: "'st \<Rightarrow> ('st, 'c) builder \<Rightarrow> ('st, 'c) builder option" where
  "set_changes_stream st b = (if rf_mode (bd_refresh b) = Changes then Some (b\<lparr>bd_changes_stream := Some st\<rparr>) else None)"

definition set_append_stream :: "'st \<Rightarrow> ('st, 'c) builder \<Rightarrow> ('st, 'c) builder option" where
  "set_append_stream st b = (if rf_mode (bd_refresh b) = Append then Some (b\<lparr>bd_append_stream := Some st\<rparr>) else None)"

text \<open>\<open>ModeAppend True\<close> carries the receiver of external triggers.\<close>

datatype 'st acceleration_refresh_mode = ModeDisabled | ModeFull | ModeAppend bool | ModeChanges 'st

text \<open>The mode and whether the table keeps a sender for manual refreshes.\<close>

definition build_mode :: "('st, 'c) builder \<Rightarrow> ('st acceleration_refresh_mode \<times> bool) option" where
  "build_mode b = (case rf_mode (bd_refresh b) of
      Disabled \<Rightarrow> Some (ModeDisabled, False)
    | Append \<Rightarrow>
        (if rf_time_column (bd_refresh b) = None
         then (case bd_append_stream b of None \<Rightarrow> None | Some st \<Rightarrow> Some (ModeChanges st, False))
         else Some (ModeAppend True, True))
    | Full \<Rightarrow> Some (ModeFull, True)
    | Changes \<Rightarrow> (case bd_changes_stream b of None \<Rightarrow> None | Some st \<Rightarrow> Some (ModeChanges st, False)))"

text \<open>The background tasks: \<open>Refresher::start\<close> picks one, the retention check is another.\<close>

datatype 'st background_task = PeriodicRefresh | StreamingAppend | ChangesTask 'st | RetentionCheck retention

definition refresher_task :: "'st acceleration_refresh_mode \<Rightarrow> string option \<Rightarrow> 'st background_task option" where
  "refresher_task m time_column = (case m of
      ModeDisabled \<Rightarrow> None
    | ModeAppend receiver \<Rightarrow> (if receiver \<and> time_column \<noteq> None then Some PeriodicRefresh else Some StreamingAppend)
    | ModeFull \<Rightarrow> Some PeriodicRefresh
    | ModeChanges st \<Rightarrow> Some (ChangesTask st))"

record ('st, 'c) accelerated_table =
  at_refresh_trigger :: bool
  at_handlers :: "'st background_task list"
  at_zero_results_action :: zero_results_action
  at_refresh_params :: refresh
  at_cache_provider :: "'c option"
  at_disable_query_push_down :: bool

definition build_table :: "('st, 'c) builder \<Rightarrow> ('st, 'c) accelerated_table option" where
  "build_table b = (case build_mode b of
      None \<Rightarrow> None
    | Some (m, trigger) \<Rightarrow> Some \<lparr>at_refresh_trigger = trigger,
        at_handlers =
          (case refresher_task m (rf_time_column (bd_refresh b)) of None \<Rightarrow> [] | Some h \<Rightarrow> [h]) @
          (case bd_retention b of None \<Rightarrow> [] | Some r \<Rightarrow> [RetentionCheck r]),
        at_zero_results_action = bd_zero_results_action b,
        at_refresh_params = bd_refresh b,
        at_cache_provider = bd_cache_provider b,
        at_disable_query_push_down = bd_disable_query_push_down b\<rparr>)"

text \<open>\<open>Drop\<close> aborts every handler.\<close>

definition drop_table :: "('st, 'c) accelerated_table \<Rightarrow> ('st, 'c) accelerated_table" where
  "drop_table t = t\<lparr>at_handlers := []\<rparr>"

text \<open>\<open>alive\<close>: the receiver of the channel still exists, that is, the periodic task runs.\<close>

definition trigger_refresh :: "('st, 'c) accelerated_table \<Rightarrow> (accelerated_table_error, unit) result" where
  "trigger_refresh t =
     (if at_refresh_trigger t
      then (if PeriodicRefresh \<in> set (at_handlers t) then Inr () else Inl FailedToTriggerRefresh)
      else Inl ManualRefreshIsNotSupported)"

definition update_refresh_sql :: "string option \<Rightarrow> ('st, 'c) accelerated_table \<Rightarrow> ('st, 'c) accelerated_table" where
  "update_refresh_sql sql t = t\<lparr>at_refresh_params := (at_refresh_params t)\<lparr>rf_sql := sql\<rparr>\<rparr>"

section \<open>The retention check\<close>

record ('t, 'c) retention_state =
  rs_table :: 't
  rs_cache :: "'c cache_provider option"

text \<open>One tick: \<open>delete_from\<close> is the accelerator's deletion provider, \<open>format_secs\<close> is chrono's conversion
  of seconds, which fails out of range.\<close>

definition retention_tick ::
  "('c, 'b, 's) moka \<Rightarrow> table_reference \<Rightarrow> (int \<Rightarrow> string option) \<Rightarrow>
   (filter_expr list \<Rightarrow> 't \<Rightarrow> ((df_error, nat list) result \<times> 't) option) option \<Rightarrow>
   timestamp_filter_convert \<Rightarrow> duration \<Rightarrow> nat \<Rightarrow> ('t, 'c) retention_state \<Rightarrow> ('t, 'c) retention_state option" where
  "retention_tick M name format_secs deletion_provider converter period now s =
     (case deletion_provider of
        None \<Rightarrow> Some s
      | Some delete_from \<Rightarrow>
          (let timestamp = now - period;
               expr = filter_convert converter timestamp Lt
           in case format_secs (sint (word_of_nat (timestamp div nanos_per_sec) :: 64 word)) of
                None \<Rightarrow> Some s
              | Some _ \<Rightarrow> (case delete_from [expr] (rs_table s) of
                  None \<Rightarrow> None
                | Some (Inl e, t) \<Rightarrow> Some (s\<lparr>rs_table := t\<rparr>)
                | Some (Inr deleted, t) \<Rightarrow>
                    (let num_records = (case deleted of [] \<Rightarrow> 0 | n # _ \<Rightarrow> n)
                     in Some (s\<lparr>rs_table := t,
                          rs_cache := (if num_records > 0
                            then map_option (\<lambda>p. snd (provider_invalidate_for_table M name p)) (rs_cache s)
                            else rs_cache s)\<rparr>)))))"

text \<open>The task: without a converter it ends at once, otherwise it ticks forever; \<open>nows\<close> are the
  times of the ticks so far.\<close>

definition start_retention_check ::
  "('c, 'b, 's) moka \<Rightarrow> table_reference \<Rightarrow> (int \<Rightarrow> string option) \<Rightarrow> schema \<Rightarrow>
   (filter_expr list \<Rightarrow> 't \<Rightarrow> ((df_error, nat list) result \<times> 't) option) option \<Rightarrow> retention \<Rightarrow> nat list \<Rightarrow>
   ('t, 'c) retention_state \<Rightarrow> ('t, 'c) retention_state option" where
  "start_retention_check M name format_secs schema deletion_provider r nows s =
     (case filter_create (column_with_name schema (rt_time_column r)) (Some (rt_time_column r)) (rt_time_format r) of
        None \<Rightarrow> Some s
      | Some converter \<Rightarrow>
          fold (\<lambda>now st. Option.bind st (retention_tick M name format_secs deletion_provider converter (rt_period r) now)) nows (Some s))"

section \<open>Reading and writing\<close>

definition accelerated_scan ::
  "(('w, 'b) plan \<Rightarrow> ('w, 'b) plan) \<Rightarrow> ('b \<Rightarrow> (df_error, 'b) result) \<Rightarrow> ('b \<Rightarrow> (df_error, 'b) result) \<Rightarrow>
   ('f joined \<Rightarrow> ('w, 'b) plan \<Rightarrow> (df_error, ('w, 'b) plan) result) \<Rightarrow> 'f list \<Rightarrow> (df_error \<Rightarrow> string) \<Rightarrow>
   zero_results_action \<Rightarrow> (df_error, ('w, 'b) plan) result \<Rightarrow> (df_error, ('w, 'b) plan) result \<Rightarrow>
   (df_error, ('w, 'b) plan) result" where
  "accelerated_scan coalesce cast_input cast filter_exec filters show_error zero_results_action accelerator_scan federated_scan =
     and_then accelerator_scan (\<lambda>input.
     let plan = (case zero_results_action of
           ReturnEmpty \<Rightarrow> input
         | UseSource \<Rightarrow> fallback_exec coalesce cast_input filter_exec filters show_error input federated_scan)
     in Inr (schema_cast_exec cast plan))"

text \<open>\<open>UnionExec\<close>: the partitions of the one followed by those of the other.\<close>

definition union_exec :: "('w, 'b) plan \<Rightarrow> ('w, 'b) plan \<Rightarrow> ('w, 'b) plan" where
  "union_exec p q = \<lparr>pl_partitions = pl_partitions p + pl_partitions q,
     pl_execute = (\<lambda>i. if i < pl_partitions p then pl_execute p i else pl_execute q (i - pl_partitions p))\<rparr>"

definition accelerated_insert_into ::
  "(('w, 'b) plan \<Rightarrow> ('w, 'b) plan) \<Rightarrow> (('w, 'b) plan \<Rightarrow> (df_error, ('w, 'b) plan) result) \<Rightarrow>
   (('w, 'b) plan \<Rightarrow> (df_error, ('w, 'b) plan) result) \<Rightarrow> ('w, 'b) plan \<Rightarrow> (df_error, ('w, 'b) plan) result" where
  "accelerated_insert_into coalesce accelerator_insert federated_insert input =
     (let tee_input = tee_exec coalesce input 2
      in and_then (accelerator_insert (slice_exec tee_input 0)) (\<lambda>accelerated_insert_plan.
         and_then (federated_insert (slice_exec tee_input 1)) (\<lambda>federated_insert_plan.
         Inr (union_exec accelerated_insert_plan federated_insert_plan))))"

section \<open>Properties\<close>

text \<open>
  The builder panics exactly when the mode needs a stream that was not given. Otherwise the table
  can be refreshed by hand exactly in the full mode and in the append mode with a time column,
  a refresh by hand then always finds the periodic task running, and the task that appends a
  stream of batches is never started: in append mode without a time column the append stream is
  consumed as a stream of changes.
\<close>

theorem build_table_tasks:
  "case build_table b of
     None \<Rightarrow> rf_mode (bd_refresh b) = Changes \<and> bd_changes_stream b = None \<or>
             rf_mode (bd_refresh b) = Append \<and> rf_time_column (bd_refresh b) = None \<and> bd_append_stream b = None
   | Some t \<Rightarrow>
       trigger_refresh t =
         (if rf_mode (bd_refresh b) = Full \<or> rf_mode (bd_refresh b) = Append \<and> rf_time_column (bd_refresh b) \<noteq> None
          then Inr () else Inl ManualRefreshIsNotSupported) \<and>
       StreamingAppend \<notin> set (at_handlers t)"
  by (cases "rf_mode (bd_refresh b)"; cases "bd_append_stream b"; cases "bd_changes_stream b"; cases "bd_retention b";
      cases "rf_time_column (bd_refresh b)")
     (simp_all add: build_table_def build_mode_def refresher_task_def trigger_refresh_def)

text \<open>What a write through the table sends to each side.\<close>

record 'b write_world =
  ww_stream :: "'b stream"
  ww_accelerated :: "'b stream"
  ww_federated :: "'b stream"

text \<open>A data sink reads the single partition of its input.\<close>

definition sink_exec :: "('b stream \<Rightarrow> 'w \<Rightarrow> 'w) \<Rightarrow> ('w, 'b) plan \<Rightarrow> ('w, 'b) plan" where
  "sink_exec receive input = \<lparr>pl_partitions = 1, pl_execute = (\<lambda>i w.
     case pl_execute input 0 w of
       (Inl e, w') \<Rightarrow> (Inl e, w')
     | (Inr s, w') \<Rightarrow> (Inr [], receive s w'))\<rparr>"

definition run_partitions :: "('w, 'b) plan \<Rightarrow> nat list \<Rightarrow> 'w \<Rightarrow> 'w" where
  "run_partitions p order w = fold (\<lambda>i w. snd (pl_execute p i w)) order w"

definition table_write :: "(('b write_world, 'b) plan \<Rightarrow> ('b write_world, 'b) plan) \<Rightarrow> ('b write_world, 'b) plan \<Rightarrow>
    (df_error, ('b write_world, 'b) plan) result" where
  "table_write coalesce input = accelerated_insert_into coalesce
     (\<lambda>p. Inr (sink_exec (\<lambda>s w. w\<lparr>ww_accelerated := s\<rparr>) p)) (\<lambda>p. Inr (sink_exec (\<lambda>s w. w\<lparr>ww_federated := s\<rparr>) p)) input"

lemma table_write_plan:
  assumes "coalesce_ok coalesce" and "pl_partitions input = 1"
  obtains p where "table_write coalesce input = Inr p"
    and "\<And>w. snd (pl_execute p 0 w) = (case pl_execute input 0 w of (Inl e, w') \<Rightarrow> w' | (Inr s, w') \<Rightarrow> w'\<lparr>ww_accelerated := s\<rparr>)"
    and "\<And>w. snd (pl_execute p 1 w) = (case pl_execute input 0 w of (Inl e, w') \<Rightarrow> w' | (Inr s, w') \<Rightarrow> w'\<lparr>ww_federated := s\<rparr>)"
proof -
  have "pl_execute (slice_exec (tee_exec coalesce input 2) k) 0 = pl_execute input 0" if "k < 2" for k
    using tee_slice [OF assms that] .
  then have e: "pl_execute (slice_exec (tee_exec coalesce input 2) 0) 0 = pl_execute input 0"
    "pl_execute (slice_exec (tee_exec coalesce input 2) (Suc 0)) 0 = pl_execute input 0" by simp_all
  let ?p = "union_exec (sink_exec (\<lambda>s w. w\<lparr>ww_accelerated := s\<rparr>) (slice_exec (tee_exec coalesce input 2) 0))
      (sink_exec (\<lambda>s w. w\<lparr>ww_federated := s\<rparr>) (slice_exec (tee_exec coalesce input 2) 1))"
  show ?thesis
  proof (rule that [of ?p])
    show "table_write coalesce input = Inr ?p"
      by (simp add: table_write_def accelerated_insert_into_def Let_def)
  qed (auto simp: union_exec_def sink_exec_def e split: sum.splits prod.splits)
qed

text \<open>
  (C12) A write of a stream of updates into an accelerated table reaches one side only: the tee executes
  its input once for each side, the first execution exhausts the update's stream, and the other
  side receives nothing. Only an input that can be executed again reaches both.
\<close>

theorem accelerated_write_reaches_one_side:
  assumes "coalesce_ok coalesce"
    and "table_write coalesce (streaming_update_exec ww_stream (\<lambda>s w. w\<lparr>ww_stream := s\<rparr>)) = Inr p"
  shows "(let w = run_partitions p [0, 1] \<lparr>ww_stream = s, ww_accelerated = [], ww_federated = []\<rparr>
          in ww_accelerated w = s \<and> ww_federated w = []) \<and>
    (let w = run_partitions p [1, 0] \<lparr>ww_stream = s, ww_accelerated = [], ww_federated = []\<rparr>
          in ww_accelerated w = [] \<and> ww_federated w = s)"
proof -
  let ?in = "streaming_update_exec ww_stream (\<lambda>s w. w\<lparr>ww_stream := s\<rparr>)"
  have one: "pl_partitions ?in = 1" by (simp add: streaming_update_exec_def)
  obtain q where q: "table_write coalesce ?in = Inr q" and
    ex: "\<And>w. snd (pl_execute q 0 w) = (case pl_execute ?in 0 w of (Inl e, w') \<Rightarrow> w' | (Inr s, w') \<Rightarrow> w'\<lparr>ww_accelerated := s\<rparr>)"
      "\<And>w. snd (pl_execute q 1 w) = (case pl_execute ?in 0 w of (Inl e, w') \<Rightarrow> w' | (Inr s, w') \<Rightarrow> w'\<lparr>ww_federated := s\<rparr>)"
    by (rule table_write_plan [OF assms(1) one]) (rule that; assumption)
  then have "q = p" using assms(2) by simp
  with ex have "snd (pl_execute p 0 w) = w\<lparr>ww_stream := [], ww_accelerated := ww_stream w\<rparr>"
    "snd (pl_execute p 1 w) = w\<lparr>ww_stream := [], ww_federated := ww_stream w\<rparr>" for w
    by (simp_all add: streaming_update_exec_def)
  then show ?thesis by (simp add: run_partitions_def Let_def)
qed

theorem accelerated_write_reaches_one_side_witness:
  "\<exists>p. table_write id (streaming_update_exec ww_stream (\<lambda>s w. w\<lparr>ww_stream := s\<rparr>)) = Inr p \<and>
     ww_federated (run_partitions p [0, 1] \<lparr>ww_stream = [Inr ''row''], ww_accelerated = [], ww_federated = []\<rparr>) = [] \<and>
     ww_accelerated (run_partitions p [0, 1] \<lparr>ww_stream = [Inr ''row''], ww_accelerated = [], ww_federated = []\<rparr>) = [Inr ''row'']"
proof -
  have id: "coalesce_ok (id :: (string write_world, string) plan \<Rightarrow> _)" by (simp add: coalesce_ok_def)
  obtain p where p: "table_write id (streaming_update_exec ww_stream (\<lambda>s w. w\<lparr>ww_stream := s\<rparr>)) = (Inr p :: (df_error, (string write_world, string) plan) result)"
    by (simp add: table_write_def accelerated_insert_into_def Let_def)
  from accelerated_write_reaches_one_side [OF id p, of "[Inr ''row'']"] p show ?thesis by (auto simp: Let_def)
qed

text \<open>
  With \<open>on_zero_results: use_source\<close> the source is asked exactly when the filtered accelerator
  yields no batch at all, an empty batch being enough to prevent it, and then only the first
  partition of the source's plan is read.
\<close>

theorem fallback_scan_results:
  assumes "filter_plan filter_exec filters (schema_cast_exec cast_input (fallback_new coalesce input)) = Inr filtered"
    and "pl_execute filtered 0 = (\<lambda>w. (Inr s, w))"
    and "pl_execute source = (\<lambda>i w. (Inr (parts i), w))"
    and "accelerated_scan coalesce cast_input cast filter_exec filters show_error UseSource (Inr input) (Inr source) = Inr p"
  shows "pl_partitions p = 1 \<and> fst (pl_execute p 0 w) = Inr (cast_stream cast (if s = [] then parts 0 else s))"
proof -
  have p: "p = schema_cast_exec cast (fallback_exec coalesce cast_input filter_exec filters show_error input (Inr source))"
    using assms(4) by (simp add: accelerated_scan_def Let_def)
  have "pl_execute (fallback_exec coalesce cast_input filter_exec filters show_error input (Inr source)) 0 w =
      (Inr (if s = [] then parts 0 else s), w)"
    by (cases s) (simp_all add: fallback_exec_def assms(1-3) fallback_stream_def)
  then show ?thesis by (simp add: p schema_cast_exec_def fallback_exec_def)
qed

theorem fallback_scan_results_witness:
  "\<exists>p. accelerated_scan id Inr Inr (\<lambda>_. Inr) ([] :: string list) (\<lambda>_. []) UseSource
       (Inr \<lparr>pl_partitions = 1, pl_execute = (\<lambda>_ w. (Inr [], w))\<rparr>)
       (Inr \<lparr>pl_partitions = 2, pl_execute = (\<lambda>i w. (Inr [Inr (if i = 0 then ''first'' else ''second'')], w))\<rparr>) = Inr p \<and>
     fst (pl_execute p 0 ()) = Inr [Inr ''first'']"
proof -
  let ?in = "\<lparr>pl_partitions = 1, pl_execute = (\<lambda>_ w. (Inr [], w))\<rparr> :: (unit, string) plan"
  let ?src = "\<lparr>pl_partitions = 2, pl_execute = (\<lambda>i w. (Inr [Inr (if i = 0 then ''first'' else ''second'')], w))\<rparr> :: (unit, string) plan"
  let ?fx = "(\<lambda>_. Inr) :: string joined \<Rightarrow> (unit, string) plan \<Rightarrow> (df_error, (unit, string) plan) result"
  have f: "filter_plan ?fx [] (schema_cast_exec Inr (fallback_new id ?in)) = Inr (schema_cast_exec Inr ?in)"
    by (simp add: filter_plan_def fallback_new_def)
  have x: "pl_execute (schema_cast_exec Inr ?in) 0 = (\<lambda>w. (Inr [], w))"
    by (simp add: schema_cast_exec_def fun_eq_iff)
  have src: "pl_execute ?src = (\<lambda>i w. (Inr ((\<lambda>i. [Inr (if i = 0 then ''first'' else ''second'')]) i), w))" by simp
  obtain p where p: "accelerated_scan id Inr Inr ?fx [] (\<lambda>_. []) UseSource (Inr ?in) (Inr ?src) = Inr p"
    by (simp add: accelerated_scan_def Let_def)
  from fallback_scan_results [OF f x src p, of "()"] p show ?thesis by auto
qed

section \<open>Retention\<close>

text \<open>The time column's value decides a time filter.\<close>

definition time_frames :: "('v row \<Rightarrow> int) \<Rightarrow> ('sc, 'v, filter_expr) data_frames \<Rightarrow> bool" where
  "time_frames time_of fr \<longleftrightarrow> frames_ok fr \<and> (\<forall>f r. df_value fr f r = Some (filter_holds f (time_of r)))"

lemma retention_tick_mem:
  assumes "time_frames time_of fr" and "mem_valid (rs_table s)" and "now - period < 2 ^ 63"
    and "format_secs (sint (word_of_nat ((now - period) div nanos_per_sec) :: 64 word)) \<noteq> None"
    and "mem_delete contains fr [filter_convert converter (now - period) Lt] (rs_table s) = Some (Inr ns, t)"
  shows "retention_tick M name format_secs (Some (mem_delete contains fr)) converter period now s =
      Some (s\<lparr>rs_table := t,
        rs_cache := (if ns = [0] then rs_cache s else map_option (\<lambda>p. snd (provider_invalidate_for_table M name p)) (rs_cache s))\<rparr>)"
    and "mem_content t = filter_mset (\<lambda>r. time_of r \<ge> filter_bound (tfc_format converter) (now - period)) (mem_content (rs_table s))"
    and "ns = [size (filter_mset (\<lambda>r. time_of r < filter_bound (tfc_format converter) (now - period)) (mem_content (rs_table s)))]"
proof -
  let ?f = "filter_convert converter (now - period) Lt"
  have m: "matches_some fr [?f] r \<longleftrightarrow> time_of r < filter_bound (tfc_format converter) (now - period)" for r
    using assms(1) filter_convert_compares [OF assms(3), of converter Lt "time_of r"]
    by (simp add: matches_some_def time_frames_def)
  then have ms: "matches_some fr [?f] = (\<lambda>r. time_of r < filter_bound (tfc_format converter) (now - period))" by blast
  have fr: "frames_ok fr" using assms(1) by (simp add: time_frames_def)
  from mem_delete_ok [OF fr assms(2,5)] show
    "mem_content t = filter_mset (\<lambda>r. time_of r \<ge> filter_bound (tfc_format converter) (now - period)) (mem_content (rs_table s))"
    and ns: "ns = [size (filter_mset (\<lambda>r. time_of r < filter_bound (tfc_format converter) (now - period)) (mem_content (rs_table s)))]"
    by (simp_all add: ms not_less)
  show "retention_tick M name format_secs (Some (mem_delete contains fr)) converter period now s =
      Some (s\<lparr>rs_table := t,
        rs_cache := (if ns = [0] then rs_cache s else map_option (\<lambda>p. snd (provider_invalidate_for_table M name p)) (rs_cache s))\<rparr>)"
  proof -
    from ns obtain n where "ns = [n]" by blast
    then show ?thesis using assms(4,5) by (cases n) (auto simp: retention_tick_def Let_def)
  qed
qed

text \<open>
  (C15) A retention check on an in-memory table keeps exactly the rows that are not older than the
  retention period (the time of the check less the period, in the unit of the time column), and
  invalidates the cached query results exactly when a row was evicted.
\<close>

theorem retention_evicts_exactly:
  assumes "time_frames time_of fr" and "mem_valid (rs_table s)" and "now - period < 2 ^ 63"
    and "format_secs (sint (word_of_nat ((now - period) div nanos_per_sec) :: 64 word)) \<noteq> None"
    and "mem_delete contains fr [filter_convert converter (now - period) Lt] (rs_table s) = Some (Inr ns, t)"
  shows "\<exists>s'. retention_tick M name format_secs (Some (mem_delete contains fr)) converter period now s = Some s' \<and>
    mem_content (rs_table s') =
      filter_mset (\<lambda>r. time_of r \<ge> filter_bound (tfc_format converter) (now - period)) (mem_content (rs_table s)) \<and>
    rs_cache s' =
      (if mem_content (rs_table s') = mem_content (rs_table s) then rs_cache s
       else map_option (\<lambda>p. snd (provider_invalidate_for_table M name p)) (rs_cache s))"
proof -
  let ?old = "filter_mset (\<lambda>r. time_of r < filter_bound (tfc_format converter) (now - period)) (mem_content (rs_table s))"
  note facts = retention_tick_mem [where format_secs = format_secs, OF assms]
  have "mem_content (rs_table s) = ?old + mem_content t"
    using multiset_partition [of "mem_content (rs_table s)" "\<lambda>r. time_of r < filter_bound (tfc_format converter) (now - period)"] facts(2)
    by (simp add: not_less)
  then have "mem_content t = mem_content (rs_table s) \<longleftrightarrow> ?old = {#}" by (metis add_0 add_right_cancel)
  then have zero: "ns = [0] \<longleftrightarrow> mem_content t = mem_content (rs_table s)" using facts(3) by simp
  show ?thesis by (intro exI conjI, rule facts(1)) (simp_all add: facts(2) zero)
qed

definition retained_frames :: "(string, int, filter_expr) data_frames" where
  "retained_frames = \<lparr>df_value = (\<lambda>f r. Some (filter_holds f (hd r))), df_plan = (\<lambda>_ _. Inr ()),
     df_count = (\<lambda>t fs. Inr (length (filter (\<lambda>r. list_all (\<lambda>f. \<not> filter_holds f (hd r)) fs) (batch_rows (mt_batches t))))),
     df_collect_partitioned = (\<lambda>t fs. Inr (map (map (\<lambda>b. b\<lparr>rb_rows := filter (\<lambda>r. list_all (\<lambda>f. \<not> filter_holds f (hd r)) fs) (rb_rows b)\<rparr>)) (mt_batches t)))\<rparr>"

lemma retained_frames_ok: "time_frames hd retained_frames"
proof -
  have "batch_rows (map (map (\<lambda>b. b\<lparr>rb_rows := filter P (rb_rows b)\<rparr>)) ps) = filter P (batch_rows ps)"
    for P :: "int row \<Rightarrow> bool" and ps :: "(string, int) partitions"
    by (simp add: batch_rows_def filter_concat map_concat comp_def)
  moreover have "\<not> matches_some retained_frames fs r \<longleftrightarrow> list_all (\<lambda>f. \<not> filter_holds f (hd r)) fs" for fs r
    by (simp add: matches_some_def retained_frames_def list_all_iff)
  ultimately show ?thesis
    unfolding time_frames_def frames_ok_def by (auto simp: retained_frames_def mem_content_def simp flip: mset_filter)
qed

definition retained_table :: "(string, int, filter_expr) mem_table" where
  "retained_table = \<lparr>mt_schema = ''s'', mt_batches = [[\<lparr>rb_schema = ''s'', rb_rows = [[3], [6], [9]]\<rparr>]],
     mt_constraints = [], mt_column_defaults = []\<rparr>"

theorem retention_evicts_exactly_witness:
  "\<exists>s'. retention_tick map_moka (Bare ''t'') (\<lambda>_. Some []) (Some (mem_delete (=) retained_frames))
      \<lparr>tfc_column = ''at'', tfc_format = ExprUnixTimestamp 1\<rparr> 4 10
      \<lparr>rs_table = retained_table, rs_cache = (None :: (nat \<rightharpoonup> (string, unit) cached_query_result) cache_provider option)\<rparr> = Some s' \<and>
    mem_content (rs_table s') = {#[6], [9]#}"
proof -
  let ?c = "\<lparr>tfc_column = ''at'', tfc_format = ExprUnixTimestamp 1\<rparr>"
  let ?s = "\<lparr>rs_table = retained_table, rs_cache = (None :: (nat \<rightharpoonup> (string, unit) cached_query_result) cache_provider option)\<rparr>"
  have valid: "mem_valid (rs_table ?s)" by (simp add: mem_valid_def retained_table_def)
  have early: "(10::nat) - 4 < 2 ^ 63" by simp
  have chrono: "(\<lambda>_ :: int. Some ([] :: string)) (sint (word_of_nat ((10 - 4) div nanos_per_sec) :: 64 word)) \<noteq> None" by simp
  obtain ns t where del: "mem_delete (=) retained_frames [filter_convert ?c (10 - 4) Lt] (rs_table ?s) = Some (Inr ns, t)"
    by (simp add: mem_delete_def deletion_exec_def sink_delete_from_def mem_delete_plan_def retained_frames_def
        retained_table_def mem_table_try_new_def push_at_def next_index_def Let_def)
  have "filter_mset (\<lambda>r. hd r \<ge> filter_bound (tfc_format ?c) (10 - 4)) (mem_content (rs_table ?s)) = {#[6], [9]#}"
    by (simp add: mem_content_def batch_rows_def retained_table_def)
  with retention_evicts_exactly [where format_secs = "\<lambda>_. Some []" and M = map_moka and name = "Bare ''t''",
      OF retained_frames_ok valid early chrono del] show ?thesis by metis
qed

end
