(* ===== verification/Table_Registry.thy ===== *)
theory Table_Registry
  imports Accelerated_Table
begin

text \<open>
  The registry of tables of the runtime (runtime/src/datafusion.rs, datafusion/schema.rs,
  datafusion/refresh_sql.rs and arrow_tools/src/schema.rs): the schema provider, looking tables up,
  registering and removing datasets, the settings an accelerated table is built with, sinks that
  wait for their schema, and writes. DataFusion's session context and its catalogs, the SQL parser,
  the data connectors and the creation of accelerators are parameters; what is relied on of the
  session context is \<open>session_laws\<close>.
\<close>

section \<open>Errors and names\<close>

datatype refresh_sql_error =
    RefreshSqlParse string
  | ExpectedSingleSqlStatement nat
  | InvalidSqlStatement table_reference

datatype schema_error =
    SchemaMismatchNumFields nat nat
  | SchemaMismatchDataType string cdc_type cdc_type

datatype registry_error =
    TableAlreadyExists
  | UnableToCreateDataAccelerator string
  | UnableToCreateView string
  | UnableToDeleteTable df_error
  | UnableToParseSql string
  | RefreshSqlError refresh_sql_error
  | UnableToGetTable df_error
  | UnableToResolveTableProvider string
  | WriteProviderNotImplemented table_reference
  | UnableToRegisterTableToDataFusion df_error
  | UnableToRegisterTableToDataFusionSchema string df_error
  | ExpectedAccelerationSettings table_reference
  | TableNotWritable table_reference
  | UnableToPlanTableInsert table_reference df_error
  | UnableToExecuteTableInsert table_reference df_error
  | UnableToTriggerRefresh string accelerated_table_error
  | NotAcceleratedTable string
  | SchemaMismatchFields schema_error
  | CatalogMissing string
  | SchemaMissing string
  | TableMissing string string
  | UnableToCreateStreamingUpdate df_error
  | TimeColumnFormat refresh_error
  | UnsupportedAccelerationMode string string
  | UnableToRetrieveTableFromFederation string

abbreviation SPICE_DEFAULT_CATALOG :: string where "SPICE_DEFAULT_CATALOG \<equiv> ''spice''"
abbreviation SPICE_RUNTIME_SCHEMA :: string where "SPICE_RUNTIME_SCHEMA \<equiv> ''runtime''"
abbreviation SPICE_DEFAULT_SCHEMA :: string where "SPICE_DEFAULT_SCHEMA \<equiv> ''public''"
abbreviation SPICE_METADATA_SCHEMA :: string where "SPICE_METADATA_SCHEMA \<equiv> ''metadata''"

section \<open>The schema provider\<close>

type_synonym 't schema_provider = "(string, 't) hmap"

definition schema_provider_new :: "'t schema_provider" where
  "schema_provider_new = []"

definition sp_table_names :: "'t schema_provider \<Rightarrow> string list" where
  "sp_table_names p = map fst p"

definition sp_table :: "'t schema_provider \<Rightarrow> string \<Rightarrow> 't option" where
  "sp_table p name = hm_get p name"

definition sp_register_table :: "string \<Rightarrow> 't \<Rightarrow> 't schema_provider \<Rightarrow> 't option \<times> 't schema_provider" where
  "sp_register_table name t p = (hm_get p name, hm_insert name t p)"

definition sp_deregister_table :: "string \<Rightarrow> 't schema_provider \<Rightarrow> 't option \<times> 't schema_provider" where
  "sp_deregister_table name p = (hm_get p name, hm_remove name p)"

definition sp_table_exist :: "'t schema_provider \<Rightarrow> string \<Rightarrow> bool" where
  "sp_table_exist p name = (hm_get p name \<noteq> None)"

interpretation schema_store: keyed_store schema_provider_new
    "\<lambda>name t p. snd (sp_register_table name t p)" sp_table "\<lambda>name p. snd (sp_deregister_table name p)"
  by unfold_locales
     (auto simp: schema_provider_new_def sp_register_table_def sp_deregister_table_def sp_table_def hm_get_insert hm_get_remove)

section \<open>The session context\<close>

record ('x, 't) session_context =
  cx_has_catalog :: "'x \<Rightarrow> string \<Rightarrow> bool"
  cx_schema :: "'x \<Rightarrow> string \<Rightarrow> string \<Rightarrow> 't schema_provider option"
  cx_register_schema :: "string \<Rightarrow> string \<Rightarrow> 't schema_provider \<Rightarrow> 'x \<Rightarrow> 'x"
  cx_table_provider :: "'x \<Rightarrow> table_reference \<Rightarrow> (df_error, 't) result"
  cx_table_exist :: "'x \<Rightarrow> table_reference \<Rightarrow> (df_error, bool) result"
  cx_register_table :: "table_reference \<Rightarrow> 't \<Rightarrow> 'x \<Rightarrow> (df_error, unit) result \<times> 'x"
  cx_deregister_table :: "table_reference \<Rightarrow> 'x \<Rightarrow> (df_error, unit) result \<times> 'x"

text \<open>How the context completes a reference, with the defaults \<open>new_with_cache_provider\<close> configures.\<close>

fun resolve_ref :: "table_reference \<Rightarrow> string \<times> string \<times> string" where
  "resolve_ref (Bare t) = (SPICE_DEFAULT_CATALOG, SPICE_DEFAULT_SCHEMA, t)"
| "resolve_ref (Partial s t) = (SPICE_DEFAULT_CATALOG, s, t)"
| "resolve_ref (FullRef c s t) = (c, s, t)"

record ('x, 't, 's) registry =
  rg_ctx :: 'x
  rg_data_writers :: "table_reference set"
  rg_pending_sink_tables :: "'s dataset list"

definition df_schema :: "('x, 't) session_context \<Rightarrow> 'x \<Rightarrow> string \<Rightarrow> 't schema_provider option" where
  "df_schema cx x schema_name =
     (if cx_has_catalog cx x SPICE_DEFAULT_CATALOG then cx_schema cx x SPICE_DEFAULT_CATALOG schema_name else None)"

text \<open>\<open>TableReference::table\<close> is \<open>table_of\<close> and \<open>TableReference::schema\<close> is \<open>schema_of\<close>.\<close>

definition has_table :: "('x, 't) session_context \<Rightarrow> 'x \<Rightarrow> table_reference \<Rightarrow> bool" where
  "has_table cx x r =
     (case Option.bind (schema_of r) (df_schema cx x) of
        Some p \<Rightarrow> sp_table p (table_of r) \<noteq> None
      | None \<Rightarrow> is_ok (cx_table_provider cx x (Bare (table_of r))))"

definition get_table :: "('x, 't) session_context \<Rightarrow> 'x \<Rightarrow> table_reference \<Rightarrow> 't option" where
  "get_table cx x r =
     (let catalog = (case r of FullRef c s t \<Rightarrow> c | _ \<Rightarrow> SPICE_DEFAULT_CATALOG);
          schema_name = (case r of Bare t \<Rightarrow> SPICE_DEFAULT_SCHEMA | Partial s t \<Rightarrow> s | FullRef c s t \<Rightarrow> s)
      in if cx_has_catalog cx x catalog
         then Option.bind (cx_schema cx x catalog schema_name) (\<lambda>p. sp_table p (table_of r))
         else None)"

definition get_table_provider ::
  "('x, 't) session_context \<Rightarrow> 'x \<Rightarrow> table_reference \<Rightarrow> (registry_error, 't) result" where
  "get_table_provider cx x r =
     (case schema_of r of
        Some schema_name \<Rightarrow> (case df_schema cx x schema_name of
            Some p \<Rightarrow> (case sp_table p (table_of r) of
                Some t \<Rightarrow> Inr t | None \<Rightarrow> Inl (TableMissing schema_name (table_of r)))
          | None \<Rightarrow> map_err UnableToGetTable (cx_table_provider cx x (Bare (table_of r))))
      | None \<Rightarrow> map_err UnableToGetTable (cx_table_provider cx x (Bare (table_of r))))"

definition ensure_schema_exists ::
  "('x, 't) session_context \<Rightarrow> string \<Rightarrow> table_reference \<Rightarrow> 'x \<Rightarrow> (registry_error, unit) result \<times> 'x" where
  "ensure_schema_exists cx catalog r x =
     (if \<not> cx_has_catalog cx x catalog then (Inl (CatalogMissing catalog), x)
      else case schema_of r of
        None \<Rightarrow> (Inr (), x)
      | Some schema_name \<Rightarrow>
          (if cx_schema cx x catalog schema_name \<noteq> None then (Inr (), x)
           else (Inr (), cx_register_schema cx catalog schema_name schema_provider_new x)))"

text \<open>Only the tables of the runtime schema itself: the name's own schema is not used.\<close>

definition register_runtime_table ::
  "('x, 't) session_context \<Rightarrow> table_reference \<Rightarrow> 't \<Rightarrow> ('x, 't, 's) registry \<Rightarrow> ('x, 't, 's) registry" where
  "register_runtime_table cx name t g =
     (case df_schema cx (rg_ctx g) SPICE_RUNTIME_SCHEMA of
        None \<Rightarrow> g
      | Some p \<Rightarrow> g\<lparr>rg_ctx := cx_register_schema cx SPICE_DEFAULT_CATALOG SPICE_RUNTIME_SCHEMA
             (snd (sp_register_table (table_of name) t p)) (rg_ctx g),
           rg_data_writers := insert name (rg_data_writers g)\<rparr>)"

definition is_writable :: "('x, 't, 's) registry \<Rightarrow> table_reference \<Rightarrow> bool" where
  "is_writable g r \<longleftrightarrow> r \<in> rg_data_writers g"

definition remove_table ::
  "('x, 't) session_context \<Rightarrow> table_reference \<Rightarrow> ('x, 't, 's) registry \<Rightarrow>
   (registry_error, unit) result \<times> ('x, 't, 's) registry" where
  "remove_table cx r g =
     (if \<not> (case cx_table_exist cx (rg_ctx g) r of Inr b \<Rightarrow> b | Inl _ \<Rightarrow> False) then (Inr (), g)
      else case cx_deregister_table cx r (rg_ctx g) of
        (Inl e, x) \<Rightarrow> (Inl (UnableToDeleteTable e), g\<lparr>rg_ctx := x\<rparr>)
      | (Inr _, x) \<Rightarrow>
          (let g1 = g\<lparr>rg_ctx := x\<rparr>
           in (Inr (), if is_writable g1 r then g1\<lparr>rg_data_writers := rg_data_writers g1 - {r}\<rparr> else g1)))"

definition get_public_table_names ::
  "('x, 't) session_context \<Rightarrow> 'x \<Rightarrow> (registry_error, string list) result" where
  "get_public_table_names cx x =
     (if \<not> cx_has_catalog cx x SPICE_DEFAULT_CATALOG then Inl (CatalogMissing SPICE_DEFAULT_CATALOG)
      else case cx_schema cx x SPICE_DEFAULT_CATALOG SPICE_DEFAULT_SCHEMA of
        None \<Rightarrow> Inl (SchemaMissing SPICE_DEFAULT_SCHEMA)
      | Some p \<Rightarrow> Inr (sp_table_names p))"

section \<open>Refresh SQL\<close>

text \<open>The parts of a parsed statement that are looked at.\<close>

datatype select_item = Wildcard | OtherItem
datatype table_factor = TableName "string list" | OtherFactor
datatype set_expr = Select "select_item list" "table_factor list" | OtherSetExpr
datatype sql_statement = SqlQuery set_expr | OtherSqlStatement | OtherDfStatement

definition validate_refresh_sql ::
  "(string \<Rightarrow> (string, sql_statement list) result) \<Rightarrow> (string \<Rightarrow> table_reference) \<Rightarrow> table_reference \<Rightarrow> string \<Rightarrow>
   (refresh_sql_error, unit) result" where
  "validate_refresh_sql parse_sql parse_str expected_table sql =
     (case parse_sql sql of
        Inl e \<Rightarrow> Inl (RefreshSqlParse e)
      | Inr [statement] \<Rightarrow> (case statement of
          SqlQuery (Select projection from_items) \<Rightarrow>
            (if length projection \<noteq> 1 \<or> projection ! 0 \<noteq> Wildcard \<or> length from_items \<noteq> 1
             then Inl (InvalidSqlStatement expected_table)
             else case from_items ! 0 of
               TableName name \<Rightarrow>
                 (if parse_str (join_str ''.'' name) = expected_table then Inr ()
                  else Inl (InvalidSqlStatement expected_table))
             | OtherFactor \<Rightarrow> Inl (InvalidSqlStatement expected_table))
        | _ \<Rightarrow> Inl (InvalidSqlStatement expected_table))
      | Inr statements \<Rightarrow> Inl (ExpectedSingleSqlStatement (length statements)))"

section \<open>Comparing schemas\<close>

fun verify_fields :: "cdc_field list \<Rightarrow> cdc_field list \<Rightarrow> (schema_error, unit) result" where
  "verify_fields (a # as) (b # bs) =
     (if cf_type a \<noteq> cf_type b then Inl (SchemaMismatchDataType (cf_name a) (cf_type a) (cf_type b))
      else verify_fields as bs)"
| "verify_fields _ _ = Inr ()"

definition verify_schema :: "cdc_field list \<Rightarrow> cdc_field list \<Rightarrow> (schema_error, unit) result" where
  "verify_schema expected actual =
     (if length expected \<noteq> length actual then Inl (SchemaMismatchNumFields (length expected) (length actual))
      else verify_fields expected actual)"

section \<open>Creating an accelerated table\<close>

text \<open>What the data connector of a dataset and the accelerator factory return.\<close>

record ('t, 'st) data_connector =
  dc_read_write_provider :: "(string, 't) result option"
  dc_resolve_refresh_mode :: "refresh_mode option \<Rightarrow> refresh_mode"
  dc_changes_stream :: "'t \<Rightarrow> 'st option"
  dc_append_stream :: "'t \<Rightarrow> 'st option"
  dc_metadata_provider :: "(string, 't) result option"

record ('t, 'st, 'c) table_services =
  ts_schema :: "'t \<Rightarrow> schema"
  ts_fields :: "'t \<Rightarrow> cdc_field list"
  ts_create_accelerator :: "table_reference \<Rightarrow> schema \<Rightarrow> acceleration \<Rightarrow> (string, 't) result"
  ts_wrap :: "('st, 'c) accelerated_table \<Rightarrow> 't \<Rightarrow> 't \<Rightarrow> (df_error, 't) result"
  ts_adaptor :: "'t \<Rightarrow> 't option option"
  ts_accelerated :: "'t \<Rightarrow> ('st, 'c) accelerated_table option"
  ts_cache_provider :: "'c option"
  ts_show_type :: "data_type \<Rightarrow> string"
  ts_show_ref :: "table_reference \<Rightarrow> string"

text \<open>The provider of the source: a \<open>read_write\<close> dataset needs one that can be written.\<close>

definition source_provider ::
  "('t, 'st) data_connector \<Rightarrow> 's dataset \<Rightarrow> 't \<Rightarrow> (registry_error, 't) result" where
  "source_provider dc d federated_read_table = (case ds_mode d of
      Read \<Rightarrow> Inr federated_read_table
    | ReadWrite \<Rightarrow> (case dc_read_write_provider dc of
        None \<Rightarrow> Inl (WriteProviderNotImplemented (ds_name d))
      | Some r \<Rightarrow> map_err UnableToResolveTableProvider r))"

definition refresh_of :: "(duration \<Rightarrow> duration) \<Rightarrow> refresh_mode \<Rightarrow> acceleration \<Rightarrow> 's dataset \<Rightarrow> refresh" where
  "refresh_of tenth m acc d =
     (let r0 = with_retry (refresh_retry_enabled d) (refresh_retry_max_attempts d) (refresh_new m);
          r1 = (case refresh_sql d of Some q \<Rightarrow> with_sql q r0 | None \<Rightarrow> r0);
          r2 = (case ds_time_format d of Some f \<Rightarrow> with_time_format f r1 | None \<Rightarrow> r1);
          r3 = (case ds_time_column d of Some c \<Rightarrow> with_time_column c r2 | None \<Rightarrow> r2);
          r4 = (case refresh_check_interval d of Some i \<Rightarrow> with_check_interval i r3 | None \<Rightarrow> r3);
          r5 = (case refresh_max_jitter tenth d of Some j \<Rightarrow> with_max_jitter j r4 | None \<Rightarrow> r4)
      in case acc_refresh_append_overlap acc of Some ov \<Rightarrow> with_append_overlap ov r5 | None \<Rightarrow> r5)"

definition configured_builder ::
  "field_parsers \<Rightarrow> 'c option \<Rightarrow> refresh \<Rightarrow> acceleration \<Rightarrow> 's dataset \<Rightarrow> ('st, 'c) builder" where
  "configured_builder P cache r acc d =
     (let b0 = set_retention (retention_new (ds_time_column d) (ds_time_format d) (retention_period P d)
                 (retention_check_interval P d) (acc_retention_check_enabled acc)) (table_builder_new r);
          b1 = set_cache_provider cache (set_zero_results_action (acc_on_zero_results acc) b0)
      in if acc_disable_query_push_down acc then disable_query_push_down b1 else b1)"

text \<open>The streams the two streaming modes need; the outer \<open>None\<close> is a failed assertion.\<close>

definition with_streams ::
  "('t, 'st) data_connector \<Rightarrow> refresh_mode \<Rightarrow> 't \<Rightarrow> 's dataset \<Rightarrow> ('st, 'c) builder \<Rightarrow>
   (registry_error, ('st, 'c) builder) result option" where
  "with_streams dc m source_table d b =
     (case (if m = Changes
            then (case dc_changes_stream dc source_table of None \<Rightarrow> Some b | Some st \<Rightarrow> set_changes_stream st b)
            else Some b) of
        None \<Rightarrow> None
      | Some b1 \<Rightarrow>
          (if m = Append \<and> ds_time_column d = None
           then (case dc_append_stream dc source_table of
                   Some st \<Rightarrow> map_option Inr (set_append_stream st b1)
                 | None \<Rightarrow> Some (Inl (UnsupportedAccelerationMode ''append'' (ds_from d))))
           else Some (Inr b1)))"

text \<open>The accelerated table with its accelerator and its source; \<open>None\<close> is a panic.\<close>

definition create_accelerated_table ::
  "field_parsers \<Rightarrow> (duration \<Rightarrow> duration) \<Rightarrow> (table_reference \<Rightarrow> string \<Rightarrow> (refresh_sql_error, unit) result) \<Rightarrow>
   ('t, 'st, 'c) table_services \<Rightarrow> ('t, 'st) data_connector \<Rightarrow> 's dataset \<Rightarrow> 't \<Rightarrow>
   (registry_error, ('st, 'c) accelerated_table \<times> 't \<times> 't) result option" where
  "create_accelerated_table P tenth check_sql ts dc d federated_read_table =
     (case and_then (source_provider dc d federated_read_table) (\<lambda>source_table.
           case ds_acceleration d of
             None \<Rightarrow> Inl (ExpectedAccelerationSettings (ds_name d))
           | Some acc \<Rightarrow>
               and_then (map_err UnableToCreateDataAccelerator
                 (ts_create_accelerator ts (ds_name d) (ts_schema ts source_table) acc)) (\<lambda>accelerator.
               and_then (case refresh_sql d of
                   None \<Rightarrow> Inr ()
                 | Some q \<Rightarrow> map_err RefreshSqlError (check_sql (ds_name d) q)) (\<lambda>_.
               let m = dc_resolve_refresh_mode dc (acc_refresh_mode acc);
                   r = refresh_of tenth m acc d
               in and_then (map_err TimeColumnFormat
                    (validate_time_format (ts_show_type ts) (ts_show_ref ts (ds_name d)) (ts_schema ts source_table) r)) (\<lambda>_.
                  Inr (m, r, acc, source_table, accelerator))))) of
        Inl e \<Rightarrow> Some (Inl e)
      | Inr (m, r, acc, source_table, accelerator) \<Rightarrow>
          (case with_streams dc m source_table d (configured_builder P (ts_cache_provider ts) r acc d) of
             None \<Rightarrow> None
           | Some (Inl e) \<Rightarrow> Some (Inl e)
           | Some (Inr b) \<Rightarrow> map_option (\<lambda>t. Inr (t, accelerator, source_table)) (build_table b)))"

section \<open>Registering datasets\<close>

datatype ('t, 'st, 'c) table_kind =
    KindAccelerated "('t, 'st) data_connector" 't "(('st, 'c) accelerated_table \<times> 't \<times> 't) option" bool
  | KindFederated "('t, 'st) data_connector" 't
  | KindView string

definition register_in_ctx ::
  "('x, 't) session_context \<Rightarrow> table_reference \<Rightarrow> 't \<Rightarrow> ('x, 't, 's) registry \<Rightarrow>
   (registry_error, unit) result \<times> ('x, 't, 's) registry" where
  "register_in_ctx cx r t g =
     (let (res, x) = cx_register_table cx r t (rg_ctx g)
      in (map_err UnableToRegisterTableToDataFusion res, g\<lparr>rg_ctx := x\<rparr>))"

definition register_metadata_table ::
  "('x, 't) session_context \<Rightarrow> (table_reference \<Rightarrow> string) \<Rightarrow> ('t, 'st) data_connector \<Rightarrow> 's dataset \<Rightarrow> ('x, 't, 's) registry \<Rightarrow>
   (registry_error, unit) result \<times> ('x, 't, 's) registry" where
  "register_metadata_table cx show_ref dc d g = (case dc_metadata_provider dc of
      None \<Rightarrow> (Inr (), g)
    | Some (Inl e) \<Rightarrow> (Inl (UnableToResolveTableProvider e), g)
    | Some (Inr t) \<Rightarrow> register_in_ctx cx (Partial SPICE_METADATA_SCHEMA (show_ref (ds_name d))) t g)"

definition register_accelerated_table ::
  "field_parsers \<Rightarrow> (duration \<Rightarrow> duration) \<Rightarrow> (table_reference \<Rightarrow> string \<Rightarrow> (refresh_sql_error, unit) result) \<Rightarrow>
   ('t, 'st, 'c) table_services \<Rightarrow> ('x, 't) session_context \<Rightarrow> 's dataset \<Rightarrow> ('t, 'st) data_connector \<Rightarrow> 't \<Rightarrow>
   ('x, 't, 's) registry \<Rightarrow> ((registry_error, unit) result \<times> ('x, 't, 's) registry) option" where
  "register_accelerated_table P tenth check_sql ts cx d dc federated_read_table g =
     (case create_accelerated_table P tenth check_sql ts dc d federated_read_table of
        None \<Rightarrow> None
      | Some (Inl e) \<Rightarrow> Some (Inl e, g)
      | Some (Inr (tbl, accelerator, source_table)) \<Rightarrow> (case ts_wrap ts tbl accelerator source_table of
          Inl e \<Rightarrow> Some (Inl (UnableToRegisterTableToDataFusion e), g)
        | Inr t \<Rightarrow> (case register_in_ctx cx (ds_name d) t g of
            (Inl e, g1) \<Rightarrow> Some (Inl e, g1)
          | (Inr _, g1) \<Rightarrow> Some (register_metadata_table cx (ts_show_ref ts) dc d g1))))"

definition ctx_has :: "('x, 't) session_context \<Rightarrow> 'x \<Rightarrow> table_reference \<Rightarrow> bool" where
  "ctx_has cx x r = (case cx_table_exist cx x r of Inr b \<Rightarrow> b | Inl _ \<Rightarrow> False)"

definition register_federated_table ::
  "('x, 't) session_context \<Rightarrow> (table_reference \<Rightarrow> string) \<Rightarrow> 's dataset \<Rightarrow> ('t, 'st) data_connector \<Rightarrow> 't \<Rightarrow> ('x, 't, 's) registry \<Rightarrow>
   (registry_error, unit) result \<times> ('x, 't, 's) registry" where
  "register_federated_table cx show_ref d dc federated_read_table g =
     (if ctx_has cx (rg_ctx g) (ds_name d) then (Inl TableAlreadyExists, g)
      else case source_provider dc d federated_read_table of
        Inl e \<Rightarrow> (Inl e, g)
      | Inr source_table \<Rightarrow> (case register_metadata_table cx show_ref dc d g of
          (Inl e, g1) \<Rightarrow> (Inl e, g1)
        | (Inr _, g1) \<Rightarrow> register_in_ctx cx (ds_name d) source_table g1))"

text \<open>The checks of \<open>register_view\<close>; the table itself is created by a task that waits for the tables
  the view reads.\<close>

definition register_view ::
  "('x, 't) session_context \<Rightarrow> (string \<Rightarrow> (string, sql_statement list) result) \<Rightarrow> table_reference \<Rightarrow> string \<Rightarrow>
   ('x, 't, 's) registry \<Rightarrow> (registry_error, unit) result" where
  "register_view cx parse_sql r sql g =
     (if ctx_has cx (rg_ctx g) r then Inl TableAlreadyExists
      else case parse_sql sql of
        Inl e \<Rightarrow> Inl (UnableToParseSql e)
      | Inr statements \<Rightarrow>
          (if length statements \<noteq> 1
           then Inl (UnableToCreateView (''Expected 1 statement to create view from, received '' @ digits (length statements)))
           else Inr ()))"

definition register_table ::
  "field_parsers \<Rightarrow> (duration \<Rightarrow> duration) \<Rightarrow> (string \<Rightarrow> (string, sql_statement list) result) \<Rightarrow> (string \<Rightarrow> table_reference) \<Rightarrow>
   ('t, 'st, 'c) table_services \<Rightarrow> ('x, 't) session_context \<Rightarrow> 's dataset \<Rightarrow> ('t, 'st, 'c) table_kind \<Rightarrow> ('x, 't, 's) registry \<Rightarrow>
   ((registry_error, unit) result \<times> ('x, 't, 's) registry) option" where
  "register_table P tenth parse_sql parse_str ts cx d kind g =
     (case ensure_schema_exists cx SPICE_DEFAULT_CATALOG (ds_name d) (rg_ctx g) of
        (Inl e, x) \<Rightarrow> Some (Inl e, g\<lparr>rg_ctx := x\<rparr>)
      | (Inr _, x) \<Rightarrow>
          (let g0 = g\<lparr>rg_ctx := x\<rparr>;
               check_sql = validate_refresh_sql parse_sql parse_str;
               outcome = (case kind of
                   KindAccelerated dc fed (Some (tbl, accelerator, source_table)) is_sink \<Rightarrow>
                     (case ts_wrap ts tbl accelerator source_table of
                        Inl e \<Rightarrow> Some (Inl (UnableToRegisterTableToDataFusion e), g0)
                      | Inr t \<Rightarrow> Some (register_in_ctx cx (ds_name d) t g0))
                 | KindAccelerated dc fed None is_sink \<Rightarrow>
                     (if is_sink
                      then Some (Inr (), g0\<lparr>rg_pending_sink_tables := rg_pending_sink_tables g0 @ [d]\<rparr>)
                      else register_accelerated_table P tenth check_sql ts cx d dc fed g0)
                 | KindFederated dc fed \<Rightarrow> Some (register_federated_table cx (ts_show_ref ts) d dc fed g0)
                 | KindView sql \<Rightarrow> Some (register_view cx parse_sql (ds_name d) sql g0, g0))
           in case outcome of
                None \<Rightarrow> None
              | Some (Inl e, g1) \<Rightarrow> Some (Inl e, g1)
              | Some (Inr _, g1) \<Rightarrow>
                  Some (Inr (), if ds_mode d = ReadWrite
                    then g1\<lparr>rg_data_writers := insert (ds_name d) (rg_data_writers g1)\<rparr> else g1)))"

section \<open>Sinks and writes\<close>

text \<open>The registration that is waiting for the table, if any.\<close>

definition find_pending :: "table_reference \<Rightarrow> 's dataset list \<Rightarrow> 's dataset option" where
  "find_pending r ds = find (\<lambda>d. ds_name d = r) ds"

fun find_index_of :: "('a \<Rightarrow> bool) \<Rightarrow> 'a list \<Rightarrow> nat option" where
  "find_index_of P [] = None"
| "find_index_of P (x # xs) = (if P x then Some 0 else map_option Suc (find_index_of P xs))"

text \<open>
  The removal, done under a lock taken anew: the index to remove starts at \<open>Some(0)\<close>.
  \<open>Vec::remove\<close> panics out of range (\<open>None\<close>).
\<close>

definition remove_pending :: "table_reference \<Rightarrow> 's dataset list \<Rightarrow> 's dataset list option" where
  "remove_pending r ds =
     (let idx = (case find_index_of (\<lambda>d. ds_name d = r) ds of Some i \<Rightarrow> i | None \<Rightarrow> 0)
      in if idx < length ds then Some (take idx ds @ drop (Suc idx) ds) else None)"

text \<open>
  A write to a sink whose schema was not known: the first part registers the table while other
  writers may do the same, the second removes the waiting registration.
\<close>

definition register_pending_sink ::
  "field_parsers \<Rightarrow> (duration \<Rightarrow> duration) \<Rightarrow> (table_reference \<Rightarrow> string \<Rightarrow> (refresh_sql_error, unit) result) \<Rightarrow>
   ('t, 'st, 'c) table_services \<Rightarrow> ('x, 't) session_context \<Rightarrow> (cdc_field list \<Rightarrow> ('t, 'st) data_connector \<times> (string, 't) result) \<Rightarrow>
   's dataset \<Rightarrow> cdc_field list \<Rightarrow> ('x, 't, 's) registry \<Rightarrow> ((registry_error, unit) result \<times> ('x, 't, 's) registry) option" where
  "register_pending_sink P tenth check_sql ts cx sink_connector d schema g =
     (let (dc, read_provider) = sink_connector schema
      in case read_provider of
           Inl e \<Rightarrow> Some (Inl (UnableToResolveTableProvider e), g)
         | Inr t \<Rightarrow> register_accelerated_table P tenth check_sql ts cx d dc t g)"

definition ensure_sink_dataset ::
  "field_parsers \<Rightarrow> (duration \<Rightarrow> duration) \<Rightarrow> (table_reference \<Rightarrow> string \<Rightarrow> (refresh_sql_error, unit) result) \<Rightarrow>
   ('t, 'st, 'c) table_services \<Rightarrow> ('x, 't) session_context \<Rightarrow> (cdc_field list \<Rightarrow> ('t, 'st) data_connector \<times> (string, 't) result) \<Rightarrow>
   table_reference \<Rightarrow> cdc_field list \<Rightarrow> ('x, 't, 's) registry \<Rightarrow> ((registry_error, unit) result \<times> ('x, 't, 's) registry) option" where
  "ensure_sink_dataset P tenth check_sql ts cx sink_connector r schema g =
     (case find_pending r (rg_pending_sink_tables g) of
        None \<Rightarrow> Some (Inr (), g)
      | Some d \<Rightarrow> (case register_pending_sink P tenth check_sql ts cx sink_connector d schema g of
          None \<Rightarrow> None
        | Some (Inl e, g1) \<Rightarrow> Some (Inl e, g1)
        | Some (Inr _, g1) \<Rightarrow>
            map_option (\<lambda>ds. (Inr (), g1\<lparr>rg_pending_sink_tables := ds\<rparr>)) (remove_pending r (rg_pending_sink_tables g1))))"

text \<open>
  \<open>write_data\<close>: \<open>memory_stream\<close> is \<open>MemoryStream::try_new\<close>, \<open>insert_plan\<close> and \<open>collect_plan\<close> the
  planning and the execution of the provider's insertion, on whatever the tables hold (\<open>'d\<close>).
\<close>

definition write_data ::
  "(table_reference \<Rightarrow> cdc_field list \<Rightarrow> ('x, 't, 's) registry \<Rightarrow> ((registry_error, unit) result \<times> ('x, 't, 's) registry) option) \<Rightarrow>
   ('x, 't) session_context \<Rightarrow> ('t, 'st, 'c) table_services \<Rightarrow> ('u \<Rightarrow> (df_error, 'b) result) \<Rightarrow>
   ('t \<Rightarrow> 'b \<Rightarrow> bool \<Rightarrow> (df_error, 'p) result) \<Rightarrow> ('p \<Rightarrow> 'd \<Rightarrow> (df_error, unit) result \<times> 'd) \<Rightarrow>
   table_reference \<Rightarrow> cdc_field list \<Rightarrow> 'u \<Rightarrow> update_type \<Rightarrow> ('x, 't, 's) registry \<times> 'd \<Rightarrow>
   ((registry_error, unit) result \<times> ('x, 't, 's) registry \<times> 'd) option" where
  "write_data ensure_sink cx ts memory_stream insert_plan collect_plan r schema data update_type state =
     (let (g, tables) = state
      in if \<not> is_writable g r then Some (Inl (TableNotWritable r), g, tables)
         else case ensure_sink r schema g of
             None \<Rightarrow> None
           | Some (Inl e, g1) \<Rightarrow> Some (Inl e, g1, tables)
           | Some (Inr _, g1) \<Rightarrow>
               (case and_then (get_table_provider cx (rg_ctx g1) r) (\<lambda>t.
                     and_then (map_err SchemaMismatchFields (verify_schema (ts_fields ts t) schema)) (\<lambda>_.
                     and_then (map_err UnableToCreateStreamingUpdate (memory_stream data)) (\<lambda>stream.
                     map_err (UnableToPlanTableInsert r) (insert_plan t stream (update_type = OverwriteUpdate))))) of
                  Inl e \<Rightarrow> Some (Inl e, g1, tables)
                | Inr plan \<Rightarrow>
                    (let (res, tables') = collect_plan plan tables
                     in Some (map_err (UnableToExecuteTableInsert r) res, g1, tables'))))"

section \<open>Refreshing\<close>

definition get_accelerated_table_provider ::
  "('x, 't) session_context \<Rightarrow> ('t, 'st, 'c) table_services \<Rightarrow> (string \<Rightarrow> table_reference) \<Rightarrow> 'x \<Rightarrow> string \<Rightarrow>
   (registry_error, 't) result" where
  "get_accelerated_table_provider cx ts parse_str x name =
     and_then (map_err UnableToGetTable (cx_table_provider cx x (parse_str name))) (\<lambda>t.
     case ts_adaptor ts t of
       None \<Rightarrow> Inr t
     | Some (Some nested) \<Rightarrow> Inr nested
     | Some None \<Rightarrow> Inl (UnableToRetrieveTableFromFederation name))"

definition refresh_table ::
  "('x, 't) session_context \<Rightarrow> ('t, 'st, 'c) table_services \<Rightarrow> (string \<Rightarrow> table_reference) \<Rightarrow> 'x \<Rightarrow> string \<Rightarrow>
   (registry_error, unit) result" where
  "refresh_table cx ts parse_str x name =
     and_then (get_accelerated_table_provider cx ts parse_str x name) (\<lambda>t.
     case ts_accelerated ts t of
       Some a \<Rightarrow> map_err (UnableToTriggerRefresh name) (trigger_refresh a)
     | None \<Rightarrow> Inl (NotAcceleratedTable name))"

text \<open>The accelerated table whose shared settings are changed, if the table is one.\<close>

definition update_table_refresh_sql ::
  "('x, 't) session_context \<Rightarrow> ('t, 'st, 'c) table_services \<Rightarrow> (string \<Rightarrow> table_reference) \<Rightarrow>
   (table_reference \<Rightarrow> string \<Rightarrow> (refresh_sql_error, unit) result) \<Rightarrow> 'x \<Rightarrow> table_reference \<Rightarrow> string option \<Rightarrow>
   (registry_error, ('st, 'c) accelerated_table option) result" where
  "update_table_refresh_sql cx ts parse_str check_sql x r sql =
     and_then (case sql of None \<Rightarrow> Inr () | Some q \<Rightarrow> map_err RefreshSqlError (check_sql r q)) (\<lambda>_.
     and_then (get_accelerated_table_provider cx ts parse_str x (ts_show_ref ts r)) (\<lambda>t.
     Inr (map_option (update_refresh_sql sql) (ts_accelerated ts t))))"

section \<open>Laws of the session context\<close>

definition lookup_ref :: "('x, 't) session_context \<Rightarrow> 'x \<Rightarrow> table_reference \<Rightarrow> 't option" where
  "lookup_ref cx x r = (case resolve_ref r of (c, s, t) \<Rightarrow> Option.bind (cx_schema cx x c s) (\<lambda>p. sp_table p t))"

text \<open>
  The documented behaviour of a session context: a reference is completed with the default catalog
  and schema and found in that schema's provider; registering and deregistering change that
  provider alone; a schema exists only in a catalog that exists.
\<close>

definition session_laws :: "('x, 't) session_context \<Rightarrow> bool" where
  "session_laws cx \<longleftrightarrow>
     (\<forall>x c s. cx_schema cx x c s \<noteq> None \<longrightarrow> cx_has_catalog cx x c) \<and>
     (\<forall>x r. cx_table_provider cx x r = (case lookup_ref cx x r of Some t \<Rightarrow> Inr t | None \<Rightarrow> Inl (Fatal ''table not found''))) \<and>
     (\<forall>x r b. cx_table_exist cx x r = Inr b \<longrightarrow> b = (lookup_ref cx x r \<noteq> None)) \<and>
     (\<forall>x r t x' c s n. cx_register_table cx r t x = (Inr (), x') \<longrightarrow> resolve_ref r = (c, s, n) \<longrightarrow>
        (\<exists>p. cx_schema cx x c s = Some p \<and>
          cx_schema cx x' = (cx_schema cx x)(c := (cx_schema cx x c)(s \<mapsto> snd (sp_register_table n t p))))) \<and>
     (\<forall>x r x' c s n. cx_deregister_table cx r x = (Inr (), x') \<longrightarrow> resolve_ref r = (c, s, n) \<longrightarrow>
        (\<exists>p. cx_schema cx x c s = Some p \<and>
          cx_schema cx x' = (cx_schema cx x)(c := (cx_schema cx x c)(s \<mapsto> snd (sp_deregister_table n p)))))"

lemma session_catalog: "session_laws cx \<Longrightarrow> cx_schema cx x c s = Some p \<Longrightarrow> cx_has_catalog cx x c"
  unfolding session_laws_def by (metis option.distinct(1))

lemma session_register:
  assumes "session_laws cx" and "cx_register_table cx r t x = (Inr (), x')" and "resolve_ref r = (c, s, n)"
  obtains p where "cx_schema cx x c s = Some p"
    and "cx_schema cx x' = (cx_schema cx x)(c := (cx_schema cx x c)(s \<mapsto> snd (sp_register_table n t p)))"
  using assms that unfolding session_laws_def by metis

lemma session_deregister:
  assumes "session_laws cx" and "cx_deregister_table cx r x = (Inr (), x')" and "resolve_ref r = (c, s, n)"
  obtains p where "cx_schema cx x c s = Some p"
    and "cx_schema cx x' = (cx_schema cx x)(c := (cx_schema cx x c)(s \<mapsto> snd (sp_deregister_table n p)))"
  using assms that unfolding session_laws_def by metis

lemma get_table_lookup:
  assumes "session_laws cx"
  shows "get_table cx x r = lookup_ref cx x r"
proof -
  have "\<not> cx_has_catalog cx x c \<Longrightarrow> cx_schema cx x c s = None" for c s
    using session_catalog [OF assms, of x c s] by (cases "cx_schema cx x c s") auto
  then show ?thesis by (cases r) (simp_all add: get_table_def lookup_ref_def Let_def)
qed

lemma lookup_registered:
  assumes "session_laws cx" and "cx_register_table cx r t x = (Inr (), x')"
  shows "lookup_ref cx x' r' = (if resolve_ref r' = resolve_ref r then Some t else lookup_ref cx x r')"
proof -
  obtain c s n where r: "resolve_ref r = (c, s, n)" by (cases "resolve_ref r")
  obtain c' s' n' where r': "resolve_ref r' = (c', s', n')" by (cases "resolve_ref r'")
  from session_register [OF assms r] obtain p where "cx_schema cx x c s = Some p"
    "cx_schema cx x' = (cx_schema cx x)(c := (cx_schema cx x c)(s \<mapsto> snd (sp_register_table n t p)))" by metis
  then show ?thesis by (auto simp: lookup_ref_def r r' schema_store.find_insert)
qed

lemma lookup_deregistered:
  assumes "session_laws cx" and "cx_deregister_table cx r x = (Inr (), x')"
  shows "lookup_ref cx x' r' = (if resolve_ref r' = resolve_ref r then None else lookup_ref cx x r')"
proof -
  obtain c s n where r: "resolve_ref r = (c, s, n)" by (cases "resolve_ref r")
  obtain c' s' n' where r': "resolve_ref r' = (c', s', n')" by (cases "resolve_ref r'")
  from session_deregister [OF assms r] obtain p where "cx_schema cx x c s = Some p"
    "cx_schema cx x' = (cx_schema cx x)(c := (cx_schema cx x c)(s \<mapsto> snd (sp_deregister_table n p)))" by metis
  then show ?thesis by (auto simp: lookup_ref_def r r' schema_store.find_remove)
qed

lemma ctx_has_lookup: "session_laws cx \<Longrightarrow> ctx_has cx x r \<Longrightarrow> lookup_ref cx x r \<noteq> None"
  unfolding session_laws_def ctx_has_def by (cases "cx_table_exist cx x r") auto

text \<open>A context made of nested maps.\<close>

type_synonym 't nested = "(string, (string, 't schema_provider) hmap) hmap"

definition nested_schema :: "'t nested \<Rightarrow> string \<Rightarrow> string \<Rightarrow> 't schema_provider option" where
  "nested_schema x c s = Option.bind (hm_get x c) (\<lambda>m. hm_get m s)"

definition nested_put :: "string \<Rightarrow> string \<Rightarrow> 't schema_provider \<Rightarrow> 't nested \<Rightarrow> 't nested" where
  "nested_put c s p x = hm_insert c (hm_insert s p (case hm_get x c of None \<Rightarrow> [] | Some m \<Rightarrow> m)) x"

definition nested_change ::
  "(string \<Rightarrow> 't schema_provider \<Rightarrow> 't schema_provider) \<Rightarrow> table_reference \<Rightarrow> 't nested \<Rightarrow> (df_error, unit) result \<times> 't nested" where
  "nested_change f r x = (case resolve_ref r of (c, s, n) \<Rightarrow> (case nested_schema x c s of
      None \<Rightarrow> (Inl (Fatal ''schema not found''), x) | Some p \<Rightarrow> (Inr (), nested_put c s (f n p) x)))"

definition nested_lookup :: "'t nested \<Rightarrow> table_reference \<Rightarrow> 't option" where
  "nested_lookup x r = (case resolve_ref r of (c, s, n) \<Rightarrow> Option.bind (nested_schema x c s) (\<lambda>p. sp_table p n))"

definition nested_context :: "('t nested, 't) session_context" where
  "nested_context = \<lparr>cx_has_catalog = (\<lambda>x c. hm_get x c \<noteq> None), cx_schema = nested_schema,
     cx_register_schema = nested_put,
     cx_table_provider = (\<lambda>x r. case nested_lookup x r of Some t \<Rightarrow> Inr t | None \<Rightarrow> Inl (Fatal ''table not found'')),
     cx_table_exist = (\<lambda>x r. Inr (nested_lookup x r \<noteq> None)),
     cx_register_table = (\<lambda>r t. nested_change (\<lambda>n p. snd (sp_register_table n t p)) r),
     cx_deregister_table = nested_change (\<lambda>n p. snd (sp_deregister_table n p))\<rparr>"

lemma nested_put_schema:
  "nested_schema x c s = Some q \<Longrightarrow> nested_schema (nested_put c s p x) = (nested_schema x)(c := (nested_schema x c)(s \<mapsto> p))"
  by (auto simp: nested_schema_def nested_put_def fun_eq_iff update_conv split: option.splits bind_splits)

lemma nested_change_schema:
  "nested_change f r x = (Inr (), x') \<Longrightarrow> (case resolve_ref r of (c, s, n) \<Rightarrow>
     \<exists>p. nested_schema x c s = Some p \<and> nested_schema x' = (nested_schema x)(c := (nested_schema x c)(s \<mapsto> f n p)))"
  by (auto simp: nested_change_def nested_put_schema split: option.splits)

lemma nested_context_laws: "session_laws nested_context"
  unfolding session_laws_def
proof (intro conjI allI impI)
  show "cx_has_catalog nested_context x c" if "cx_schema nested_context x c s \<noteq> None" for x c s
    using that by (cases "hm_get x c") (simp_all add: nested_context_def nested_schema_def)
next
  fix r t x x' c s n
  assume "cx_register_table nested_context r t x = (Inr (), x')" and "resolve_ref r = (c, s, n)"
  then show "\<exists>p. cx_schema nested_context x c s = Some p \<and>
      cx_schema nested_context x' = (cx_schema nested_context x)(c := (cx_schema nested_context x c)(s \<mapsto> snd (sp_register_table n t p)))"
    using nested_change_schema [of "\<lambda>n p. snd (sp_register_table n t p)" r x x'] by (simp add: nested_context_def)
next
  fix r x x' c s n
  assume "cx_deregister_table nested_context r x = (Inr (), x')" and "resolve_ref r = (c, s, n)"
  then show "\<exists>p. cx_schema nested_context x c s = Some p \<and>
      cx_schema nested_context x' = (cx_schema nested_context x)(c := (cx_schema nested_context x c)(s \<mapsto> snd (sp_deregister_table n p)))"
    using nested_change_schema [of "\<lambda>n p. snd (sp_deregister_table n p)" r x x'] by (simp add: nested_context_def)
qed (simp_all add: nested_context_def lookup_ref_def nested_lookup_def)

section \<open>Properties\<close>

lemma remove_table_facts:
  assumes "session_laws cx" and "remove_table cx r g = (Inr (), g')" and "ctx_has cx (rg_ctx g) r"
  shows "lookup_ref cx (rg_ctx g') r' = (if resolve_ref r' = resolve_ref r then None else lookup_ref cx (rg_ctx g) r')"
    and "rg_data_writers g' = rg_data_writers g - {r}"
proof -
  obtain x where x: "cx_deregister_table cx r (rg_ctx g) = (Inr (), x)" and g': "rg_ctx g' = x"
    and w: "rg_data_writers g' = rg_data_writers g - {r}"
    using assms(2,3)
    by (auto simp: remove_table_def ctx_has_def is_writable_def Let_def split: sum.splits prod.splits if_splits)
  show "lookup_ref cx (rg_ctx g') r' = (if resolve_ref r' = resolve_ref r then None else lookup_ref cx (rg_ctx g) r')"
    using lookup_deregistered [OF assms(1) x] g' by simp
  show "rg_data_writers g' = rg_data_writers g - {r}" by (rule w)
qed

text \<open>
  (C40) Registering a table and removing it again: while it is registered, every reference that resolves
  to its catalog, schema and name finds it and every other reference finds what it found before;
  after the removal all references find what they found before the registration, and the table is
  no longer writable under the name it was removed by.
\<close>

theorem register_remove_roundtrip:
  assumes "session_laws cx" and "get_table cx (rg_ctx g) r = None"
    and "register_in_ctx cx r t g = (Inr (), g1)" and "ctx_has cx (rg_ctx g1) r"
    and "remove_table cx r g1 = (Inr (), g2)"
  shows "(\<forall>r'. get_table cx (rg_ctx g1) r' = (if resolve_ref r' = resolve_ref r then Some t else get_table cx (rg_ctx g) r')) \<and>
    get_table cx (rg_ctx g2) = get_table cx (rg_ctx g) \<and> \<not> is_writable g2 r"
proof -
  have g1: "cx_register_table cx r t (rg_ctx g) = (Inr (), rg_ctx g1)"
    using assms(3) by (auto simp: register_in_ctx_def split: prod.splits)
  note look = get_table_lookup [OF assms(1)] lookup_registered [OF assms(1) g1] remove_table_facts(1) [OF assms(1,5,4)]
  have none: "lookup_ref cx (rg_ctx g) r' = None" if "resolve_ref r' = resolve_ref r" for r'
    using assms(2) that by (simp add: get_table_lookup [OF assms(1)] lookup_ref_def)
  have "get_table cx (rg_ctx g2) r' = get_table cx (rg_ctx g) r'" for r'
    using none [of r'] by (simp add: look)
  moreover have "\<not> is_writable g2 r"
    using remove_table_facts(2) [OF assms(1,5,4)] by (simp add: is_writable_def)
  ultimately show ?thesis by (simp add: look fun_eq_iff)
qed

definition demo_registry :: "(string nested, string, unit) registry" where
  "demo_registry = \<lparr>rg_ctx = [(''spice'', [(''public'', [(''users'', ''U'')])])], rg_data_writers = {Bare ''orders''},
     rg_pending_sink_tables = []\<rparr>"

theorem register_remove_roundtrip_witness:
  "\<exists>g1 g2. register_in_ctx nested_context (Bare ''orders'') ''O'' demo_registry = (Inr (), g1) \<and>
     remove_table nested_context (Bare ''orders'') g1 = (Inr (), g2) \<and>
     get_table nested_context (rg_ctx g1) (Partial ''public'' ''orders'') = Some ''O'' \<and>
     get_table nested_context (rg_ctx g2) = get_table nested_context (rg_ctx demo_registry)"
proof -
  let ?r = "Bare ''orders''"
  have none: "get_table nested_context (rg_ctx demo_registry) ?r = None" by code_simp
  obtain g1 where g1: "register_in_ctx nested_context ?r ''O'' demo_registry = (Inr (), g1)" and
    x1: "rg_ctx g1 = [(''spice'', [(''public'', [(''users'', ''U''), (''orders'', ''O'')])])]"
    by (simp add: register_in_ctx_def nested_context_def nested_change_def nested_schema_def nested_put_def
        demo_registry_def sp_register_table_def)
  have has: "ctx_has nested_context (rg_ctx g1) ?r"
    by (simp add: ctx_has_def nested_context_def nested_lookup_def nested_schema_def sp_table_def x1)
  obtain x2 where "cx_deregister_table nested_context ?r (rg_ctx g1) = (Inr (), x2)"
    by (simp add: nested_context_def nested_change_def nested_schema_def x1)
  then obtain g2 where g2: "remove_table nested_context ?r g1 = (Inr (), g2)"
    using has by (simp add: remove_table_def ctx_has_def Let_def)
  from register_remove_roundtrip [OF nested_context_laws none g1 has g2] show ?thesis
    using g1 g2 by auto
qed

text \<open>
  The refresh settings of an accelerated table never carry a data window: whatever
  \<open>refresh_data_window\<close> the dataset is configured with, the settings come out the same.
\<close>

theorem refresh_data_window_never_used:
  assumes "ds_acceleration d = Some acc"
  shows "rf_period (refresh_of tenth m acc d) = None \<and>
    refresh_of tenth m (acc\<lparr>acc_refresh_data_window := w\<rparr>) (d\<lparr>ds_acceleration := Some (acc\<lparr>acc_refresh_data_window := w\<rparr>)\<rparr>) =
      refresh_of tenth m acc d"
proof -
  have "rf_period (refresh_of tenth m acc d) = None"
    by (simp add: refresh_of_def Let_def with_retry_def refresh_new_def default_refresh_def with_sql_def with_time_format_def
        with_time_column_def with_check_interval_def with_max_jitter_def with_append_overlap_def split: option.splits)
  moreover have "refresh_of tenth m (acc\<lparr>acc_refresh_data_window := w\<rparr>) (d\<lparr>ds_acceleration := Some (acc\<lparr>acc_refresh_data_window := w\<rparr>)\<rparr>) =
      refresh_of tenth m acc d"
    unfolding refresh_of_def refresh_max_jitter_def refresh_check_interval_def refresh_retry_enabled_def
      refresh_retry_max_attempts_def refresh_sql_def
    using assms by (simp cong: option.case_cong)
  ultimately show ?thesis by blast
qed

theorem refresh_data_window_never_used_witness:
  "rf_period (refresh_of id Full (default_acceleration\<lparr>acc_refresh_data_window := Some ''1d''\<rparr>)
     \<lparr>ds_from = ''s3://b/k'', ds_name = Bare ''t'', ds_mode = Read, ds_params = [], ds_has_metadata_table = False,
       ds_replication = None, ds_time_column = Some ''at'', ds_time_format = None,
       ds_acceleration = Some (default_acceleration\<lparr>acc_refresh_data_window := Some ''1d''\<rparr>), ds_embeddings = [],
       ds_app = None, ds_schema = (None :: unit option)\<rparr>) = None"
  using refresh_data_window_never_used
    [of "\<lparr>ds_from = ''s3://b/k'', ds_name = Bare ''t'', ds_mode = Read, ds_params = [], ds_has_metadata_table = False,
       ds_replication = None, ds_time_column = Some ''at'', ds_time_format = None,
       ds_acceleration = Some (default_acceleration\<lparr>acc_refresh_data_window := Some ''1d''\<rparr>), ds_embeddings = [],
       ds_app = None, ds_schema = (None :: unit option)\<rparr>" "default_acceleration\<lparr>acc_refresh_data_window := Some ''1d''\<rparr>" id Full]
  by simp

lemma find_index_of_None: "find_index_of P xs = None \<longleftrightarrow> (\<forall>x\<in>set xs. \<not> P x)"
  by (induction xs) auto

lemma find_index_of_append: "\<forall>x\<in>set xs. \<not> P x \<Longrightarrow> P y \<Longrightarrow> find_index_of P (xs @ y # ys) = Some (length xs)"
  by (induction xs) auto

text \<open>
  Two writers of the same new sink table both register it and both go on to remove the waiting
  registration: the first removes the table's own, the second removes the registration at the head
  of the list, that of another sink, which is then never created; if no other sink is waiting, the
  second writer panics.
\<close>

theorem concurrent_sink_writes_drop_another:
  assumes "ds_name d = r" and "\<forall>e\<in>set (before @ after). ds_name e \<noteq> r"
  shows "Option.bind (remove_pending r (before @ d # after)) (remove_pending r) =
    (case before @ after of [] \<Rightarrow> None | other # rest \<Rightarrow> Some rest)"
proof -
  have "remove_pending r (before @ d # after) = Some (before @ after)"
    using assms by (simp add: remove_pending_def find_index_of_append)
  moreover have "find_index_of (\<lambda>e. ds_name e = r) (before @ after) = None"
    using assms(2) by (simp add: find_index_of_None)
  ultimately show ?thesis by (cases "before @ after") (simp_all add: remove_pending_def)
qed

definition sink_dataset :: "string \<Rightarrow> unit dataset" where
  "sink_dataset n = \<lparr>ds_from = ''sink'', ds_name = Bare n, ds_mode = ReadWrite, ds_params = [], ds_has_metadata_table = False,
     ds_replication = None, ds_time_column = None, ds_time_format = None, ds_acceleration = None, ds_embeddings = [],
     ds_app = None, ds_schema = None\<rparr>"

theorem concurrent_sink_writes_drop_another_witness:
  "Option.bind (remove_pending (Bare ''b'') [sink_dataset ''a'', sink_dataset ''b'']) (remove_pending (Bare ''b'')) = Some []"
  using concurrent_sink_writes_drop_another [of "sink_dataset ''b''" "Bare ''b''" "[sink_dataset ''a'']" "[]"]
  by (simp add: sink_dataset_def)

text \<open>
  A write changes the stored data only when the table is writable under the reference given, its
  provider is found after waiting registrations were resolved, and the types of the written columns
  agree with the table's one by one; in every other case an error is returned and the data is as
  before.
\<close>

theorem write_data_guarded:
  assumes "write_data ensure_sink cx ts memory_stream insert_plan collect_plan r schema data ty (g, tables) = Some (res, g', tables')"
    and "tables' \<noteq> tables"
  shows "is_writable g r \<and>
    (\<exists>t. get_table_provider cx (rg_ctx g') r = Inr t \<and> map cf_type (ts_fields ts t) = map cf_type schema)"
proof -
  have verify: "verify_fields as bs = Inr () \<Longrightarrow> length as = length bs \<Longrightarrow> map cf_type as = map cf_type bs" for as bs
    by (induction as bs rule: verify_fields.induct) (auto split: if_splits)
  from assms obtain t where "is_writable g r" "get_table_provider cx (rg_ctx g') r = Inr t" "verify_schema (ts_fields ts t) schema = Inr ()"
    by (auto simp: write_data_def and_then_eq_Inr split: if_splits option.splits sum.splits prod.splits)
  then show ?thesis using verify by (auto simp: verify_schema_def split: if_splits)
qed

definition plain_services :: "(string, unit, unit) table_services" where
  "plain_services = \<lparr>ts_schema = (\<lambda>_. []), ts_fields = (\<lambda>_. [field_new ''a'' (Prim DT_Utf8) True, field_new ''b'' (Prim DT_Utf8) True]),
     ts_create_accelerator = (\<lambda>_ _ _. Inl []), ts_wrap = (\<lambda>_ t _. Inr t), ts_adaptor = (\<lambda>_. None),
     ts_accelerated = (\<lambda>_. None), ts_cache_provider = None, ts_show_type = (\<lambda>_. []), ts_show_ref = (\<lambda>_. [])\<rparr>"

theorem write_data_guarded_witness:
  "is_writable (demo_registry\<lparr>rg_data_writers := {Bare ''users''}\<rparr>) (Bare ''users'') \<and>
   (\<exists>t. get_table_provider nested_context (rg_ctx demo_registry) (Bare ''users'') = Inr t \<and>
      map cf_type (ts_fields plain_services t) = [Prim DT_Utf8, Prim DT_Utf8])"
proof -
  let ?schema = "[field_new ''b'' (Prim DT_Utf8) True, field_new ''a'' (Prim DT_Utf8) True]"
  let ?g = "demo_registry\<lparr>rg_data_writers := {Bare ''users''}\<rparr>"
  have "write_data (\<lambda>_ _ g. Some (Inr (), g)) nested_context plain_services Inr (\<lambda>t b ow. Inr (t, b)) (\<lambda>p d. (Inr (), p # d))
      (Bare ''users'') ?schema ''row'' AppendUpdate (?g, []) = Some (Inr (), ?g, [(''U'', ''row'')])"
    by (simp add: write_data_def is_writable_def get_table_provider_def nested_context_def nested_lookup_def nested_schema_def
        sp_table_def demo_registry_def plain_services_def verify_schema_def field_new_def)
  from write_data_guarded [OF this] show ?thesis by (simp add: field_new_def demo_registry_def)
qed

end
