(* ===== verification/Query.thy ===== *)
theory Query
  imports Table_Registry
begin

text \<open>
  Running a query (runtime/src/datafusion/query.rs and query/builder.rs, tracker.rs, error_code.rs,
  query_history.rs) and answering it over HTTP (\<open>sql_to_http_response\<close> of http/v1/mod.rs): planning,
  the lookup in the results cache, the check against the restricted SQL options, execution, the
  stream handed to the client with the tracker attached to it, and the row of the query history.

  The planner and executor, the hash of a plan, Arrow's JSON writer, the operations on a batch and
  the write to the history table are the fields of \<open>query_services\<close>. A result stream is the list of
  its items; what a client gets depends on how often it polls. What executing a plan changes in the
  instance is taken when the stream is created. The extension that carries the protocol in the
  session is not modelled: nothing here reads it back.
\<close>

section \<open>Errors and protocols\<close>

datatype datafusion_error =
    DfSQL string | DfPlan string | DfSchemaError string
  | DfObjectStore string | DfExternal string | DfExecution string
  | DfContext string datafusion_error
  | DfOther string

datatype error_code = SyntaxError | QueryPlanningError | QueryExecutionError | InternalError

fun show_error_code :: "error_code \<Rightarrow> string" where
  "show_error_code SyntaxError = ''SyntaxError''"
| "show_error_code QueryPlanningError = ''QueryPlanningError''"
| "show_error_code QueryExecutionError = ''QueryExecutionError''"
| "show_error_code InternalError = ''InternalError''"

fun error_code_i8 :: "error_code \<Rightarrow> 8 word" where
  "error_code_i8 SyntaxError = - 10"
| "error_code_i8 QueryPlanningError = - 20"
| "error_code_i8 QueryExecutionError = - 30"
| "error_code_i8 InternalError = - 120"

fun error_code_from :: "datafusion_error \<Rightarrow> error_code" where
  "error_code_from (DfSQL _) = SyntaxError"
| "error_code_from (DfPlan _) = QueryPlanningError"
| "error_code_from (DfSchemaError _) = QueryPlanningError"
| "error_code_from (DfObjectStore _) = QueryExecutionError"
| "error_code_from (DfExternal _) = QueryExecutionError"
| "error_code_from (DfExecution _) = QueryExecutionError"
| "error_code_from (DfContext _ err) = error_code_from err"
| "error_code_from (DfOther _) = InternalError"

datatype protocol = Http | Flight | FlightSQL | Internal

fun protocol_str :: "protocol \<Rightarrow> string" where
  "protocol_str Http = ''http''"
| "protocol_str Flight = ''flight''"
| "protocol_str FlightSQL = ''flightsql''"
| "protocol_str Internal = ''internal''"

datatype query_error =
    UnableToExecuteQuery datafusion_error
  | FailedToAccessCache cache_error
  | UnableToCreateMemoryStream datafusion_error
  | UnableToCollectResults datafusion_error
  | SchemaMismatch schema_error

record sql_options =
  allow_ddl :: bool
  allow_dml :: bool
  allow_statements :: bool

definition RESTRICTED_SQL_OPTIONS :: sql_options where
  "RESTRICTED_SQL_OPTIONS = \<lparr>allow_ddl = False, allow_dml = False, allow_statements = False\<rparr>"

section \<open>The tracker\<close>

text \<open>Clock readings: nanoseconds relative to the Unix epoch, and a monotonic instant.\<close>

record clock =
  ck_system :: int
  ck_instant :: nat

record query_tracker =
  qt_schema :: "cdc_field list option"
  qt_query_id :: string
  qt_sql :: string
  qt_nsql :: "string option"
  qt_start_time :: int
  qt_end_time :: "int option"
  qt_query_duration_secs :: "real option"
  qt_query_execution_duration_secs :: "real option"
  qt_rows_produced :: "64 word"
  qt_results_cache_hit :: "bool option"
  qt_error_message :: "string option"
  qt_error_code :: "error_code option"
  qt_query_duration_timer :: nat
  qt_query_execution_duration_timer :: nat
  qt_datasets :: "table_reference set"
  qt_protocol :: protocol

record query =
  q_sql :: string
  q_restricted_sql_options :: bool
  q_tracker :: query_tracker

record query_builder =
  qb_sql :: string
  qb_query_id :: string
  qb_nsql :: "string option"
  qb_restricted_sql_options :: bool
  qb_protocol :: protocol

definition query_builder_new :: "string \<Rightarrow> string \<Rightarrow> protocol \<Rightarrow> query_builder" where
  "query_builder_new uuid sql p =
     \<lparr>qb_sql = sql, qb_query_id = uuid, qb_nsql = None, qb_restricted_sql_options = False, qb_protocol = p\<rparr>"

definition with_nsql :: "string option \<Rightarrow> query_builder \<Rightarrow> query_builder" where
  "with_nsql n b = b\<lparr>qb_nsql := n\<rparr>"

definition with_query_id :: "string \<Rightarrow> query_builder \<Rightarrow> query_builder" where
  "with_query_id i b = b\<lparr>qb_query_id := i\<rparr>"

definition use_restricted_sql_options :: "query_builder \<Rightarrow> query_builder" where
  "use_restricted_sql_options b = b\<lparr>qb_restricted_sql_options := True\<rparr>"

definition with_protocol :: "protocol \<Rightarrow> query_builder \<Rightarrow> query_builder" where
  "with_protocol p b = b\<lparr>qb_protocol := p\<rparr>"

definition build_query :: "clock \<Rightarrow> query_builder \<Rightarrow> query" where
  "build_query clk b =
     \<lparr>q_sql = qb_sql b, q_restricted_sql_options = qb_restricted_sql_options b,
      q_tracker = \<lparr>qt_schema = None, qt_query_id = qb_query_id b, qt_sql = qb_sql b, qt_nsql = qb_nsql b,
        qt_start_time = ck_system clk, qt_end_time = None, qt_query_duration_secs = None,
        qt_query_execution_duration_secs = None, qt_rows_produced = 0, qt_results_cache_hit = None,
        qt_error_message = None, qt_error_code = None, qt_query_duration_timer = ck_instant clk,
        qt_query_execution_duration_timer = ck_instant clk, qt_datasets = {}, qt_protocol = qb_protocol b\<rparr>\<rparr>"

section \<open>The query history\<close>

datatype cell =
    CUtf8 string | CTimestamp int | CFloat32 real | CInt8 "8 word" | CUInt64 "64 word" | CBoolean bool

definition query_history_schema :: "cdc_field list" where
  "query_history_schema =
     [field_new ''query_id'' (Prim DT_Utf8) False,
      field_new ''schema'' (Prim DT_Utf8) True,
      field_new ''sql'' (Prim DT_Utf8) False,
      field_new ''nsql'' (Prim DT_Utf8) True,
      field_new ''start_time'' (Prim (DT_Timestamp None)) False,
      field_new ''end_time'' (Prim (DT_Timestamp None)) False,
      field_new ''query_duration_secs'' (Prim DT_Float32) False,
      field_new ''query_execution_duration_secs'' (Prim DT_Float32) False,
      field_new ''execution_status'' (Prim DT_Int8) False,
      field_new ''rows_produced'' (Prim DT_UInt64) False,
      field_new ''results_cache_hit'' (Prim DT_Boolean) False,
      field_new ''error_message'' (Prim DT_Utf8) True]"

definition query_history_table :: table_reference where
  "query_history_table = Partial ''runtime'' ''query_history''"

text \<open>A boxed source is the error of the row, or the message of the table's own error.\<close>

datatype history_error =
    UnableToRegisterTable string
  | UnableToWriteToTable "history_error + string"
  | UnableToWriteToTaskTable string
  | UnableToCreateRow string
  | MissingColumnsInRow string
  | UnableToGetTableProvider string

text \<open>
  What a query does to the outside apart from the history table: metrics, telemetry and traces.
\<close>

datatype query_event =
    QueryCounted
  | DurationRecorded nat "(string \<times> string) list"
  | DurationTracked nat string
  | ExecutionDurationTracked nat string
  | FailureCounted "(string \<times> string) list"
  | BytesReturned "64 word" string
  | TracedErrorCode string
  | TracedExecutionMs real
  | TracedLabels protocol string
  | TracedOutput string
  | HistoryFailed history_error
  | RuntimeQueryRecorded
  | SpanError string

record ('b, 'd) query_services =
  sv_create_logical_plan :: "'d \<Rightarrow> string \<Rightarrow> (datafusion_error, logical_plan) result"
  sv_verify_plan :: "sql_options \<Rightarrow> logical_plan \<Rightarrow> (datafusion_error, unit) result"
  sv_plan_fields :: "logical_plan \<Rightarrow> cdc_field list"
  sv_execute_stream :: "logical_plan \<Rightarrow> 'd \<Rightarrow> (datafusion_error, cdc_field list \<times> (datafusion_error, 'b) result list) result \<times> 'd"
  sv_sql :: "string \<Rightarrow> 'd \<Rightarrow> (datafusion_error, cdc_field list) result \<times> 'd"
  sv_memory_stream :: "'b list \<Rightarrow> cdc_field list \<Rightarrow> (datafusion_error, 'b list) result"
  sv_hash :: "logical_plan \<Rightarrow> nat"
  sv_num_rows :: "'b \<Rightarrow> nat"
  sv_memory_size :: "'b \<Rightarrow> nat"
  sv_slice :: "nat \<Rightarrow> nat \<Rightarrow> 'b \<Rightarrow> 'b"
  sv_write_batches :: "'b list \<Rightarrow> string \<Rightarrow> (string, string) result"
  sv_finish_json :: "string \<Rightarrow> (string, string) result"
  sv_from_utf8 :: "string \<Rightarrow> (string, string) result"
  sv_write_data :: "table_reference \<Rightarrow> cell option list list \<Rightarrow> 'd \<Rightarrow> (string, unit) result \<times> 'd"
  sv_secs_f32 :: "nat \<Rightarrow> real"
  sv_show_error :: "query_error \<Rightarrow> string"
  sv_show_df_error :: "datafusion_error \<Rightarrow> string"
  sv_show_schema :: "cdc_field list \<Rightarrow> string"
  sv_show_ref :: "table_reference \<Rightarrow> string"
  sv_iter :: "table_reference set \<Rightarrow> table_reference list"

record ('c, 'd) query_state =
  qs_cache :: "'c cache_provider option"
  qs_df :: 'd
  qs_events :: "query_event list"

definition emit :: "query_event list \<Rightarrow> ('c, 'd) query_state \<Rightarrow> ('c, 'd) query_state" where
  "emit es s = s\<lparr>qs_events := qs_events s @ es\<rparr>"

text \<open>\<open>duration_since(UNIX_EPOCH)\<close> fails before the epoch; \<open>i64::try_from\<close> fails from \<open>2^63\<close> on.\<close>

definition duration_since_epoch :: "int \<Rightarrow> (string, nat) result" where
  "duration_since_epoch t = (if t < 0 then Inl ''second time provided was later than self'' else Inr (nat t))"

definition i64_try_from :: "nat \<Rightarrow> (string, int) result" where
  "i64_try_from n = (if n < 2 ^ 63 then Inr (int n) else Inl ''out of range integral type conversion attempted'')"

text \<open>A batch of one row: Arrow refuses a null in a column that is declared not nullable.\<close>

definition history_batch :: "cell option list \<Rightarrow> (string, cell option list) result" where
  "history_batch cells =
     (if list_all2 (\<lambda>f c. c \<noteq> None \<or> cf_nullable f) query_history_schema cells then Inr cells
      else Inl ''Column is declared as non-nullable but contains null values'')"

definition history_end_time :: "query_tracker \<Rightarrow> (string, int option) result" where
  "history_end_time t =
     transpose_opt (Option.bind (qt_end_time t)
       (\<lambda>s. map_option i64_try_from (result_ok (duration_since_epoch s))))"

definition to_record_batch :: "('b, 'd) query_services \<Rightarrow> query_tracker \<Rightarrow> (history_error, cell option list) result" where
  "to_record_batch sv t =
     and_then (map_err UnableToCreateRow (history_end_time t)) (\<lambda>end_time.
     and_then (map_err UnableToCreateRow (duration_since_epoch (qt_start_time t))) (\<lambda>started.
     let start_time = result_ok (i64_try_from started);
         execution_status = (case qt_error_code t of Some code \<Rightarrow> error_code_i8 code | None \<Rightarrow> 0)
     in map_err UnableToCreateRow (history_batch
          [Some (CUtf8 (qt_query_id t)), map_option (\<lambda>f. CUtf8 (sv_show_schema sv f)) (qt_schema t),
           Some (CUtf8 (qt_sql t)), map_option CUtf8 (qt_nsql t),
           map_option CTimestamp start_time, map_option CTimestamp end_time,
           map_option CFloat32 (qt_query_duration_secs t), map_option CFloat32 (qt_query_execution_duration_secs t),
           Some (CInt8 execution_status), Some (CUInt64 (qt_rows_produced t)),
           Some (CBoolean (case qt_results_cache_hit t of Some h \<Rightarrow> h | None \<Rightarrow> False)),
           map_option CUtf8 (qt_error_message t)])))"

definition validate_tracker :: "query_tracker \<Rightarrow> (history_error, unit) result" where
  "validate_tracker t = (if qt_end_time t = None then Inl (MissingColumnsInRow ''end_time'') else Inr ())"

definition datasets_str :: "('b, 'd) query_services \<Rightarrow> query_tracker \<Rightarrow> string" where
  "datasets_str sv t = join_str '','' (map (sv_show_ref sv) (sv_iter sv (qt_datasets t)))"

definition trace_query :: "('b, 'd) query_services \<Rightarrow> query_tracker \<Rightarrow> string \<Rightarrow> query_event list" where
  "trace_query sv t truncated_output =
     (case qt_error_code t of Some c \<Rightarrow> [TracedErrorCode (show_error_code c)] | None \<Rightarrow> []) @
     (case qt_query_execution_duration_secs t of Some d \<Rightarrow> [TracedExecutionMs (d * 1000)] | None \<Rightarrow> []) @
     [TracedLabels (qt_protocol t) (datasets_str sv t), TracedOutput truncated_output]"

definition write_query_history ::
  "('b, 'd) query_services \<Rightarrow> query_tracker \<Rightarrow> string \<Rightarrow> ('c, 'd) query_state \<Rightarrow>
   (history_error, unit) result \<times> ('c, 'd) query_state" where
  "write_query_history sv t truncated_output s =
     (case and_then (validate_tracker t) (\<lambda>_. map_err (\<lambda>e. UnableToWriteToTable (Inl e)) (to_record_batch sv t)) of
        Inl e \<Rightarrow> (Inl e, s)
      | Inr data \<Rightarrow>
          (case sv_write_data sv query_history_table [data] (qs_df s) of
             (Inl e, d) \<Rightarrow> (Inl (UnableToWriteToTable (Inr e)), s\<lparr>qs_df := d\<rparr>)
           | (Inr _, d) \<Rightarrow> (Inr (), emit (trace_query sv t truncated_output) (s\<lparr>qs_df := d\<rparr>))))"

section \<open>Finishing a query\<close>

definition cache_tags :: "query_tracker \<Rightarrow> string list" where
  "cache_tags t =
     (case qt_results_cache_hit t of Some True \<Rightarrow> [''cache-hit''] | Some False \<Rightarrow> [''cache-miss''] | None \<Rightarrow> []) @
     (if qt_error_message t \<noteq> None then [''error''] else [])"

definition tracker_labels :: "('b, 'd) query_services \<Rightarrow> query_tracker \<Rightarrow> (string \<times> string) list" where
  "tracker_labels sv t =
     [(''tags'', join_str '','' (cache_tags t)), (''datasets'', datasets_str sv t),
      (''protocol'', protocol_str (qt_protocol t))]"

definition elapsed :: "clock \<Rightarrow> nat \<Rightarrow> nat" where
  "elapsed clk timer = ck_instant clk - timer"

text \<open>The times of the tracker, filled in where they are not set yet.\<close>

definition with_times :: "('b, 'd) query_services \<Rightarrow> clock \<Rightarrow> query_tracker \<Rightarrow> query_tracker" where
  "with_times sv clk t =
     t\<lparr>qt_end_time := (case qt_end_time t of None \<Rightarrow> Some (ck_system clk) | e \<Rightarrow> e),
       qt_query_duration_secs := (case qt_query_duration_secs t of
           None \<Rightarrow> Some (sv_secs_f32 sv (elapsed clk (qt_query_duration_timer t))) | d \<Rightarrow> d),
       qt_query_execution_duration_secs := (case qt_query_execution_duration_secs t of
           None \<Rightarrow> Some (sv_secs_f32 sv (elapsed clk (qt_query_execution_duration_timer t))) | d \<Rightarrow> d)\<rparr>"

definition finish ::
  "('b, 'd) query_services \<Rightarrow> clock \<Rightarrow> query_tracker \<Rightarrow> string \<Rightarrow> ('c, 'd) query_state \<Rightarrow> ('c, 'd) query_state" where
  "finish sv clk t truncated_output s =
     (let t1 = with_times sv clk t;
          labels = tracker_labels sv t1;
          s1 = emit ([DurationRecorded (elapsed clk (qt_query_duration_timer t)) labels,
                      DurationTracked (elapsed clk (qt_query_duration_timer t)) (protocol_str (qt_protocol t)),
                      ExecutionDurationTracked (elapsed clk (qt_query_execution_duration_timer t))
                        (protocol_str (qt_protocol t))] @
                     (case qt_error_code t1 of
                        Some err \<Rightarrow> [FailureCounted (labels @ [(''err_code'', show_error_code err)])]
                      | None \<Rightarrow> [])) s
      in case write_query_history sv t1 truncated_output s1 of
           (Inl e, s2) \<Rightarrow> emit [HistoryFailed e] s2
         | (Inr _, s2) \<Rightarrow> s2)"

definition finish_with_error ::
  "('b, 'd) query_services \<Rightarrow> clock \<Rightarrow> query_tracker \<Rightarrow> string \<Rightarrow> error_code \<Rightarrow> ('c, 'd) query_state \<Rightarrow> ('c, 'd) query_state" where
  "finish_with_error sv clk t error_message error_code s =
     finish sv clk (t\<lparr>qt_error_message := Some error_message, qt_error_code := Some error_code\<rparr>) [] s"

definition get_schema ::
  "('b, 'd) query_services \<Rightarrow> query \<Rightarrow> ('c, 'd) query_state \<Rightarrow>
   (datafusion_error, cdc_field list) result \<times> ('c, 'd) query_state" where
  "get_schema sv q s = (let (r, d) = sv_sql sv (q_sql q) (qs_df s) in (r, s\<lparr>qs_df := d\<rparr>))"

section \<open>The tracked stream\<close>

text \<open>
  The stream below the tracker: batches that are there already, or the stream that fills the
  results cache under a key.
\<close>

datatype 'b source_stream =
    Batches "(datafusion_error, 'b) result list"
  | CachingStream nat "table_reference set" "(datafusion_error, 'b) result list"

fun source_items :: "'b source_stream \<Rightarrow> (datafusion_error, 'b) result list" where
  "source_items (Batches items) = items"
| "source_items (CachingStream _ _ items) = items"

record 'b tracked_stream =
  tr_tracker :: query_tracker
  tr_schema :: "cdc_field list"
  tr_source :: "'b source_stream"

record 'b query_result =
  qr_data :: "'b tracked_stream"
  qr_from_cache :: "bool option"

definition write_to_json_string :: "('b, 'd) query_services \<Rightarrow> 'b list \<Rightarrow> (string, string) result" where
  "write_to_json_string sv data =
     and_then (sv_write_batches sv data []) (\<lambda>buf.
     and_then (sv_finish_json sv buf) (sv_from_utf8 sv))"

text \<open>The counters of the generator: records, output bytes, and the preview of the output.\<close>

record stream_counters =
  sc_num_records :: "64 word"
  sc_num_output_bytes :: "64 word"
  sc_truncated_output :: string

definition counters_init :: stream_counters where
  "counters_init = \<lparr>sc_num_records = 0, sc_num_output_bytes = 0, sc_truncated_output = ''[]''\<rparr>"

definition count_batch :: "('b, 'd) query_services \<Rightarrow> 'b \<Rightarrow> stream_counters \<Rightarrow> stream_counters" where
  "count_batch sv b c =
     (let c1 = (if sc_num_records c = 0
                then c\<lparr>sc_truncated_output :=
                       (case write_to_json_string sv [sv_slice sv 0 (min (sv_num_rows sv b) 3) b] of
                          Inr out \<Rightarrow> out | Inl _ \<Rightarrow> [])\<rparr>
                else c)
      in c1\<lparr>sc_num_output_bytes := sc_num_output_bytes c1 + of_nat (sv_memory_size sv b),
            sc_num_records := sc_num_records c1 + of_nat (sv_num_rows sv b)\<rparr>)"

datatype stream_outcome = Streaming | Completed stream_counters | Failed datafusion_error stream_counters

text \<open>
  The generator polled a number of times: the items it yields, how far it came, and how often
  it has polled the stream below. After an error it ends without polling that stream again.
\<close>

fun track_loop ::
  "('b, 'd) query_services \<Rightarrow> nat \<Rightarrow> (datafusion_error, 'b) result list \<Rightarrow> stream_counters \<Rightarrow>
   (datafusion_error, 'b) result list \<times> stream_outcome \<times> nat" where
  "track_loop sv 0 items c = ([], Streaming, 0)"
| "track_loop sv (Suc n) [] c = ([], Completed c, 1)"
| "track_loop sv (Suc n) (Inr b # items) c =
     (let (out, oc, k) = track_loop sv n items (count_batch sv b c) in (Inr b # out, oc, Suc k))"
| "track_loop sv (Suc n) (Inl e # items) c = ([Inl e], Failed e c, 1)"

definition current_time_secs :: "clock \<Rightarrow> 64 word" where
  "current_time_secs clk = of_nat (nat (ck_system clk) div nanos_per_sec)"

definition poll_source ::
  "('b, 'd) query_services \<Rightarrow> ('c, 'b, cdc_field list) moka \<Rightarrow> clock \<Rightarrow> cdc_field list \<Rightarrow> 'b source_stream \<Rightarrow> nat \<Rightarrow>
   ('c, 'd) query_state \<Rightarrow> ('c, 'd) query_state" where
  "poll_source sv M clk schema src k s =
     (case src of
        Batches _ \<Rightarrow> s
      | CachingStream key tables items \<Rightarrow>
          s\<lparr>qs_cache := map_option (\<lambda>p. snd (to_cached_record_batch_stream M (sv_memory_size sv)
              (current_time_secs clk) key tables schema items k p)) (qs_cache s)\<rparr>)"

definition poll_stream ::
  "('b, 'd) query_services \<Rightarrow> ('c, 'b, cdc_field list) moka \<Rightarrow> clock \<Rightarrow> nat \<Rightarrow> 'b tracked_stream \<Rightarrow>
   ('c, 'd) query_state \<Rightarrow> (datafusion_error, 'b) result list \<times> ('c, 'd) query_state" where
  "poll_stream sv M clk polls st s =
     (let (out, oc, k) = track_loop sv polls (source_items (tr_source st)) counters_init;
          s1 = poll_source sv M clk (tr_schema st) (tr_source st) k s;
          tracked = (\<lambda>c. (tr_tracker st)\<lparr>qt_schema := Some (tr_schema st), qt_rows_produced := sc_num_records c\<rparr>)
      in (out,
          case oc of
            Streaming \<Rightarrow> s1
          | Completed c \<Rightarrow>
              finish sv clk (tracked c) (sc_truncated_output c)
                (emit [BytesReturned (sc_num_output_bytes c) (protocol_str (qt_protocol (tr_tracker st)))] s1)
          | Failed e c \<Rightarrow>
              emit [SpanError (sv_show_df_error sv e)]
                (finish_with_error sv clk (tracked c) (sv_show_df_error sv e) QueryExecutionError s1)))"

definition attach_query_tracker_to_stream ::
  "query_tracker \<Rightarrow> cdc_field list \<Rightarrow> 'b source_stream \<Rightarrow> 'b tracked_stream" where
  "attach_query_tracker_to_stream t schema src = \<lparr>tr_tracker = t, tr_schema = schema, tr_source = src\<rparr>"

section \<open>Running a query\<close>

definition handle_error ::
  "('b, 'd) query_services \<Rightarrow> clock \<Rightarrow> query_tracker \<Rightarrow> error_code \<Rightarrow> query_error \<Rightarrow> ('c, 'd) query_state \<Rightarrow>
   (query_error, 'b query_result) result \<times> ('c, 'd) query_state" where
  "handle_error sv clk t code e s =
     (Inl e, emit [SpanError (sv_show_error sv e)] (finish_with_error sv clk t (sv_show_error sv e) code s))"

definition tracker_with_cache_miss :: "('c, 'd) query_state \<Rightarrow> query_tracker \<Rightarrow> query_tracker" where
  "tracker_with_cache_miss s t = (if qs_cache s = None then t else t\<lparr>qt_results_cache_hit := Some False\<rparr>)"

text \<open>What follows a miss: the check, execution, and the choice of the stream.\<close>

definition execute_plan ::
  "('b, 'd) query_services \<Rightarrow> clock \<Rightarrow> query \<Rightarrow> query_tracker \<Rightarrow> logical_plan \<Rightarrow> bool \<Rightarrow> ('c, 'd) query_state \<Rightarrow>
   (query_error, 'b query_result) result \<times> ('c, 'd) query_state" where
  "execute_plan sv clk q t plan plan_is_cache_enabled s =
     (case (if q_restricted_sql_options q then sv_verify_plan sv RESTRICTED_SQL_OPTIONS plan else Inr ()) of
        Inl e \<Rightarrow> handle_error sv clk t QueryPlanningError (UnableToExecuteQuery e) s
      | Inr _ \<Rightarrow>
          (let input_tables = get_logical_plan_input_tables plan;
               s1 = (if \<exists>tr\<in>input_tables. schema_of tr = Some ''runtime'' then emit [RuntimeQueryRecorded] s else s);
               t1 = t\<lparr>qt_datasets := input_tables, qt_query_execution_duration_timer := ck_instant clk\<rparr>
           in case sv_execute_stream sv plan (qs_df s1) of
                (Inl e, d) \<Rightarrow> handle_error sv clk t1 (error_code_from e) (UnableToExecuteQuery e) (s1\<lparr>qs_df := d\<rparr>)
              | (Inr (res_schema, items), d) \<Rightarrow>
                  (let s2 = s1\<lparr>qs_df := d\<rparr>
                   in case verify_schema (sv_plan_fields sv plan) res_schema of
                        Inl e \<Rightarrow> handle_error sv clk t1 InternalError (SchemaMismatch e) s2
                      | Inr _ \<Rightarrow>
                          if plan_is_cache_enabled \<and> qs_cache s2 \<noteq> None
                          then (Inr \<lparr>qr_data = attach_query_tracker_to_stream t1 res_schema
                                       (CachingStream (sv_hash sv plan) input_tables items),
                                     qr_from_cache = Some False\<rparr>, s2)
                          else (Inr \<lparr>qr_data = attach_query_tracker_to_stream t1 res_schema (Batches items),
                                     qr_from_cache = None\<rparr>, s2))))"

definition run_query ::
  "('b, 'd) query_services \<Rightarrow> ('c, 'b, cdc_field list) moka \<Rightarrow> clock \<Rightarrow> query \<Rightarrow> ('c, 'd) query_state \<Rightarrow>
   (query_error, 'b query_result) result \<times> ('c, 'd) query_state" where
  "run_query sv M clk q s0 =
     (let s = emit [QueryCounted] s0; t = q_tracker q
      in case sv_create_logical_plan sv (qs_df s) (q_sql q) of
           Inl e \<Rightarrow> handle_error sv clk t (error_code_from e) (UnableToExecuteQuery e) s
         | Inr plan \<Rightarrow>
             (case qs_cache s of
                None \<Rightarrow> execute_plan sv clk q t plan False s
              | Some provider \<Rightarrow>
                  (let (cached, provider') = provider_get M (sv_hash sv) plan provider;
                       s1 = s\<lparr>qs_cache := Some provider'\<rparr>
                   in case cached of
                        Inl e \<Rightarrow> handle_error sv clk t InternalError (FailedToAccessCache e) s1
                      | Inr (Some r) \<Rightarrow>
                          (let t1 = t\<lparr>qt_datasets := cr_input_tables r, qt_results_cache_hit := Some True\<rparr>
                           in case sv_memory_stream sv (cr_records r) (cr_schema r) of
                                Inl e \<Rightarrow> handle_error sv clk t1 InternalError (UnableToCreateMemoryStream e) s1
                              | Inr batches \<Rightarrow>
                                  (Inr \<lparr>qr_data = attach_query_tracker_to_stream t1 (cr_schema r)
                                          (Batches (map Inr batches)),
                                        qr_from_cache = Some True\<rparr>, s1))
                      | Inr None \<Rightarrow>
                          execute_plan sv clk q (tracker_with_cache_miss s1 t) plan
                            (cache_is_enabled_for_plan provider' plan) s1)))"

section \<open>Answering over HTTP\<close>

record http_response =
  hr_status :: nat
  hr_headers :: "(string \<times> string) list"
  hr_body :: string

text \<open>\<open>try_collect\<close> polls until the first error or the end.\<close>

definition try_collect_stream ::
  "('b, 'd) query_services \<Rightarrow> ('c, 'b, cdc_field list) moka \<Rightarrow> clock \<Rightarrow> 'b tracked_stream \<Rightarrow> ('c, 'd) query_state \<Rightarrow>
   (datafusion_error, 'b list) result \<times> ('c, 'd) query_state" where
  "try_collect_stream sv M clk st s =
     (let (out, s') = poll_stream sv M clk (Suc (length (source_items (tr_source st)))) st s
      in (try_collect (\<lambda>item. item) out, s'))"

definition cache_header :: "bool option \<Rightarrow> (string \<times> string) list" where
  "cache_header from_cache = (case from_cache of
      Some True \<Rightarrow> [(''X-Cache'', ''Hit from spiceai'')]
    | Some False \<Rightarrow> [(''X-Cache'', ''Miss from spiceai'')]
    | None \<Rightarrow> [])"

definition json_response :: "('b, 'd) query_services \<Rightarrow> 'b list \<Rightarrow> bool option \<Rightarrow> http_response" where
  "json_response sv data from_cache =
     (case write_to_json_string sv data of
        Inl e \<Rightarrow> \<lparr>hr_status = 500, hr_headers = [], hr_body = e\<rparr>
      | Inr res \<Rightarrow> \<lparr>hr_status = 200, hr_headers = cache_header from_cache, hr_body = res\<rparr>)"

definition sql_to_http_response ::
  "('b, 'd) query_services \<Rightarrow> ('c, 'b, cdc_field list) moka \<Rightarrow> clock \<Rightarrow> string \<Rightarrow> string \<Rightarrow> string option \<Rightarrow>
   ('c, 'd) query_state \<Rightarrow> http_response \<times> ('c, 'd) query_state" where
  "sql_to_http_response sv M clk uuid sql nsql s =
     (let query = build_query clk (with_protocol Http (with_nsql nsql
                    (use_restricted_sql_options (query_builder_new uuid sql Http))))
      in case run_query sv M clk query s of
           (Inl e, s1) \<Rightarrow> (\<lparr>hr_status = 400, hr_headers = [], hr_body = sv_show_error sv e\<rparr>, s1)
         | (Inr result, s1) \<Rightarrow>
             (case try_collect_stream sv M clk (qr_data result) s1 of
                (Inl e, s2) \<Rightarrow> (\<lparr>hr_status = 400, hr_headers = [],
                                  hr_body = ''Error processing batch: '' @ sv_show_df_error sv e\<rparr>, s2)
              | (Inr batches, s2) \<Rightarrow> (json_response sv batches (qr_from_cache result), s2)))"

section \<open>What the tracked stream delivers\<close>

text \<open>The items up to and including the first error.\<close>

definition up_to_error :: "('e, 'b) result list \<Rightarrow> ('e, 'b) result list" where
  "up_to_error items = takeWhile is_ok items @ take 1 (dropWhile is_ok items)"

lemma up_to_error_simps [step_simps]:
  "up_to_error [] = []"
  "up_to_error (Inr b # items) = Inr b # up_to_error items"
  "up_to_error (Inl e # items) = [Inl e]"
  by (simp_all add: up_to_error_def)

lemma track_loop_out: "fst (track_loop sv n items c) = take n (up_to_error items)"
  by (induction sv n items c rule: track_loop.induct) (simp_all add: step_simps case_prod_beta)

text \<open>The tracker is consumed exactly when the client has polled past the successful items.\<close>

definition is_streaming :: "stream_outcome \<Rightarrow> bool" where
  "is_streaming oc \<longleftrightarrow> oc = Streaming"

lemma is_streaming_simps [step_simps]:
  "is_streaming Streaming" "\<not> is_streaming (Completed c)" "\<not> is_streaming (Failed e c)"
  by (simp_all add: is_streaming_def)

lemma track_loop_streaming:
  "is_streaming (fst (snd (track_loop sv n items c))) \<longleftrightarrow> n \<le> length (takeWhile is_ok items)"
  by (induction sv n items c rule: track_loop.induct) (simp_all add: step_simps case_prod_beta)

text \<open>The stream below is polled past its last item only when no item was an error.\<close>

lemma track_loop_polls:
  "length items < snd (snd (track_loop sv n items c)) \<longleftrightarrow> length items < n \<and> list_all is_ok items"
  by (induction sv n items c rule: track_loop.induct) (simp_all add: case_prod_beta)

lemma to_cached_stored:
  "snd (to_cached_record_batch_stream M bytes now key tables schema items polls p) =
     (if length items < polls \<and> total_bytes bytes (oks items) < cp_max_size p
      then snd (provider_put_key M now key
             \<lparr>cr_records = oks items, cr_schema = schema, cr_input_tables = tables\<rparr> p)
      else p)"
proof (cases "0 < cp_max_size p \<and> length items < polls")
  case True
  then show ?thesis by (simp add: stream_to_the_end)
next
  case False
  then show ?thesis
    using collect_batch_stopped [of "cp_max_size p" 0 bytes items "[]"]
    by (auto simp: to_cached_record_batch_stream_def split: prod.splits)
qed

section \<open>Finishing\<close>

lemma emit_frame [simp]:
  "qs_cache (emit es s) = qs_cache s" "qs_df (emit es s) = qs_df s" "qs_events (emit es s) = qs_events s @ es"
  by (simp_all add: emit_def)

lemma write_query_history_cache [simp]: "qs_cache (snd (write_query_history sv t out s)) = qs_cache s"
  by (simp add: write_query_history_def split: sum.splits prod.splits)

lemma finish_cache [simp]: "qs_cache (finish sv clk t out s) = qs_cache s"
  by (simp add: finish_def Let_def case_prod_beta split: sum.splits)

lemma finish_with_error_cache [simp]: "qs_cache (finish_with_error sv clk t m code s) = qs_cache s"
  by (simp add: finish_with_error_def)

text \<open>How many queries have been recorded: each takes one observation of the duration metric.\<close>

fun is_duration :: "query_event \<Rightarrow> bool" where
  "is_duration (DurationRecorded _ _) = True"
| "is_duration _ = False"

definition recorded :: "('c, 'd) query_state \<Rightarrow> nat" where
  "recorded s = length (filter is_duration (qs_events s))"

lemma recorded_emit [simp]: "recorded (emit es s) = recorded s + length (filter is_duration es)"
  by (simp add: recorded_def)

lemma recorded_cong: "qs_events s = qs_events s' \<Longrightarrow> recorded s = recorded s'"
  by (simp add: recorded_def)

lemma recorded_update [simp]:
  "recorded (s\<lparr>qs_df := d\<rparr>) = recorded s" "recorded (s\<lparr>qs_cache := p\<rparr>) = recorded s"
  by (simp_all add: recorded_def)

lemma trace_query_silent [simp]: "filter is_duration (trace_query sv t out) = []"
  by (simp add: trace_query_def split: option.splits)

lemma recorded_history [simp]: "recorded (snd (write_query_history sv t out s)) = recorded s"
  by (simp add: write_query_history_def split: sum.splits prod.splits)

lemma recorded_finish [simp]: "recorded (finish sv clk t out s) = Suc (recorded s)"
  by (simp add: finish_def Let_def case_prod_beta split: sum.splits option.splits)

lemma recorded_finish_with_error [simp]:
  "recorded (finish_with_error sv clk t m code s) = Suc (recorded s)"
  by (simp add: finish_with_error_def)

lemma recorded_handle_error [simp]:
  "recorded (snd (handle_error sv clk t code e s)) = Suc (recorded s)" "fst (handle_error sv clk t code e s) = Inl e"
  by (simp_all add: handle_error_def)

lemma recorded_poll_source [simp]: "recorded (poll_source sv M clk sch src k s) = recorded s"
  by (simp add: poll_source_def split: source_stream.splits)

lemma recorded_poll:
  "recorded (snd (poll_stream sv M clk polls st s)) =
     recorded s + (if length (takeWhile is_ok (source_items (tr_source st))) < polls then 1 else 0)"
proof -
  obtain out oc k where tl: "track_loop sv polls (source_items (tr_source st)) counters_init = (out, oc, k)"
    by (cases "track_loop sv polls (source_items (tr_source st)) counters_init") auto
  have "is_streaming oc \<longleftrightarrow> polls \<le> length (takeWhile is_ok (source_items (tr_source st)))"
    using track_loop_streaming [of sv polls "source_items (tr_source st)" counters_init] tl by simp
  then show ?thesis using tl by (cases oc) (simp_all add: poll_stream_def step_simps)
qed

lemma poll_stream_cache:
  "qs_cache (snd (poll_stream sv M clk polls st s)) =
     qs_cache (poll_source sv M clk (tr_schema st) (tr_source st)
       (snd (snd (track_loop sv polls (source_items (tr_source st)) counters_init))) s)"
  by (simp add: poll_stream_def case_prod_beta Let_def split: stream_outcome.splits)

lemma poll_stream_out:
  "fst (poll_stream sv M clk polls st s) = take polls (up_to_error (source_items (tr_source st)))"
  by (simp add: poll_stream_def case_prod_beta Let_def track_loop_out)

section \<open>Failed queries are not cached\<close>

text \<open>
  (C10) Through a query, only complete results reach the cache: whatever number of items the
  client reads, the cache below the tracked stream changes exactly when the stream was read past
  its last item, none of its items was an error, and the result is below the size limit; then all
  of its batches are stored. A client gets every item up to and including the first error.
\<close>

theorem query_caches_only_complete_results:
  "qs_cache (snd (poll_stream sv M clk polls \<lparr>tr_tracker = t, tr_schema = sch, tr_source = CachingStream key tables items\<rparr> s)) =
     map_option (\<lambda>p.
       if length items < polls \<and> list_all is_ok items \<and> total_bytes (sv_memory_size sv) (oks items) < cp_max_size p
       then snd (provider_put_key M (current_time_secs clk) key
              \<lparr>cr_records = oks items, cr_schema = sch, cr_input_tables = tables\<rparr> p)
       else p) (qs_cache s) \<and>
   fst (poll_stream sv M clk polls \<lparr>tr_tracker = t, tr_schema = sch, tr_source = CachingStream key tables items\<rparr> s) =
     take polls (up_to_error items)"
  by (auto simp: poll_stream_cache poll_stream_out poll_source_def to_cached_stored track_loop_polls fun_eq_iff
      intro!: option.map_cong0)

section \<open>Every query is recorded once\<close>

lemma recorded_execute_plan:
  "recorded (snd (execute_plan sv clk q t plan en s)) = recorded s + (if is_ok (fst (execute_plan sv clk q t plan en s)) then 0 else 1)"
  by (simp add: execute_plan_def Let_def split: sum.splits prod.splits)

lemma recorded_run:
  "recorded (snd (run_query sv M clk q s)) = recorded s + (if is_ok (fst (run_query sv M clk q s)) then 0 else 1)"
  by (simp add: run_query_def Let_def recorded_execute_plan case_prod_beta split: sum.splits option.splits)

text \<open>
  (C25) A query is recorded exactly once, and only when its outcome is known: a query that fails
  before it has a stream is recorded when it fails; otherwise it is recorded by the poll that meets
  the first error or the end of the stream, and not at all if the client stops reading earlier.
\<close>

theorem query_recorded_once:
  "(case run_query sv M clk q s of
      (Inl e, s1) \<Rightarrow> recorded s1 = recorded s + 1
    | (Inr r, s1) \<Rightarrow>
        recorded (snd (poll_stream sv M clk' polls (qr_data r) s1)) =
          recorded s + (if length (takeWhile is_ok (source_items (tr_source (qr_data r)))) < polls then 1 else 0))"
  using recorded_run [of sv M clk q s]
  by (auto simp: recorded_poll split: prod.splits sum.splits)

section \<open>The restricted options\<close>

lemma history_execute [simp]:
  "with_times (sv\<lparr>sv_execute_stream := ex\<rparr>) clk t = with_times sv clk t"
  "to_record_batch (sv\<lparr>sv_execute_stream := ex\<rparr>) t = to_record_batch sv t"
  "datasets_str (sv\<lparr>sv_execute_stream := ex\<rparr>) t = datasets_str sv t"
  by (simp_all add: with_times_def to_record_batch_def datasets_str_def cong: option.case_cong)

lemma labels_execute [simp]:
  "tracker_labels (sv\<lparr>sv_execute_stream := ex\<rparr>) t = tracker_labels sv t"
  "trace_query (sv\<lparr>sv_execute_stream := ex\<rparr>) t out = trace_query sv t out"
  by (simp_all add: tracker_labels_def trace_query_def)

lemma finish_execute [simp]:
  "write_query_history (sv\<lparr>sv_execute_stream := ex\<rparr>) t out s = write_query_history sv t out s"
  "finish (sv\<lparr>sv_execute_stream := ex\<rparr>) clk t out s = finish sv clk t out s"
  by (simp_all add: finish_def write_query_history_def cong: sum.case_cong)

lemma handle_error_execute [simp]:
  "handle_error (sv\<lparr>sv_execute_stream := ex\<rparr>) clk t code e s = handle_error sv clk t code e s"
  by (simp add: handle_error_def finish_with_error_def)

text \<open>
  (C22) A query with restricted options whose plan they refuse is never executed: the outcome does
  not depend on what the engine would do with the plan. Without a cached result it is the error
  of the check; a cached result of such a plan, stored by a query without restrictions, is
  returned without a check.
\<close>

theorem restricted_plan_never_executed:
  assumes "q_restricted_sql_options q" and "sv_create_logical_plan sv (qs_df s) (q_sql q) = Inr plan"
    and "sv_verify_plan sv RESTRICTED_SQL_OPTIONS plan = Inl e"
  shows "run_query (sv\<lparr>sv_execute_stream := ex\<rparr>) M clk q s = run_query sv M clk q s \<and>
    (case qs_cache s of
       None \<Rightarrow> fst (run_query sv M clk q s) = Inl (UnableToExecuteQuery e)
     | Some p \<Rightarrow>
         (case m_get M (cp_cache p) (sv_hash sv plan) of
            None \<Rightarrow> fst (run_query sv M clk q s) = Inl (UnableToExecuteQuery e)
          | Some r \<Rightarrow> (\<exists>x. sv_memory_stream sv (cr_records r) (cr_schema r) = Inr x) \<longrightarrow>
              map_option qr_from_cache (result_ok (fst (run_query sv M clk q s))) = Some (Some True)))"
proof
  show "run_query (sv\<lparr>sv_execute_stream := ex\<rparr>) M clk q s = run_query sv M clk q s"
    using assms
    by (simp add: run_query_def execute_plan_def Let_def case_prod_beta split: option.splits sum.splits)
  show "case qs_cache s of
       None \<Rightarrow> fst (run_query sv M clk q s) = Inl (UnableToExecuteQuery e)
     | Some p \<Rightarrow>
         (case m_get M (cp_cache p) (sv_hash sv plan) of
            None \<Rightarrow> fst (run_query sv M clk q s) = Inl (UnableToExecuteQuery e)
          | Some r \<Rightarrow> (\<exists>x. sv_memory_stream sv (cr_records r) (cr_schema r) = Inr x) \<longrightarrow>
              map_option qr_from_cache (result_ok (fst (run_query sv M clk q s))) = Some (Some True))"
    using assms
    by (auto simp: run_query_def execute_plan_def Let_def case_prod_beta provider_get_def lru_get_def
        split: option.splits)
qed

section \<open>A repeated query\<close>

lemma run_query_miss:
  assumes "run_query sv M clk q s = (Inr r, s1)" and "qr_from_cache r = Some False"
    and "sv_create_logical_plan sv (qs_df s) (q_sql q) = Inr plan"
  shows "\<exists>tables items. tr_source (qr_data r) = CachingStream (sv_hash sv plan) tables items \<and> qs_cache s1 \<noteq> None"
  using assms
  by (auto simp: run_query_def execute_plan_def Let_def case_prod_beta handle_error_def attach_query_tracker_to_stream_def
      split: option.splits sum.splits if_splits prod.splits)

lemma cached_after_drain:
  assumes "tr_source st = CachingStream key tables items" and "list_all is_ok items" and "length items < polls"
    and "qs_cache s = Some p" and "total_bytes (sv_memory_size sv) (oks items) < cp_max_size p"
    and "\<And>r c. m_get M (m_insert M key r c) key = Some r"
  shows "\<exists>p'. qs_cache (snd (poll_stream sv M clk polls st s)) = Some p' \<and>
    m_get M (cp_cache p') key = Some \<lparr>cr_records = oks items, cr_schema = tr_schema st, cr_input_tables = tables\<rparr>"
  using assms
  by (simp add: poll_stream_cache poll_source_def to_cached_stored track_loop_polls provider_put_key_def
      lru_put_key_def report_size_metrics_def)

lemma map_oks: "list_all is_ok items \<Longrightarrow> map Inr (oks items) = items"
  by (induction items) (auto simp: oks_def List.map_filter_simps is_ok_iff)

lemma run_query_hit:
  assumes "sv_create_logical_plan sv (qs_df s) (q_sql q) = Inr plan" and "qs_cache s = Some p"
    and "m_get M (cp_cache p) (sv_hash sv plan) = Some c" and "sv_memory_stream sv (cr_records c) (cr_schema c) = Inr bs"
  shows "\<exists>r s'. run_query sv M clk q s = (Inr r, s') \<and> qr_from_cache r = Some True \<and> qs_df s' = qs_df s \<and>
    tr_source (qr_data r) = Batches (map Inr bs)"
  using assms
  by (simp add: run_query_def Let_def provider_get_def lru_get_def attach_query_tracker_to_stream_def)


text \<open>
  A demonstration: an instance whose state counts executions, and plans of one kind that the
  restricted options refuse.
\<close>

definition demo_services :: "(string, nat) query_services" where
  "demo_services =
     \<lparr>sv_create_logical_plan = (\<lambda>_ sql. if sql = ''bad'' then Inl (DfSQL sql) else Inr (Node (Operator sql) [])),
      sv_verify_plan = (\<lambda>opts plan. if plan = Node (Operator ''insert'') [] \<and> \<not> allow_dml opts then Inl (DfPlan ''DML not supported'') else Inr ()),
      sv_plan_fields = (\<lambda>_. []), sv_execute_stream = (\<lambda>_ n. (Inr ([], [Inr ''a'', Inr ''bc'']), Suc n)),
      sv_sql = (\<lambda>_ n. (Inr [], n)), sv_memory_stream = (\<lambda>bs _. Inr bs), sv_hash = (\<lambda>_. 7),
      sv_num_rows = length, sv_memory_size = length, sv_slice = (\<lambda>i n b. take n (drop i b)),
      sv_write_batches = (\<lambda>bs buf. Inr (buf @ concat bs)), sv_finish_json = (\<lambda>b. Inr b), sv_from_utf8 = (\<lambda>b. Inr b),
      sv_write_data = (\<lambda>_ _ n. (Inr (), n)), sv_secs_f32 = (\<lambda>n. 0), sv_show_error = (\<lambda>_. ''error''),
      sv_show_df_error = (\<lambda>_. ''error''), sv_show_schema = (\<lambda>_. []), sv_show_ref = (\<lambda>_. []), sv_iter = (\<lambda>_. [])\<rparr>"

definition demo_clock :: clock where
  "demo_clock = \<lparr>ck_system = 1000000000, ck_instant = 0\<rparr>"

definition demo_cached :: "(nat \<rightharpoonup> (string, cdc_field list) cached_query_result) cache_provider" where
  "demo_cached = \<lparr>cp_cache = Map.empty, cp_max_size = 10, cp_ttl = from_secs 1, cp_reported = 0,
     cp_ignore_schemas = [], cp_metrics = \<lparr>size_gauge = 0, max_size_gauge = 10, request_count = 0,
       hit_count = 0, item_count_counter = 0\<rparr>\<rparr>"

definition demo_query :: "bool \<Rightarrow> query" where
  "demo_query restricted = build_query demo_clock
     (if restricted then use_restricted_sql_options (query_builder_new ''id'' ''insert'' Flight)
      else query_builder_new ''id'' ''insert'' Flight)"

definition demo_query_state :: "bool \<Rightarrow> (nat \<rightharpoonup> (string, cdc_field list) cached_query_result, nat) query_state" where
  "demo_query_state cached = \<lparr>qs_cache = (if cached then Some demo_cached else None), qs_df = 0, qs_events = []\<rparr>"

lemmas demo_simps = demo_services_def demo_clock_def demo_cached_def demo_query_def demo_query_state_def
  build_query_def use_restricted_sql_options_def query_builder_new_def map_moka_def RESTRICTED_SQL_OPTIONS_def

theorem restricted_plan_never_executed_witness:
  "fst (run_query demo_services map_moka demo_clock (demo_query True) (demo_query_state False)) =
     Inl (UnableToExecuteQuery (DfPlan ''DML not supported''))"
  using restricted_plan_never_executed [of "demo_query True" demo_services "demo_query_state False"
      "Node (Operator ''insert'') []" "DfPlan ''DML not supported''" "\<lambda>_ n. (Inr ([], []), n)" map_moka demo_clock]
  by (simp add: demo_simps)

lemma demo_run:
  "\<exists>r s1 p. run_query demo_services map_moka demo_clock (demo_query False) (demo_query_state True) = (Inr r, s1) \<and>
     qr_from_cache r = Some False \<and> source_items (tr_source (qr_data r)) = [Inr ''a'', Inr ''bc''] \<and>
     qs_cache s1 = Some p \<and> cp_max_size p = 10"
  by (simp add: demo_simps run_query_def execute_plan_def Let_def provider_get_def lru_get_def verify_schema_def
      cache_is_enabled_for_plan_def attach_query_tracker_to_stream_def)


section \<open>Answers over HTTP\<close>

lemma try_collect_up_to_error:
  "try_collect (\<lambda>item. item) (up_to_error items) = Inr bs \<longleftrightarrow> list_all is_ok items \<and> bs = oks items"
proof (induction items arbitrary: bs)
  case (Cons i items)
  show ?case
    by (cases i) (auto simp: step_simps Cons.IH and_then_eq_Inr oks_def List.map_filter_simps)
qed (auto simp: step_simps oks_def List.map_filter_simps)

lemma length_up_to_error: "length (up_to_error items) \<le> length items"
  by (induction items) (auto simp: up_to_error_def)

lemma try_collect_stream_fst:
  "fst (try_collect_stream sv M clk st s) = try_collect (\<lambda>item. item) (up_to_error (source_items (tr_source st)))"
proof -
  have "take (Suc (length items)) (up_to_error items) = up_to_error items" for items :: "(datafusion_error, 'a) result list"
    using length_up_to_error [of items] by simp
  then show ?thesis by (simp add: try_collect_stream_def case_prod_beta poll_stream_out)
qed

text \<open>
  (C34) An HTTP answer with status 200 is complete: the query ran, no item of its stream was an
  error, the body is the JSON text of all batches, and the cache header says whether they came
  from the cache. Every other outcome has status 400 or 500 and no cache header.
\<close>

theorem http_ok_is_complete:
  "(case run_query sv M clk (build_query clk (with_protocol Http (with_nsql nsql
       (use_restricted_sql_options (query_builder_new uuid sql Http))))) s of
      (Inl e, _) \<Rightarrow> fst (sql_to_http_response sv M clk uuid sql nsql s) =
        \<lparr>hr_status = 400, hr_headers = [], hr_body = sv_show_error sv e\<rparr>
    | (Inr r, _) \<Rightarrow>
        (let items = source_items (tr_source (qr_data r));
             resp = fst (sql_to_http_response sv M clk uuid sql nsql s)
         in hr_status resp = (if \<not> list_all is_ok items then 400
                              else if is_ok (write_to_json_string sv (oks items)) then 200 else 500) \<and>
            (if hr_status resp = 200
             then write_to_json_string sv (oks items) = Inr (hr_body resp) \<and> hr_headers resp = cache_header (qr_from_cache r)
             else hr_headers resp = [])))"
proof -
  let ?q = "build_query clk (with_protocol Http (with_nsql nsql (use_restricted_sql_options (query_builder_new uuid sql Http))))"
  obtain x s1 where run: "run_query sv M clk ?q s = (x, s1)" by fastforce
  show ?thesis
  proof (cases x)
    case (Inl e)
    then show ?thesis using run by (simp add: sql_to_http_response_def Let_def)
  next
    case (Inr r)
    obtain y s2 where coll: "try_collect_stream sv M clk (qr_data r) s1 = (y, s2)" by fastforce
    with try_collect_stream_fst [of sv M clk "qr_data r" s1]
    have y: "y = try_collect (\<lambda>item. item) (up_to_error (source_items (tr_source (qr_data r))))" by simp
    show ?thesis
    proof (cases y)
      case (Inl e)
      with y have "try_collect (\<lambda>item. item) (up_to_error (source_items (tr_source (qr_data r)))) \<noteq> Inr bs" for bs by (metis sum.distinct(1))
      then have "\<not> list_all is_ok (source_items (tr_source (qr_data r)))"
        unfolding try_collect_up_to_error by blast
      with run Inr coll Inl show ?thesis by (simp add: sql_to_http_response_def Let_def)
    next
      case (Inr bs)
      with y have "try_collect (\<lambda>item. item) (up_to_error (source_items (tr_source (qr_data r)))) = Inr bs" by simp
      then have "list_all is_ok (source_items (tr_source (qr_data r)))" "bs = oks (source_items (tr_source (qr_data r)))"
        unfolding try_collect_up_to_error by blast+
      moreover have "fst (sql_to_http_response sv M clk uuid sql nsql s) = json_response sv bs (qr_from_cache r)"
        using run \<open>x = Inr r\<close> coll Inr by (simp add: sql_to_http_response_def)
      ultimately show ?thesis using run \<open>x = Inr r\<close>
        by (cases "write_to_json_string sv bs") (simp_all add: json_response_def)
    qed
  qed
qed

end
