(* ===== verification/Embeddings.thy ===== *)
theory Embeddings
  imports Query "HOL-Library.List_Lexorder" "HOL-Library.Char_ord"
begin

text \<open>
  Tables with embedding columns (runtime/src/embeddings/table.rs and execution_plan.rs): the schema
  with one vector column per embedded column, the columns a projection makes necessary, the scan of
  the base table, and the stream that adds the vectors to each batch. Arrow's arrays and the
  constructors of arrays and record batches are the fields of \<open>arrow_arrays\<close>, a column is a value of
  type \<open>'c\<close>, and a vector component a value of type \<open>'f\<close>. A hash map is the list of its entries in
  the order in which it happens to be iterated.
\<close>

section \<open>Fields and batches\<close>

datatype embed_type = PlainType cdc_type | FixedSizeFloats int

record embed_field =
  ef_name :: string
  ef_type :: embed_type
  ef_nullable :: bool
  ef_metadata :: "(string \<times> string) list"

record 'c embed_batch =
  eb_fields :: "embed_field list"
  eb_columns :: "'c list"

record ('c, 'f) arrow_arrays =
  aa_strings :: "'c \<Rightarrow> string option list option"
  aa_fixed_size_list :: "nat \<Rightarrow> 'f list \<Rightarrow> (string, 'c) result"
  aa_try_new :: "embed_field list \<Rightarrow> 'c list \<Rightarrow> (string, 'c embed_batch) result"
  aa_flattened_fields :: "embed_field list \<Rightarrow> embed_field list"

text \<open>The position and the field of a name, as \<open>Schema::column_with_name\<close> finds it.\<close>

definition embed_column_idx :: "embed_field list \<Rightarrow> string \<Rightarrow> nat option" where
  "embed_column_idx fs n = find (\<lambda>i. ef_name (fs ! i) = n) [0..<length fs]"

definition column_by_name :: "'c embed_batch \<Rightarrow> string \<Rightarrow> 'c option" where
  "column_by_name b n = map_option (\<lambda>i. eb_columns b ! i) (embed_column_idx (eb_fields b) n)"

section \<open>The table\<close>

record 'f embedding_model =
  em_embed :: "string list \<Rightarrow> (string, 'f list list) result"
  em_size :: int

record ('x, 'pl) base_table =
  bt_fields :: "embed_field list"
  bt_scan :: "nat list option \<Rightarrow> 'x list \<Rightarrow> nat option \<Rightarrow> (df_error, 'pl) result"
  bt_insert_into :: "'pl \<Rightarrow> bool \<Rightarrow> (df_error, 'pl) result"

record ('x, 'pl, 'f) embedding_table =
  et_base_table :: "('x, 'pl) base_table"
  et_embedded_columns :: "(string, string) hmap"
  et_embedding_models :: "(string, 'f embedding_model) hmap"
  et_embedding_sizes :: "(string, int) hmap"

definition precompute_embedding_sizes :: "(string, string) hmap \<Rightarrow> (string, 'f embedding_model) hmap \<Rightarrow> (string, int) hmap" where
  "precompute_embedding_sizes embedded_columns embedding_models =
     fold (\<lambda>(col, model) model_sizes.
       case hm_get embedding_models model of
         Some m \<Rightarrow> hm_insert col (em_size m) model_sizes
       | None \<Rightarrow> model_sizes) embedded_columns []"

definition embedding_table_new ::
  "('x, 'pl) base_table \<Rightarrow> (string, string) hmap \<Rightarrow> (string, 'f embedding_model) hmap \<Rightarrow> ('x, 'pl, 'f) embedding_table" where
  "embedding_table_new base embedded_columns embedding_models =
     \<lparr>et_base_table = base, et_embedded_columns = embedded_columns, et_embedding_models = embedding_models,
      et_embedding_sizes = precompute_embedding_sizes embedded_columns embedding_models\<rparr>"

definition get_embedding_models_used :: "('x, 'pl, 'f) embedding_table \<Rightarrow> string list" where
  "get_embedding_models_used t = map snd (et_embedded_columns t)"

definition get_embedding_columns :: "('x, 'pl, 'f) embedding_table \<Rightarrow> string list" where
  "get_embedding_columns t = map fst (et_embedded_columns t)"

definition embedding_name :: "string \<Rightarrow> string" where
  "embedding_name c = c @ ''_embedding''"

text \<open>An index at or after the columns of the base table is looked up among the sorted names.\<close>

definition columns_to_embed :: "('x, 'pl, 'f) embedding_table \<Rightarrow> nat list option \<Rightarrow> string list" where
  "columns_to_embed t projection = (case projection of
      None \<Rightarrow> map fst (et_embedded_columns t)
    | Some idxs \<Rightarrow>
        (let base_cols = length (bt_fields (et_base_table t));
             x = sort (map fst (et_embedded_columns t))
         in List.map_filter (\<lambda>c.
              if base_cols \<le> c then (if c - base_cols < length x then Some (x ! (c - base_cols)) else None)
              else None) idxs))"

definition embedding_field :: "('x, 'pl, 'f) embedding_table \<Rightarrow> string \<Rightarrow> embed_field option" where
  "embedding_field t k =
     map_option (\<lambda>i.
       (let field = bt_fields (et_base_table t) ! i;
            size = (case hm_get (et_embedding_sizes t) (ef_name field) of Some z \<Rightarrow> z | None \<Rightarrow> 0)
        in field\<lparr>ef_type := FixedSizeFloats size, ef_name := embedding_name (ef_name field)\<rparr>))
       (embed_column_idx (bt_fields (et_base_table t)) k)"

definition et_schema :: "('x, 'pl, 'f) embedding_table \<Rightarrow> embed_field list" where
  "et_schema t =
     bt_fields (et_base_table t) @
     List.map_filter (embedding_field t) (sort (map fst (et_embedded_columns t)))"

section \<open>Scanning\<close>

datatype 'pl embedding_plan =
    BasePlan 'pl
  | EmbeddingTableExec "embed_field list" "(string, string) hmap" 'pl

definition scan_embed_columns :: "('x, 'pl, 'f) embedding_table \<Rightarrow> string list \<Rightarrow> (string, string) hmap" where
  "scan_embed_columns t cols = filter (\<lambda>(c, m). c \<in> set cols) (et_embedded_columns t)"

text \<open>\<open>Itertools::unique\<close> keeps the first of equal elements.\<close>

fun unique :: "'a list \<Rightarrow> 'a list" where
  "unique [] = []"
| "unique (x # xs) = x # filter (\<lambda>y. y \<noteq> x) (unique xs)"

definition projection_for_base_table ::
  "('x, 'pl, 'f) embedding_table \<Rightarrow> string list \<Rightarrow> nat list option \<Rightarrow> nat list option" where
  "projection_for_base_table t cols projection =
     map_option (\<lambda>proj.
       (let base_cols = List.map_filter (embed_column_idx (et_schema t)) (map fst (scan_embed_columns t cols))
        in filter (\<lambda>c. c < length (bt_fields (et_base_table t))) (unique (proj @ base_cols)))) projection"

text \<open>\<open>project_schema\<close> is DataFusion's projection of a schema, a parameter.\<close>

definition et_scan ::
  "(embed_field list \<Rightarrow> nat list option \<Rightarrow> (df_error, embed_field list) result) \<Rightarrow>
   ('x, 'pl, 'f) embedding_table \<Rightarrow> nat list option \<Rightarrow> 'x list \<Rightarrow> nat option \<Rightarrow> (df_error, 'pl embedding_plan) result" where
  "et_scan project_schema t projection filters limit =
     (let cols = columns_to_embed t projection;
          num_base_cols = length (bt_fields (et_base_table t))
      in if cols = []
         then map_sum id BasePlan
                (bt_scan (et_base_table t) (map_option (filter (\<lambda>i. i < num_base_cols)) projection) filters limit)
         else and_then (project_schema (et_schema t) projection) (\<lambda>projected_schema.
              and_then (bt_scan (et_base_table t) (projection_for_base_table t cols projection) filters limit) (\<lambda>base_plan.
              Inr (EmbeddingTableExec projected_schema (scan_embed_columns t cols) base_plan))))"

definition et_insert_into :: "('x, 'pl, 'f) embedding_table \<Rightarrow> 'pl \<Rightarrow> bool \<Rightarrow> (df_error, 'pl) result" where
  "et_insert_into t input overwrite = bt_insert_into (et_base_table t) input overwrite"

section \<open>Adding the vectors\<close>

text \<open>
  One embedded column of a batch: skipped when its model is not loaded or when the batch does not
  have it as strings; the nulls of the column are left out of what is embedded.
\<close>

definition embed_column ::
  "('c, 'f) arrow_arrays \<Rightarrow> (string, 'f embedding_model) hmap \<Rightarrow> 'c embed_batch \<Rightarrow> string \<times> string \<Rightarrow>
   (string, 'c) hmap \<Rightarrow> (string, (string, 'c) hmap) result" where
  "embed_column aa models rb cm embed_arrays =
     (case hm_get models (snd cm) of
        None \<Rightarrow> Inr embed_arrays
      | Some model \<Rightarrow>
          (case Option.bind (column_by_name rb (fst cm)) (aa_strings aa) of
             None \<Rightarrow> Inr embed_arrays
           | Some arr \<Rightarrow>
               and_then (em_embed model (List.map_filter id arr)) (\<lambda>embedded_data.
                 let vector_length = (case embedded_data of [] \<Rightarrow> 0 | v # _ \<Rightarrow> length v)
                 in if vector_length < 2 ^ 31
                    then and_then (aa_fixed_size_list aa vector_length (concat embedded_data)) (\<lambda>list_array.
                           Inr (hm_insert (embedding_name (fst cm)) list_array embed_arrays))
                    else Inl ''out of range integral type conversion attempted'')))"

fun get_embeddings ::
  "('c, 'f) arrow_arrays \<Rightarrow> (string, 'f embedding_model) hmap \<Rightarrow> 'c embed_batch \<Rightarrow> (string, string) hmap \<Rightarrow>
   (string, 'c) hmap \<Rightarrow> (string, (string, 'c) hmap) result" where
  "get_embeddings aa models rb [] embed_arrays = Inr embed_arrays"
| "get_embeddings aa models rb (cm # cms) embed_arrays =
     and_then (embed_column aa models rb cm embed_arrays) (get_embeddings aa models rb cms)"

definition construct_record_batch ::
  "('c, 'f) arrow_arrays \<Rightarrow> 'c embed_batch \<Rightarrow> embed_field list \<Rightarrow> (string, 'c) hmap \<Rightarrow> (string, 'c embed_batch) result" where
  "construct_record_batch aa batch projected_schema embedding_cols =
     aa_try_new aa projected_schema
       (List.map_filter (\<lambda>f. case hm_get embedding_cols (ef_name f) of
            Some c \<Rightarrow> Some c
          | None \<Rightarrow> column_by_name batch (ef_name f)) (aa_flattened_fields aa projected_schema))"

datatype embed_stream_error = BaseError df_error | ArrowFailure string | InternalFailure string

definition embed_batch_item ::
  "('c, 'f) arrow_arrays \<Rightarrow> (string, 'f embedding_model) hmap \<Rightarrow> embed_field list \<Rightarrow> (string, string) hmap \<Rightarrow>
   (df_error, 'c embed_batch) result \<Rightarrow> (embed_stream_error, 'c embed_batch) result" where
  "embed_batch_item aa models projected_schema embedded_columns batch_result =
     (case batch_result of
        Inl e \<Rightarrow> Inl (BaseError e)
      | Inr batch \<Rightarrow>
          (case get_embeddings aa models batch embedded_columns [] of
             Inl e \<Rightarrow> Inl (InternalFailure e)
           | Inr embeddings \<Rightarrow> map_err ArrowFailure (construct_record_batch aa batch projected_schema embeddings)))"

definition to_sendable_stream ::
  "('c, 'f) arrow_arrays \<Rightarrow> (string, 'f embedding_model) hmap \<Rightarrow> embed_field list \<Rightarrow> (string, string) hmap \<Rightarrow>
   (df_error, 'c embed_batch) result list \<Rightarrow> (embed_stream_error, 'c embed_batch) result list" where
  "to_sendable_stream aa models projected_schema embedded_columns =
     map (embed_batch_item aa models projected_schema embedded_columns)"

section \<open>Columns and projections\<close>

lemma embed_column_idx_Some:
  "embed_column_idx fs n = Some i \<Longrightarrow> i < length fs \<and> ef_name (fs ! i) = n"
  by (auto simp: embed_column_idx_def find_Some_iff)

lemma embed_column_idx_None: "embed_column_idx fs n = None \<longleftrightarrow> n \<notin> ef_name ` set fs"
  by (auto simp: embed_column_idx_def find_None_iff in_set_conv_nth) (metis nth_mem imageI)

lemma embedding_field_name: "embedding_field t k = Some f \<Longrightarrow> ef_name f = embedding_name k"
  by (auto simp: embedding_field_def Let_def dest: embed_column_idx_Some)

lemma et_schema_names:
  assumes "\<And>c. c \<in> fst ` set (et_embedded_columns t) \<Longrightarrow> embed_column_idx (bt_fields (et_base_table t)) c \<noteq> None"
  shows "map ef_name (et_schema t) =
    map ef_name (bt_fields (et_base_table t)) @ map embedding_name (sort (map fst (et_embedded_columns t)))"
proof -
  have some: "embedding_field t c \<noteq> None" if "c \<in> set (sort (map fst (et_embedded_columns t)))" for c
    using assms [of c] that by (auto simp: embedding_field_def)
  then have "ef_name (the (embedding_field t c)) = embedding_name c"
    if "c \<in> set (sort (map fst (et_embedded_columns t)))" for c
    using embedding_field_name [of t c] that by fastforce
  with some show ?thesis using map_filter_total [of "sort (map fst (et_embedded_columns t))" "embedding_field t"]
    by (simp add: et_schema_def)
qed

lemma unique_set [simp]: "set (unique xs) = set xs"
  by (induction xs) auto

lemma unique_distinct [simp]: "distinct (unique xs)"
  by (induction xs) auto

text \<open>
  The scan of the base table reads exactly the base columns that were asked for and those that
  are to be embedded, each once.
\<close>

lemma base_projection_exact:
  assumes "projection_for_base_table t cols (Some proj) = Some ps"
  shows "distinct ps" and
    "set ps = {i. i < length (bt_fields (et_base_table t)) \<and>
       (i \<in> set proj \<or> (\<exists>c\<in>fst ` set (scan_embed_columns t cols). embed_column_idx (et_schema t) c = Some i))}"
proof -
  have ps: "ps = filter (\<lambda>c. c < length (bt_fields (et_base_table t)))
      (unique (proj @ List.map_filter (embed_column_idx (et_schema t)) (map fst (scan_embed_columns t cols))))"
    using assms by (simp add: projection_for_base_table_def)
  then show "distinct ps" by simp
  show "set ps = {i. i < length (bt_fields (et_base_table t)) \<and>
       (i \<in> set proj \<or> (\<exists>c\<in>fst ` set (scan_embed_columns t cols). embed_column_idx (et_schema t) c = Some i))}"
    unfolding ps by (auto simp: mem_map_filter)
qed

text \<open>
  (C39) The embedding columns a projection asks for are those that are computed: when the base
  table has every embedded column, the names of the projected columns beyond the base table's are,
  in order, those of the columns to embed.
\<close>

theorem projection_embeds_exactly:
  assumes present: "\<And>c. c \<in> fst ` set (et_embedded_columns t) \<Longrightarrow> embed_column_idx (bt_fields (et_base_table t)) c \<noteq> None"
    and range: "\<And>i. i \<in> set proj \<Longrightarrow> i < length (et_schema t)"
  shows "map (\<lambda>i. ef_name (et_schema t ! i)) (filter (\<lambda>i. length (bt_fields (et_base_table t)) \<le> i) proj) =
    map embedding_name (columns_to_embed t (Some proj))"
proof -
  let ?n = "length (bt_fields (et_base_table t))" and ?x = "sort (map fst (et_embedded_columns t))"
  have names: "map ef_name (et_schema t) = map ef_name (bt_fields (et_base_table t)) @ map embedding_name ?x"
    by (rule et_schema_names [OF present])
  then have len: "length (et_schema t) = ?n + length ?x" by (metis length_append length_map)
  have name: "ef_name (et_schema t ! i) = embedding_name (?x ! (i - ?n))" if "?n \<le> i" "i < length (et_schema t)" for i
  proof -
    have "ef_name (et_schema t ! i) = map ef_name (et_schema t) ! i" using that by simp
    then show ?thesis using that len by (simp add: names nth_append)
  qed
  show ?thesis
    using range unfolding columns_to_embed_def option.case Let_def
  proof (induction proj)
    case (Cons i proj)
    from Cons.prems [of i] have "i < length (et_schema t)" by simp
    moreover have "i - ?n < length ?x" if "?n \<le> i" using that len calculation by simp
    ultimately show ?case using Cons name [of i] by (simp add: List.map_filter_simps)
  qed (simp add: List.map_filter_simps)
qed

definition demo_field :: "string \<Rightarrow> embed_field" where
  "demo_field n = \<lparr>ef_name = n, ef_type = PlainType (Prim DT_Utf8), ef_nullable = True, ef_metadata = []\<rparr>"

definition demo_embedding_table :: "(unit, unit, nat) embedding_table" where
  "demo_embedding_table = embedding_table_new
     \<lparr>bt_fields = [demo_field ''a'', demo_field ''b''], bt_scan = (\<lambda>_ _ _. Inr ()), bt_insert_into = (\<lambda>_ _. Inr ())\<rparr>
     [(''b'', ''m''), (''a'', ''m'')] [(''m'', \<lparr>em_embed = (\<lambda>xs. Inr (map (\<lambda>x. [length x]) xs)), em_size = 1\<rparr>)]"

theorem projection_embeds_exactly_witness:
  "map embedding_name (columns_to_embed demo_embedding_table (Some [3, 0])) = [''b_embedding'']"
proof -
  have "map (\<lambda>i. ef_name (et_schema demo_embedding_table ! i))
      (filter (\<lambda>i. length (bt_fields (et_base_table demo_embedding_table)) \<le> i) [3, 0]) =
    map embedding_name (columns_to_embed demo_embedding_table (Some [3, 0]))"
    by (rule projection_embeds_exactly)
      (auto simp: demo_embedding_table_def embedding_table_new_def embed_column_idx_def demo_field_def
        et_schema_def embedding_field_def List.map_filter_simps Let_def upt_rec)
  then show ?thesis by (simp add: demo_embedding_table_def embedding_table_new_def embed_column_idx_def demo_field_def
        et_schema_def embedding_field_def List.map_filter_simps Let_def upt_rec embedding_name_def)
qed

section \<open>Nulls in an embedded column\<close>

text \<open>
  What is relied on of Arrow: a string array has an element per entry, a list array of vectors of
  length \<open>n\<close> has as many elements as fit into its values, a record batch is only built from columns of
  the same length, and the flattened fields of a schema include its fields.
\<close>

definition arrow_laws :: "('c, 'f) arrow_arrays \<Rightarrow> ('c \<Rightarrow> nat) \<Rightarrow> bool" where
  "arrow_laws aa len \<longleftrightarrow>
     (\<forall>c xs. aa_strings aa c = Some xs \<longrightarrow> len c = length xs) \<and>
     (\<forall>n vs a. 0 < n \<longrightarrow> aa_fixed_size_list aa n vs = Inr a \<longrightarrow> len a = length vs div n) \<and>
     (\<forall>fs cs b. aa_try_new aa fs cs = Inr b \<longrightarrow> (\<forall>c\<in>set cs. \<forall>d\<in>set cs. len c = len d)) \<and>
     (\<forall>fs. set fs \<subseteq> set (aa_flattened_fields aa fs))"

text \<open>A model that answers with one vector of length \<open>n\<close> per text.\<close>

definition embeds_each :: "'f embedding_model \<Rightarrow> nat \<Rightarrow> bool" where
  "embeds_each model n \<longleftrightarrow>
     (\<forall>xs vs. em_embed model xs = Inr vs \<longrightarrow> length vs = length xs \<and> (\<forall>v\<in>set vs. length v = n))"

lemma length_concat_const: "\<forall>v\<in>set vs. length v = n \<Longrightarrow> length (concat vs) = length vs * n"
  by (induction vs) auto

lemma embedded_length:
  assumes "embeds_each model n" and "em_embed model xs = Inr vs" and "0 < n" and "xs \<noteq> []"
  shows "(case vs of [] \<Rightarrow> 0 | v # _ \<Rightarrow> length v) = n" and "length (concat vs) div n = length xs"
proof -
  have vs: "length vs = length xs" "\<forall>v\<in>set vs. length v = n" using assms by (auto simp: embeds_each_def)
  with assms(4) show "(case vs of [] \<Rightarrow> 0 | v # _ \<Rightarrow> length v) = n" by (cases vs) auto
  show "length (concat vs) div n = length xs" using length_concat_const [OF vs(2)] vs(1) assms(3) by simp
qed

lemma some_texts_shorter:
  "None \<in> set arr \<Longrightarrow> length (List.map_filter id arr) < length arr"
  by (induction arr)
     (auto simp: List.map_filter_simps split: option.splits intro: le_less_trans [OF length_filter_le] simp: List.map_filter_def)


text \<open>Columns of texts and of vectors, as an instance of Arrow's arrays.\<close>

type_synonym demo_column = "string option list + nat list list"

fun demo_len :: "demo_column \<Rightarrow> nat" where
  "demo_len (Inl xs) = length xs"
| "demo_len (Inr vs) = length vs"

definition same_len :: "demo_column list \<Rightarrow> bool" where
  "same_len cs \<longleftrightarrow> (\<forall>c\<in>set cs. \<forall>d\<in>set cs. demo_len c = demo_len d)"

definition demo_arrays :: "(demo_column, nat) arrow_arrays" where
  "demo_arrays = \<lparr>aa_strings = (\<lambda>c. case c of Inl xs \<Rightarrow> Some xs | Inr _ \<Rightarrow> None),
     aa_fixed_size_list = (\<lambda>n vs. Inr (Inr (map (\<lambda>i. take n (drop (i * n) vs)) [0..<length vs div n]))),
     aa_try_new = (\<lambda>fs cs. if same_len cs then Inr \<lparr>eb_fields = fs, eb_columns = cs\<rparr>
                           else Inl ''all columns in a record batch must have the same length''),
     aa_flattened_fields = (\<lambda>fs. fs)\<rparr>"

lemma demo_arrow_laws: "arrow_laws demo_arrays demo_len"
proof -
  have "aa_strings demo_arrays c = Some xs \<Longrightarrow> demo_len c = length xs" for c xs
    by (cases c) (simp_all add: demo_arrays_def)
  moreover have "aa_fixed_size_list demo_arrays n vs = Inr a \<Longrightarrow> demo_len a = length vs div n" for n vs a
    by (auto simp: demo_arrays_def)
  moreover have "aa_try_new demo_arrays fs cs = Inr b \<Longrightarrow> same_len cs" for fs cs b
    by (simp add: demo_arrays_def split: if_splits)
  moreover have "set fs \<subseteq> set (aa_flattened_fields demo_arrays fs)" for fs by (simp add: demo_arrays_def)
  ultimately show ?thesis unfolding arrow_laws_def same_len_def by meson
qed


end
