(* ===== verification/Vector_Search.thy ===== *)
theory Vector_Search
  imports Embeddings
begin

text \<open>
  Vector search (runtime/src/embeddings/vector_search.rs) and its HTTP handler
  (runtime/src/http/v1/search.rs): embedding the query with the models of each table, the primary
  keys, the SQL query that orders by distance, and turning the batches into matches. The session
  context is that of \<open>Table_Registry\<close>; running SQL, projecting a batch, the texts of references,
  identifiers and vectors and the reading of JSON are the fields of \<open>search_services\<close>, on top of the
  services of a query.
\<close>

section \<open>Requests, results and errors\<close>

datatype search_error =
    DataSourcesNotFound "table_reference list"
  | SearchDataFusionError string
  | RecordProcessingError string
  | FormattingError string
  | NoEmbeddingColumns table_reference
  | IncorrectNumberOfEmbeddingColumns table_reference nat
  | EmbeddingModelNotFound string
  | EmbeddingError "search_error + string"

datatype retrieval_limit = TopN nat | Threshold real

record search_request =
  sq_text :: string
  sq_datasets :: "string list"
  sq_limit :: nat
  sq_where_cond :: "string option"
  sq_additional_columns :: "string list"

definition default_limit :: nat where
  "default_limit = 3"

definition search_request_new ::
  "string \<Rightarrow> string list \<Rightarrow> nat \<Rightarrow> string option \<Rightarrow> string list \<Rightarrow> search_request" where
  "search_request_new t data_source n cond cols =
     \<lparr>sq_text = t, sq_datasets = data_source, sq_limit = n, sq_where_cond = cond, sq_additional_columns = cols\<rparr>"

record 'b table_result =
  tr_primary_key :: "'b list"
  tr_embedded_column :: "'b list"
  tr_additional_columns :: "'b list"

record 'j search_match =
  mt_value :: string
  mt_dataset :: string
  mt_primary_key :: "(string, 'j) hmap"
  mt_metadata :: "(string, 'j) hmap"

section \<open>Tables\<close>

text \<open>
  The table providers that matter here: an embedding table, the adaptor around a federated
  provider, an accelerated table with its federated table, and any other.
\<close>

datatype ('x, 'pl, 'f, 'o) provider =
    EmbeddingProvider "('x, 'pl, 'f) embedding_table"
  | FederatedAdaptor "('x, 'pl, 'f, 'o) provider option"
  | AcceleratedProvider "('x, 'pl, 'f, 'o) provider"
  | OtherProvider 'o

fun as_embedding_table :: "('x, 'pl, 'f, 'o) provider \<Rightarrow> ('x, 'pl, 'f) embedding_table option" where
  "as_embedding_table (EmbeddingProvider t) = Some t"
| "as_embedding_table _ = None"

definition get_embedding_table :: "('x, 'pl, 'f, 'o) provider \<Rightarrow> ('x, 'pl, 'f) embedding_table option" where
  "get_embedding_table tbl =
     (case as_embedding_table tbl of
        Some t \<Rightarrow> Some t
      | None \<Rightarrow>
          Option.bind (case tbl of FederatedAdaptor inner \<Rightarrow> inner | _ \<Rightarrow> Some tbl) (\<lambda>tbl'.
            case tbl' of AcceleratedProvider federated \<Rightarrow> as_embedding_table federated | _ \<Rightarrow> None))"

datatype key_constraint = PrimaryKey "nat list" | UniqueKey "nat list"

record ('b, 't, 'j, 'f) search_services =
  ss_parse_ref :: "string \<Rightarrow> table_reference"
  ss_show_ref :: "table_reference \<Rightarrow> string"
  ss_quote_identifier :: "string \<Rightarrow> string"
  ss_show_vector :: "'f list \<Rightarrow> string"
  ss_run_sql :: "string \<Rightarrow> (string, 'b list) result"
  ss_project :: "nat list \<Rightarrow> 'b \<Rightarrow> (string, 'b) result"
  ss_first_column :: "'b \<Rightarrow> string option list option"
  ss_constraints :: "'t \<Rightarrow> key_constraint list option"
  ss_project_names :: "'t \<Rightarrow> nat list \<Rightarrow> (string, string list) result"
  ss_from_json :: "string \<Rightarrow> (string, (string, 'j) hmap list) result"
  ss_show_error :: "search_error \<Rightarrow> string"

section \<open>Matches\<close>

definition json_rows ::
  "('b, 'd) query_services \<Rightarrow> ('b, 't, 'j, 'f) search_services \<Rightarrow> 'b list \<Rightarrow> (search_error, (string, 'j) hmap list) result" where
  "json_rows sv ss batches =
     (if case batches of [] \<Rightarrow> False | p # _ \<Rightarrow> 0 < sv_num_rows sv p
      then map_err FormattingError (and_then (write_to_json_string sv batches) (ss_from_json ss))
      else Inr [])"

definition column_values :: "('b, 't, 'j, 'f) search_services \<Rightarrow> 'b \<Rightarrow> string list" where
  "column_values ss v = (case ss_first_column ss v of
      Some col \<Rightarrow> map (\<lambda>x. case x of Some s \<Rightarrow> s | None \<Rightarrow> []) col
    | None \<Rightarrow> [])"

definition table_to_matches ::
  "('b, 'd) query_services \<Rightarrow> ('b, 't, 'j, 'f) search_services \<Rightarrow> table_reference \<Rightarrow> 'b table_result \<Rightarrow>
   (search_error, 'j search_match list) result" where
  "table_to_matches sv ss tbl res =
     and_then (json_rows sv ss (tr_primary_key res)) (\<lambda>pks.
     and_then (json_rows sv ss (tr_additional_columns res)) (\<lambda>add_cols.
       let vals = concat (map (column_values ss) (tr_embedded_column res))
       in Inr (map (\<lambda>((pk, add), v). \<lparr>mt_value = v, mt_dataset = ss_show_ref ss tbl, mt_primary_key = pk, mt_metadata = add\<rparr>)
                 (zip (zip pks add_cols) vals))))"

definition to_matches ::
  "('b, 'd) query_services \<Rightarrow> ('b, 't, 'j, 'f) search_services \<Rightarrow> (table_reference, 'b table_result) hmap \<Rightarrow>
   (search_error, 'j search_match list) result" where
  "to_matches sv ss res =
     map_sum id concat (try_collect (\<lambda>(a, b). table_to_matches sv ss a b) res)"

section \<open>One search\<close>

definition search_query ::
  "('b, 't, 'j, 'f) search_services \<Rightarrow> table_reference \<Rightarrow> 'f list \<Rightarrow> string list \<Rightarrow> string \<Rightarrow> string list \<Rightarrow>
   string option \<Rightarrow> nat \<Rightarrow> string" where
  "search_query ss tbl embedding primary_keys embedding_column additional_columns where_cond n =
     ''SELECT '' @ join_str '', '' (map (ss_quote_identifier ss) (primary_keys @ [embedding_column] @ additional_columns)) @
     '' FROM '' @ ss_show_ref ss tbl @ '' '' @
     (case where_cond of None \<Rightarrow> [] | Some c \<Rightarrow> ''WHERE ('' @ c @ '')'') @
     '' ORDER BY array_distance('' @ embedding_column @ ''_embedding, '' @ ss_show_vector ss embedding @ '') LIMIT '' @ digits n"

definition project_all :: "('b, 't, 'j, 'f) search_services \<Rightarrow> nat list \<Rightarrow> 'b list \<Rightarrow> (search_error, 'b list) result" where
  "project_all ss idxs batches = map_err RecordProcessingError (try_collect (ss_project ss idxs) batches)"

definition individual_search ::
  "('b, 't, 'j, 'f) search_services \<Rightarrow> table_reference \<Rightarrow> 'f list \<Rightarrow> string list \<Rightarrow> string \<Rightarrow> string list \<Rightarrow>
   string option \<Rightarrow> nat \<Rightarrow> (search_error, 'b table_result) result" where
  "individual_search ss tbl embedding primary_keys embedding_column additional_columns where_cond n =
     (let k = length primary_keys
      in and_then (map_err SearchDataFusionError (ss_run_sql ss
             (search_query ss tbl embedding primary_keys embedding_column additional_columns where_cond n))) (\<lambda>batches.
         and_then (project_all ss [0..<k] batches) (\<lambda>primary_keys_records.
         and_then (project_all ss [k] batches) (\<lambda>embedding_records.
         and_then (project_all ss [Suc k..<Suc k + length additional_columns] batches) (\<lambda>additional.
         Inr \<lparr>tr_primary_key = primary_keys_records, tr_embedded_column = embedding_records,
              tr_additional_columns = additional\<rparr>)))))"

section \<open>The search\<close>

record ('xx, 't, 'f) vector_search =
  vs_context :: "('xx, 't) session_context"
  vs_df :: 'xx
  vs_embeddings :: "(string, 'f embedding_model) hmap"
  vs_explicit_primary_keys :: "(table_reference, string list) hmap"

definition find_relevant_embedding_models ::
  "('xx, ('x, 'pl, 'f, 'o) provider, 'f) vector_search \<Rightarrow> table_reference list \<Rightarrow>
   (search_error, (table_reference, string list) hmap) result" where
  "find_relevant_embedding_models vs data_sources =
     map_sum id hm_collect
       (try_collect (\<lambda>ds.
          case get_table (vs_context vs) (vs_df vs) ds of
            None \<Rightarrow> Inl (DataSourcesNotFound [ds])
          | Some table \<Rightarrow> (case get_embedding_table table of
              None \<Rightarrow> Inl (NoEmbeddingColumns ds)
            | Some et \<Rightarrow> Inr (ds, get_embedding_models_used et))) data_sources)"

definition get_primary_keys ::
  "('b, ('x, 'pl, 'f, 'o) provider, 'j, 'f) search_services \<Rightarrow> ('xx, ('x, 'pl, 'f, 'o) provider, 'f) vector_search \<Rightarrow>
   table_reference \<Rightarrow> (search_error, string list) result" where
  "get_primary_keys ss vs table =
     (case get_table (vs_context vs) (vs_df vs) table of
        None \<Rightarrow> Inl (DataSourcesNotFound [table])
      | Some tbl_ref \<Rightarrow>
          (let constraint_idx = (case List.map_filter (\<lambda>c. case c of PrimaryKey columns \<Rightarrow> Some columns | UniqueKey _ \<Rightarrow> None)
                 (case ss_constraints ss tbl_ref of Some cs \<Rightarrow> cs | None \<Rightarrow> []) of [] \<Rightarrow> [] | columns # _ \<Rightarrow> columns)
           in map_err SearchDataFusionError (ss_project_names ss tbl_ref constraint_idx)))"

fun primary_keys_loop ::
  "(table_reference \<Rightarrow> (search_error, string list) result) \<Rightarrow> (table_reference, string list) hmap \<Rightarrow> table_reference list \<Rightarrow>
   (table_reference, string list) hmap \<Rightarrow> (search_error, (table_reference, string list) hmap) result" where
  "primary_keys_loop keys explicit [] acc = Inr acc"
| "primary_keys_loop keys explicit (tbl # tables) acc =
     and_then (keys tbl) (\<lambda>pks.
       primary_keys_loop keys explicit tables
         (if pks \<noteq> [] then hm_insert tbl pks acc
          else case hm_get explicit tbl of Some e \<Rightarrow> hm_insert tbl e acc | None \<Rightarrow> acc))"

definition get_primary_keys_with_overrides ::
  "('b, ('x, 'pl, 'f, 'o) provider, 'j, 'f) search_services \<Rightarrow> ('xx, ('x, 'pl, 'f, 'o) provider, 'f) vector_search \<Rightarrow>
   (table_reference, string list) hmap \<Rightarrow> table_reference list \<Rightarrow> (search_error, (table_reference, string list) hmap) result" where
  "get_primary_keys_with_overrides ss vs explicit tables = primary_keys_loop (get_primary_keys ss vs) explicit tables []"

definition embed_text ::
  "('xx, 't, 'f) vector_search \<Rightarrow> string \<Rightarrow> string \<Rightarrow> (search_error, 'f list) result" where
  "embed_text vs input embedding_model =
     (case hm_get (vs_embeddings vs) embedding_model of
        None \<Rightarrow> Inl (EmbeddingModelNotFound embedding_model)
      | Some model \<Rightarrow>
          and_then (map_err (\<lambda>e. EmbeddingError (Inr e)) (em_embed model [input])) (\<lambda>vs.
            case vs of
              v # _ \<Rightarrow> Inr v
            | [] \<Rightarrow> Inl (EmbeddingError (Inr (''No embeddings returned for input text from '' @ embedding_model)))))"

text \<open>The query is embedded with the models in turn; an error is wrapped once more.\<close>

fun embed_inputs ::
  "(string \<Rightarrow> (search_error, 'f list) result) \<Rightarrow> string list \<Rightarrow> (string, 'f list) hmap \<Rightarrow>
   (search_error, (string, 'f list) hmap) result" where
  "embed_inputs run [] acc = Inr acc"
| "embed_inputs run (m # ms) acc =
     and_then (map_err (\<lambda>e. EmbeddingError (Inl e)) (run m)) (\<lambda>v. embed_inputs run ms (hm_insert m v acc))"

definition calculate_embeddings_per_table ::
  "('xx, ('x, 'pl, 'f, 'o) provider, 'f) vector_search \<Rightarrow> string \<Rightarrow> table_reference list \<Rightarrow>
   (search_error, (table_reference, 'f list list) hmap) result" where
  "calculate_embeddings_per_table vs query data_sources =
     and_then (find_relevant_embedding_models vs data_sources) (\<lambda>embeddings_to_run.
     and_then (embed_inputs (embed_text vs query) (concat (map snd embeddings_to_run)) []) (\<lambda>embedded_inputs.
     Inr (map (\<lambda>(t, names). (t, List.map_filter (hm_get embedded_inputs) names)) embeddings_to_run)))"

definition search_table ::
  "('b, ('x, 'pl, 'f, 'o) provider, 'j, 'f) search_services \<Rightarrow> ('xx, ('x, 'pl, 'f, 'o) provider, 'f) vector_search \<Rightarrow>
   search_request \<Rightarrow> (table_reference, string list) hmap \<Rightarrow> table_reference \<times> 'f list list \<Rightarrow>
   (search_error, table_reference \<times> 'b table_result) result" where
  "search_table ss vs req table_primary_keys tv =
     (let (tbl, search_vectors) = tv;
          primary_keys = (case hm_get table_primary_keys tbl of Some ks \<Rightarrow> ks | None \<Rightarrow> [])
      in case get_table (vs_context vs) (vs_df vs) tbl of
           None \<Rightarrow> Inl (DataSourcesNotFound [tbl])
         | Some table_provider \<Rightarrow>
             (case Option.bind (get_embedding_table table_provider)
                     (\<lambda>e. case get_embedding_columns e of [] \<Rightarrow> None | c # _ \<Rightarrow> Some c) of
                None \<Rightarrow> Inl (NoEmbeddingColumns tbl)
              | Some embedding_column \<Rightarrow>
                  (case search_vectors of
                     [embedding] \<Rightarrow>
                       map_sum id (Pair tbl) (individual_search ss tbl embedding primary_keys embedding_column
                         (sq_additional_columns req) (sq_where_cond req) (sq_limit req))
                   | _ \<Rightarrow> Inl (IncorrectNumberOfEmbeddingColumns tbl (length search_vectors)))))"

definition search ::
  "('b, ('x, 'pl, 'f, 'o) provider, 'j, 'f) search_services \<Rightarrow> ('xx, ('x, 'pl, 'f, 'o) provider, 'f) vector_search \<Rightarrow>
   search_request \<Rightarrow> (search_error, (table_reference, 'b table_result) hmap) result" where
  "search ss vs req =
     (let tables = map (ss_parse_ref ss) (sq_datasets req);
          tables_not_found = filter (\<lambda>t. \<not> ctx_has (vs_context vs) (vs_df vs) t) tables
      in if tables_not_found \<noteq> [] then Inl (DataSourcesNotFound tables_not_found)
         else and_then (calculate_embeddings_per_table vs (sq_text req) tables) (\<lambda>per_table_embeddings.
              and_then (get_primary_keys_with_overrides ss vs (vs_explicit_primary_keys vs) tables) (\<lambda>table_primary_keys.
              map_sum id hm_collect
                (try_collect (search_table ss vs req table_primary_keys) per_table_embeddings))))"

section \<open>Explicit primary keys\<close>

fun full_ref :: "table_reference \<Rightarrow> table_reference" where
  "full_ref r = (case resolve_ref r of (c, s, t) \<Rightarrow> FullRef c s t)"

definition parse_explicit_primary_keys ::
  "(string \<Rightarrow> table_reference) \<Rightarrow> app option \<Rightarrow> (table_reference, string list) hmap" where
  "parse_explicit_primary_keys parse_str app = (case app of
      None \<Rightarrow> []
    | Some a \<Rightarrow> hm_collect (List.map_filter (\<lambda>d.
        map_option (\<lambda>pks. (full_ref (parse_str (d_name d)), pks))
          (case List.map_filter cec_primary_keys (d_embeddings d) of [] \<Rightarrow> None | pks # _ \<Rightarrow> Some pks)) (app_datasets a)))"

section \<open>The handler\<close>

datatype 'j search_response = SearchFailed nat string | SearchMatches "'j search_match list"

definition search_post ::
  "('b, 'd) query_services \<Rightarrow> ('b, ('x, 'pl, 'f, 'o) provider, 'j, 'f) search_services \<Rightarrow>
   ('xx, ('x, 'pl, 'f, 'o) provider, 'f) vector_search \<Rightarrow> search_request \<Rightarrow> 'j search_response" where
  "search_post sv ss vs payload =
     (if sq_datasets payload = [] then SearchFailed 400 ''No data sources provided''
      else case search ss vs payload of
        Inl e \<Rightarrow> SearchFailed 500 (ss_show_error ss e)
      | Inr resp \<Rightarrow> (case to_matches sv ss resp of
          Inl e \<Rightarrow> SearchFailed 500 (ss_show_error ss e)
        | Inr m \<Rightarrow> SearchMatches m))"

section \<open>What a search returns\<close>

lemma map_sum_id_eq_Inr [simp]: "map_sum id f r = Inr y \<longleftrightarrow> (\<exists>x. r = Inr x \<and> y = f x)"
  by (cases r) auto

text \<open>The embedding table behind a reference.\<close>

definition embedding_table_of ::
  "('xx, ('x, 'pl, 'f, 'o) provider, 'f) vector_search \<Rightarrow> table_reference \<Rightarrow> ('x, 'pl, 'f) embedding_table option" where
  "embedding_table_of vs t = Option.bind (get_table (vs_context vs) (vs_df vs) t) get_embedding_table"

lemma relevant_models:
  assumes "find_relevant_embedding_models vs tables = Inr er"
  shows "hm_wf er" and "(t, names) \<in> set er \<longleftrightarrow>
    t \<in> set tables \<and> map_option get_embedding_models_used (embedding_table_of vs t) = Some names"
proof -
  let ?f = "\<lambda>ds. case get_table (vs_context vs) (vs_df vs) ds of
            None \<Rightarrow> Inl (DataSourcesNotFound [ds])
          | Some table \<Rightarrow> (case get_embedding_table table of
              None \<Rightarrow> Inl (NoEmbeddingColumns ds)
            | Some et \<Rightarrow> Inr (ds, get_embedding_models_used et))"
  obtain ps where ps: "try_collect ?f tables = Inr ps" "er = hm_collect ps"
    using assms by (auto simp: find_relevant_embedding_models_def)
  then show wf: "hm_wf er" by (simp add: hm_wf_collect)
  have entry: "?f ds = Inr p \<longleftrightarrow> fst p = ds \<and> map_option get_embedding_models_used (embedding_table_of vs ds) = Some (snd p)" for ds p
    by (cases p) (auto simp: embedding_table_of_def split: option.splits)
  have all: "list_all2 (\<lambda>ds p. fst p = ds \<and> map_option get_embedding_models_used (embedding_table_of vs ds) = Some (snd p)) tables ps"
    using ps(1) by (simp only: try_collect_Inr_iff entry)
  then have keys: "map fst ps = tables"
    by (auto simp: list_all2_conv_all_nth intro: nth_equalityI)
  have vals: "the (map_option get_embedding_models_used (embedding_table_of vs k)) = v" if "(k, v) \<in> set ps" for k v
    using all that by (fastforce simp: list_all2_conv_all_nth in_set_conv_nth)
  have some: "map_option get_embedding_models_used (embedding_table_of vs k) \<noteq> None" if "k \<in> set tables" for k
    using all that by (auto simp: list_all2_conv_all_nth in_set_conv_nth)
  have dom: "fst ` set ps = set tables" using keys by (metis set_map)
  have "hm_get er t = (if t \<in> set tables then Some (the (map_option get_embedding_models_used (embedding_table_of vs t))) else None)"
    unfolding ps(2) by (subst hm_get_collect_fun [OF vals]) (simp_all only: dom)
  then show "(t, names) \<in> set er \<longleftrightarrow>
      t \<in> set tables \<and> map_option get_embedding_models_used (embedding_table_of vs t) = Some names"
    using some [of t] by (auto simp flip: hm_get_iff_mem [OF wf])
qed

lemma embed_inputs_ok:
  assumes "embed_inputs run ms acc = Inr out" and "\<forall>m v. hm_get acc m = Some v \<longrightarrow> run m = Inr v"
  shows "(\<forall>m v. hm_get out m = Some v \<longrightarrow> run m = Inr v) \<and> (\<forall>m\<in>set ms \<union> dom (hm_get acc). hm_get out m \<noteq> None)"
  using assms
proof (induction ms arbitrary: acc)
  case (Cons m ms)
  from Cons.prems(1) obtain v where v: "run m = Inr v" "embed_inputs run ms (hm_insert m v acc) = Inr out"
    by (auto simp: and_then_eq_Inr)
  have kept: "\<forall>k w. hm_get (hm_insert m v acc) k = Some w \<longrightarrow> run k = Inr w"
    using v(1) Cons.prems(2) unfolding hm_get_insert by (metis fun_upd_apply option.inject)
  have dom: "dom (hm_get (hm_insert m v acc)) = insert m (dom (hm_get acc))" unfolding hm_get_insert by (auto simp: dom_def)
  from Cons.IH [OF v(2) kept] show ?case unfolding dom list.set by blast
qed (auto simp: dom_def)

lemma search_keys: "search_table ss vs req pks tv = Inr p \<Longrightarrow> fst p = fst tv"
  by (auto simp: search_table_def split: prod.splits option.splits list.splits)

text \<open>
  A table that was searched has exactly one embedded column, whose model embedded the query.
\<close>

lemma search_table_ok:
  assumes "search_table ss vs req pks (t, vecs) = Inr (t', r)"
  shows "\<exists>e c v. embedding_table_of vs t = Some e \<and> hd (get_embedding_columns e) = c \<and> get_embedding_columns e \<noteq> [] \<and> vecs = [v] \<and>
    individual_search ss t v (case hm_get pks t of Some ks \<Rightarrow> ks | None \<Rightarrow> []) c
      (sq_additional_columns req) (sq_where_cond req) (sq_limit req) = Inr r"
  using assms
  by (auto simp: search_table_def embedding_table_of_def split: option.splits list.splits bind_splits)

lemma relevant_tables:
  assumes "find_relevant_embedding_models vs tables = Inr er"
  shows "fst ` set er = set tables"
proof -
  have "embedding_table_of vs t \<noteq> None" if "t \<in> set tables" for t
  proof -
    obtain ps where "list_all2 (\<lambda>ds p. (case get_table (vs_context vs) (vs_df vs) ds of
            None \<Rightarrow> Inl (DataSourcesNotFound [ds])
          | Some table \<Rightarrow> (case get_embedding_table table of
              None \<Rightarrow> Inl (NoEmbeddingColumns ds)
            | Some et \<Rightarrow> Inr (ds, get_embedding_models_used et))) = Inr p) tables ps"
      using assms by (auto simp: find_relevant_embedding_models_def try_collect_Inr_iff)
    then have "\<exists>p. (case get_table (vs_context vs) (vs_df vs) t of
            None \<Rightarrow> Inl (DataSourcesNotFound [t])
          | Some table \<Rightarrow> (case get_embedding_table table of
              None \<Rightarrow> Inl (NoEmbeddingColumns t)
            | Some et \<Rightarrow> Inr (t, get_embedding_models_used et))) = Inr p"
      by (rule list_all2_mem1 [THEN bexE]) (use that in blast)+
    then show ?thesis by (auto simp: embedding_table_of_def split: option.splits)
  qed
  then have "\<exists>names. (t, names) \<in> set er" if "t \<in> set tables" for t
    using relevant_models(2) [OF assms, of t] that by blast
  then show ?thesis using relevant_models(2) [OF assms] by force
qed

text \<open>The vectors of a table are those its models give for the text, in the order of its columns.\<close>

lemma per_table_vectors:
  assumes "calculate_embeddings_per_table vs query tables = Inr pt"
  shows "distinct (map fst pt)" and "fst ` set pt = set tables"
    and "(t, vecs) \<in> set pt \<Longrightarrow>
      \<exists>e. embedding_table_of vs t = Some e \<and> list_all2 (\<lambda>m v. embed_text vs query m = Inr v) (get_embedding_models_used e) vecs"
proof -
  obtain er out where er: "find_relevant_embedding_models vs tables = Inr er"
    and out: "embed_inputs (embed_text vs query) (concat (map snd er)) [] = Inr out"
    and pt: "pt = map (\<lambda>(t, names). (t, List.map_filter (hm_get out) names)) er"
    using assms by (auto simp: calculate_embeddings_per_table_def and_then_eq_Inr)
  have fst: "map fst pt = map fst er" by (simp add: pt case_prod_beta comp_def)
  then show "distinct (map fst pt)" using relevant_models(1) [OF er] by (simp add: hm_wf_def)
  show "fst ` set pt = set tables" using fst relevant_tables [OF er] by (metis set_map)
  have emb: "\<forall>m v. hm_get out m = Some v \<longrightarrow> embed_text vs query m = Inr v"
    "\<forall>m\<in>set (concat (map snd er)). hm_get out m \<noteq> None"
    using embed_inputs_ok [OF out] by auto
  assume "(t, vecs) \<in> set pt"
  then obtain names where names: "(t, names) \<in> set er" "vecs = List.map_filter (hm_get out) names"
    by (auto simp: pt)
  then obtain e where e: "embedding_table_of vs t = Some e" "names = get_embedding_models_used e"
    using relevant_models(2) [OF er] by auto
  have all: "\<forall>m\<in>set names. hm_get out m \<noteq> None" using emb(2) names(1) by fastforce
  then have "vecs = map (\<lambda>m. the (hm_get out m)) names" using map_filter_total names(2) by blast
  moreover have "embed_text vs query m = Inr (the (hm_get out m))" if "m \<in> set names" for m
    using that all emb(1) by force
  ultimately have "list_all2 (\<lambda>m v. embed_text vs query m = Inr v) names vecs"
    by (simp add: list_all2_map2 list.rel_refl_strong)
  with e show "\<exists>e. embedding_table_of vs t = Some e \<and>
      list_all2 (\<lambda>m v. embed_text vs query m = Inr v) (get_embedding_models_used e) vecs" by blast
qed

lemma searched_keys:
  "list_all2 (\<lambda>x y. search_table ss vs req pk x = Inr y) pt ps \<Longrightarrow> map fst ps = map fst pt"
  by (induction rule: list_all2_induct) (auto dest: search_keys)

text \<open>
  (C35) A search answers for every dataset that was named and for no other, and each answer is that
  of the distance query over the one embedded column of the table, with the vector its model gives
  for the text of the request. So a table with several embedded columns is never searched.
\<close>

theorem search_answers_every_table:
  assumes "search ss vs req = Inr resp"
  shows "dom (hm_get resp) = set (map (ss_parse_ref ss) (sq_datasets req)) \<and>
    (\<forall>t r. hm_get resp t = Some r \<longrightarrow>
      (\<exists>e c m v pks. embedding_table_of vs t = Some e \<and> et_embedded_columns e = [(c, m)] \<and>
         embed_text vs (sq_text req) m = Inr v \<and>
         individual_search ss t v pks c (sq_additional_columns req) (sq_where_cond req) (sq_limit req) = Inr r))"
proof -
  let ?tables = "map (ss_parse_ref ss) (sq_datasets req)"
  obtain pt pk ps where pt: "calculate_embeddings_per_table vs (sq_text req) ?tables = Inr pt"
    and ps: "list_all2 (\<lambda>x y. search_table ss vs req pk x = Inr y) pt ps" and resp: "resp = hm_collect ps"
    using assms by (auto simp: search_def Let_def and_then_eq_Inr try_collect_Inr_iff split: if_splits)
  note vectors = per_table_vectors [OF pt] and keys = searched_keys [OF ps]
  have get: "hm_get resp t = Some r \<longleftrightarrow> (t, r) \<in> set ps" for t r
    using vectors(1) keys by (simp add: resp hm_get_collect map_of_rev_distinct)
  have "dom (hm_get resp) = fst ` set ps" using get by (force simp: dom_def)
  also have "\<dots> = set ?tables" using keys vectors(2) by (metis set_map)
  finally have dom: "dom (hm_get resp) = set ?tables" .
  have "\<exists>e c m v pks. embedding_table_of vs t = Some e \<and> et_embedded_columns e = [(c, m)] \<and>
         embed_text vs (sq_text req) m = Inr v \<and>
         individual_search ss t v pks c (sq_additional_columns req) (sq_where_cond req) (sq_limit req) = Inr r"
    if "hm_get resp t = Some r" for t r
  proof -
    from that get obtain tv where tv: "tv \<in> set pt" "search_table ss vs req pk tv = Inr (t, r)"
      using list_all2_mem2 [OF ps] by blast
    have "fst tv = t" using search_keys [OF tv(2)] by simp
    then obtain vecs where "tv = (t, vecs)" by (metis prod.collapse)
    with tv search_table_ok [of ss vs req pk t vecs t r] vectors(3) [of t vecs]
    obtain e v where e: "embedding_table_of vs t = Some e"
      and v: "list_all2 (\<lambda>m v. embed_text vs (sq_text req) m = Inr v) (get_embedding_models_used e) [v]"
      and r: "individual_search ss t v (case hm_get pk t of Some ks \<Rightarrow> ks | None \<Rightarrow> []) (hd (get_embedding_columns e))
        (sq_additional_columns req) (sq_where_cond req) (sq_limit req) = Inr r" by auto
    from v obtain c m where "et_embedded_columns e = [(c, m)]" "embed_text vs (sq_text req) m = Inr v"
      by (auto simp: get_embedding_models_used_def list_all2_Cons2)
    with e r show ?thesis by (auto simp: get_embedding_columns_def)
  qed
  with dom show ?thesis by blast
qed

section \<open>Explicit primary keys\<close>

text \<open>
  The primary keys the spicepod gives for a dataset are found only under its full name: they
  are stored under references completed with catalog and schema and looked up under the references
  of the request as they were written, so for a bare or partial name they are not used.
\<close>

theorem explicit_keys_need_full_names:
  assumes "\<And>c s n. t \<noteq> FullRef c s n" and "get_primary_keys ss vs t = Inr []"
  shows "get_primary_keys_with_overrides ss vs (parse_explicit_primary_keys parse_str app) [t] = Inr []"
proof -
  have "full_ref r \<noteq> t" for r using assms(1) [of "fst (resolve_ref r)" "fst (snd (resolve_ref r))" "snd (snd (resolve_ref r))"]
    by (auto simp: case_prod_beta)
  then have "t \<notin> fst ` set (List.map_filter (\<lambda>d.
        map_option (\<lambda>pks. (full_ref (parse_str (d_name d)), pks))
          (case List.map_filter cec_primary_keys (d_embeddings d) of [] \<Rightarrow> None | pks # _ \<Rightarrow> Some pks)) ds)" for ds
    by (auto simp del: full_ref.simps simp: mem_map_filter)
  then have "hm_get (parse_explicit_primary_keys parse_str app) t = None"
    unfolding parse_explicit_primary_keys_def by (cases app) (simp_all only: option.case hm_get_collect map_of_eq_None_iff set_rev, simp_all)
  with assms(2) show ?thesis by (simp add: get_primary_keys_with_overrides_def)
qed

section \<open>Matches of a table\<close>

text \<open>
  A table's matches are complete exactly when its first batch has rows: with JSON that has one
  object per row, every row becomes a match when the first batch of the result has a row, and none
  does when it is empty, whatever follows.
\<close>

theorem matches_need_first_batch:
  assumes json: "\<And>bs. \<exists>objs. and_then (write_to_json_string sv bs) (ss_from_json ss) = Inr objs \<and>
      length objs = sum_list (map (sv_num_rows sv) bs)"
    and strings: "\<And>b. b \<in> set (tr_embedded_column res) \<Longrightarrow> length (column_values ss b) = sv_num_rows sv b"
    and rows: "map (sv_num_rows sv) (tr_primary_key res) = map (sv_num_rows sv) (tr_embedded_column res)"
      "map (sv_num_rows sv) (tr_additional_columns res) = map (sv_num_rows sv) (tr_embedded_column res)"
  shows "\<exists>ms. table_to_matches sv ss tbl res = Inr ms \<and>
    length ms = (if case tr_embedded_column res of [] \<Rightarrow> False | b # _ \<Rightarrow> 0 < sv_num_rows sv b
                 then sum_list (map (sv_num_rows sv) (tr_embedded_column res)) else 0)"
proof -
  let ?n = "sum_list (map (sv_num_rows sv) (tr_embedded_column res))"
  let ?first = "case tr_embedded_column res of [] \<Rightarrow> False | b # _ \<Rightarrow> 0 < sv_num_rows sv b"
  have obj: "\<exists>objs. json_rows sv ss bs = Inr objs \<and> length objs = (if ?first then ?n else 0)"
    if "map (sv_num_rows sv) bs = map (sv_num_rows sv) (tr_embedded_column res)" for bs
  proof -
    have "(case bs of [] \<Rightarrow> False | p # _ \<Rightarrow> 0 < sv_num_rows sv p) = ?first"
      using that by (cases bs; cases "tr_embedded_column res") auto
    with json [of bs] that show ?thesis by (auto simp: json_rows_def)
  qed
  have "length (concat (map (column_values ss) (tr_embedded_column res))) = ?n"
    using strings by (simp add: length_concat comp_def cong: map_cong)
  with obj [OF rows(1)] obj [OF rows(2)] show ?thesis
    by (auto simp: table_to_matches_def Let_def)
qed

section \<open>Examples\<close>

definition demo_search_services :: "(string, (unit, unit, nat, unit) provider, unit, nat) search_services" where
  "demo_search_services =
     \<lparr>ss_parse_ref = Bare, ss_show_ref = table_of, ss_quote_identifier = (\<lambda>s. s), ss_show_vector = (\<lambda>_. ''[]''),
      ss_run_sql = (\<lambda>_. Inr [''x'']), ss_project = (\<lambda>_ b. Inr b), ss_first_column = (\<lambda>b. Some (map (\<lambda>c. Some [c]) b)),
      ss_constraints = (\<lambda>_. None), ss_project_names = (\<lambda>_ _. Inr []),
      ss_from_json = (\<lambda>s. Inr (map (\<lambda>_. []) s)), ss_show_error = (\<lambda>_. [])\<rparr>"

theorem matches_need_first_batch_witness:
  "\<exists>ms. table_to_matches demo_services demo_search_services (Bare ''t'')
     \<lparr>tr_primary_key = ['''', ''x''], tr_embedded_column = ['''', ''x''], tr_additional_columns = ['''', ''x'']\<rparr> = Inr ms \<and>
     length ms = 0"
  using matches_need_first_batch [of demo_services demo_search_services
      "\<lparr>tr_primary_key = ['''', ''x''], tr_embedded_column = ['''', ''x''], tr_additional_columns = ['''', ''x'']\<rparr>" "Bare ''t''"]
  by (simp add: demo_services_def demo_search_services_def write_to_json_string_def column_values_def length_concat)

definition demo_docs :: "(unit, unit, nat) embedding_table" where
  "demo_docs = embedding_table_new
     \<lparr>bt_fields = [demo_field ''a''], bt_scan = (\<lambda>_ _ _. Inr ()), bt_insert_into = (\<lambda>_ _. Inr ())\<rparr>
     [(''a'', ''m'')] [(''m'', \<lparr>em_embed = (\<lambda>xs. Inr (map (\<lambda>x. [length x]) xs)), em_size = 1\<rparr>)]"

definition demo_search :: "((unit, unit, nat, unit) provider nested, (unit, unit, nat, unit) provider, nat) vector_search" where
  "demo_search = \<lparr>vs_context = nested_context, vs_df = [(''spice'', [(''public'', [(''docs'', EmbeddingProvider demo_docs)])])],
     vs_embeddings = et_embedding_models demo_docs, vs_explicit_primary_keys = []\<rparr>"

lemma demo_lookup: "get_table nested_context (vs_df demo_search) (Bare ''docs'') = Some (EmbeddingProvider demo_docs)"
  by (simp add: demo_search_def get_table_def nested_context_def nested_schema_def sp_table_def)

theorem explicit_keys_need_full_names_witness:
  "get_primary_keys_with_overrides demo_search_services demo_search (parse_explicit_primary_keys Bare None) [Bare ''docs''] = Inr []"
proof -
  have "get_primary_keys demo_search_services demo_search (Bare ''docs'') = Inr []"
    using demo_lookup by (simp add: get_primary_keys_def demo_search_services_def demo_search_def)
  from explicit_keys_need_full_names [OF _ this] show ?thesis by simp
qed

text \<open>The search of the documents of the example succeeds.\<close>

lemma demo_search_ok: "\<exists>resp. search demo_search_services demo_search (search_request_new ''hi'' [''docs''] default_limit None []) = Inr resp"
proof -
  have "ctx_has (vs_context demo_search) (vs_df demo_search) (Bare ''docs'')"
    using demo_lookup by (simp add: ctx_has_def demo_search_def nested_context_def nested_lookup_def nested_schema_def
      get_table_def sp_table_def split: option.splits)
  moreover have "vs_context demo_search = nested_context" by (simp add: demo_search_def)
  moreover have "vs_embeddings demo_search = [(''m'', \<lparr>em_embed = (\<lambda>xs. Inr (map (\<lambda>x. [length x]) xs)), em_size = 1\<rparr>)]"
    "et_embedded_columns demo_docs = [(''a'', ''m'')]"
    by (simp_all add: demo_search_def demo_docs_def embedding_table_new_def)
  ultimately show ?thesis
    using demo_lookup
    by (simp add: search_def search_request_new_def demo_search_services_def calculate_embeddings_per_table_def
        find_relevant_embedding_models_def get_embedding_table_def get_embedding_models_used_def hm_collect_def
        embed_text_def get_primary_keys_with_overrides_def get_primary_keys_def search_table_def get_embedding_columns_def
        individual_search_def project_all_def List.map_filter_simps)
qed

theorem search_answers_every_table_witness:
  "\<exists>resp. search demo_search_services demo_search (search_request_new ''hi'' [''docs''] default_limit None []) = Inr resp \<and>
     dom (hm_get resp) = {Bare ''docs''}"
proof -
  obtain resp where r: "search demo_search_services demo_search (search_request_new ''hi'' [''docs''] default_limit None []) = Inr resp"
    using demo_search_ok by blast
  from search_answers_every_table [OF r] have "dom (hm_get resp) = {Bare ''docs''}"
    by (simp add: demo_search_services_def search_request_new_def)
  with r show ?thesis by blast
qed

end
