(* ===== verification/Secret_Lexer.thy ===== *)
theory Secret_Lexer
  imports Spice_Prelude
begin

text \<open>
  Secret references in parameter strings (\<open>crates/runtime/src/secrets/lexer.rs\<close>). The tokens
  come from a lexer that \<open>logos\<close> generates from the attributes on \<open>SecretReplacementToken\<close>; the
  matcher only sees the items it yields, each a token or an error with its byte span, so the
  matcher is defined over such a list. \<open>secret_lexer\<close> is the lexer those attributes describe:
  whitespace skipped, the longest match wins, a byte no rule matches is an error of its own.
\<close>

section \<open>Tokens and the lexer\<close>

datatype secret_token = Start | Identifier string | Colon | End

text \<open>An item of the lexer: the token or an error, and the start and end of its span.\<close>

type_synonym lexed = "(unit, secret_token) result \<times> nat \<times> nat"

record replacement_match =
  store_name :: string
  key :: string
  span_start :: nat
  span_end :: nat

definition is_blank :: "char \<Rightarrow> bool" where
  "is_blank c \<longleftrightarrow> c \<in> {CHR '' '', CHR 0x09, CHR 0x0A, CHR 0x0C}"

definition ident_start :: "char \<Rightarrow> bool" where
  "ident_start c \<longleftrightarrow> (let n = of_char c :: nat in (65 \<le> n \<and> n \<le> 90) \<or> (97 \<le> n \<and> n \<le> 122))"

definition ident_char :: "char \<Rightarrow> bool" where
  "ident_char c \<longleftrightarrow> (let n = of_char c :: nat in
     (65 \<le> n \<and> n \<le> 90) \<or> (97 \<le> n \<and> n \<le> 122) \<or> (48 \<le> n \<and> n \<le> 57) \<or> n = 95 \<or> n = 45)"

function lex_from :: "nat \<Rightarrow> string \<Rightarrow> lexed list" where
  "lex_from pos [] = []"
| "lex_from pos (c # cs) =
     (if is_blank c then lex_from (pos + 1) cs
      else if c = CHR ''$'' then
        (if cs \<noteq> [] \<and> hd cs = CHR ''{'' then (Inr Start, pos, pos + 2) # lex_from (pos + 2) (tl cs)
         else (Inl (), pos, pos + 1) # lex_from (pos + 1) cs)
      else if ident_start c then
        (let w = takeWhile ident_char cs; n = Suc (length w) in
         (Inr (Identifier (c # w)), pos, pos + n) # lex_from (pos + n) (dropWhile ident_char cs))
      else if c = CHR '':'' then (Inr Colon, pos, pos + 1) # lex_from (pos + 1) cs
      else if c = CHR ''}'' then (Inr End, pos, pos + 1) # lex_from (pos + 1) cs
      else (Inl (), pos, pos + 1) # lex_from (pos + 1) cs)"
  by pat_completeness auto
termination
  by (relation "measure (\<lambda>(pos, s). length s)") (auto simp: le_imp_less_Suc length_dropWhile_le)

declare lex_from.simps(2) [simp del]

definition secret_lexer :: "string \<Rightarrow> lexed list" where
  "secret_lexer s = lex_from 0 s"

section \<open>The matcher\<close>

text \<open>
  \<open>Iterator::next\<close>: outside a reference every item but \<open>${\<close> is skipped; inside, a token of the
  wrong kind resumes the search behind it and an error or the end of the input ends the
  iteration (\<open>self.lexer.next()?.ok()?\<close>).
\<close>

fun next_token :: "lexed list \<Rightarrow> (secret_token \<times> nat \<times> lexed list) option" where
  "next_token [] = None"
| "next_token ((Inl _, _) # ts) = None"
| "next_token ((Inr t, _, e) # ts) = Some (t, e, ts)"

fun identifier_of :: "secret_token \<Rightarrow> string option" where
  "identifier_of (Identifier i) = Some i"
| "identifier_of _ = None"

lemma next_token_Some: "next_token ts = Some (t, e, ts') \<longleftrightarrow> (\<exists>s. ts = (Inr t, s, e) # ts')"
  by (cases ts rule: next_token.cases) auto

lemma next_token_less [simp]: "next_token ts = Some (t, e, ts') \<Longrightarrow> length ts' < length ts"
  by (auto simp: next_token_Some)

function matcher_next :: "lexed list \<Rightarrow> (replacement_match \<times> lexed list) option" where
  "matcher_next [] = None"
| "matcher_next ((r, start_span, end1) # ts) =
     (if r \<noteq> Inr Start then matcher_next ts else
      (case next_token ts of None \<Rightarrow> None
       | Some (t1, _, ts1) \<Rightarrow>
      (case identifier_of t1 of None \<Rightarrow> matcher_next ts1
       | Some store \<Rightarrow>
      (case next_token ts1 of None \<Rightarrow> None
       | Some (t2, _, ts2) \<Rightarrow>
      (if t2 \<noteq> Colon then matcher_next ts2 else
      (case next_token ts2 of None \<Rightarrow> None
       | Some (t3, _, ts3) \<Rightarrow>
      (case identifier_of t3 of None \<Rightarrow> matcher_next ts3
       | Some k \<Rightarrow>
      (case next_token ts3 of None \<Rightarrow> None
       | Some (t4, end_span, ts4) \<Rightarrow>
      (if t4 \<noteq> End then matcher_next ts4 else
         Some (\<lparr>store_name = store, key = k, span_start = start_span, span_end = end_span\<rparr>,
           ts4))))))))))"
  by pat_completeness auto
termination
  by (relation "measure length") (auto simp: next_token_Some)

declare matcher_next.simps(2) [simp del]

lemmas matcher_step = matcher_next.simps(2) next_token_Some

lemma matcher_next_step:
  assumes "matcher_next ((r, s, e) # ts) = Some (m, ts')"
  obtains (skipped) n where "matcher_next (drop n ts) = Some (m, ts')"
  | (found) store k s1 e1 s2 e2 s3 e3 s4 e4 where
      "ts = (Inr (Identifier store), s1, e1) # (Inr Colon, s2, e2) #
         (Inr (Identifier k), s3, e3) # (Inr End, s4, e4) # ts'"
      "m = \<lparr>store_name = store, key = k, span_start = s, span_end = e4\<rparr>"
proof -
  have ident: "identifier_of t = Some i \<longleftrightarrow> t = Identifier i" for t i
    by (cases t) auto
  from assms consider "matcher_next ts = Some (m, ts')" | x where "matcher_next (drop 1 ts) = Some (m, ts')"
    | "matcher_next (drop 2 ts) = Some (m, ts')" | "matcher_next (drop 3 ts) = Some (m, ts')"
    | "matcher_next (drop 4 ts) = Some (m, ts')"
    | store k s1 e1 s2 e2 s3 e3 s4 e4 where
      "ts = (Inr (Identifier store), s1, e1) # (Inr Colon, s2, e2) #
         (Inr (Identifier k), s3, e3) # (Inr End, s4, e4) # ts'"
      "m = \<lparr>store_name = store, key = k, span_start = s, span_end = e4\<rparr>"
    by (auto simp: matcher_step ident eval_nat_numeral split: option.splits if_splits)
  then show thesis
    by cases (use skipped [of 0] skipped [of 1] skipped [of 2] skipped [of 3] skipped [of 4] found in auto)
qed

lemma matcher_next_shorter:
  "matcher_next ts = Some (m, ts') \<Longrightarrow> length ts' < length ts"
proof (induction ts rule: length_induct)
  case (1 ts)
  then obtain r s e us where ts: "ts = (r, s, e) # us" by (cases ts) auto
  from "1.prems" have "matcher_next ((r, s, e) # us) = Some (m, ts')" by (simp add: ts)
  then show ?case
  proof (cases rule: matcher_next_step)
    case (skipped n)
    then show ?thesis using "1.IH" [rule_format, of "drop n us"] ts by fastforce
  qed (simp add: ts)
qed

text \<open>The matches of the iterator, in order.\<close>

function collect_matches :: "lexed list \<Rightarrow> replacement_match list" where
  "collect_matches ts = (case matcher_next ts of None \<Rightarrow> [] | Some (m, ts') \<Rightarrow> m # collect_matches ts')"
  by pat_completeness auto
termination
  by (relation "measure length") (auto simp: matcher_next_shorter)

declare collect_matches.simps [simp del]

section \<open>What the matcher relies on\<close>

text \<open>Spans are non-empty, inside the input and in order, with no overlap.\<close>

fun spans_ok :: "nat \<Rightarrow> nat \<Rightarrow> lexed list \<Rightarrow> bool" where
  "spans_ok lo hi [] \<longleftrightarrow> lo \<le> hi"
| "spans_ok lo hi ((r, s, e) # ts) \<longleftrightarrow> lo \<le> s \<and> s < e \<and> e \<le> hi \<and> spans_ok e hi ts"

fun matches_ok :: "nat \<Rightarrow> nat \<Rightarrow> replacement_match list \<Rightarrow> bool" where
  "matches_ok lo hi [] \<longleftrightarrow> lo \<le> hi"
| "matches_ok lo hi (m # ms) \<longleftrightarrow>
     lo \<le> span_start m \<and> span_start m < span_end m \<and> span_end m \<le> hi \<and> matches_ok (span_end m) hi ms"

lemma spans_ok_weaken: "spans_ok lo hi ts \<Longrightarrow> lo' \<le> lo \<Longrightarrow> spans_ok lo' hi ts"
  by (cases "(lo, hi, ts)" rule: spans_ok.cases) auto

lemma spans_ok_drop: "spans_ok lo hi ts \<Longrightarrow> spans_ok lo hi (drop n ts)"
proof (induction n arbitrary: ts)
  case (Suc n)
  show ?case
  proof (cases ts)
    case (Cons x us)
    with Suc.prems have "spans_ok lo hi us" by (cases x) (auto intro: spans_ok_weaken)
    then show ?thesis using Suc.IH Cons by simp
  qed (use Suc.prems in simp)
qed simp

lemma matcher_next_spans:
  "matcher_next ts = Some (m, ts') \<Longrightarrow> spans_ok lo hi ts \<Longrightarrow>
   lo \<le> span_start m \<and> span_start m < span_end m \<and> span_end m \<le> hi \<and> spans_ok (span_end m) hi ts'"
proof (induction ts rule: length_induct)
  case (1 ts)
  then obtain r s e us where ts: "ts = (r, s, e) # us" by (cases ts) auto
  from "1.prems" have "matcher_next ((r, s, e) # us) = Some (m, ts')" by (simp add: ts)
  then show ?case
  proof (cases rule: matcher_next_step)
    case (skipped n)
    moreover have "spans_ok lo hi (drop (Suc n) ts)" using "1.prems"(2) by (rule spans_ok_drop)
    ultimately show ?thesis using "1.IH" [rule_format, of "drop n us"] ts by fastforce
  next
    case found
    with "1.prems"(2) show ?thesis unfolding ts by simp
  qed
qed

lemma collect_matches_ok: "spans_ok lo hi ts \<Longrightarrow> matches_ok lo hi (collect_matches ts)"
proof (induction ts arbitrary: lo rule: collect_matches.induct)
  case (1 ts)
  show ?case
  proof (cases "matcher_next ts")
    case None
    have "lo \<le> hi" using "1.prems" by (induction ts arbitrary: lo) auto
    with None show ?thesis by (simp add: collect_matches.simps [of ts])
  next
    case (Some p)
    then obtain m ts' where p: "matcher_next ts = Some (m, ts')" by (cases p) auto
    from matcher_next_spans [OF p "1.prems"] "1.IH" [OF p refl] show ?thesis
      by (simp add: collect_matches.simps [of ts] p)
  qed
qed

locale logos_lexer =
  fixes lexer :: "string \<Rightarrow> lexed list"
  assumes spans_in_input: "spans_ok 0 (length s) (lexer s)"
begin

lemma matches_in_input: "matches_ok 0 (length s) (collect_matches (lexer s))"
  by (rule collect_matches_ok) (rule spans_in_input)

end

section \<open>The generated lexer meets the contract\<close>

lemma lex_from_spans: "spans_ok pos (pos + length s) (lex_from pos s)"
proof (induction pos s rule: lex_from.induct)
  case (2 pos c cs)
  have len: "length cs = length (takeWhile ident_char cs) + length (dropWhile ident_char cs)"
    by (metis length_append takeWhile_dropWhile_id)
  consider "is_blank c" | "\<not> is_blank c" "c = CHR ''$''" "cs \<noteq> []" "hd cs = CHR ''{''"
    | "\<not> is_blank c" "c = CHR ''$''" "\<not> (cs \<noteq> [] \<and> hd cs = CHR ''{'')"
    | "\<not> is_blank c" "c \<noteq> CHR ''$''" "ident_start c"
    | "\<not> is_blank c" "c \<noteq> CHR ''$''" "\<not> ident_start c"
    by blast
  then show ?case
  proof cases
    case 1
    with 2(1) show ?thesis
      by (simp add: lex_from.simps(2) [of pos c cs] spans_ok_weaken)
  next
    case 2
    with "2.IH"(2) show ?thesis
      by (cases cs) (simp_all add: lex_from.simps(2))
  next
    case 3
    with "2.IH"(3) show ?thesis
      by (auto simp: lex_from.simps(2) [of _ "CHR ''$''"])
  next
    case 4
    with "2.IH"(4) [OF 4 refl refl] len show ?thesis
      by (simp add: lex_from.simps(2) [of pos c cs] Let_def add.assoc)
  next
    case 5
    with "2.IH"(5,6,7) show ?thesis
      by (cases "c = CHR '':''"; cases "c = CHR ''}''")
         (simp_all add: lex_from.simps(2))
  qed
qed simp

interpretation sl: logos_lexer secret_lexer
  by unfold_locales (use lex_from_spans [of 0] in \<open>simp add: secret_lexer_def\<close>)

section \<open>Lexing templates\<close>

lemma not_ident_char [simp]:
  "\<not> ident_char CHR ''$''" "\<not> ident_char CHR '':''" "\<not> ident_char CHR ''}''" "\<not> ident_char CHR ''{''"
  "\<not> is_blank CHR ''$''" "\<not> is_blank CHR '':''" "\<not> is_blank CHR ''}''"
  "\<not> ident_start CHR '':''" "\<not> ident_start CHR ''}''" "\<not> ident_start CHR ''$''"
  by (simp_all add: ident_char_def is_blank_def ident_start_def)

lemma lex_Start [simp]: "lex_from pos (CHR ''$'' # CHR ''{'' # r) = (Inr Start, pos, pos + 2) # lex_from (pos + 2) r"
  and lex_Colon [simp]: "lex_from pos (CHR '':'' # r) = (Inr Colon, pos, pos + 1) # lex_from (pos + 1) r"
  and lex_End [simp]: "lex_from pos (CHR ''}'' # r) = (Inr End, pos, pos + 1) # lex_from (pos + 1) r"
  by (simp_all add: lex_from.simps(2))

definition valid_ident :: "string \<Rightarrow> bool" where
  "valid_ident w \<longleftrightarrow> w \<noteq> [] \<and> ident_start (hd w) \<and> list_all ident_char (tl w)"

lemma ident_start_not [simp]: "ident_start c \<Longrightarrow> \<not> is_blank c" "ident_start c \<Longrightarrow> c \<noteq> CHR ''$''"
  by (auto simp: ident_start_def is_blank_def)

lemma lex_identifier:
  assumes "valid_ident w" and "\<not> ident_char c"
  shows "lex_from pos (w @ c # r) =
    (Inr (Identifier w), pos, pos + length w) # lex_from (pos + length w) (c # r)"
proof -
  obtain x v where w: "w = x # v" "ident_start x" and v: "\<forall>y\<in>set v. ident_char y"
    using assms(1) by (cases w) (auto simp: valid_ident_def list_all_iff)
  have "takeWhile ident_char (v @ c # r) = v" "dropWhile ident_char (v @ c # r) = c # r"
    using v assms(2) by (simp_all add: takeWhile_append2 dropWhile_append2)
  with w show ?thesis by (simp add: lex_from.simps(2) Let_def)
qed

text \<open>Text in front of a \<open>$\<close> is lexed on its own.\<close>

lemma lex_append_dollar:
  "lex_from pos (pre @ CHR ''$'' # r) = lex_from pos pre @ lex_from (pos + length pre) (CHR ''$'' # r)"
  if "CHR ''$'' \<notin> set pre"
  using that
proof (induction pos pre rule: lex_from.induct)
  case (2 pos c cs)
  have tw: "takeWhile ident_char (cs @ CHR ''$'' # r) = takeWhile ident_char cs"
    by (simp add: takeWhile_tail)
  have dw: "dropWhile ident_char (cs @ CHR ''$'' # r) = dropWhile ident_char cs @ CHR ''$'' # r"
    by (metis dropWhile_append3 not_ident_char(1) dropWhile.simps(2) dropWhile_append1 dropWhile_append2)
  have len: "length (takeWhile ident_char cs) + length (dropWhile ident_char cs) = length cs"
    by (metis length_append takeWhile_dropWhile_id)
  from "2.prems" have "CHR ''$'' \<notin> set (dropWhile ident_char cs)"
    by (metis list.set_intros(2) set_dropWhileD)
  moreover from "2.prems" have "c \<noteq> CHR ''$''" by auto
  ultimately show ?case using 2 tw dw len
    by (simp add: lex_from.simps(2) [of _ c] Let_def add.assoc)
qed simp

definition no_start :: "lexed list \<Rightarrow> bool" where
  "no_start ts \<longleftrightarrow> (\<forall>(r, s, e) \<in> set ts. r \<noteq> Inr Start)"

lemma lex_no_start: "CHR ''$'' \<notin> set s \<Longrightarrow> no_start (lex_from pos s)"
proof (induction pos s rule: lex_from.induct)
  case (2 pos c cs)
  from "2.prems" have "CHR ''$'' \<notin> set (dropWhile ident_char cs)"
    by (metis list.set_intros(2) set_dropWhileD)
  with 2 show ?case
    by (auto simp: lex_from.simps(2) [of _ c] Let_def no_start_def)
qed (simp add: no_start_def)

lemma matcher_next_no_start: "no_start us \<Longrightarrow> matcher_next (us @ ts) = matcher_next ts"
  by (induction us) (auto simp: no_start_def matcher_next.simps(2))

lemma collect_matches_no_start: "no_start us \<Longrightarrow> collect_matches (us @ ts) = collect_matches ts"
  by (simp add: collect_matches.simps [of "us @ ts"] collect_matches.simps [of ts] matcher_next_no_start)

definition template :: "string \<Rightarrow> string \<Rightarrow> string" where
  "template store k = ''${'' @ store @ '':'' @ k @ ''}''"

lemma lex_template:
  assumes "valid_ident store" and "valid_ident k"
  shows "\<exists>s1 e1 s2 e2 s3 e3 s4. lex_from pos (template store k @ post) =
    (Inr Start, pos, pos + 2) # (Inr (Identifier store), s1, e1) # (Inr Colon, s2, e2) #
    (Inr (Identifier k), s3, e3) # (Inr End, s4, pos + length (template store k)) #
    lex_from (pos + length (template store k)) post"
  using assms by (simp add: template_def lex_identifier add.assoc)

lemma collect_matches_template:
  assumes "valid_ident store" and "valid_ident k" and "CHR ''$'' \<notin> set pre"
  shows "collect_matches (lex_from pos (pre @ template store k @ post)) =
    \<lparr>store_name = store, key = k, span_start = pos + length pre,
     span_end = pos + length pre + length (template store k)\<rparr> #
    collect_matches (lex_from (pos + length pre + length (template store k)) post)"
proof -
  obtain s1 e1 s2 e2 s3 e3 s4 where t: "lex_from (pos + length pre) (template store k @ post) =
    (Inr Start, pos + length pre, pos + length pre + 2) # (Inr (Identifier store), s1, e1) #
    (Inr Colon, s2, e2) # (Inr (Identifier k), s3, e3) #
    (Inr End, s4, pos + length pre + length (template store k)) #
    lex_from (pos + length pre + length (template store k)) post"
    using lex_template [OF assms(1,2)] by blast
  have "lex_from pos (pre @ template store k @ post) =
      lex_from pos pre @ lex_from (pos + length pre) (template store k @ post)"
    using lex_append_dollar [OF assms(3), of pos "''{'' @ store @ '':'' @ k @ ''}'' @ post"]
    by (simp add: template_def)
  then have "collect_matches (lex_from pos (pre @ template store k @ post)) =
      collect_matches (lex_from (pos + length pre) (template store k @ post))"
    by (simp add: collect_matches_no_start lex_no_start assms(3))
  also have "\<dots> = \<lparr>store_name = store, key = k, span_start = pos + length pre,
     span_end = pos + length pre + length (template store k)\<rparr> #
    collect_matches (lex_from (pos + length pre + length (template store k)) post)"
    unfolding t by (simp add: collect_matches.simps [of "_ # _"] matcher_next.simps(2))
  finally show ?thesis .
qed

text \<open>Lexing behind a prefix shifts the spans and nothing else.\<close>

definition shift_match :: "nat \<Rightarrow> replacement_match \<Rightarrow> replacement_match" where
  "shift_match d m = m\<lparr>span_start := span_start m + d, span_end := span_end m + d\<rparr>"

definition shift_lexed :: "nat \<Rightarrow> lexed \<Rightarrow> lexed" where
  "shift_lexed d = (\<lambda>(r, s, e). (r, s + d, e + d))"

lemma lex_from_shift: "lex_from (pos + d) s = map (shift_lexed d) (lex_from pos s)"
proof (induction pos s rule: lex_from.induct)
  case (2 pos c cs)
  then show ?case
    by (simp add: lex_from.simps(2) [of _ c] Let_def shift_lexed_def ac_simps)
qed simp

lemma next_token_shift:
  "next_token (map (shift_lexed d) ts) =
     map_option (\<lambda>(t, e, ts'). (t, e + d, map (shift_lexed d) ts')) (next_token ts)"
  by (cases ts rule: next_token.cases) (auto simp: shift_lexed_def)

lemma matcher_next_shift:
  "matcher_next (map (shift_lexed d) ts) =
     map_option (\<lambda>(m, ts'). (shift_match d m, map (shift_lexed d) ts')) (matcher_next ts)"
proof (induction ts rule: matcher_next.induct)
  case (2 r s e ts)
  then show ?case
    by (auto simp: matcher_next.simps(2) [of r] shift_lexed_def [of d, THEN fun_cong, of "(r, s, e)"]
        next_token_shift shift_match_def split: option.splits)
qed simp

lemma collect_matches_shift:
  "collect_matches (map (shift_lexed d) ts) = map (shift_match d) (collect_matches ts)"
proof (induction ts rule: collect_matches.induct)
  case (1 ts)
  then show ?case
    by (simp add: collect_matches.simps [of ts] collect_matches.simps [of "map (shift_lexed d) ts"]
        matcher_next_shift split: option.splits)
qed

end
