(* ===== verification/Secrets.thy ===== *)
theory Secrets
  imports Secret_Lexer Spicepod
begin

text \<open>
  Runtime secrets (\<open>crates/runtime/src/secrets.rs\<close>): the connected secret stores in precedence
  order, their configuration from the spicepod, lookups across stores and the injection of
  secrets into parameter strings. A store (\<open>dyn SecretStore\<close>) is its \<open>get_secret\<close> function; the
  constructors of the concrete stores, which read the environment, the keyring, Kubernetes or
  AWS, and the two compile-time features are parameters (\<open>store_builders\<close>).
\<close>

section \<open>Stores and their configuration\<close>

type_synonym secret_store = "string \<Rightarrow> (string, string option) result"

datatype secrets_error =
    UnableToLoadSecrets string
  | UnableToInitializeAwsSecretsManager string
  | UnableToParseSecretValue
  | UnknownSecretStore string
  | SecretStoreRequiresSecretSelector string
  | SecretStoreInvalidSecretSelector string

datatype secret_store_type =
    Env
  | EnvCustomPath string
  | Keyring
  | Kubernetes string
  | AwsSecretsManager string

record store_builders =
  feature_keyring :: bool
  feature_aws :: bool
  env_store :: "string option \<Rightarrow> secret_store"
  keyring_store :: secret_store
  kubernetes_store :: "string \<Rightarrow> (string, secret_store) result"
  aws_store :: "string \<Rightarrow> (string, secret_store) result"

definition secret_store_provider :: "string \<Rightarrow> string" where
  "secret_store_provider fr = split_first colon fr"

definition secret_selector :: "string \<Rightarrow> string option" where
  "secret_selector fr = (case find_char colon fr of Some i \<Rightarrow> Some (drop (i + 1) fr) | None \<Rightarrow> None)"

definition require_selector :: "string \<Rightarrow> string option \<Rightarrow> (secrets_error, string) result" where
  "require_selector provider selector = (case selector of
      None \<Rightarrow> Inl (SecretStoreRequiresSecretSelector provider)
    | Some s \<Rightarrow> Inr s)"

definition require_no_selector :: "string \<Rightarrow> string option \<Rightarrow> (secrets_error, unit) result" where
  "require_no_selector provider selector =
     (if selector \<noteq> None then Inl (SecretStoreInvalidSecretSelector provider) else Inr ())"

definition spicepod_secret_store_type ::
    "store_builders \<Rightarrow> secret \<Rightarrow> (secrets_error, secret_store_type) result" where
  "spicepod_secret_store_type sb store =
     (let provider = secret_store_provider (sec_from store);
          selector = secret_selector (sec_from store)
      in if provider = ''env'' then
           and_then (require_no_selector provider selector) (\<lambda>_.
             (case sec_params store of
                Some ps \<Rightarrow> (case hm_get (as_string_map ps) ''file_path'' of
                    Some path \<Rightarrow> Inr (EnvCustomPath path)
                  | None \<Rightarrow> Inr Env)
              | None \<Rightarrow> Inr Env))
         else if feature_keyring sb \<and> provider = ''keyring'' then
           and_then (require_no_selector provider selector) (\<lambda>_. Inr Keyring)
         else if provider = ''kubernetes'' then
           and_then (require_selector provider selector) (\<lambda>s. Inr (Kubernetes s))
         else if feature_aws sb \<and> provider = ''aws_secrets_manager'' then
           and_then (require_selector provider selector) (\<lambda>s. Inr (AwsSecretsManager s))
         else Inl (UnknownSecretStore provider))"

fun load_secret_store :: "store_builders \<Rightarrow> secret_store_type \<Rightarrow> (secrets_error, secret_store) result" where
  "load_secret_store sb Env = Inr (env_store sb None)"
| "load_secret_store sb (EnvCustomPath path) = Inr (env_store sb (Some path))"
| "load_secret_store sb Keyring = Inr (keyring_store sb)"
| "load_secret_store sb (Kubernetes secret_name) =
     map_err UnableToLoadSecrets (kubernetes_store sb secret_name)"
| "load_secret_store sb (AwsSecretsManager secret_name) =
     map_err UnableToInitializeAwsSecretsManager (aws_store sb secret_name)"

definition load_default_store :: "store_builders \<Rightarrow> secret_store" where
  "load_default_store sb = env_store sb None"

section \<open>The Secrets struct\<close>

text \<open>
  The \<open>IndexMap\<close> of stores: its entries in order; inserting an existing name replaces the store
  and keeps its position.
\<close>

type_synonym secrets = "(string \<times> secret_store) list"

definition secrets_new :: secrets where
  "secrets_new = []"

text \<open>The loop of \<open>load_from\<close>; the map is left as it is when a configuration is invalid.\<close>

fun load_stores :: "store_builders \<Rightarrow> secret list \<Rightarrow> secrets \<Rightarrow>
    (secrets_error, unit) result \<times> secrets" where
  "load_stores sb [] stores = (Inr (), stores)"
| "load_stores sb (s # ss) stores = (case spicepod_secret_store_type sb s of
      Inl e \<Rightarrow> (Inl e, stores)
    | Inr store_type \<Rightarrow> (case load_secret_store sb store_type of
          Inl e \<Rightarrow> load_stores sb ss stores
        | Inr st \<Rightarrow> load_stores sb ss (AList.update (sec_name s) st stores)))"

definition load_from :: "store_builders \<Rightarrow> secret list \<Rightarrow> secrets \<Rightarrow>
    (secrets_error, unit) result \<times> secrets" where
  "load_from sb ss stores0 = (case load_stores sb ss [] of
      (Inl e, stores) \<Rightarrow> (Inl e, stores)
    | (Inr _, stores) \<Rightarrow>
        (let stores' = (if stores = [] then AList.update ''env'' (load_default_store sb) stores else stores)
         in (Inr (), rev stores')))"

fun get_secret :: "secrets \<Rightarrow> string \<Rightarrow> (string, string option) result" where
  "get_secret [] k = Inr None"
| "get_secret ((n, store) # stores) k = (case store k of
      Inr (Some s) \<Rightarrow> Inr (Some s)
    | Inr None \<Rightarrow> get_secret stores k
    | Inl e \<Rightarrow> Inl e)"

definition SECRETS :: string where
  "SECRETS = ''secrets''"

definition get_store_secret :: "secrets \<Rightarrow> string \<Rightarrow> string \<Rightarrow> string option" where
  "get_store_secret stores nm k =
     (if nm = SECRETS then
        (case get_secret stores k of
           Inr (Some s) \<Rightarrow> Some s
         | Inr None \<Rightarrow> None
         | Inl e \<Rightarrow> None)
      else (case map_of stores nm of
          Some store \<Rightarrow> (case store k of
              Inr (Some s) \<Rightarrow> Some s
            | Inr None \<Rightarrow> None
            | Inl e \<Rightarrow> None)
        | None \<Rightarrow> None))"

text \<open>\<open>&s[i..j]\<close>, which panics (\<open>None\<close>) on a reversed or out-of-range span.\<close>

definition slice_str :: "string \<Rightarrow> nat \<Rightarrow> nat \<Rightarrow> string option" where
  "slice_str s i j = (if i \<le> j \<and> j \<le> length s then Some (take (j - i) (drop i s)) else None)"

definition secret_or_default :: "secrets \<Rightarrow> replacement_match \<Rightarrow> string" where
  "secret_or_default stores m =
     (case get_store_secret stores (store_name m) (key m) of Some v \<Rightarrow> v | None \<Rightarrow> [])"

fun inject_go :: "secrets \<Rightarrow> string \<Rightarrow> nat \<Rightarrow> replacement_match list \<Rightarrow> string option" where
  "inject_go stores param_str last_end [] = slice_str param_str last_end (length param_str)"
| "inject_go stores param_str last_end (m # ms) =
     (case slice_str param_str last_end (span_start m) of
        None \<Rightarrow> None
      | Some text \<Rightarrow>
          map_option (\<lambda>rest. text @ secret_or_default stores m @ rest)
            (inject_go stores param_str (span_end m) ms))"

definition inject_secrets :: "(string \<Rightarrow> lexed list) \<Rightarrow> secrets \<Rightarrow> string \<Rightarrow> string option" where
  "inject_secrets lexer stores param_str =
     inject_go stores param_str 0 (collect_matches (lexer param_str))"

section \<open>Configuration references\<close>

interpretation secret_ref: prefixed_reference secret_store_provider secret_selector
  by unfold_locales
     (simp_all add: secret_store_provider_def secret_selector_def split_str find_char_None [THEN iffD2])

text \<open>
  A secret's \<open>from\<close> field is exactly its provider, and its selector behind the first colon
  when there is one; two fields with the same provider and selector are the same field.
\<close>

theorem secret_from_determined:
  "fr = secret_store_provider fr @ (case secret_selector fr of None \<Rightarrow> [] | Some r \<Rightarrow> colon # r) \<and>
   (secret_store_provider fr = secret_store_provider fr' \<longrightarrow>
    secret_selector fr = secret_selector fr' \<longrightarrow> fr = fr')"
  using secret_ref.rebuild secret_ref.determined by blast

theorem secret_from_determined_witness:
  "''kubernetes:db'' = secret_store_provider ''kubernetes:db'' @ colon # ''db''"
proof -
  have "secret_selector ''kubernetes:db'' = Some ''db''"
    by (simp add: secret_selector_def)
  then show ?thesis
    using secret_from_determined [of "''kubernetes:db''" "''kubernetes:db''"] by simp
qed

section \<open>Precedence of the stores\<close>

lemma load_stores_Inr:
  assumes "fst (load_stores sb ss stores) = Inr ()" and "distinct (map sec_name ss)"
    and "set (map sec_name ss) \<inter> fst ` set stores = {}"
  shows "snd (load_stores sb ss stores) = stores @
    List.map_filter (\<lambda>s. case spicepod_secret_store_type sb s of Inl e \<Rightarrow> None
       | Inr ty \<Rightarrow> map_option (Pair (sec_name s)) (result_ok (load_secret_store sb ty))) ss"
  using assms
proof (induction ss arbitrary: stores)
  case (Cons s ss)
  then obtain ty where ty: "spicepod_secret_store_type sb s = Inr ty"
    by (auto split: sum.splits)
  show ?case
  proof (cases "load_secret_store sb ty")
    case (Inl e)
    with Cons ty show ?thesis by (auto simp: List.map_filter_simps)
  next
    case (Inr st)
    from Cons.prems(3) have new: "AList.update (sec_name s) st stores = stores @ [(sec_name s, st)]"
      by (induction stores) auto
    have "snd (load_stores sb ss (stores @ [(sec_name s, st)])) = (stores @ [(sec_name s, st)]) @
       List.map_filter (\<lambda>s. case spicepod_secret_store_type sb s of Inl e \<Rightarrow> None
         | Inr ty \<Rightarrow> map_option (Pair (sec_name s)) (result_ok (load_secret_store sb ty))) ss"
      using Cons.prems ty Inr new by (intro Cons.IH) auto
    with ty Inr new show ?thesis by (simp add: List.map_filter_simps)
  qed
qed (simp add: List.map_filter_simps)

lemma get_secret_first:
  "get_secret stores k = (case find (\<lambda>(n, st). st k \<noteq> Inr None) stores of
     None \<Rightarrow> Inr None | Some (n, st) \<Rightarrow> st k)"
proof (induction stores)
  case (Cons p stores)
  obtain n st where p: "p = (n, st)" by (cases p)
  show ?case
  proof (cases "st k")
    case (Inr o')
    with Cons p show ?thesis by (cases o') auto
  qed (simp add: p)
qed simp

text \<open>The stores a valid configuration connects, in declaration order.\<close>

definition configured :: "store_builders \<Rightarrow> secret list \<Rightarrow> secrets" where
  "configured sb ss = List.map_filter (\<lambda>s. case spicepod_secret_store_type sb s of Inl e \<Rightarrow> None
     | Inr ty \<Rightarrow> map_option (Pair (sec_name s)) (result_ok (load_secret_store sb ty))) ss"

text \<open>
  After a successful \<open>load_from\<close> of secrets with distinct names the stores are the ones that
  could be loaded in the reverse of their declaration order, or the default \<open>env\<close> store when
  there is none; hence \<open>get_secret\<close> is answered by the last declared store that does not answer
  "not found".
\<close>

theorem load_from_precedence:
  assumes ok: "fst (load_from sb ss stores0) = Inr ()" and names: "distinct (map sec_name ss)"
  shows "snd (load_from sb ss stores0) =
      (if configured sb ss = [] then [(''env'', load_default_store sb)] else rev (configured sb ss))
    \<and> (configured sb ss \<noteq> [] \<longrightarrow> get_secret (snd (load_from sb ss stores0)) k =
      (case find (\<lambda>(n, st). st k \<noteq> Inr None) (rev (configured sb ss)) of
         None \<Rightarrow> Inr None | Some (n, st) \<Rightarrow> st k))"
proof (intro conjI impI)
  obtain r stores where run: "load_stores sb ss [] = (r, stores)" by (cases "load_stores sb ss []")
  with ok have "r = Inr ()"
    by (cases r) (auto simp: load_from_def)
  with run load_stores_Inr [of sb ss "[]"] names have "stores = configured sb ss"
    by (simp add: configured_def)
  with run \<open>r = Inr ()\<close> show eq: "snd (load_from sb ss stores0) =
      (if configured sb ss = [] then [(''env'', load_default_store sb)] else rev (configured sb ss))"
    by (simp add: load_from_def Let_def)
  assume "configured sb ss \<noteq> []"
  then show "get_secret (snd (load_from sb ss stores0)) k =
      (case find (\<lambda>(n, st). st k \<noteq> Inr None) (rev (configured sb ss)) of
         None \<Rightarrow> Inr None | Some (n, st) \<Rightarrow> st k)"
    unfolding eq by (simp add: get_secret_first)
qed

definition demo_builders :: store_builders where
  "demo_builders = \<lparr>feature_keyring = True, feature_aws = True,
     env_store = (\<lambda>_ k. Inr (Some (''env-'' @ k))),
     keyring_store = (\<lambda>k. if k = ''a'' then Inr (Some ''ring'') else Inr None),
     kubernetes_store = (\<lambda>_. Inl ''no cluster''), aws_store = (\<lambda>_. Inl ''no region'')\<rparr>"

definition demo_secret :: "string \<Rightarrow> string \<Rightarrow> secret" where
  "demo_secret fr nm = \<lparr>sec_from = fr, sec_name = nm, sec_description = None, sec_params = None\<rparr>"

lemmas demo_simps = demo_builders_def demo_secret_def spicepod_secret_store_type_def
  secret_store_provider_def secret_selector_def split_first_def require_selector_def
  require_no_selector_def

theorem load_from_precedence_witness:
  "get_secret (snd (load_from demo_builders
     [demo_secret ''env'' ''env'', demo_secret ''kubernetes:x'' ''k8s'', demo_secret ''keyring'' ''ring''] []))
     ''a'' = Inr (Some ''ring'')"
proof -
  let ?ss = "[demo_secret ''env'' ''env'', demo_secret ''kubernetes:x'' ''k8s'', demo_secret ''keyring'' ''ring'']"
  have ok: "fst (load_from demo_builders ?ss []) = Inr ()"
    by (simp add: load_from_def demo_simps)
  have names: "distinct (map sec_name ?ss)" by (simp add: demo_secret_def)
  have conf: "configured demo_builders ?ss =
      [(''env'', env_store demo_builders None), (''ring'', keyring_store demo_builders)]"
    by (simp add: configured_def List.map_filter_simps demo_simps)
  show ?thesis
    using load_from_precedence [OF ok names, of "''a''"]
    unfolding conf by (simp add: demo_builders_def)
qed

section \<open>Injection\<close>

lemma slice_str_Some: "i \<le> j \<Longrightarrow> j \<le> length s \<Longrightarrow> slice_str s i j = Some (take (j - i) (drop i s))"
  by (simp add: slice_str_def)

lemma inject_go_total:
  "matches_ok lo (length s) ms \<Longrightarrow> \<exists>r. inject_go stores s lo ms = Some r"
proof (induction ms arbitrary: lo)
  case (Cons m ms)
  from Cons.prems have "slice_str s lo (span_start m) = Some (take (span_start m - lo) (drop lo s))"
    by (intro slice_str_Some) simp_all
  moreover from Cons.prems Cons.IH obtain r where "inject_go stores s (span_end m) ms = Some r"
    by auto
  ultimately show ?case by simp
qed (simp add: slice_str_def)

lemma slice_str_shift:
  "slice_str (p @ s) (i + length p) (j + length p) = slice_str s i j"
  by (simp add: slice_str_def)

lemma inject_go_shift:
  "inject_go stores (p @ s) (lo + length p) (map (shift_match (length p)) ms) = inject_go stores s lo ms"
proof (induction ms arbitrary: lo)
  case Nil
  show ?case using slice_str_shift [of p s lo "length s"] by (simp add: add.commute)
next
  case (Cons m ms)
  have "secret_or_default stores (shift_match (length p) m) = secret_or_default stores m"
    by (simp add: shift_match_def secret_or_default_def)
  moreover have "span_start (shift_match (length p) m) = span_start m + length p"
      "span_end (shift_match (length p) m) = span_end m + length p"
    by (simp_all add: shift_match_def)
  ultimately show ?case
    using slice_str_shift [of p s lo "span_start m"] Cons.IH [of "span_end m"]
    by (cases "slice_str s lo (span_start m)") simp_all
qed

text \<open>
  Injecting secrets never panics on a slice of the parameter string: for any lexer whose
  spans are ordered and inside its input, and for the one generated for the token declarations,
  a result string exists.
\<close>

theorem inject_secrets_never_panics:
  "((\<forall>s. spans_ok 0 (length s) (lexer s)) \<longrightarrow> (\<exists>r. inject_secrets lexer stores s = Some r)) \<and>
   (\<exists>r. inject_secrets secret_lexer stores s = Some r)"
proof (intro conjI impI)
  show "\<exists>r. inject_secrets lexer stores s = Some r" if "\<forall>s. spans_ok 0 (length s) (lexer s)"
    unfolding inject_secrets_def
    by (rule inject_go_total) (rule collect_matches_ok, use that in blast)
  show "\<exists>r. inject_secrets secret_lexer stores s = Some r"
    unfolding inject_secrets_def by (rule inject_go_total) (rule sl.matches_in_input)
qed

theorem inject_secrets_never_panics_witness:
  "\<exists>r. inject_secrets secret_lexer [] ''a ${b:c} d'' = Some r"
  using inject_secrets_never_panics [of secret_lexer "[]" "''a ${b:c} d''"] sl.spans_in_input by blast

text \<open>
  (C17) Text without a \<open>$\<close> is passed through unchanged, and the first well-formed reference
  \<open>${store:key}\<close> of a string is replaced by the secret (or by nothing when it cannot be found),
  the text in front of it kept and the rest of the string treated in the same way.
\<close>

theorem inject_secrets_replaces:
  assumes "CHR ''$'' \<notin> set pre" and "valid_ident store" and "valid_ident k"
  shows "inject_secrets secret_lexer stores pre = Some pre \<and>
    inject_secrets secret_lexer stores (pre @ template store k @ post) =
      map_option (\<lambda>rest. pre @ (case get_store_secret stores store k of Some v \<Rightarrow> v | None \<Rightarrow> []) @ rest)
        (inject_secrets secret_lexer stores post)"
proof (intro conjI)
  have "collect_matches (lex_from 0 pre) = []"
    using collect_matches_no_start [OF lex_no_start [OF assms(1)], of 0 "[]"]
    by (simp add: collect_matches.simps [of "[]"])
  then show "inject_secrets secret_lexer stores pre = Some pre"
    by (simp add: inject_secrets_def secret_lexer_def slice_str_def)
  let ?t = "template store k" and ?p = "pre @ template store k"
  have ms: "collect_matches (secret_lexer (pre @ ?t @ post)) =
      \<lparr>store_name = store, key = k, span_start = length pre, span_end = length ?p\<rparr> #
      map (shift_match (length ?p)) (collect_matches (lex_from 0 post))"
    using collect_matches_template [OF assms(2,3,1), of 0 post]
      lex_from_shift [of 0 "length ?p" post]
    by (simp add: secret_lexer_def collect_matches_shift)
  have "inject_go stores (?p @ post) (0 + length ?p) (map (shift_match (length ?p))
      (collect_matches (lex_from 0 post))) = inject_go stores post 0 (collect_matches (lex_from 0 post))"
    by (rule inject_go_shift)
  then show "inject_secrets secret_lexer stores (pre @ ?t @ post) =
      map_option (\<lambda>rest. pre @ (case get_store_secret stores store k of Some v \<Rightarrow> v | None \<Rightarrow> []) @ rest)
        (inject_secrets secret_lexer stores post)"
    unfolding inject_secrets_def ms
    by (simp add: slice_str_def secret_or_default_def secret_lexer_def)
qed

theorem inject_secrets_replaces_witness:
  "inject_secrets secret_lexer [(''env'', env_store demo_builders None)] ''u:${env:PASS}@h'' =
     Some ''u:env-PASS@h''"
proof -
  let ?st = "[(''env'', env_store demo_builders None)]"
  have ids: "valid_ident ''env''" "valid_ident ''PASS''"
    by (simp_all add: valid_ident_def ident_start_def ident_char_def)
  have "inject_secrets secret_lexer ?st ''@h'' = Some ''@h''"
    using inject_secrets_replaces [of "''@h''", OF _ ids, of ?st] by simp
  then show ?thesis
    using inject_secrets_replaces [of "''u:''", OF _ ids, of ?st "''@h''"]
    by (simp add: template_def get_store_secret_def SECRETS_def demo_builders_def)
qed

text \<open>
  A byte no token starts with right behind \<open>${\<close> ends the search for good: whatever follows,
  valid references included, the whole string comes back unchanged.
\<close>

theorem inject_secrets_stops_at_lexer_error:
  assumes "CHR ''$'' \<notin> set pre" and "\<not> is_blank c" and "\<not> ident_start c"
    and "c \<noteq> CHR ''$''" and "c \<noteq> CHR '':''" and "c \<noteq> CHR ''}''"
  shows "inject_secrets secret_lexer stores (pre @ ''${'' @ c # rest) = Some (pre @ ''${'' @ c # rest)"
proof -
  have "lex_from 0 (pre @ ''${'' @ c # rest) =
      lex_from 0 pre @ (Inr Start, length pre, length pre + 2) # (Inl (), length pre + 2, length pre + 3) #
      lex_from (length pre + 3) rest"
    using lex_append_dollar [OF assms(1), of 0 "''{'' @ c # rest"] assms
    by (simp add: lex_from.simps(2) [of _ c] eval_nat_numeral)
  then have "collect_matches (secret_lexer (pre @ ''${'' @ c # rest)) = []"
    by (simp add: secret_lexer_def collect_matches_no_start lex_no_start assms(1)
        collect_matches.simps [of "_ # _"] matcher_next.simps(2))
  then show ?thesis by (simp add: inject_secrets_def slice_str_def)
qed

theorem inject_secrets_stops_at_lexer_error_witness:
  "inject_secrets secret_lexer [(''env'', env_store demo_builders None)] ''${1} ${env:PASS}'' =
     Some ''${1} ${env:PASS}''"
  using inject_secrets_stops_at_lexer_error [of "''''" "CHR ''1''" _ "''} ${env:PASS}''"]
  by (simp add: is_blank_def ident_start_def)

end
