(* ===== verification/Parameters.thy ===== *)
theory Parameters
  imports Secrets
begin

text \<open>
  The parameters a component receives (runtime/src/parameters.rs): the specification of each
  parameter, the translation of what the user wrote into what the component expects, secrets
  loaded by name, defaults, required parameters and the lookups; and the registry of data
  connectors that builds them (runtime/src/dataconnector.rs), with the \<open>file\<close> connector's
  parameter table (runtime/src/dataconnector/file.rs). A \<open>SecretString\<close> is its content.
\<close>

section \<open>Specifications\<close>

datatype parameter_type = Connector | Accelerator | Runtime

fun display_parameter_type :: "parameter_type \<Rightarrow> string" where
  "display_parameter_type Connector = ''Connector''"
| "display_parameter_type Accelerator = ''Accelerator''"
| "display_parameter_type Runtime = ''Runtime''"

fun is_prefixed :: "parameter_type \<Rightarrow> bool" where
  "is_prefixed Connector = True"
| "is_prefixed Accelerator = True"
| "is_prefixed Runtime = False"

record parameter_spec =
  spec_name :: string
  spec_required :: bool
  spec_default :: "string option"
  spec_secret :: bool
  spec_description :: string
  spec_help_link :: string
  spec_examples :: "string list"
  spec_type :: parameter_type

definition connector_spec :: "string \<Rightarrow> parameter_spec" where
  "connector_spec n = \<lparr>spec_name = n, spec_required = False, spec_default = None, spec_secret = False,
     spec_description = [], spec_help_link = [], spec_examples = [], spec_type = Connector\<rparr>"

definition runtime_spec :: "string \<Rightarrow> parameter_spec" where
  "runtime_spec n = \<lparr>spec_name = n, spec_required = False, spec_default = None, spec_secret = False,
     spec_description = [], spec_help_link = [], spec_examples = [], spec_type = Runtime\<rparr>"

definition accelerator_spec :: "string \<Rightarrow> parameter_spec" where
  "accelerator_spec n = \<lparr>spec_name = n, spec_required = False, spec_default = None, spec_secret = False,
     spec_description = [], spec_help_link = [], spec_examples = [], spec_type = Accelerator\<rparr>"

definition required_spec :: "parameter_spec \<Rightarrow> parameter_spec" where
  "required_spec s = s\<lparr>spec_required := True\<rparr>"

definition default_spec :: "string \<Rightarrow> parameter_spec \<Rightarrow> parameter_spec" where
  "default_spec d s = s\<lparr>spec_default := Some d\<rparr>"

definition secret_spec :: "parameter_spec \<Rightarrow> parameter_spec" where
  "secret_spec s = s\<lparr>spec_secret := True\<rparr>"

definition description_spec :: "string \<Rightarrow> parameter_spec \<Rightarrow> parameter_spec" where
  "description_spec d s = s\<lparr>spec_description := d\<rparr>"

definition help_link_spec :: "string \<Rightarrow> parameter_spec \<Rightarrow> parameter_spec" where
  "help_link_spec l s = s\<lparr>spec_help_link := l\<rparr>"

definition examples_spec :: "string list \<Rightarrow> parameter_spec \<Rightarrow> parameter_spec" where
  "examples_spec xs s = s\<lparr>spec_examples := xs\<rparr>"

section \<open>Parameter sets\<close>

record parameters =
  params_list :: "(string \<times> string) list"
  params_prefix :: string
  all_params :: "parameter_spec list"

datatype params_error = InvalidConfigurationNoSource string string

datatype param_lookup = Present string | Absent string

definition parameters_new :: "(string \<times> string) list \<Rightarrow> string \<Rightarrow> parameter_spec list \<Rightarrow> parameters" where
  "parameters_new ps pfx specs =
     \<lparr>params_list = ps, params_prefix = pfx, all_params = specs\<rparr>"

text \<open>What the \<open>filter_map\<close> of \<open>try_new\<close> makes of one entry the user wrote.\<close>

definition accept_param :: "string \<Rightarrow> parameter_spec list \<Rightarrow> string \<times> string \<Rightarrow> (string \<times> string) option" where
  "accept_param pfx specs kv =
     (let (key, value) = kv;
          (has_prefix, unprefixed_key) =
            (case strip_prefix (pfx @ ''_'') key of Some r \<Rightarrow> (True, r) | None \<Rightarrow> (False, key))
      in case find (\<lambda>p. spec_name p = unprefixed_key) specs of
           None \<Rightarrow> None
         | Some spec \<Rightarrow>
             if \<not> has_prefix \<and> is_prefixed (spec_type spec) then None
             else if has_prefix \<and> \<not> is_prefixed (spec_type spec) then None
             else Some (unprefixed_key, value))"

text \<open>Autoloading one secret: skipped when the user gave the parameter, and when the stores fail
  or do not know it.\<close>

definition autoload_secret ::
  "(string \<Rightarrow> (string, string option) result) \<Rightarrow> string \<Rightarrow> parameter_spec \<Rightarrow> (string \<times> string) list \<Rightarrow>
   (string \<times> string) list" where
  "autoload_secret lookup pfx spec ps =
     (if spec_name spec \<in> fst ` set ps then ps
      else case lookup (pfx @ ''_'' @ spec_name spec) of
             Inr (Some v) \<Rightarrow> ps @ [(spec_name spec, v)]
           | _ \<Rightarrow> ps)"

definition autoload_secrets ::
  "(string \<Rightarrow> (string, string option) result) \<Rightarrow> string \<Rightarrow> parameter_spec list \<Rightarrow> (string \<times> string) list \<Rightarrow>
   (string \<times> string) list" where
  "autoload_secrets lookup pfx specs ps =
     fold (autoload_secret lookup pfx) (filter spec_secret specs) ps"

text \<open>The last loop of \<open>try_new\<close>: defaults for what is missing, and the required check.\<close>

fun fill_and_check ::
  "string \<Rightarrow> string \<Rightarrow> parameter_spec list \<Rightarrow> (string \<times> string) list \<Rightarrow>
   (params_error, (string \<times> string) list) result" where
  "fill_and_check cname pfx [] ps = Inr ps"
| "fill_and_check cname pfx (p # specs) ps =
     (let missing = spec_name p \<notin> fst ` set ps
      in if missing \<and> spec_default p \<noteq> None
         then fill_and_check cname pfx specs (ps @ [(spec_name p, the (spec_default p))])
         else if spec_required p \<and> missing
         then Inl (InvalidConfigurationNoSource cname
                (''Missing required parameter: '' @
                 (if is_prefixed (spec_type p) then (pfx @ ''_'') @ spec_name p else spec_name p)))
         else fill_and_check cname pfx specs ps)"

definition parameters_try_new ::
  "string \<Rightarrow> (string \<times> string) list \<Rightarrow> string \<Rightarrow> secrets \<Rightarrow> parameter_spec list \<Rightarrow>
   (params_error, parameters) result" where
  "parameters_try_new cname user pfx stores specs =
     (let accepted = List.map_filter (accept_param pfx specs) user;
          loaded = autoload_secrets (get_secret stores) pfx specs accepted
      in and_then (fill_and_check cname pfx specs loaded)
           (\<lambda>ps. Inr (parameters_new ps pfx specs)))"

definition to_secret_map :: "parameters \<Rightarrow> (string, string) hmap" where
  "to_secret_map p = hm_collect (params_list p)"

text \<open>\<open>describe\<close> panics on a name that is not in the list: \<open>None\<close>, here and in its callers.\<close>

definition describe :: "parameters \<Rightarrow> string \<Rightarrow> parameter_spec option" where
  "describe p n = find (\<lambda>s. spec_name s = n) (all_params p)"

definition user_param :: "parameters \<Rightarrow> string \<Rightarrow> string option" where
  "user_param p n = map_option (\<lambda>spec.
     if params_prefix p = [] \<or> \<not> is_prefixed (spec_type spec) then spec_name spec
     else params_prefix p @ ''_'' @ spec_name spec) (describe p n)"

definition params_get :: "parameters \<Rightarrow> string \<Rightarrow> param_lookup option" where
  "params_get p n = (case find (\<lambda>kv. fst kv = n) (params_list p) of
      Some kv \<Rightarrow> Some (Present (snd kv))
    | None \<Rightarrow> map_option Absent (user_param p n))"

fun update_first :: "string \<Rightarrow> string \<Rightarrow> (string \<times> string) list \<Rightarrow> (string \<times> string) list" where
  "update_first k v [] = [(k, v)]"
| "update_first k v ((k', v') # ps) = (if k' = k then (k', v) # ps else (k', v') # update_first k v ps)"

definition params_insert :: "string \<Rightarrow> string \<Rightarrow> parameters \<Rightarrow> parameters" where
  "params_insert k v p = p\<lparr>params_list := update_first k v (params_list p)\<rparr>"

fun lookup_ok :: "param_lookup \<Rightarrow> string option" where
  "lookup_ok (Present s) = Some s"
| "lookup_ok (Absent _) = None"

fun lookup_ok_or_else :: "param_lookup \<Rightarrow> (string \<Rightarrow> 'e) \<Rightarrow> ('e, string) result" where
  "lookup_ok_or_else (Present s) f = Inr s"
| "lookup_ok_or_else (Absent u) f = Inl (f u)"

section \<open>Data connector factories\<close>

record 'c connector_factory =
  factory_prefix :: string
  factory_parameters :: "parameter_spec list"
  factory_create :: "parameters \<Rightarrow> (string, 'c) result"

datatype connector_error = ParamsError params_error | FactoryError string

type_synonym 'c factory_registry = "(string, 'c connector_factory) hmap"

definition register_connector_factory ::
  "string \<Rightarrow> 'c connector_factory \<Rightarrow> 'c factory_registry \<Rightarrow> 'c factory_registry" where
  "register_connector_factory name factory reg = hm_insert name factory reg"

definition create_new_connector ::
  "'c factory_registry \<Rightarrow> string \<Rightarrow> (string, string) hmap \<Rightarrow> secrets \<Rightarrow>
   (connector_error, 'c) result option" where
  "create_new_connector reg name ps stores =
     (case hm_get reg name of
        None \<Rightarrow> None
      | Some factory \<Rightarrow> Some (
          case parameters_try_new (''connector '' @ name) ps (factory_prefix factory) stores
                 (factory_parameters factory) of
            Inl e \<Rightarrow> Inl (ParamsError e)
          | Inr p \<Rightarrow> map_err FactoryError (factory_create factory p)))"

definition FILE_PARAMETERS :: "parameter_spec list" where
  "FILE_PARAMETERS = [
     runtime_spec ''file_format'',
     runtime_spec ''file_extension'',
     description_spec ''Set true to indicate that the first line is a header.''
       (runtime_spec ''csv_has_header''),
     description_spec ''The quote character in a row.'' (runtime_spec ''csv_quote''),
     description_spec ''The escape character in a row.'' (runtime_spec ''csv_escape''),
     description_spec ''Set a limit in terms of records to scan to infer the schema.''
       (runtime_spec ''csv_schema_infer_max_records''),
     description_spec ''The character separating values within a row.'' (runtime_spec ''csv_delimiter''),
     description_spec ''The type of compression used on the file. Supported types are: GZIP, BZIP2, XZ, ZSTD, UNCOMPRESSED''
       (runtime_spec ''file_compression_type'')]"

definition file_factory :: "parameters connector_factory" where
  "file_factory = \<lparr>factory_prefix = ''file'', factory_parameters = FILE_PARAMETERS, factory_create = Inr\<rparr>"

section \<open>Lookups and insertions\<close>

definition param_value_of :: "parameters \<Rightarrow> string \<Rightarrow> string option" where
  "param_value_of p n = Option.bind (params_get p n) lookup_ok"

lemma find_fst_map_of: "find (\<lambda>kv. fst kv = n) ps = map_option (Pair n) (map_of ps n)"
  by (induction ps) auto

lemma param_value_of_map_of: "param_value_of p n = map_of (params_list p) n"
  by (auto simp: param_value_of_def params_get_def find_fst_map_of split: option.splits)
     (cases "user_param p n", auto)

lemma map_of_update_first: "map_of (update_first k v ps) = (map_of ps)(k \<mapsto> v)"
  by (induction k v ps rule: update_first.induct) (auto simp: fun_eq_iff)

interpretation params_store: lookup_store "parameters_new [] pfx specs" params_insert param_value_of
  for pfx :: string and specs :: "parameter_spec list"
  by unfold_locales
     (auto simp: param_value_of_map_of parameters_new_def params_insert_def map_of_update_first)

interpretation factory_store: lookup_store "[]" register_connector_factory map_of
  by unfold_locales (auto simp: register_connector_factory_def hm_get_insert)

text \<open>
  A parameter set is a store with overwriting insertion: after any sequence of insertions a
  lookup gives the last value inserted under its name, and names that were not inserted keep
  what they had.
\<close>

theorem params_insert_last_wins:
  "param_value_of (fold (\<lambda>(k, v). params_insert k v) kvs p) n =
     (case map_of (rev kvs) n of Some v \<Rightarrow> Some v | None \<Rightarrow> param_value_of p n)"
  by (rule params_store.fold_insert_find)

section \<open>What a component receives\<close>

text \<open>The value \<open>try_new\<close> is meant to give a parameter: the user's, else a secret named after the
  prefix, else the default.\<close>

definition autoloaded :: "(string \<Rightarrow> (string, string option) result) \<Rightarrow> string \<Rightarrow> parameter_spec \<Rightarrow> string option" where
  "autoloaded lookup pfx spec =
     (if spec_secret spec then Option.bind (result_ok (lookup (pfx @ ''_'' @ spec_name spec))) id else None)"

text \<open>The name under which the user sets a parameter; a runtime parameter whose name begins with the
  prefix cannot be set at all, because its prefix is taken off.\<close>

definition user_key :: "string \<Rightarrow> parameter_spec \<Rightarrow> string option" where
  "user_key pfx spec =
     (if is_prefixed (spec_type spec) then Some (pfx @ ''_'' @ spec_name spec)
      else if strip_prefix (pfx @ ''_'') (spec_name spec) = None then Some (spec_name spec) else None)"

definition expected_value ::
  "(string \<times> string) list \<Rightarrow> string \<Rightarrow> secrets \<Rightarrow> parameter_spec list \<Rightarrow> string \<Rightarrow> string option" where
  "expected_value user pfx stores specs n =
     (case find (\<lambda>s. spec_name s = n) specs of
        None \<Rightarrow> None
      | Some spec \<Rightarrow>
          (case Option.bind (user_key pfx spec) (map_of user) of
             Some v \<Rightarrow> Some v
           | None \<Rightarrow> (case autoloaded (get_secret stores) pfx spec of
                         Some v \<Rightarrow> Some v
                       | None \<Rightarrow> spec_default spec)))"

lemma keys_map_of: "k \<in> fst ` set ps \<longleftrightarrow> map_of ps k \<noteq> None"
  by (simp add: map_of_eq_None_iff)

lemma map_of_autoload_secret:
  "spec_secret spec \<Longrightarrow> map_of (autoload_secret lookup pfx spec ps) n =
     (case map_of ps n of Some v \<Rightarrow> Some v
      | None \<Rightarrow> if n = spec_name spec then autoloaded lookup pfx spec else None)"
  by (auto simp: autoload_secret_def autoloaded_def keys_map_of map_add_def
      split: option.splits sum.splits)

lemma find_not_in: "n \<notin> spec_name ` set specs \<Longrightarrow> find (\<lambda>s. spec_name s = n) specs = None"
  by (induction specs) auto

lemma map_of_autoload_secrets:
  assumes "distinct (map spec_name specs)"
  shows "map_of (autoload_secrets lookup pfx specs ps) n =
     (case map_of ps n of Some v \<Rightarrow> Some v
      | None \<Rightarrow> Option.bind (find (\<lambda>s. spec_name s = n) specs) (autoloaded lookup pfx))"
  using assms
proof (induction specs arbitrary: ps)
  case (Cons s specs)
  have unloaded: "autoloaded lookup pfx s = None" if "\<not> spec_secret s"
    using that by (simp add: autoloaded_def)
  show ?case
    using Cons unloaded
    by (cases "spec_secret s")
       (auto simp: autoload_secrets_def map_of_autoload_secret find_not_in split: option.splits)
qed (auto simp: autoload_secrets_def split: option.splits)

text \<open>The check loop: it fills every default and reports a missing required parameter.\<close>

definition filled :: "parameter_spec list \<Rightarrow> (string \<times> string) list \<Rightarrow> string \<Rightarrow> string option" where
  "filled specs ps n = (case map_of ps n of Some v \<Rightarrow> Some v
     | None \<Rightarrow> Option.bind (find (\<lambda>s. spec_name s = n) specs) spec_default)"

lemma filled_defaulted:
  "map_of ps (spec_name s) = None \<Longrightarrow> spec_default s = Some d \<Longrightarrow> spec_name s \<notin> spec_name ` set specs \<Longrightarrow>
   filled (s # specs) ps = filled specs (ps @ [(spec_name s, d)])"
  by (auto simp: filled_def fun_eq_iff find_not_in map_add_def split: option.splits)

lemma filled_kept:
  "map_of ps (spec_name s) \<noteq> None \<or> spec_default s = None \<Longrightarrow> spec_name s \<notin> spec_name ` set specs \<Longrightarrow>
   filled (s # specs) ps = filled specs ps"
  by (auto simp: filled_def fun_eq_iff find_not_in split: option.splits)

lemma filled_mono: "map_of ps n = Some v \<Longrightarrow> filled specs ps n = Some v"
  by (simp add: filled_def)

definition missing_error :: "string \<Rightarrow> string \<Rightarrow> parameter_spec \<Rightarrow> params_error" where
  "missing_error cname pfx s = InvalidConfigurationNoSource cname (''Missing required parameter: '' @
     (if is_prefixed (spec_type s) then pfx @ ''_'' @ spec_name s else spec_name s))"

lemma fill_and_check_Inr:
  assumes "distinct (map spec_name specs)" and "fill_and_check cname pfx specs ps = Inr ps'"
  shows "map_of ps' = filled specs ps \<and>
         (\<forall>s\<in>set specs. spec_required s \<longrightarrow> filled specs ps (spec_name s) \<noteq> None)"
  using assms
proof (induction specs arbitrary: ps)
  case Nil
  then show ?case by (auto simp: filled_def fun_eq_iff split: option.splits)
next
  case (Cons s specs)
  have fresh: "spec_name s \<notin> spec_name ` set specs" using Cons.prems by auto
  show ?case
  proof (cases "map_of ps (spec_name s) = None \<and> spec_default s \<noteq> None")
    case True
    then obtain d where d: "map_of ps (spec_name s) = None" "spec_default s = Some d" by auto
    with Cons.IH [of "ps @ [(spec_name s, d)]"] Cons.prems fresh show ?thesis
      by (auto simp: filled_defaulted keys_map_of) (auto simp: filled_def map_add_def)
  next
    case False
    with Cons.IH [of ps] Cons.prems fresh show ?thesis
      by (auto simp: filled_kept keys_map_of split: if_splits) (auto simp: filled_def)
  qed
qed

lemma fill_and_check_Inl:
  assumes "distinct (map spec_name specs)" and "fill_and_check cname pfx specs ps = Inl e"
  shows "\<exists>s\<in>set specs. spec_required s \<and> filled specs ps (spec_name s) = None \<and> e = missing_error cname pfx s"
  using assms
proof (induction specs arbitrary: ps)
  case (Cons s specs)
  have fresh: "spec_name s \<notin> spec_name ` set specs" using Cons.prems by auto
  consider (defaulted) d where "map_of ps (spec_name s) = None" "spec_default s = Some d"
    | (failing) "map_of ps (spec_name s) = None" "spec_default s = None" "spec_required s"
    | (kept) "map_of ps (spec_name s) \<noteq> None \<or> (spec_default s = None \<and> \<not> spec_required s)"
    by (cases "map_of ps (spec_name s)"; cases "spec_default s") auto
  then show ?case
  proof cases
    case defaulted
    with Cons.IH [of "ps @ [(spec_name s, d)]"] Cons.prems fresh show ?thesis
      by (auto simp: filled_defaulted keys_map_of)
  next
    case failing
    with Cons.prems fresh show ?thesis
      by (auto simp: keys_map_of filled_def missing_error_def)
  next
    case kept
    with Cons.IH [of ps] Cons.prems fresh show ?thesis
      by (auto simp: filled_kept keys_map_of)
  qed
qed simp

lemma accepted_known:
  "map_of (List.map_filter (accept_param pfx specs) user) n = Some v \<Longrightarrow>
   find (\<lambda>s. spec_name s = n) specs \<noteq> None"
  by (induction user)
     (auto simp: List.map_filter_simps accept_param_def Let_def split: option.splits if_splits prod.splits)

lemma accept_param_iff:
  assumes "find (\<lambda>s. spec_name s = n) specs = Some s"
  shows "accept_param pfx specs (k, v) = Some (n, w) \<longleftrightarrow> w = v \<and> user_key pfx s = Some k"
proof -
  have n: "spec_name s = n" using assms by (auto simp: find_Some_iff)
  show ?thesis
  proof (cases "strip_prefix (pfx @ ''_'') k")
    case None
    then have "k \<noteq> pfx @ CHR ''_'' # n" by (auto simp: strip_prefix_def)
    then show ?thesis
      using None assms n by (cases "k = n") (auto simp: accept_param_def user_key_def split: option.splits)
  next
    case (Some r)
    then have k: "k = pfx @ CHR ''_'' # r" by (simp add: strip_prefix_Some)
    show ?thesis
    proof (cases "r = n")
      case True
      with Some k assms n show ?thesis
        by (auto simp: accept_param_def user_key_def)
    next
      case False
      then have "accept_param pfx specs (k, v) \<noteq> Some (n, w)"
        using Some by (auto simp: accept_param_def split: option.splits if_splits)
      moreover have "user_key pfx s \<noteq> Some k"
        using Some n False k by (cases "is_prefixed (spec_type s)") (auto simp: user_key_def)
      ultimately show ?thesis by simp
    qed
  qed
qed

lemma map_of_accepted:
  assumes "find (\<lambda>s. spec_name s = n) specs = Some s"
  shows "map_of (List.map_filter (accept_param pfx specs) user) n = Option.bind (user_key pfx s) (map_of user)"
proof (induction user)
  case (Cons kv user)
  obtain k v where kv: "kv = (k, v)" by fastforce
  show ?case
  proof (cases "user_key pfx s = Some k")
    case True
    then have "accept_param pfx specs (k, v) = Some (n, v)" using accept_param_iff [OF assms, of pfx k v v] by simp
    with True show ?thesis by (simp add: kv List.map_filter_simps)
  next
    case False
    then have "\<forall>w. accept_param pfx specs (k, v) \<noteq> Some (n, w)" using accept_param_iff [OF assms, of pfx k v] by simp
    then have "map_of (List.map_filter (accept_param pfx specs) (kv # user)) n = map_of (List.map_filter (accept_param pfx specs) user) n"
      by (cases "accept_param pfx specs (k, v)") (auto simp: kv List.map_filter_simps)
    moreover have "Option.bind (user_key pfx s) (map_of (kv # user)) = Option.bind (user_key pfx s) (map_of user)"
      using False kv by (cases "user_key pfx s") auto
    ultimately show ?thesis using Cons by (simp only:)
  qed
qed (simp add: List.map_filter_simps)

lemma filled_expected:
  assumes "distinct (map spec_name specs)"
  shows "filled specs (autoload_secrets (get_secret stores) pfx specs
           (List.map_filter (accept_param pfx specs) user)) n = expected_value user pfx stores specs n"
  using accepted_known [of pfx specs user n]
  by (cases "find (\<lambda>s. spec_name s = n) specs"; cases "map_of (List.map_filter (accept_param pfx specs) user) n")
     (auto simp: filled_def expected_value_def map_of_autoload_secrets [OF assms] map_of_accepted split: option.splits)

lemma parameters_try_new_spec:
  assumes "distinct (map spec_name specs)"
  shows "case parameters_try_new cname user pfx stores specs of
      Inr p \<Rightarrow> param_value_of p = expected_value user pfx stores specs \<and> all_params p = specs \<and>
               (\<forall>s\<in>set specs. spec_required s \<longrightarrow> expected_value user pfx stores specs (spec_name s) \<noteq> None)
    | Inl e \<Rightarrow> (\<exists>s\<in>set specs. spec_required s \<and> expected_value user pfx stores specs (spec_name s) = None \<and>
                 e = missing_error cname pfx s)"
proof -
  let ?ps = "autoload_secrets (get_secret stores) pfx specs (List.map_filter (accept_param pfx specs) user)"
  have exp: "filled specs ?ps = expected_value user pfx stores specs"
    by (rule ext) (rule filled_expected [OF assms])
  show ?thesis
  proof (cases "fill_and_check cname pfx specs ?ps")
    case (Inl e)
    with fill_and_check_Inl [OF assms Inl] show ?thesis
      by (simp add: parameters_try_new_def Let_def exp)
  next
    case (Inr ps')
    with fill_and_check_Inr [OF assms Inr] show ?thesis
      by (simp add: parameters_try_new_def Let_def exp param_value_of_map_of parameters_new_def fun_eq_iff)
  qed
qed

text \<open>
  (C7) The parameters a component receives: every lookup gives the value the user wrote for it
  (with the component's prefix exactly when the parameter is a connector or accelerator
  parameter; \<open>user_key\<close>), else the secret named after prefix and parameter, else the default; nothing else
  is in the set; construction fails exactly when a required parameter has no such value, with
  the name the user would write.
\<close>

theorem parameters_try_new_correct:
  assumes "distinct (map spec_name specs)"
  shows "case parameters_try_new cname user pfx stores specs of
      Inr p \<Rightarrow> param_value_of p = expected_value user pfx stores specs \<and> all_params p = specs \<and>
               (\<forall>s\<in>set specs. spec_required s \<longrightarrow> expected_value user pfx stores specs (spec_name s) \<noteq> None)
    | Inl e \<Rightarrow> (\<exists>s\<in>set specs. spec_required s \<and> expected_value user pfx stores specs (spec_name s) = None \<and>
                 e = missing_error cname pfx s)"
  by (rule parameters_try_new_spec [OF assms])

definition demo_specs :: "parameter_spec list" where
  "demo_specs = [required_spec (secret_spec (connector_spec ''pass'')), default_spec ''5432'' (connector_spec ''port''),
     required_spec (runtime_spec ''mode'')]"

theorem parameters_try_new_correct_witness:
  "parameters_try_new ''connector pg'' [(''mode'', ''x'')] ''pg'' [(''env'', \<lambda>k. Inr (if k = ''pg_pass'' then Some ''s'' else None))] demo_specs
     = Inr \<lparr>params_list = [(''mode'', ''x''), (''pass'', ''s''), (''port'', ''5432'')], params_prefix = ''pg'', all_params = demo_specs\<rparr> \<and>
   expected_value [(''mode'', ''x'')] ''pg'' [(''env'', \<lambda>k. Inr (if k = ''pg_pass'' then Some ''s'' else None))] demo_specs ''pass'' = Some ''s'' \<and>
   parameters_try_new ''connector pg'' [(''pg_mode'', ''x''), (''pg_pass'', ''s'')] ''pg'' [] demo_specs
     = Inl (InvalidConfigurationNoSource ''connector pg'' ''Missing required parameter: mode'')"
proof -
  let ?st = "[(''env'', \<lambda>k. Inr (if k = ''pg_pass'' then Some ''s'' else None))]"
  have d: "distinct (map spec_name demo_specs)"
    by (simp add: demo_specs_def required_spec_def secret_spec_def default_spec_def connector_spec_def runtime_spec_def)
  have ok: "parameters_try_new ''connector pg'' [(''mode'', ''x'')] ''pg'' ?st demo_specs
     = Inr \<lparr>params_list = [(''mode'', ''x''), (''pass'', ''s''), (''port'', ''5432'')], params_prefix = ''pg'', all_params = demo_specs\<rparr>"
    by code_simp
  have "expected_value [(''mode'', ''x'')] ''pg'' ?st demo_specs ''pass'' = Some ''s''"
    using parameters_try_new_correct [OF d, of "[(''mode'', ''x'')]" "''pg''" ?st "''connector pg''"]
    unfolding ok sum.case by (auto simp: param_value_of_map_of dest!: fun_cong [of _ _ "''pass''"])
  moreover have "parameters_try_new ''connector pg'' [(''pg_mode'', ''x''), (''pg_pass'', ''s'')] ''pg'' [] demo_specs
     = Inl (InvalidConfigurationNoSource ''connector pg'' ''Missing required parameter: mode'')"
    by code_simp
  ultimately show ?thesis using ok by blast
qed


section \<open>One entry per parameter\<close>

lemma accept_param_key:
  "accept_param pfx specs kv = Some (n, v) \<Longrightarrow>
   \<exists>s. find (\<lambda>s. spec_name s = n) specs = Some s \<and>
       fst kv = (if is_prefixed (spec_type s) then pfx @ ''_'' @ n else n)"
  by (auto simp: accept_param_def Let_def strip_prefix_Some split: option.splits if_splits prod.splits)

lemma distinct_accepted:
  "distinct (map fst user) \<Longrightarrow> distinct (map fst (List.map_filter (accept_param pfx specs) user))"
proof (induction user)
  case (Cons kv user)
  have "n \<notin> fst ` set (List.map_filter (accept_param pfx specs) user)"
    if acc: "accept_param pfx specs kv = Some (n, v)" for n v
  proof
    assume "n \<in> fst ` set (List.map_filter (accept_param pfx specs) user)"
    then obtain kv' v' where "kv' \<in> set user" "accept_param pfx specs kv' = Some (n, v')"
      by (auto simp: mem_map_filter)
    then have "fst kv' = fst kv"
      using accept_param_key [OF acc] accept_param_key [of pfx specs kv' n v'] by auto
    with \<open>kv' \<in> set user\<close> Cons.prems show False by (metis image_eqI list.simps(9) distinct.simps(2) set_map)
  qed
  then show ?case
    using Cons by (auto simp: List.map_filter_simps split: option.splits)
qed (simp add: List.map_filter_simps)

lemma distinct_autoload: "distinct (map fst ps) \<Longrightarrow> distinct (map fst (autoload_secrets lookup pfx specs ps))"
  unfolding autoload_secrets_def
proof (induction specs arbitrary: ps)
  case (Cons s specs)
  have "distinct (map fst (autoload_secret lookup pfx s ps))"
    using Cons.prems by (auto simp: autoload_secret_def split: sum.splits option.splits)
  with Cons show ?case by simp
qed simp

lemma distinct_fill_and_check:
  "fill_and_check cname pfx specs ps = Inr ps' \<Longrightarrow> distinct (map fst ps) \<Longrightarrow> distinct (map fst ps')"
proof (induction cname pfx specs ps rule: fill_and_check.induct)
  case (2 cname pfx p specs ps)
  then show ?case by (auto simp: Let_def split: if_splits)
qed simp

text \<open>
  A user's parameters come from a hash map, so their keys are distinct; then the set a
  component receives has one entry per parameter, and the map handed to libraries
  (\<open>to_secret_map\<close>, where a later entry would win) agrees with the lookups (where the first
  wins).
\<close>

theorem to_secret_map_agrees:
  assumes "hm_wf user" and "parameters_try_new cname user pfx stores specs = Inr p"
  shows "hm_get (to_secret_map p) = param_value_of p \<and> distinct (map fst (params_list p))"
proof -
  have "distinct (map fst (params_list p))"
    using assms distinct_fill_and_check distinct_autoload distinct_accepted
    by (auto simp: parameters_try_new_def Let_def and_then_eq_Inr parameters_new_def hm_wf_def)
  then show ?thesis
    by (simp add: to_secret_map_def hm_get_collect map_of_rev_distinct param_value_of_map_of fun_eq_iff)
qed

theorem to_secret_map_agrees_witness:
  "hm_get (to_secret_map \<lparr>params_list = [(''mode'', ''x''), (''pass'', ''s''), (''port'', ''5432'')],
     params_prefix = ''pg'', all_params = demo_specs\<rparr>) ''port'' = Some ''5432''"
proof -
  have "parameters_try_new ''connector pg'' [(''mode'', ''x''), (''pg_pass'', ''s'')] ''pg'' [] demo_specs
     = Inr \<lparr>params_list = [(''mode'', ''x''), (''pass'', ''s''), (''port'', ''5432'')], params_prefix = ''pg'', all_params = demo_specs\<rparr>"
    by code_simp
  from to_secret_map_agrees [OF _ this] show ?thesis
    by (simp add: hm_wf_def param_value_of_map_of)
qed

section \<open>The file connector\<close>

lemma FILE_PARAMETERS_all:
  "\<forall>s\<in>set FILE_PARAMETERS. \<not> is_prefixed (spec_type s) \<and> \<not> spec_secret s \<and> spec_default s = None \<and>
     \<not> spec_required s"
  by (simp add: FILE_PARAMETERS_def runtime_spec_def description_spec_def)

lemma FILE_PARAMETERS_find:
  "find (\<lambda>s. spec_name s = n) FILE_PARAMETERS = Some s \<Longrightarrow>
   \<not> is_prefixed (spec_type s) \<and> \<not> spec_secret s \<and> spec_default s = None \<and> \<not> spec_required s"
  using FILE_PARAMETERS_all by (metis find_Some_iff nth_mem)

lemma accept_file_param:
  "accept_param ''file'' FILE_PARAMETERS kv \<noteq> Some (''file_'' @ n, v)"
proof
  assume acc: "accept_param ''file'' FILE_PARAMETERS kv = Some (''file_'' @ n, v)"
  from accept_param_key [OF acc] have "fst kv = ''file_'' @ n"
    using FILE_PARAMETERS_find [of "''file_'' @ n"] by auto
  then have "strip_prefix (''file'' @ ''_'') (fst kv) = Some n" by (simp add: strip_prefix_Some)
  with acc have "n = ''file_'' @ n"
    by (auto simp: accept_param_def Let_def split: option.splits if_splits prod.splits)
  then have "length n = length (''file_'' @ n)" by (rule arg_cong)
  then show False by simp
qed

text \<open>
  The file connector can be created whatever the user wrote, but none of its parameters
  that start with \<open>file_\<close> (the format, the extension, the compression type) is ever set: the
  prefix is cut off what the user wrote before the parameter is looked up.
\<close>

theorem file_connector_drops_file_params:
  "\<exists>p. create_new_connector [(''file'', file_factory)] ''file'' user stores = Some (Inr p) \<and>
       param_value_of p (''file_'' @ n) = None"
proof -
  let ?r = "parameters_try_new ''connector file'' user ''file'' stores FILE_PARAMETERS"
  let ?acc = "List.map_filter (accept_param ''file'' FILE_PARAMETERS) user"
  have d: "distinct (map spec_name FILE_PARAMETERS)"
    by (simp add: FILE_PARAMETERS_def runtime_spec_def description_spec_def)
  have opt: "\<not> spec_required s" if "s \<in> set FILE_PARAMETERS" for s
    using that FILE_PARAMETERS_all by blast
  obtain p where p: "?r = Inr p"
    using parameters_try_new_spec [OF d, of user "''file''" stores "''connector file''"] opt
    by (cases ?r) auto
  have "map_of ?acc (''file_'' @ n) = None"
    using accept_file_param by (fastforce simp: map_of_eq_None_iff mem_map_filter)
  then have "Option.bind (user_key ''file'' s) (map_of user) = None"
    if "find (\<lambda>s. spec_name s = ''file_'' @ n) FILE_PARAMETERS = Some s" for s
    using map_of_accepted [OF that, of "''file''" user] by simp
  then have "expected_value user ''file'' stores FILE_PARAMETERS (''file_'' @ n) = None"
    using FILE_PARAMETERS_find [of "''file_'' @ n"]
    by (auto simp: expected_value_def autoloaded_def split: option.splits)
  with parameters_try_new_spec [OF d, of user "''file''" stores "''connector file''"] p
  show ?thesis
    by (simp add: create_new_connector_def file_factory_def)
qed

end
