(* ===== verification/Debezium.thy ===== *)
theory Debezium
  imports Refresh_Changes Parameters
begin

text \<open>
  Change events of Debezium as change batches (data_components/src/debezium: change_event.rs,
  arrow.rs and arrow/changes.rs, with arrow/struct_builder.rs and debezium_kafka.rs): the Arrow
  schema of a table from Debezium's field descriptions, the conversion of a JSON row, and the
  batch a change becomes, in the terms of \<open>Change_Batch\<close>. Parsing of base64, timestamps and numbers,
  and floating-point rounding, are the fields of \<open>decoders\<close>; the constraints DataFusion makes from
  the primary key are left out. The builders are made from the fields
  they are used with, so their downcasts succeed. A panic is \<open>None\<close>.
\<close>

section \<open>Change events\<close>

datatype js =
    JsNull | JsBool bool | JsInt int | JsFloat real | JsStr string
  | JsArr "js list" | JsObj "(string \<times> js) list"

fun js_get :: "js \<Rightarrow> string \<Rightarrow> js option" where
  "js_get (JsObj kvs) k = map_of kvs k"
| "js_get _ k = None"

fun js_str :: "js \<Rightarrow> string option" where
  "js_str (JsStr s) = Some s"
| "js_str _ = None"

fun js_bool :: "js \<Rightarrow> bool option" where
  "js_bool (JsBool b) = Some b"
| "js_bool _ = None"

text \<open>An integer beyond \<open>i64\<close> (it is read as \<open>u64\<close>) has no \<open>as_i64\<close>.\<close>

fun js_i64 :: "js \<Rightarrow> int option" where
  "js_i64 (JsInt i) = (if - (2 ^ 63) \<le> i \<and> i < 2 ^ 63 then Some i else None)"
| "js_i64 _ = None"

fun js_f64 :: "(int \<Rightarrow> real) \<Rightarrow> js \<Rightarrow> real option" where
  "js_f64 of_integer (JsInt i) = Some (of_integer i)"
| "js_f64 of_integer (JsFloat f) = Some f"
| "js_f64 of_integer _ = None"

fun js_array :: "js \<Rightarrow> js list option" where
  "js_array (JsArr xs) = Some xs"
| "js_array _ = None"

datatype op = OpCreate | OpUpdate | OpDelete | OpRead | OpTruncate | OpMessage

fun show_op :: "op \<Rightarrow> string" where
  "show_op OpCreate = ''c''"
| "show_op OpUpdate = ''u''"
| "show_op OpDelete = ''d''"
| "show_op OpRead = ''r''"
| "show_op OpTruncate = ''t''"
| "show_op OpMessage = ''m''"

datatype event_field = EventField
  (ev_type: string) (ev_fields: "event_field list option") (ev_optional: bool) (ev_name: "string option")
  (ev_field: "string option") (ev_version: "int option") (ev_parameters: "(string, string) hmap option")
  (ev_items: "event_field option")

record event_schema =
  es_type :: string
  es_fields :: "event_field list"
  es_optional :: bool
  es_name :: string

record event_source =
  src_version :: string
  src_connector :: string
  src_name :: string
  src_ts_ms :: int
  src_snapshot :: string
  src_db :: string
  src_sequence :: string
  src_schema :: string
  src_table :: string
  src_tx_id :: int
  src_lsn :: int
  src_xmin :: "js option"

record event_payload =
  ep_before :: "js option"
  ep_after :: js
  ep_source :: event_source
  ep_op :: op
  ep_ts_ms :: int
  ep_transaction :: "js option"

record debezium_change_event =
  ce_schema :: event_schema
  ce_payload :: event_payload

record change_event_key =
  ck_schema :: event_schema
  ck_payload :: js

definition get_primary_key :: "change_event_key \<Rightarrow> string list" where
  "get_primary_key k = List.map_filter ev_field (es_fields (ck_schema k))"

definition get_schema_fields :: "debezium_change_event \<Rightarrow> event_field list option" where
  "get_schema_fields e =
     Option.bind (find (\<lambda>f. ev_field f = Some ''after'') (es_fields (ce_schema e))) ev_fields"

section \<open>Arrow types\<close>

datatype unit_of_time = Second | Millisecond | Microsecond | Nanosecond

datatype arrow_type =
    AUtf8 | AInt16 | AInt32 | AInt64 | AFloat32 | AFloat64 | ABoolean | ADate32 | ABinary
  | ADecimal128 nat int | ADecimal256 nat int
  | ATimestamp unit_of_time "string option" | ATime32 unit_of_time | ATime64 unit_of_time
  | AList arrow_field
  and arrow_field = AField (af_name: string) (af_type: arrow_type) (af_nullable: bool)

datatype debezium_error =
    MissingParametersForDecimal
  | MissingPrecisionForDecimal
  | UnableToParsePrecision string
  | UnableToParseScale string
  | MissingScaleForDecimal
  | MissingItemsForArray
  | MissingFieldName
  | MissingFieldInValue string js
  | UnableToDecodeBase64 string
  | Decimal128BytesNot16Bytes "nat list"
  | UnableToConvertToI64
  | TimestampNotSupported unit_of_time "string option"
  | DataTypeNotSupported arrow_type
  | ListDataTypeNotSupported arrow_type
  | DebeziumFieldNotSupported string
  | UnableToParseTimestamp string
  | DeleteOpWithoutBeforeField

record decoders =
  dc_parse_u8 :: "string \<Rightarrow> (string, nat) result"
  dc_parse_i8 :: "string \<Rightarrow> (string, int) result"
  dc_base64 :: "string \<Rightarrow> (string, nat list) result"
  dc_timestamp_micros :: "string \<Rightarrow> (string, int) result"
  dc_timestamp_millis :: "string \<Rightarrow> (string, int) result"
  dc_naive_time :: "string \<Rightarrow> (string, nat \<times> nat) result"
  dc_f64_of_int :: "int \<Rightarrow> real"
  dc_f32 :: "real \<Rightarrow> real"

definition decimal_type :: "decoders \<Rightarrow> (string, string) hmap option \<Rightarrow> (debezium_error, arrow_type) result" where
  "decimal_type dc params = (case params of
      None \<Rightarrow> Inl MissingParametersForDecimal
    | Some parameters \<Rightarrow> (case hm_get parameters ''connect.decimal.precision'' of
        None \<Rightarrow> Inl MissingPrecisionForDecimal
      | Some p \<Rightarrow>
          and_then (map_err UnableToParsePrecision (dc_parse_u8 dc p)) (\<lambda>precision.
            case hm_get parameters ''scale'' of
              None \<Rightarrow> Inl MissingScaleForDecimal
            | Some s \<Rightarrow>
                and_then (map_err UnableToParseScale (dc_parse_i8 dc s)) (\<lambda>scale.
                  Inr (if precision \<le> 38 then ADecimal128 precision scale else ADecimal256 precision scale)))))"

fun convert_to_arrow_data_type :: "decoders \<Rightarrow> event_field \<Rightarrow> (debezium_error, arrow_type) result" where
  "convert_to_arrow_data_type dc (EventField ty inner opt name field version parameters items) =
     (if ty = ''string'' then
        Inr (if name = Some ''io.debezium.time.ZonedTime'' then ATime64 Microsecond
             else if name = Some ''io.debezium.time.ZonedTimestamp'' then ATimestamp Microsecond (Some ''UTC'')
             else AUtf8)
      else if ty = ''int16'' then Inr AInt16
      else if ty = ''int32'' then
        Inr (if name = Some ''io.debezium.time.Date'' then ADate32
             else if name = Some ''io.debezium.time.Time'' then ATime32 Millisecond
             else if name = Some ''io.debezium.time.Timestamp'' then ATimestamp Millisecond None
             else AInt32)
      else if ty = ''int64'' then
        Inr (if name = Some ''io.debezium.time.MicroTime'' then ATime64 Microsecond
             else if name = Some ''io.debezium.time.MicroTimestamp'' then ATimestamp Microsecond None
             else AInt64)
      else if ty = ''boolean'' then Inr ABoolean
      else if ty = ''float'' then Inr AFloat32
      else if ty = ''double'' then Inr AFloat64
      else if ty = ''bytes'' then
        (if name = Some ''org.apache.kafka.connect.data.Decimal'' then decimal_type dc parameters else Inr ABinary)
      else if ty = ''array'' then
        (case items of
           None \<Rightarrow> Inl MissingItemsForArray
         | Some i \<Rightarrow> and_then (convert_to_arrow_data_type dc i) (\<lambda>t. Inr (AList (AField ''item'' t (ev_optional i)))))
      else Inl (DebeziumFieldNotSupported ty))"

definition convert_to_arrow_field :: "decoders \<Rightarrow> event_field \<Rightarrow> (debezium_error, arrow_field) result" where
  "convert_to_arrow_field dc f = (case ev_field f of
      None \<Rightarrow> Inl MissingFieldName
    | Some n \<Rightarrow> and_then (convert_to_arrow_data_type dc f) (\<lambda>t. Inr (AField n t (ev_optional f))))"

definition convert_fields_to_arrow_schema :: "decoders \<Rightarrow> event_field list \<Rightarrow> (debezium_error, arrow_field list) result" where
  "convert_fields_to_arrow_schema dc fs = try_collect (convert_to_arrow_field dc) fs"

section \<open>Values\<close>

datatype dvalue =
    VStr string | VI16 "16 word" | VI32 "32 word" | VI64 "64 word" | VI128 "128 word"
  | VFloat real | VBool bool | VList "dvalue option list"

definition be_value :: "nat list \<Rightarrow> nat" where
  "be_value bs = fold (\<lambda>b acc. acc * 256 + b) bs 0"

text \<open>The bytes are padded with zeros at the front and read as a big-endian \<open>i128\<close>.\<close>

definition convert_string_to_decimal :: "decoders \<Rightarrow> string \<Rightarrow> (debezium_error, 128 word) result" where
  "convert_string_to_decimal dc s =
     and_then (map_err UnableToDecodeBase64 (dc_base64 dc s)) (\<lambda>decimal_bytes.
       let padded = replicate (16 - length decimal_bytes) 0 @ decimal_bytes
       in if length padded = 16 then Inr (of_nat (be_value padded)) else Inl (Decimal128BytesNot16Bytes padded))"

definition append_i64 :: "int \<Rightarrow> (int \<Rightarrow> dvalue) \<Rightarrow> js \<Rightarrow> (debezium_error, dvalue option) result" where
  "append_i64 bound wrap j = (case js_i64 j of
      None \<Rightarrow> Inr None
    | Some i \<Rightarrow> if - bound \<le> i \<and> i < bound then Inr (Some (wrap i)) else Inl UnableToConvertToI64)"

definition append_parsed :: "(string \<Rightarrow> (string, int) result) \<Rightarrow> js \<Rightarrow> (debezium_error, dvalue option) result" where
  "append_parsed parse j =
     map_err UnableToParseTimestamp (transpose_opt (map_option (\<lambda>ts. map_sum id (\<lambda>i. VI64 (of_int i)) (parse ts)) (js_str j)))"

definition time_micros :: "decoders \<Rightarrow> string \<Rightarrow> (string, int) result" where
  "time_micros dc ts = map_sum id (\<lambda>(secs, nanos). int secs * 1000000 + int (nanos div 1000)) (dc_naive_time dc ts)"

text \<open>The elements of a list; an integer is cut to the width of the type.\<close>

fun list_element :: "decoders \<Rightarrow> arrow_type \<Rightarrow> (js \<Rightarrow> dvalue option) option" where
  "list_element dc AUtf8 = Some (\<lambda>j. map_option VStr (js_str j))"
| "list_element dc ABoolean = Some (\<lambda>j. map_option VBool (js_bool j))"
| "list_element dc AInt16 = Some (\<lambda>j. map_option (\<lambda>i. VI16 (of_int i)) (js_i64 j))"
| "list_element dc AInt32 = Some (\<lambda>j. map_option (\<lambda>i. VI32 (of_int i)) (js_i64 j))"
| "list_element dc AInt64 = Some (\<lambda>j. map_option (\<lambda>i. VI64 (of_int i)) (js_i64 j))"
| "list_element dc AFloat32 = Some (\<lambda>j. map_option (\<lambda>f. VFloat (dc_f32 dc f)) (js_f64 (dc_f64_of_int dc) j))"
| "list_element dc AFloat64 = Some (\<lambda>j. map_option VFloat (js_f64 (dc_f64_of_int dc) j))"
| "list_element dc _ = None"

fun append_field_value :: "decoders \<Rightarrow> arrow_type \<Rightarrow> js \<Rightarrow> (debezium_error, dvalue option) result" where
  "append_field_value dc AUtf8 j = Inr (map_option VStr (js_str j))"
| "append_field_value dc AInt16 j = append_i64 (2 ^ 15) (\<lambda>i. VI16 (of_int i)) j"
| "append_field_value dc AInt32 j = append_i64 (2 ^ 31) (\<lambda>i. VI32 (of_int i)) j"
| "append_field_value dc AInt64 j = append_i64 (2 ^ 63) (\<lambda>i. VI64 (of_int i)) j"
| "append_field_value dc AFloat32 j = Inr (map_option (\<lambda>f. VFloat (dc_f32 dc f)) (js_f64 (dc_f64_of_int dc) j))"
| "append_field_value dc AFloat64 j = Inr (map_option VFloat (js_f64 (dc_f64_of_int dc) j))"
| "append_field_value dc ABoolean j = Inr (map_option VBool (js_bool j))"
| "append_field_value dc (ADecimal128 p s) j =
     map_sum id (map_option VI128) (transpose_opt (map_option (convert_string_to_decimal dc) (js_str j)))"
| "append_field_value dc (ATimestamp u tz) j =
     (case (u, tz) of
        (Microsecond, None) \<Rightarrow> append_i64 (2 ^ 63) (\<lambda>i. VI64 (of_int i)) j
      | (Millisecond, None) \<Rightarrow> append_i64 (2 ^ 63) (\<lambda>i. VI64 (of_int i)) j
      | (Microsecond, Some _) \<Rightarrow> append_parsed (dc_timestamp_micros dc) j
      | (Millisecond, Some _) \<Rightarrow> append_parsed (dc_timestamp_millis dc) j
      | _ \<Rightarrow> Inl (TimestampNotSupported u tz))"
| "append_field_value dc (ATime64 u) j =
     (if u = Microsecond
      then (if js_str j \<noteq> None then append_parsed (time_micros dc) j else append_i64 (2 ^ 63) (\<lambda>i. VI64 (of_int i)) j)
      else Inl (DataTypeNotSupported (ATime64 u)))"
| "append_field_value dc ADate32 j = append_i64 (2 ^ 31) (\<lambda>i. VI32 (of_int i)) j"
| "append_field_value dc (AList f) j =
     (case list_element dc (af_type f) of
        None \<Rightarrow> Inl (ListDataTypeNotSupported (af_type f))
      | Some el \<Rightarrow> Inr (map_option (\<lambda>xs. VList (map el xs)) (js_array j)))"
| "append_field_value dc t j = Inl (DataTypeNotSupported t)"

section \<open>The struct builder\<close>

record struct_builder =
  sb_fields :: "arrow_field list"
  sb_columns :: "dvalue option list list"
  sb_validity :: "bool list"

definition struct_builder_from_fields :: "arrow_field list \<Rightarrow> struct_builder" where
  "struct_builder_from_fields fs = \<lparr>sb_fields = fs, sb_columns = map (\<lambda>_. []) fs, sb_validity = []\<rparr>"

definition sb_append :: "bool \<Rightarrow> struct_builder \<Rightarrow> struct_builder" where
  "sb_append valid b = b\<lparr>sb_validity := sb_validity b @ [valid]\<rparr>"

definition append_to_column :: "nat \<Rightarrow> dvalue option \<Rightarrow> struct_builder \<Rightarrow> struct_builder" where
  "append_to_column i v b = b\<lparr>sb_columns := (sb_columns b)[i := sb_columns b ! i @ [v]]\<rparr>"

fun append_fields :: "decoders \<Rightarrow> js \<Rightarrow> nat \<Rightarrow> arrow_field list \<Rightarrow> struct_builder \<Rightarrow> (debezium_error, struct_builder) result" where
  "append_fields dc value i [] b = Inr b"
| "append_fields dc value i (f # fs) b =
     (case js_get value (af_name f) of
        None \<Rightarrow> Inl (MissingFieldInValue (af_name f) value)
      | Some v \<Rightarrow> and_then (append_field_value dc (af_type f) v) (\<lambda>x.
          append_fields dc value (Suc i) fs (append_to_column i x b)))"

definition append_value_to_struct_builder :: "decoders \<Rightarrow> js \<Rightarrow> struct_builder \<Rightarrow> (debezium_error, struct_builder) result" where
  "append_value_to_struct_builder dc value b = append_fields dc value 0 (sb_fields b) (sb_append True b)"

text \<open>
  \<open>finish\<close> panics when a column has another length than the struct, and Arrow's constructor of
  struct arrays when a column that is not nullable has a null in a valid row; the constructor of
  list arrays panics when the items are not nullable and one is null. The result is the list of rows.
\<close>

definition validate_content :: "struct_builder \<Rightarrow> bool" where
  "validate_content b \<longleftrightarrow> length (sb_fields b) = length (sb_columns b) \<and>
     (\<forall>c\<in>set (sb_columns b). length c = length (sb_validity b))"

fun items_ok :: "arrow_field \<Rightarrow> dvalue option \<Rightarrow> bool" where
  "items_ok (AField n (AList item) nullable) (Some (VList xs)) = (af_nullable item \<or> None \<notin> set xs)"
| "items_ok f v = True"

definition nulls_allowed :: "struct_builder \<Rightarrow> bool" where
  "nulls_allowed b \<longleftrightarrow> list_all2 (\<lambda>f c.
     (af_nullable f \<or> list_all2 (\<lambda>valid v. valid \<longrightarrow> v \<noteq> None) (sb_validity b) c) \<and> list_all (items_ok f) c)
     (sb_fields b) (sb_columns b)"

definition sb_finish :: "struct_builder \<Rightarrow> dvalue option row list option" where
  "sb_finish b =
     (if validate_content b \<and> nulls_allowed b
      then Some (map (\<lambda>r. map (\<lambda>c. c ! r) (sb_columns b)) [0..<length (sb_validity b)])
      else None)"

fun append_values :: "decoders \<Rightarrow> js list \<Rightarrow> struct_builder \<Rightarrow> (debezium_error, struct_builder) result" where
  "append_values dc [] b = Inr b"
| "append_values dc (v # vs) b = and_then (append_value_to_struct_builder dc v b) (append_values dc vs)"

definition to_struct_array :: "decoders \<Rightarrow> js list \<Rightarrow> arrow_field list \<Rightarrow> (debezium_error, dvalue option row list) result option" where
  "to_struct_array dc values schema =
     (case append_values dc values (struct_builder_from_fields schema) of
        Inl e \<Rightarrow> Some (Inl e)
      | Inr b \<Rightarrow> map_option Inr (sb_finish b))"

section \<open>Changes\<close>

fun cdc_type_of :: "arrow_type \<Rightarrow> cdc_type" and cdc_field_of :: "arrow_field \<Rightarrow> cdc_field" where
  "cdc_type_of AUtf8 = Prim DT_Utf8"
| "cdc_type_of AInt16 = Prim DT_Int16"
| "cdc_type_of AInt32 = Prim DT_Int32"
| "cdc_type_of AInt64 = Prim DT_Int64"
| "cdc_type_of AFloat32 = Prim DT_Float32"
| "cdc_type_of AFloat64 = Prim DT_Float64"
| "cdc_type_of ABoolean = Prim DT_Boolean"
| "cdc_type_of ADate32 = Prim DT_Date32"
| "cdc_type_of ABinary = Prim DT_Binary"
| "cdc_type_of (ADecimal128 p s) = Prim DT_Decimal128"
| "cdc_type_of (ADecimal256 p s) = Prim DT_Decimal256"
| "cdc_type_of (ATimestamp u tz) = Prim (DT_Timestamp tz)"
| "cdc_type_of (ATime32 u) = Prim DT_Time32"
| "cdc_type_of (ATime64 u) = Prim DT_Time64"
| "cdc_type_of (AList f) = ListOf (cdc_field_of f)"
| "cdc_field_of (AField n t nullable) = CField n (cdc_type_of t) nullable []"

definition change_data :: "debezium_change_event \<Rightarrow> (debezium_error, js) result" where
  "change_data change =
     (case ep_op (ce_payload change) of
        OpDelete \<Rightarrow> (case ep_before (ce_payload change) of Some b \<Rightarrow> Inr b | None \<Rightarrow> Inl DeleteOpWithoutBeforeField)
      | _ \<Rightarrow> Inr (ep_after (ce_payload change)))"

definition change_record :: "arrow_field list \<Rightarrow> string list \<Rightarrow> op \<Rightarrow> dvalue option row list \<Rightarrow> dvalue option cdc_record" where
  "change_record table_schema primary_key o' rows =
     \<lparr>rec_schema = changes_schema (schema_new (map cdc_field_of table_schema)),
      rec_columns = [StringArray [show_op o'],
        ListArray (field_new ''item'' (Prim DT_Utf8) False) [StringArray primary_key],
        StructArray (map cdc_field_of table_schema) rows],
      rec_num_rows = 1\<rparr>"

text \<open>An empty primary key is a null list, which is read as an empty one.\<close>

definition to_change_batch ::
  "decoders \<Rightarrow> arrow_field list \<Rightarrow> string list \<Rightarrow> debezium_change_event \<Rightarrow> (debezium_error, dvalue option change_batch) result option" where
  "to_change_batch dc table_schema primary_key change =
     (case and_then (change_data change) (\<lambda>v. append_value_to_struct_builder dc v (struct_builder_from_fields table_schema)) of
        Inl e \<Rightarrow> Some (Inl e)
      | Inr b \<Rightarrow> (case sb_finish b of
          None \<Rightarrow> None
        | Some rows \<Rightarrow>
            (case change_batch_try_new (change_record table_schema primary_key (ep_op (ce_payload change)) rows) of
               Some (Inr batch) \<Rightarrow> Some (Inr batch)
             | _ \<Rightarrow> None)))"

record 'c debezium_kafka =
  dk_schema :: "arrow_field list"
  dk_primary_keys :: "string list"
  dk_consumer :: 'c

text \<open>One message of the topic: what is handed to the refresh task; \<open>'k\<close> is the message to commit.\<close>

definition stream_change ::
  "decoders \<Rightarrow> (debezium_error \<Rightarrow> string) \<Rightarrow> 'c debezium_kafka \<Rightarrow> (string, 'k \<times> debezium_change_event) result \<Rightarrow>
   (stream_error, 'k \<times> dvalue option change_batch) result option" where
  "stream_change dc show_error dk msg = (case msg of
      Inl _ \<Rightarrow> Some (Inl (Kafka ''Unable to read message''))
    | Inr (k, val) \<Rightarrow>
        map_option (\<lambda>r. map_sum (\<lambda>e. SerdeJsonError (show_error e)) (Pair k) r)
          (to_change_batch dc (dk_schema dk) (dk_primary_keys dk) val))"

section \<open>The connector\<close>

datatype debezium_setup_error = InvalidTransport | InvalidMessageFormat | MissingKafkaBootstrapServers

definition DEBEZIUM_PARAMETERS :: "parameter_spec list" where
  "DEBEZIUM_PARAMETERS = [
     description_spec ''The message broker transport to use. The default is kafka.''
       (default_spec ''kafka'' (required_spec (connector_spec ''transport''))),
     description_spec ''The message format to use. The default is json.''
       (default_spec ''json'' (required_spec (connector_spec ''message_format''))),
     description_spec ''A list of host/port pairs for establishing the initial Kafka cluster connection.''
       (required_spec (runtime_spec ''kafka_bootstrap_servers''))]"

definition debezium_new :: "parameters \<Rightarrow> (debezium_setup_error, string) result option" where
  "debezium_new ps =
     Option.bind (params_get ps ''transport'') (\<lambda>t.
     Option.bind (params_get ps ''message_format'') (\<lambda>f.
       let transport = (case lookup_ok t of Some s \<Rightarrow> s | None \<Rightarrow> ''kafka'');
           message_format = (case lookup_ok f of Some s \<Rightarrow> s | None \<Rightarrow> ''json'')
       in if transport \<noteq> ''kafka'' then Some (Inl InvalidTransport)
          else if message_format \<noteq> ''json'' then Some (Inl InvalidMessageFormat)
          else map_option (\<lambda>s. case lookup_ok s of Some b \<Rightarrow> Inr b | None \<Rightarrow> Inl MissingKafkaBootstrapServers)
                 (params_get ps ''kafka_bootstrap_servers'')))"

definition debezium_refresh_mode :: "refresh_mode option \<Rightarrow> refresh_mode" where
  "debezium_refresh_mode m = (case m of Some m' \<Rightarrow> m' | None \<Rightarrow> Changes)"

record debezium_metadata =
  dm_consumer_group_id :: string
  dm_topic :: string
  dm_primary_keys :: "string list"
  dm_schema_fields :: "event_field list"

datatype read_provider_error =
    InvalidConfiguration string
  | UnableToGetReadProvider string

record ('c, 'w) kafka =
  kf_existing_group :: "string \<Rightarrow> 'w \<Rightarrow> (string, 'c) result \<times> 'w"
  kf_generated_group :: "string \<Rightarrow> 'w \<Rightarrow> (string, 'c) result \<times> 'w"
  kf_subscribe :: "'c \<Rightarrow> string \<Rightarrow> 'w \<Rightarrow> (string, unit) result \<times> 'w"
  kf_next :: "'c \<Rightarrow> 'w \<Rightarrow> (string, (change_event_key \<times> debezium_change_event) option) result \<times> 'w"
  kf_restart_topic :: "'c \<Rightarrow> string \<Rightarrow> 'w \<Rightarrow> (string, unit) result \<times> 'w"
  kf_group_id :: "'c \<Rightarrow> string"
  kf_get_metadata :: "'w \<Rightarrow> debezium_metadata option"
  kf_set_metadata :: "debezium_metadata \<Rightarrow> 'w \<Rightarrow> (string, unit) result \<times> 'w"
  kf_show_error :: "debezium_error \<Rightarrow> string"

text \<open>A step that can fail, and what follows it.\<close>

definition step :: "(string, 'a) result \<times> 'w \<Rightarrow> ('a \<Rightarrow> 'w \<Rightarrow> (read_provider_error, 'b) result \<times> 'w) \<Rightarrow> (read_provider_error, 'b) result \<times> 'w" where
  "step r f = (case r of (Inl e, w) \<Rightarrow> (Inl (UnableToGetReadProvider e), w) | (Inr x, w) \<Rightarrow> f x w)"

definition get_metadata_from_kafka ::
  "decoders \<Rightarrow> ('c, 'w) kafka \<Rightarrow> string \<Rightarrow> bool \<Rightarrow> string \<Rightarrow> 'w \<Rightarrow>
   (read_provider_error, 'c \<times> debezium_metadata \<times> arrow_field list) result \<times> 'w" where
  "get_metadata_from_kafka dc kf dataset_name file_accelerated topic w =
     step (kf_generated_group kf dataset_name w) (\<lambda>consumer w1.
     step (kf_subscribe kf consumer topic w1) (\<lambda>_ w2.
     step (kf_next kf consumer w2) (\<lambda>m w3.
       case m of
         None \<Rightarrow> (Inl (UnableToGetReadProvider ''No message received from Kafka''), w3)
       | Some (k, event) \<Rightarrow>
           (case get_schema_fields event of
              None \<Rightarrow> (Inl (UnableToGetReadProvider ''Could not get Arrow schema from Debezium message''), w3)
            | Some schema_fields \<Rightarrow>
                step (map_err (kf_show_error kf) (convert_fields_to_arrow_schema dc schema_fields), w3) (\<lambda>schema w4.
                let metadata = \<lparr>dm_consumer_group_id = kf_group_id kf consumer, dm_topic = topic,
                      dm_primary_keys = get_primary_key k, dm_schema_fields = schema_fields\<rparr>
                in step (if file_accelerated then kf_set_metadata kf metadata w4 else (Inr (), w4)) (\<lambda>_ w5.
                   step (kf_restart_topic kf consumer topic w5) (\<lambda>_ w6.
                     (Inr (consumer, metadata, schema), w6))))))))"

definition resume_from_metadata ::
  "decoders \<Rightarrow> ('c, 'w) kafka \<Rightarrow> string \<Rightarrow> string \<Rightarrow> debezium_metadata \<Rightarrow> 'w \<Rightarrow>
   (read_provider_error, 'c \<times> debezium_metadata \<times> arrow_field list) result \<times> 'w" where
  "resume_from_metadata dc kf dataset_name topic metadata w =
     step (kf_existing_group kf (dm_consumer_group_id metadata) w) (\<lambda>consumer w1.
       if topic \<noteq> dm_topic metadata
       then (Inl (InvalidConfiguration (''The topic has changed from '' @ dm_topic metadata @ '' to '' @ topic @
              '' for dataset '' @ dataset_name @ ''. The existing accelerator data may be out of date.'')), w1)
       else step (map_err (kf_show_error kf) (convert_fields_to_arrow_schema dc (dm_schema_fields metadata)), w1) (\<lambda>schema w2.
            step (kf_subscribe kf consumer topic w2) (\<lambda>_ w3.
              (Inr (consumer, metadata, schema), w3))))"

definition debezium_read_provider ::
  "decoders \<Rightarrow> ('c, 'w) kafka \<Rightarrow> (table_reference \<Rightarrow> string) \<Rightarrow> 's dataset \<Rightarrow> 'w \<Rightarrow>
   (read_provider_error, 'c debezium_kafka) result \<times> 'w" where
  "debezium_read_provider dc kf show_ref d w =
     (case ds_acceleration d of
        None \<Rightarrow> (Inl (InvalidConfiguration ''The Debezium data connector only works with accelerated datasets.''), w)
      | Some acceleration \<Rightarrow>
          if \<not> acc_enabled acceleration
          then (Inl (InvalidConfiguration ''The Debezium data connector only works with accelerated datasets.''), w)
          else if acc_engine acceleration = Arrow
          then (Inl (InvalidConfiguration ''The Debezium data connector only works with non-Arrow acceleration engines.''), w)
          else if debezium_refresh_mode (acc_refresh_mode acceleration) \<noteq> Changes
          then (Inl (InvalidConfiguration ''The Debezium data connector only works with 'changes' refresh mode.''), w)
          else
            (case (case kf_get_metadata kf w of
                     Some metadata \<Rightarrow> resume_from_metadata dc kf (show_ref (ds_name d)) (dataset_path d) metadata w
                   | None \<Rightarrow> get_metadata_from_kafka dc kf (show_ref (ds_name d)) (is_file_accelerated d) (dataset_path d) w) of
               (Inl e, w') \<Rightarrow> (Inl e, w')
             | (Inr (consumer, metadata, schema), w') \<Rightarrow>
                 (Inr \<lparr>dk_schema = schema, dk_primary_keys = dm_primary_keys metadata, dk_consumer = consumer\<rparr>, w')))"

section \<open>Rows\<close>

text \<open>The reference: a row is converted field by field, and fits if its nulls are allowed.\<close>

definition convert_row :: "decoders \<Rightarrow> arrow_field list \<Rightarrow> js \<Rightarrow> (debezium_error, dvalue option row) result" where
  "convert_row dc fs value = try_collect (\<lambda>f. case js_get value (af_name f) of
      None \<Rightarrow> Inl (MissingFieldInValue (af_name f) value)
    | Some v \<Rightarrow> append_field_value dc (af_type f) v) fs"

definition row_ok :: "arrow_field list \<Rightarrow> dvalue option row \<Rightarrow> bool" where
  "row_ok fs row \<longleftrightarrow> list_all2 (\<lambda>f v. (af_nullable f \<or> v \<noteq> None) \<and> items_ok f v) fs row"

lemma convert_row_length: "convert_row dc fs value = Inr row \<Longrightarrow> length row = length fs"
  by (auto simp: convert_row_def try_collect_Inr_iff dest: list_all2_lengthD)

lemma map_sum_id_id [simp]: "map_sum id (\<lambda>x. x) r = r"
  by (cases r) auto

lemma append_fields_columns:
  assumes "length (sb_columns b) = i + length fs"
  shows "append_fields dc value i fs b =
    map_sum id (\<lambda>row. b\<lparr>sb_columns := take i (sb_columns b) @ map2 (\<lambda>c v. c @ [v]) (drop i (sb_columns b)) row\<rparr>)
      (convert_row dc fs value)"
  using assms
proof (induction fs arbitrary: i b)
  case (Cons f fs)
  show ?case
  proof (cases "js_get value (af_name f)")
    case None
    then show ?thesis by (simp add: convert_row_def)
  next
    case (Some v)
    show ?thesis
    proof (cases "append_field_value dc (af_type f) v")
      case (Inl e)
      with Some show ?thesis by (simp add: convert_row_def)
    next
      case (Inr x)
      let ?b = "append_to_column i x b"
      have cols: "length (sb_columns ?b) = Suc i + length fs" "i < length (sb_columns b)"
        using Cons.prems by (simp_all add: append_to_column_def)
      have "take (Suc i) (sb_columns ?b) = take i (sb_columns b) @ [sb_columns b ! i @ [x]]"
        "drop (Suc i) (sb_columns ?b) = drop (Suc i) (sb_columns b)"
        using cols(2) by (simp_all add: append_to_column_def take_Suc_conv_app_nth)
      moreover have "drop i (sb_columns b) = sb_columns b ! i # drop (Suc i) (sb_columns b)"
        using cols(2) by (simp add: Cons_nth_drop_Suc)
      ultimately show ?thesis
        using Some Inr Cons.IH [OF cols(1)]
        by (cases "convert_row dc fs value") (simp_all add: convert_row_def append_to_column_def)
    qed
  qed
qed (simp add: convert_row_def)

text \<open>A builder that holds the given rows.\<close>

definition built :: "arrow_field list \<Rightarrow> dvalue option row list \<Rightarrow> struct_builder" where
  "built fs rows = \<lparr>sb_fields = fs, sb_columns = map (\<lambda>j. map (\<lambda>r. r ! j) rows) [0..<length fs],
     sb_validity = replicate (length rows) True\<rparr>"

lemma built_Nil: "struct_builder_from_fields fs = built fs []"
  by (simp add: struct_builder_from_fields_def built_def map_replicate_const)

lemma append_row_columns:
  "length row = n \<Longrightarrow> map2 (\<lambda>c v. c @ [v]) (map (\<lambda>j. map (\<lambda>r. r ! j) rows) [0..<n]) row =
     map (\<lambda>j. map (\<lambda>r. r ! j) (rows @ [row])) [0..<n]"
  by (auto intro: nth_equalityI)

lemma append_value_built:
  "append_value_to_struct_builder dc value (built fs rows) = map_sum id (\<lambda>row. built fs (rows @ [row])) (convert_row dc fs value)"
proof (cases "convert_row dc fs value")
  case (Inr row)
  then show ?thesis
    using append_row_columns [OF convert_row_length, OF Inr, of rows]
      append_fields_columns [of "sb_append True (built fs rows)" 0 fs dc "value"]
    by (simp add: append_value_to_struct_builder_def built_def sb_append_def replicate_append_same)
next
  case (Inl e)
  then show ?thesis
    using append_fields_columns [of "sb_append True (built fs rows)" 0 fs dc "value"]
    by (simp add: append_value_to_struct_builder_def built_def sb_append_def)
qed

lemma append_values_built:
  "append_values dc vs (built fs rows) = map_sum id (\<lambda>rs. built fs (rows @ rs)) (try_collect (convert_row dc fs) vs)"
proof (induction vs arbitrary: rows)
  case (Cons v vs)
  show ?case
    by (cases "convert_row dc fs v"; cases "try_collect (convert_row dc fs) vs") (simp_all add: append_value_built Cons.IH)
qed simp

lemma nulls_allowed_built:
  assumes "\<forall>r\<in>set rows. length r = length fs"
  shows "nulls_allowed (built fs rows) \<longleftrightarrow> (\<forall>r\<in>set rows. row_ok fs r)"
proof -
  have valid: "list_all2 (\<lambda>valid v. valid \<longrightarrow> (\<exists>y. v = Some y)) (replicate (length rows) True) (map g rows) \<longleftrightarrow>
      (\<forall>r\<in>set rows. \<exists>y. g r = Some y)" for g :: "dvalue option row \<Rightarrow> dvalue option"
    by (simp add: list_all2_conv_all_nth) (metis in_set_conv_nth)
  have "nulls_allowed (built fs rows) \<longleftrightarrow> (\<forall>j<length fs. (af_nullable (fs ! j) \<or> (\<forall>r\<in>set rows. r ! j \<noteq> None)) \<and>
      (\<forall>r\<in>set rows. items_ok (fs ! j) (r ! j)))"
    by (simp add: nulls_allowed_def built_def list_all2_conv_all_nth [of _ fs] valid list_all_iff)
  also have "\<dots> \<longleftrightarrow> (\<forall>r\<in>set rows. row_ok fs r)"
    using assms by (auto simp: row_ok_def list_all2_conv_all_nth)
  finally show ?thesis .
qed

lemma sb_finish_built:
  assumes "\<forall>r\<in>set rows. length r = length fs"
  shows "sb_finish (built fs rows) = (if \<forall>r\<in>set rows. row_ok fs r then Some rows else None)"
proof -
  have "validate_content (built fs rows)" by (auto simp: validate_content_def built_def)
  moreover have "map (\<lambda>r. map (\<lambda>c. c ! r) (sb_columns (built fs rows))) [0..<length (sb_validity (built fs rows))] = rows"
    using assms by (auto simp: built_def intro!: nth_equalityI)
  ultimately show ?thesis using nulls_allowed_built [OF assms] by (simp add: sb_finish_def)
qed

text \<open>
  (C28) The columnar builder computes the row-wise conversion: an error is that of the first row
  and field that cannot be converted; otherwise the rows are those of the conversion, unless a
  column that is not optional, or a list of items that are not, got a null, which panics.
\<close>

theorem struct_array_is_rowwise:
  "to_struct_array dc vs fs = (case try_collect (convert_row dc fs) vs of
      Inl e \<Rightarrow> Some (Inl e)
    | Inr rows \<Rightarrow> if list_all (row_ok fs) rows then Some (Inr rows) else None)"
proof (cases "try_collect (convert_row dc fs) vs")
  case (Inl e)
  then show ?thesis by (simp add: to_struct_array_def built_Nil append_values_built)
next
  case (Inr rows)
  then have "\<forall>r\<in>set rows. length r = length fs"
    by (auto simp: try_collect_Inr_iff dest!: list_all2_mem2 convert_row_length)
  with Inr show ?thesis
    by (simp add: to_struct_array_def built_Nil append_values_built sb_finish_built list_all_iff)
qed

section \<open>The batch of a change\<close>

lemma change_record_try_new:
  "change_batch_try_new (change_record fs pk o' rows) = Some (Inr
     \<lparr>cb_record = change_record fs pk o' rows, cb_op_idx = 0, cb_primary_keys_idx = 1, cb_data_idx = 2\<rparr>)"
  by (simp add: change_batch_try_new_def change_record_def validate_schema_ok_iff [THEN iffD2] column_idx_def
      changes_schema_fields field_new_def exI)

text \<open>
  (C23) A change becomes a batch that says the same: its operation, the table's primary key and the
  converted row of the image that matters (the one before for a deletion, else the one after) are
  what the readers of the batch return; a missing image, a missing field or a value that cannot
  be converted is an error, the constructor of batches never fails, and the conversion panics
  exactly when a column that is not optional, or an item of a list whose items are not, is null in
  the event.
\<close>

theorem change_batch_says_the_change:
  "(case and_then (change_data change) (convert_row dc fs) of
      Inl e \<Rightarrow> to_change_batch dc fs pk change = Some (Inl e)
    | Inr row \<Rightarrow>
        if row_ok fs row
        then \<exists>b. to_change_batch dc fs pk change = Some (Inr b) \<and>
               cb_op b 0 = Some (operation_from (show_op (ep_op (ce_payload change)))) \<and>
               cb_primary_keys b 0 = Some pk \<and>
               cb_data b 0 = Some \<lparr>dr_fields = map cdc_field_of fs, dr_values = row\<rparr>
        else to_change_batch dc fs pk change = None)"
proof (cases "change_data change")
  case (Inl e)
  then show ?thesis by (simp add: to_change_batch_def)
next
  case (Inr v)
  show ?thesis
  proof (cases "convert_row dc fs v")
    case (Inl e)
    with Inr show ?thesis by (simp add: to_change_batch_def built_Nil append_value_built)
  next
    case r: (Inr row)
    have "sb_finish (built fs [row]) = (if row_ok fs row then Some [row] else None)"
      using sb_finish_built [of "[row]" fs] convert_row_length [OF r] by simp
    with Inr r show ?thesis
      by (simp add: to_change_batch_def built_Nil append_value_built change_record_try_new)
         (simp add: change_record_def cb_op_def cb_primary_keys_def cb_data_def nth_opt_def)
  qed
qed

section \<open>Decimals\<close>

lemma be_value_Cons: "be_value (b # bs) = b * 256 ^ length bs + be_value bs"
proof -
  have "fold (\<lambda>b acc. acc * 256 + b) bs a = a * 256 ^ length bs + fold (\<lambda>b acc. acc * 256 + b) bs 0" for a :: nat
  proof (induction bs arbitrary: a)
    case (Cons c bs)
    show ?case using Cons [of "a * 256 + c"] Cons [of c] by (simp add: algebra_simps)
  qed simp
  from this [of b] show ?thesis by (simp add: be_value_def)
qed

lemma be_value_bound: "\<forall>b\<in>set bs. b < 256 \<Longrightarrow> be_value bs < 256 ^ length bs"
proof (induction bs)
  case (Cons b bs)
  then have "be_value bs < 256 ^ length bs" "b \<le> 255" by auto
  then have "b * 256 ^ length bs + be_value bs < 255 * 256 ^ length bs + 256 ^ length bs"
    by (intro add_le_less_mono mult_right_mono) auto
  then show ?case by (simp add: be_value_Cons)
qed (simp add: be_value_def)

lemma be_value_zeros: "be_value (replicate n 0 @ bs) = be_value bs"
  by (induction n) (simp_all add: be_value_Cons)

text \<open>The integer that big-endian two's complement bytes stand for.\<close>

definition twos_complement :: "nat list \<Rightarrow> int" where
  "twos_complement bs = (if hd bs < 128 then int (be_value bs) else int (be_value bs) - 256 ^ length bs)"

lemma be_value_top_bit:
  assumes "bs \<noteq> []" and "\<forall>b\<in>set bs. b < 256"
  shows "be_value bs < 128 * 256 ^ (length bs - 1) \<longleftrightarrow> hd bs < 128"
proof -
  obtain b cs where bs: "bs = b # cs" using assms by (cases bs) auto
  have lt: "be_value cs < 256 ^ length cs" using be_value_bound assms bs by simp
  show ?thesis
  proof (cases "b < 128")
    case True
    then have "b * 256 ^ length cs + be_value cs < 127 * 256 ^ length cs + 256 ^ length cs"
      using lt by (intro add_le_less_mono mult_right_mono) auto
    also have "\<dots> = 128 * 256 ^ length cs" by simp
    finally show ?thesis using True bs by (simp only: be_value_Cons) simp
  next
    case False
    then have "128 * 256 ^ length cs \<le> b * 256 ^ length cs + be_value cs"
      by (intro trans_le_add1 mult_right_mono) auto
    with False bs show ?thesis by (simp only: be_value_Cons not_less [symmetric]) simp
  qed
qed

lemma sint_of_nat_128:
  assumes "n < 2 ^ 128"
  shows "sint (of_nat n :: 128 word) = (if n < 2 ^ 127 then int n else int n - 2 ^ 128)"
proof -
  have s: "sint (of_nat n :: 128 word) = (int n + 2 ^ 127) mod 2 ^ 128 - 2 ^ 127"
    using assms by (simp add: sint_uint uint_nat unat_of_nat signed_take_bit_eq_take_bit_shift take_bit_eq_mod)
  show ?thesis
  proof (cases "n < 2 ^ 127")
    case True
    then have "(int n + 2 ^ 127) mod 2 ^ 128 = int n + 2 ^ 127" by (intro mod_pos_pos_trivial) simp_all
    with s True show ?thesis by simp
  next
    case False
    have "(int n + 2 ^ 127 - 2 ^ 128) mod 2 ^ 128 = int n + 2 ^ 127 - 2 ^ 128"
      using assms False by (intro mod_pos_pos_trivial) simp_all
    then have "(int n + 2 ^ 127) mod 2 ^ 128 = int n + 2 ^ 127 - 2 ^ 128" by (simp only: minus_mod_self2)
    with s False show ?thesis by simp
  qed
qed

lemma decimal_value:
  assumes "\<forall>b\<in>set bs. b < 256" and "bs \<noteq> []" and "length bs \<le> 16"
  shows "sint (of_nat (be_value bs) :: 128 word) =
    (if hd bs < 128 \<or> length bs = 16 then twos_complement bs else twos_complement bs + 256 ^ length bs)"
proof (cases "length bs = 16")
  case True
  then have "be_value bs < 2 ^ 128" "be_value bs < 2 ^ 127 \<longleftrightarrow> hd bs < 128"
    using be_value_bound [OF assms(1)] be_value_top_bit [OF assms(2,1)] by simp_all
  with True show ?thesis by (simp add: sint_of_nat_128 twos_complement_def)
next
  case False
  have "be_value bs < 256 ^ length bs" by (rule be_value_bound [OF assms(1)])
  also have "(256::nat) ^ length bs \<le> 256 ^ 15" using False assms(3) by (intro power_increasing) auto
  finally have "be_value bs < 2 ^ 127" "be_value bs < 2 ^ 128" by simp_all
  with False show ?thesis by (simp add: sint_of_nat_128 twos_complement_def)
qed

text \<open>
  (C29) The bytes of a decimal are its value in big-endian two's complement, as few as are needed.
  They are padded with zeros, never with the sign, so a value of one to fifteen bytes whose top bit
  is set is read as the value plus a power of 256: the read value is the encoded one exactly when
  it is not negative or takes all sixteen bytes.
\<close>

theorem decimal_sign_lost:
  assumes "dc_base64 dc s = Inr bs" and "\<forall>b\<in>set bs. b < 256" and "bs \<noteq> []" and "length bs \<le> 16"
  shows "\<exists>w. convert_string_to_decimal dc s = Inr w \<and>
    sint w = (if hd bs < 128 \<or> length bs = 16 then twos_complement bs else twos_complement bs + 256 ^ length bs)"
proof -
  have "convert_string_to_decimal dc s = Inr (of_nat (be_value bs))"
    using assms by (simp add: convert_string_to_decimal_def be_value_zeros)
  with decimal_value [OF assms(2-4)] show ?thesis by simp
qed

definition sample_decoders :: decoders where
  "sample_decoders = \<lparr>dc_parse_u8 = (\<lambda>s. Inl s), dc_parse_i8 = (\<lambda>s. Inl s),
     dc_base64 = (\<lambda>s. if s = ''/w=='' then Inr [255] else Inl s),
     dc_timestamp_micros = (\<lambda>s. Inl s), dc_timestamp_millis = (\<lambda>s. Inl s), dc_naive_time = (\<lambda>s. Inl s),
     dc_f64_of_int = real_of_int, dc_f32 = (\<lambda>x. x)\<rparr>"

theorem decimal_sign_lost_witness:
  "\<exists>w. convert_string_to_decimal sample_decoders ''/w=='' = Inr w \<and> sint w = 255 \<and> twos_complement [255] = - 1"
  using decimal_sign_lost [of sample_decoders "''/w==''" "[255]"]
  by (simp add: sample_decoders_def twos_complement_def be_value_def)


section \<open>Types that are accepted but not read\<close>

definition readable :: "arrow_type \<Rightarrow> bool" where
  "readable t = (case t of
      ABinary \<Rightarrow> False
    | ADecimal256 p s \<Rightarrow> False
    | ATime32 u \<Rightarrow> False
    | ATime64 u \<Rightarrow> u = Microsecond
    | ATimestamp u tz \<Rightarrow> u = Microsecond \<or> u = Millisecond
    | AList f \<Rightarrow> af_type f \<in> {AUtf8, ABoolean, AInt16, AInt32, AInt64, AFloat32, AFloat64}
    | _ \<Rightarrow> True)"

lemma list_element_None_iff:
  "list_element dc t = None \<longleftrightarrow> t \<notin> {AUtf8, ABoolean, AInt16, AInt32, AInt64, AFloat32, AFloat64}"
  by (cases t) simp_all

lemma unreadable_value:
  assumes "\<not> readable t"
  shows "\<exists>e. append_field_value dc t j = Inl e"
  using assms list_element_None_iff [of dc]
  by (cases t) (auto simp: readable_def split: unit_of_time.splits option.splits)

lemma readable_null: "readable t \<Longrightarrow> append_field_value dc t JsNull = Inr None"
  using list_element_None_iff [of dc]
  by (cases t) (auto simp: readable_def append_i64_def append_parsed_def split: unit_of_time.splits option.splits)

lemma try_collect_fails:
  assumes "x \<in> set xs" and "\<exists>e. f x = Inl e"
  shows "\<exists>e. try_collect f xs = Inl e"
proof (cases "try_collect f xs")
  case (Inr ys)
  then show ?thesis using assms by (auto simp: try_collect_Inr_iff dest: list_all2_mem1)
qed auto

text \<open>
  A column of a type that is accepted in the schema but not read (binary data, 32-bit times,
  decimals of more than 38 digits, lists of anything but strings, booleans and numbers) makes
  every change of the table an error, whatever the event holds.
\<close>

theorem unreadable_column_refuses_all_changes:
  assumes "f \<in> set fs" and "\<not> readable (af_type f)"
  shows "\<exists>e. to_change_batch dc fs pk change = Some (Inl e)"
proof (cases "change_data change")
  case (Inl e)
  then show ?thesis by (simp add: to_change_batch_def)
next
  case (Inr v)
  have "\<exists>e. convert_row dc fs v = Inl e"
    unfolding convert_row_def
  proof (rule try_collect_fails [OF assms(1)])
    show "\<exists>e. (case js_get v (af_name f) of None \<Rightarrow> Inl (MissingFieldInValue (af_name f) v)
        | Some j \<Rightarrow> append_field_value dc (af_type f) j) = Inl e"
      using unreadable_value [OF assms(2), of dc] by (cases "js_get v (af_name f)") simp_all
  qed
  then obtain e where "convert_row dc fs v = Inl e" ..
  with Inr show ?thesis by (simp add: to_change_batch_def built_Nil append_value_built)
qed

text \<open>
  An integer column keeps the number or refuses it; an element of a list of integers is cut to its
  width without an error.
\<close>

theorem integers_exact_except_in_lists:
  assumes "- (2 ^ 63) \<le> i" and "i < 2 ^ 63"
  shows "append_field_value dc AInt16 (JsInt i) =
           (if - (2 ^ 15) \<le> i \<and> i < 2 ^ 15 then Inr (Some (VI16 (of_int i))) else Inl UnableToConvertToI64)"
    and "append_field_value dc (AList (AField n AInt16 o')) (JsArr [JsInt i]) = Inr (Some (VList [Some (VI16 (of_int i))]))"
    and "sint (of_int i :: 16 word) = i \<longleftrightarrow> - (2 ^ 15) \<le> i \<and> i < 2 ^ 15"
proof -
  show "append_field_value dc AInt16 (JsInt i) =
      (if - (2 ^ 15) \<le> i \<and> i < 2 ^ 15 then Inr (Some (VI16 (of_int i))) else Inl UnableToConvertToI64)"
    and "append_field_value dc (AList (AField n AInt16 o')) (JsArr [JsInt i]) = Inr (Some (VList [Some (VI16 (of_int i))]))"
    using assms by (simp_all add: append_i64_def)
  have "sint (of_int i :: 16 word) = (i + 2 ^ 15) mod 2 ^ 16 - 2 ^ 15"
    by (simp add: sint_uint uint_word_of_int signed_take_bit_eq_take_bit_shift take_bit_eq_mod)
       (simp add: mod_simps)
  then show "sint (of_int i :: 16 word) = i \<longleftrightarrow> - (2 ^ 15) \<le> i \<and> i < 2 ^ 15"
    by (auto simp: mod_pos_pos_trivial)
qed

section \<open>Resuming\<close>

text \<open>
  A restarted dataset continues with what its first start wrote down: when the first start ended
  with a schema and keys, resuming from the metadata it stored gives the same schema and keys, or
  the error of the Kafka client; a changed topic is refused.
\<close>

theorem resume_continues_the_first_start:
  assumes "get_metadata_from_kafka dc kf ds file topic w = (Inr (c, m, schema), w')"
  shows "dm_topic m = topic"
    and "fst (resume_from_metadata dc kf ds topic m v) \<in>
      {Inr (c', m, schema) | c'. True} \<union> {Inl (UnableToGetReadProvider e) | e. True}"
    and "topic' \<noteq> topic \<Longrightarrow> \<exists>e. fst (resume_from_metadata dc kf ds topic' m v) = Inl e"
proof -
  from assms have m: "dm_topic m = topic" "convert_fields_to_arrow_schema dc (dm_schema_fields m) = Inr schema"
    by (auto simp: get_metadata_from_kafka_def step_def Let_def split: prod.splits sum.splits option.splits)
  from m(1) show "dm_topic m = topic" .
  from m show "fst (resume_from_metadata dc kf ds topic m v) \<in>
      {Inr (c', m, schema) | c'. True} \<union> {Inl (UnableToGetReadProvider e) | e. True}"
    by (auto simp: resume_from_metadata_def step_def split: prod.splits sum.splits)
  from m show "topic' \<noteq> topic \<Longrightarrow> \<exists>e. fst (resume_from_metadata dc kf ds topic' m v) = Inl e"
    by (auto simp: resume_from_metadata_def step_def split: prod.splits sum.splits)
qed

end
