(* ===== verification/Refresher.thy ===== *)
theory Refresher
  imports Refresh_Config
begin

text \<open>
  The two tasks that keep an accelerated table fresh, as one transition system
  (runtime/src/accelerated_table/refresh.rs, \<open>Refresher::start\<close>, and refresh_task_runner.rs):
  the refresher waits for its timer, for an external trigger or for the completion of a refresh;
  the runner executes one refresh at a time and starts over when it is told to start while one is
  running. They talk over two channels of capacity one. Every interleaving of the tasks is a run;
  \<open>select!\<close> takes any branch that is ready and drops the futures of the others, among them the
  timer. What a refresh does is left open here: it succeeds or fails.
\<close>

section \<open>State and steps\<close>

datatype refresher_phase = Selecting | SendingStart

datatype runner_phase = Waiting | Running | Notifying bool

record refresher =
  timer_armed :: bool
  main_phase :: refresher_phase
  external_triggers :: nat
  start_channel :: nat
  runner :: runner_phase
  complete_channel :: "bool list"
  ready_pending :: bool
  ready_notified :: nat
  invalidations :: nat
  refreshes_ok :: nat
  refreshes_cancelled :: nat

definition channel_capacity :: nat where
  "channel_capacity = 1"

text \<open>\<open>Refresher::start\<close>: the first refresh is scheduled at once.\<close>

definition refresher_start :: refresher where
  "refresher_start = \<lparr>timer_armed = True, main_phase = Selecting, external_triggers = 0, start_channel = 0,
     runner = Waiting, complete_channel = [], ready_pending = True, ready_notified = 0, invalidations = 0,
     refreshes_ok = 0, refreshes_cancelled = 0\<rparr>"

text \<open>\<open>notify_refresh_done\<close> and the cache invalidation after a successful refresh.\<close>

definition refresh_done :: "refresher \<Rightarrow> refresher" where
  "refresh_done s = s\<lparr>ready_pending := False,
     ready_notified := ready_notified s + (if ready_pending s then 1 else 0),
     invalidations := invalidations s + 1\<rparr>"

text \<open>
  The steps of the refresher task. \<open>periodic\<close> says whether a check interval is configured. The
  timer taken at the top of the loop is gone whichever branch is taken.
\<close>

inductive main_step :: "bool \<Rightarrow> refresher \<Rightarrow> refresher \<Rightarrow> bool" for periodic where
  timer_fires: "main_phase s = Selecting \<Longrightarrow> timer_armed s \<Longrightarrow>
     main_step periodic s (s\<lparr>timer_armed := False, main_phase := SendingStart\<rparr>)"
| external_trigger: "main_phase s = Selecting \<Longrightarrow> external_triggers s > 0 \<Longrightarrow>
     main_step periodic s (s\<lparr>timer_armed := False, external_triggers := external_triggers s - 1,
       main_phase := SendingStart\<rparr>)"
| completion: "main_phase s = Selecting \<Longrightarrow> complete_channel s = ok # rest \<Longrightarrow>
     main_step periodic s ((if ok then refresh_done s else s)\<lparr>complete_channel := rest, timer_armed := periodic\<rparr>)"
| start_sent: "main_phase s = SendingStart \<Longrightarrow> start_channel s < channel_capacity \<Longrightarrow>
     main_step periodic s (s\<lparr>start_channel := start_channel s + 1, main_phase := Selecting\<rparr>)"

text \<open>The steps of the runner task.\<close>

inductive runner_step :: "refresher \<Rightarrow> refresher \<Rightarrow> bool" where
  run_started: "runner s = Waiting \<Longrightarrow> start_channel s > 0 \<Longrightarrow>
     runner_step s (s\<lparr>start_channel := start_channel s - 1, runner := Running\<rparr>)"
| run_restarted: "runner s = Running \<Longrightarrow> start_channel s > 0 \<Longrightarrow>
     runner_step s (s\<lparr>start_channel := start_channel s - 1, runner := Running,
       refreshes_cancelled := refreshes_cancelled s + 1\<rparr>)"
| run_finished: "runner s = Running \<Longrightarrow>
     runner_step s (s\<lparr>runner := Notifying ok, refreshes_ok := refreshes_ok s + (if ok then 1 else 0)\<rparr>)"
| run_notified: "runner s = Notifying ok \<Longrightarrow> length (complete_channel s) < channel_capacity \<Longrightarrow>
     runner_step s (s\<lparr>complete_channel := complete_channel s @ [ok], runner := Waiting\<rparr>)"

text \<open>\<open>AcceleratedTable::trigger_refresh\<close>: its channel holds one trigger.\<close>

inductive trigger_step :: "refresher \<Rightarrow> refresher \<Rightarrow> bool" where
  trigger_refresh: "external_triggers s < channel_capacity \<Longrightarrow>
     trigger_step s (s\<lparr>external_triggers := external_triggers s + 1\<rparr>)"

definition task_step :: "bool \<Rightarrow> refresher \<Rightarrow> refresher \<Rightarrow> bool" where
  "task_step periodic s t \<longleftrightarrow> main_step periodic s t \<or> runner_step s t"

definition refresher_step :: "bool \<Rightarrow> refresher \<Rightarrow> refresher \<Rightarrow> bool" where
  "refresher_step periodic s t \<longleftrightarrow> task_step periodic s t \<or> trigger_step s t"

inductive_cases main_stepE: "main_step periodic s t"
inductive_cases runner_stepE: "runner_step s t"
inductive_cases trigger_stepE: "trigger_step s t"

lemmas stepEs = main_stepE runner_stepE trigger_stepE

section \<open>Invariants\<close>

definition bounded_channels :: "refresher \<Rightarrow> bool" where
  "bounded_channels s \<longleftrightarrow> start_channel s \<le> channel_capacity \<and> length (complete_channel s) \<le> channel_capacity \<and>
     external_triggers s \<le> channel_capacity \<and> (main_phase s = SendingStart \<longrightarrow> \<not> timer_armed s)"

text \<open>Some refresh is under way or will start without anyone asking for it.\<close>

definition refresh_due :: "refresher \<Rightarrow> bool" where
  "refresh_due s \<longleftrightarrow> timer_armed s \<or> main_phase s = SendingStart \<or> start_channel s > 0 \<or>
     runner s \<noteq> Waiting \<or> complete_channel s \<noteq> []"

text \<open>Every successful refresh is announced once: to the ready receiver the first time, to the
  cache always.\<close>

definition pending_ok :: "refresher \<Rightarrow> nat" where
  "pending_ok s = length (filter (\<lambda>ok. ok) (complete_channel s)) +
     (case runner s of Notifying ok \<Rightarrow> if ok then 1 else 0 | _ \<Rightarrow> 0)"

definition announced :: "refresher \<Rightarrow> bool" where
  "announced s \<longleftrightarrow> refreshes_ok s = invalidations s + pending_ok s \<and>
     (ready_pending s \<longleftrightarrow> invalidations s = 0) \<and>
     ready_notified s = (if ready_pending s then 0 else 1)"

definition refresher_inv :: "bool \<Rightarrow> refresher \<Rightarrow> bool" where
  "refresher_inv periodic s \<longleftrightarrow> bounded_channels s \<and> announced s \<and> (periodic \<longrightarrow> refresh_due s)"

lemmas inv_defs = bounded_channels_def announced_def refresh_due_def pending_ok_def
  refresh_done_def channel_capacity_def

lemma main_step_bounded: "main_step periodic s t \<Longrightarrow> bounded_channels s \<Longrightarrow> bounded_channels t"
  by (erule main_stepE) (auto simp: inv_defs)

lemma main_step_announced: "main_step periodic s t \<Longrightarrow> announced s \<Longrightarrow> announced t"
  by (erule main_stepE) (auto simp: inv_defs)

lemma main_step_due: "main_step periodic s t \<Longrightarrow> periodic \<Longrightarrow> refresh_due t"
  by (erule main_stepE) (auto simp: inv_defs)

lemma runner_step_bounded: "runner_step s t \<Longrightarrow> bounded_channels s \<Longrightarrow> bounded_channels t"
  by (erule runner_stepE) (auto simp: inv_defs)

lemma runner_step_announced: "runner_step s t \<Longrightarrow> announced s \<Longrightarrow> announced t"
  by (erule runner_stepE) (auto simp: inv_defs)

lemma runner_step_due: "runner_step s t \<Longrightarrow> refresh_due t"
  by (erule runner_stepE) (auto simp: inv_defs)

lemma trigger_step_inv: "trigger_step s t \<Longrightarrow> refresher_inv periodic s \<Longrightarrow> refresher_inv periodic t"
  by (erule trigger_stepE) (auto simp: refresher_inv_def inv_defs)

lemma refresher_step_inv:
  assumes "refresher_inv periodic s" and "refresher_step periodic s t"
  shows "refresher_inv periodic t"
proof -
  from assms(2) consider "main_step periodic s t" | "runner_step s t" | "trigger_step s t"
    by (auto simp: refresher_step_def task_step_def)
  then show ?thesis
  proof cases
    case 1
    then show ?thesis
      using assms(1) main_step_bounded [OF 1] main_step_announced [OF 1] main_step_due [OF 1]
      unfolding refresher_inv_def by simp
  next
    case 2
    then show ?thesis
      using assms(1) runner_step_bounded [OF 2] runner_step_announced [OF 2] runner_step_due [OF 2]
      unfolding refresher_inv_def by simp
  next
    case 3
    then show ?thesis using assms(1) by (rule trigger_step_inv)
  qed
qed

interpretation refresher_sys: invariant_system "refresher_step periodic" refresher_start "refresher_inv periodic"
  for periodic :: bool
proof
  show "refresher_inv periodic refresher_start"
    by (simp add: refresher_inv_def refresher_start_def inv_defs)
qed (rule refresher_step_inv)

abbreviation refresher_reaches :: "bool \<Rightarrow> refresher \<Rightarrow> bool" where
  "refresher_reaches periodic s \<equiv> reaches (refresher_step periodic) refresher_start s"

section \<open>Properties\<close>

text \<open>
  (C1) With a check interval configured, refreshing never silently stops: in every reachable
  state the timer is armed, or a start is being sent or waiting, or a refresh is running, or its
  completion has yet to be handled. The channels never hold more than one message.
\<close>

theorem refresh_never_forgotten:
  assumes "refresher_reaches True s"
  shows "refresh_due s \<and> bounded_channels s"
  using refresher_sys.reachable_inv [OF assms] by (simp add: refresher_inv_def)

text \<open>
  (C4) Readiness is announced at most once, only after a successful refresh, and every successful
  refresh whose completion has been handled has invalidated the cached results exactly once.
\<close>

theorem ready_once_after_success:
  assumes "refresher_reaches periodic s"
  shows "ready_notified s \<le> 1 \<and> (ready_notified s = 1 \<longrightarrow> refreshes_ok s \<ge> 1) \<and>
    refreshes_ok s = invalidations s + pending_ok s \<and> (invalidations s > 0 \<longrightarrow> ready_notified s = 1)"
  using refresher_sys.reachable_inv [OF assms] by (auto simp: refresher_inv_def announced_def split: if_splits)

text \<open>The blocked state: each task waits for the other to empty a full channel.\<close>

definition deadlocked :: "refresher \<Rightarrow> bool" where
  "deadlocked s \<longleftrightarrow> main_phase s = SendingStart \<and> start_channel s = channel_capacity \<and>
     (\<exists>ok. runner s = Notifying ok) \<and> length (complete_channel s) = channel_capacity"

lemma deadlocked_no_step: "deadlocked s \<Longrightarrow> \<not> task_step periodic s t"
  by (auto simp: deadlocked_def task_step_def elim!: stepEs)

lemma not_deadlocked_step:
  assumes "bounded_channels s" and "refresh_due s" and "\<not> deadlocked s"
  shows "\<exists>t. task_step periodic s t"
proof (cases "main_phase s")
  case Selecting
  consider "timer_armed s" | "start_channel s > 0" "runner s = Waiting" | "runner s = Running"
    | "complete_channel s \<noteq> []" | ok where "runner s = Notifying ok" "complete_channel s = []"
    using assms(2) Selecting by (cases "runner s"; cases "complete_channel s") (auto simp: refresh_due_def)
  then show ?thesis
  proof cases
    case 1
    then show ?thesis using Selecting main_step.timer_fires unfolding task_step_def by blast
  next
    case 2
    then show ?thesis using runner_step.run_started unfolding task_step_def by blast
  next
    case 3
    then show ?thesis using runner_step.run_finished unfolding task_step_def by blast
  next
    case 4
    then obtain ok rest where "complete_channel s = ok # rest" by (cases "complete_channel s") auto
    then show ?thesis using Selecting main_step.completion unfolding task_step_def by blast
  next
    case (5 ok)
    then show ?thesis using runner_step.run_notified [of s ok] unfolding task_step_def
      by (auto simp: channel_capacity_def)
  qed
next
  case SendingStart
  show ?thesis
  proof (cases "start_channel s < channel_capacity")
    case True
    then show ?thesis using SendingStart main_step.start_sent unfolding task_step_def by blast
  next
    case False
    then have full: "start_channel s = channel_capacity" using assms(1) by (simp add: bounded_channels_def)
    show ?thesis
    proof (cases "runner s")
      case Waiting
      moreover from full have "start_channel s > 0" by (simp add: channel_capacity_def)
      ultimately show ?thesis using runner_step.run_started unfolding task_step_def by blast
    next
      case Running
      then show ?thesis using runner_step.run_finished unfolding task_step_def by blast
    next
      case (Notifying ok)
      with assms(1,3) full SendingStart have "length (complete_channel s) < channel_capacity"
        by (auto simp: deadlocked_def bounded_channels_def)
      with Notifying show ?thesis using runner_step.run_notified unfolding task_step_def by blast
    qed
  qed
qed

text \<open>
  (C14) The only way a periodic refresher can get stuck is the mutual block of the two tasks on
  full channels: in every reachable state some task can take a step, or both are blocked, the
  refresher sending a start and the runner sending a completion.
\<close>

theorem refresher_progress:
  assumes "refresher_reaches True s"
  shows "(\<exists>t. task_step True s t) \<longleftrightarrow> \<not> deadlocked s"
  using refresher_sys.reachable_inv [OF assms] not_deadlocked_step deadlocked_no_step
  by (auto simp: refresher_inv_def)

theorem refresh_never_forgotten_witness: "refresh_due refresher_start \<and> bounded_channels refresher_start"
  using refresh_never_forgotten [OF reaches.start] .

theorem refresher_progress_witness: "\<exists>t. task_step True refresher_start t"
  using refresher_progress [OF reaches.start] by (simp add: deadlocked_def refresher_start_def)

section \<open>Running schedules\<close>

text \<open>A schedule names the step to take; running one is a way to reach a state.\<close>

datatype move = TimerFires | ExternalTrigger | Completion | StartSent | RunStarted | RunFinished bool | RunNotified | Trigger

definition guarded :: "bool \<Rightarrow> 'a \<Rightarrow> 'a option" where
  "guarded b x = (if b then Some x else None)"

fun apply_move :: "bool \<Rightarrow> move \<Rightarrow> refresher \<Rightarrow> refresher option" where
  "apply_move periodic TimerFires s = guarded (main_phase s = Selecting \<and> timer_armed s)
     (s\<lparr>timer_armed := False, main_phase := SendingStart\<rparr>)"
| "apply_move periodic ExternalTrigger s = guarded (main_phase s = Selecting \<and> external_triggers s > 0)
     (s\<lparr>timer_armed := False, external_triggers := external_triggers s - 1, main_phase := SendingStart\<rparr>)"
| "apply_move periodic Completion s = (case complete_channel s of
      [] \<Rightarrow> None
    | ok # rest \<Rightarrow> guarded (main_phase s = Selecting)
        ((if ok then refresh_done s else s)\<lparr>complete_channel := rest, timer_armed := periodic\<rparr>))"
| "apply_move periodic StartSent s = guarded (main_phase s = SendingStart \<and> start_channel s < channel_capacity)
     (s\<lparr>start_channel := start_channel s + 1, main_phase := Selecting\<rparr>)"
| "apply_move periodic RunStarted s =
     (if runner s = Running \<and> start_channel s > 0
      then Some (s\<lparr>start_channel := start_channel s - 1, runner := Running,
                  refreshes_cancelled := refreshes_cancelled s + 1\<rparr>)
      else guarded (runner s = Waiting \<and> start_channel s > 0)
             (s\<lparr>start_channel := start_channel s - 1, runner := Running\<rparr>))"
| "apply_move periodic (RunFinished ok) s = guarded (runner s = Running)
     (s\<lparr>runner := Notifying ok, refreshes_ok := refreshes_ok s + (if ok then 1 else 0)\<rparr>)"
| "apply_move periodic RunNotified s = (case runner s of
      Notifying ok \<Rightarrow> guarded (length (complete_channel s) < channel_capacity)
        (s\<lparr>complete_channel := complete_channel s @ [ok], runner := Waiting\<rparr>)
    | _ \<Rightarrow> None)"
| "apply_move periodic Trigger s = guarded (external_triggers s < channel_capacity)
     (s\<lparr>external_triggers := external_triggers s + 1\<rparr>)"

lemma apply_move_step: "apply_move periodic m s = Some t \<Longrightarrow> refresher_step periodic s t"
  by (induction periodic m s rule: apply_move.induct)
     (auto simp: guarded_def refresher_step_def task_step_def main_step.simps runner_step.simps
       trigger_step.simps split: if_splits list.splits runner_phase.splits)

fun run_moves :: "bool \<Rightarrow> move list \<Rightarrow> refresher \<Rightarrow> refresher option" where
  "run_moves periodic [] s = Some s"
| "run_moves periodic (m # ms) s = Option.bind (apply_move periodic m s) (run_moves periodic ms)"

lemma run_moves_reaches:
  "run_moves periodic ms s = Some t \<Longrightarrow> reaches (refresher_step periodic) s t"
proof (induction ms arbitrary: s)
  case Nil
  then show ?case by (simp add: reaches.start)
next
  case (Cons m ms)
  then obtain u where u: "apply_move periodic m s = Some u" "run_moves periodic ms u = Some t"
    by (auto split: bind_splits)
  from u(1) have "reaches (refresher_step periodic) s u"
    by (blast intro: reaches.intros apply_move_step)
  with Cons.IH [OF u(2)] show ?case by (rule reaches_trans)
qed

text \<open>A refresh completes while the refresher keeps picking external triggers, and a second one
  completes before the first completion is taken.\<close>

definition deadlock_schedule :: "move list" where
  "deadlock_schedule =
     [TimerFires, StartSent, RunStarted, RunFinished True, RunNotified,
      Trigger, ExternalTrigger, StartSent, RunStarted, RunFinished True,
      Trigger, ExternalTrigger, StartSent, Trigger, ExternalTrigger]"

text \<open>
  (C18) The mutual block is reachable: with triggers arriving while a completion waits in its
  channel, the runner ends up blocked on reporting a second completion and the refresher on
  requesting a further start; from then on no task ever takes a step again, whatever happens
  outside.
\<close>

theorem refresher_deadlock_reachable:
  "\<exists>s. refresher_reaches periodic s \<and> deadlocked s \<and>
     (\<forall>t. reaches (refresher_step periodic) s t \<longrightarrow> deadlocked t \<and> refreshes_ok t = refreshes_ok s)"
proof -
  obtain s where run: "run_moves periodic deadlock_schedule refresher_start = Some s" and dead: "deadlocked s"
    by (auto simp: deadlock_schedule_def refresher_start_def guarded_def channel_capacity_def deadlocked_def)
  have stuck: "deadlocked t \<and> refreshes_ok t = refreshes_ok s"
    if "reaches (refresher_step periodic) s t" for t
    using that
  proof (induction rule: reaches.induct)
    case start
    show ?case using dead by simp
  next
    case (next_step t u)
    then have "trigger_step t u"
      using deadlocked_no_step by (auto simp: refresher_step_def)
    with next_step.IH show ?case by (auto simp: deadlocked_def elim!: trigger_stepE)
  qed
  with run_moves_reaches [OF run] dead show ?thesis by blast
qed

theorem ready_once_after_success_witness:
  "\<exists>s. refresher_reaches True s \<and> ready_notified s = 1 \<and> invalidations s = 1"
proof -
  obtain s where run: "run_moves True [TimerFires, StartSent, RunStarted, RunFinished True, RunNotified, Completion]
      refresher_start = Some s" and inv: "invalidations s = 1"
    by (simp add: refresher_start_def guarded_def channel_capacity_def refresh_done_def)
  from ready_once_after_success [OF run_moves_reaches [OF run]] inv run_moves_reaches [OF run]
  show ?thesis by auto
qed

theorem refresher_deadlock_reachable_witness:
  "\<exists>s. refresher_reaches True s \<and> \<not> (\<exists>t. task_step True s t)"
  using refresher_deadlock_reachable [of True] deadlocked_no_step by blast

end
