(* ===== verification/Tools.thy ===== *)
theory Tools
  imports Table_Registry
begin

text \<open>
  The tools a chat model may call (runtime/src/tools): the option that selects them, the built-in
  tools and the specifications they are registered with, the factory that builds a tool from its
  specification, and what the list of datasets shows. The runtime's vector search, queries and JSON
  are parameters where they are used.
\<close>

section \<open>Options\<close>

datatype spice_tools_options = Auto | Disabled | Specific "string list"

fun can_use_tools :: "spice_tools_options \<Rightarrow> bool" where
  "can_use_tools Auto = True"
| "can_use_tools Disabled = False"
| "can_use_tools (Specific t) = (t \<noteq> [])"

text \<open>\<open>str::trim\<close> on ASCII text.\<close>

definition is_space :: "char \<Rightarrow> bool" where
  "is_space c \<longleftrightarrow> of_char c \<in> {9, 10, 11, 12, 13, 32 :: nat}"

definition trim :: "string \<Rightarrow> string" where
  "trim s = rev (dropWhile is_space (rev (dropWhile is_space s)))"

definition tools_options_from_str :: "string \<Rightarrow> spice_tools_options" where
  "tools_options_from_str s =
     (let t = to_lowercase (trim s)
      in if t = ''auto'' then Auto
         else if t = ''disabled'' then Disabled
         else Specific (filter (\<lambda>item. item \<noteq> []) (map trim (split_on CHR '','' s))))"

section \<open>Built-in tools\<close>

datatype builtin_tool =
    DocumentSimilarityTool string "string option"
  | TableSchemaTool string "string option"
  | SqlTool string "string option"
  | ListDatasetsTool string "string option" "string list option"

fun tool_name :: "builtin_tool \<Rightarrow> string" where
  "tool_name (DocumentSimilarityTool name description) = name"
| "tool_name (TableSchemaTool name description) = name"
| "tool_name (SqlTool name description) = name"
| "tool_name (ListDatasetsTool name description allowlist) = name"

fun tool_description :: "builtin_tool \<Rightarrow> string option" where
  "tool_description (DocumentSimilarityTool name description) = description"
| "tool_description (TableSchemaTool name description) = description"
| "tool_description (SqlTool name description) = description"
| "tool_description (ListDatasetsTool name description allowlist) = description"

definition default_document_similarity :: builtin_tool where
  "default_document_similarity = DocumentSimilarityTool ''document_similarity''
     (Some ''Search and retrieve documents from available datasets'')"

definition default_table_schema :: builtin_tool where
  "default_table_schema = TableSchemaTool ''table_schema'' (Some ''Retrieve the schema of all available SQL tables'')"

definition default_sql :: builtin_tool where
  "default_sql = SqlTool ''sql'' (Some ''Run an SQL query on the data source'')"

definition default_list_datasets :: builtin_tool where
  "default_list_datasets = ListDatasetsTool ''list_datasets'' (Some ''List all SQL tables available.'') None"

text \<open>The specification of a tool, the same for the four of them.\<close>

definition tool_spec_of :: "builtin_tool \<Rightarrow> tool" where
  "tool_spec_of t = \<lparr>t_from = ''builtin:'' @ tool_name t, t_name = tool_name t, t_description = tool_description t,
     t_params = [], t_depends_on = []\<rparr>"

definition get_builtin_tools :: "builtin_tool list" where
  "get_builtin_tools = [default_document_similarity, default_table_schema, default_sql, default_list_datasets]"

definition get_builtin_tool_spec :: "tool list" where
  "get_builtin_tool_spec = [tool_spec_of default_document_similarity, tool_spec_of default_table_schema,
     tool_spec_of default_sql, tool_spec_of default_list_datasets]"

section \<open>Factories\<close>

type_synonym 'o tool_factory = "tool \<Rightarrow> (string, string) hmap \<Rightarrow> (string, 'o) result"

definition split_once :: "char \<Rightarrow> string \<Rightarrow> (string \<times> string) option" where
  "split_once c s = (case splitn2 c s of [a, b] \<Rightarrow> Some (a, b) | _ \<Rightarrow> None)"

definition builtin_construct :: "builtin_tool tool_factory" where
  "builtin_construct c ps = (case split_once colon (t_from c) of
      None \<Rightarrow> Inl (''Invalid component `from` field. Expected: `builtin:<tool_id>`. Error: '' @ t_from c)
    | Some (source, tool_id) \<Rightarrow>
        if source \<noteq> ''builtin'' then Inl (''Invalid component `from` field. Expected: `builtin:<tool_id>`. Error: '' @ t_from c)
        else if tool_id = ''document_similarity'' then Inr (DocumentSimilarityTool (t_name c) (t_description c))
        else if tool_id = ''table_schema'' then Inr (TableSchemaTool (t_name c) (t_description c))
        else if tool_id = ''sql'' then Inr (SqlTool (t_name c) (t_description c))
        else if tool_id = ''list_datasets''
        then Inr (ListDatasetsTool (t_name c) (t_description c)
               (map_option (\<lambda>t. map trim (split_on CHR '','' t)) (hm_get (t_params c) ''table_allowlist'')))
        else Inl (''Unknown builtin tool: '' @ tool_id))"

definition register_tool_factory :: "string \<Rightarrow> 'o tool_factory \<Rightarrow> (string, 'o tool_factory) hmap \<Rightarrow> (string, 'o tool_factory) hmap" where
  "register_tool_factory from_source factory registry = hm_insert from_source factory registry"

definition register_all_tools :: "(string, builtin_tool tool_factory) hmap \<Rightarrow> (string, builtin_tool tool_factory) hmap" where
  "register_all_tools registry = register_tool_factory ''builtin'' builtin_construct registry"

definition forge :: "(string, 'o tool_factory) hmap \<Rightarrow> tool \<Rightarrow> (string, string) hmap \<Rightarrow> (string, 'o) result" where
  "forge registry c secret_params = (case split_once colon (t_from c) of
      None \<Rightarrow> Inl (''Invalid tool component `from` field. Expected: `<tool_source>:<tool_id>`. Recieved: '' @ t_from c)
    | Some (from_source, rest) \<Rightarrow>
        (case hm_get registry from_source of
           Some factory \<Rightarrow> factory c secret_params
         | None \<Rightarrow> Inl (''Tool factory not found for source: '' @ from_source)))"

text \<open>The tools a model gets, among those registered in the runtime.\<close>

definition get_tools :: "(string \<rightharpoonup> builtin_tool) \<Rightarrow> spice_tools_options \<Rightarrow> builtin_tool list" where
  "get_tools all_tools opts = (case opts of
      Disabled \<Rightarrow> []
    | Auto \<Rightarrow> get_builtin_tools
    | Specific t \<Rightarrow> List.map_filter all_tools t)"

section \<open>The list of datasets\<close>

record list_dataset_element =
  le_table :: string
  le_can_search_documents :: bool
  le_description :: "string option"
  le_metadata :: "(string, json) hmap"

text \<open>\<open>TableReference::resolve\<close> with the default catalog and schema, printed.\<close>

definition resolved_name :: "table_reference \<Rightarrow> string" where
  "resolved_name r = (case resolve_ref r of (c, s, t) \<Rightarrow> c @ ''.'' @ s @ ''.'' @ t)"

definition get_dataset_elements ::
  "(string \<Rightarrow> table_reference) \<Rightarrow> app option \<Rightarrow> string list option \<Rightarrow> list_dataset_element list" where
  "get_dataset_elements parse_str app_opt opt_include = (case app_opt of
      None \<Rightarrow> []
    | Some a \<Rightarrow> map (\<lambda>d. \<lparr>le_table = resolved_name (parse_str (d_name d)), le_can_search_documents = d_embeddings d \<noteq> [],
           le_description = d_description d, le_metadata = d_metadata d\<rparr>)
         (filter (\<lambda>d. \<not> (case opt_include of None \<Rightarrow> False | Some ts \<Rightarrow> d_name d \<notin> set ts)) (app_datasets a)))"

definition to_text_llms :: "list_dataset_element \<Rightarrow> string" where
  "to_text_llms e = ''Dataset: '' @ le_table e @ ''\<newline>Description: '' @
     (case le_description e of Some d \<Rightarrow> d | None \<Rightarrow> ''None'') @ ''\<newline>Metadata: '' @
     join_str '', '' (map (\<lambda>(k, v). k @ '': '' @ v) (le_metadata e))"

section \<open>Calling a tool\<close>

text \<open>
  \<open>cond[5..]\<close> after a leading \<open>where\<close> in any case; the request is read from JSON, searched and
  written back by parameters.
\<close>

definition strip_where :: "string option \<Rightarrow> string option" where
  "strip_where cond = (case cond of
      None \<Rightarrow> None
    | Some c \<Rightarrow> Some (if take 6 (to_lowercase c) = ''where '' then drop 5 c else c))"

record ('q, 'r) tool_services =
  ts_parse_search :: "string \<Rightarrow> (string, 'q) result"
  ts_where_cond :: "'q \<Rightarrow> string option"
  ts_with_where :: "string option \<Rightarrow> 'q \<Rightarrow> 'q"
  ts_search :: "'q \<Rightarrow> (string, json) result"
  ts_parse_tables :: "string \<Rightarrow> (string, string list) result"
  ts_schema :: "string \<Rightarrow> (string, json) result"
  ts_parse_query :: "string \<Rightarrow> (string, string) result"
  ts_run_query :: "string \<Rightarrow> (string, 'r list) result"
  ts_write_json :: "'r list \<Rightarrow> (string, string) result"
  ts_string :: "string \<Rightarrow> json"
  ts_array :: "json list \<Rightarrow> json"
  ts_element :: "list_dataset_element \<Rightarrow> (string, json) result"
  ts_app :: "app option"
  ts_parse_ref :: "string \<Rightarrow> table_reference"

definition call_document_similarity :: "('q, 'r) tool_services \<Rightarrow> string \<Rightarrow> (string, json) result" where
  "call_document_similarity ts arg =
     and_then (ts_parse_search ts arg) (\<lambda>req.
       ts_search ts (ts_with_where ts (strip_where (ts_where_cond ts req)) req))"

definition call_table_schema :: "('q, 'r) tool_services \<Rightarrow> string \<Rightarrow> (string, json) result" where
  "call_table_schema ts arg =
     and_then (ts_parse_tables ts arg) (\<lambda>tables.
       and_then (try_collect (ts_schema ts) tables) (\<lambda>vs. Inr (ts_array ts vs)))"

definition call_sql :: "('q, 'r) tool_services \<Rightarrow> string \<Rightarrow> (string, json) result" where
  "call_sql ts arg =
     and_then (ts_parse_query ts arg) (\<lambda>query.
       and_then (ts_run_query ts query) (\<lambda>batches.
         and_then (ts_write_json ts batches) (\<lambda>s. Inr (ts_string ts s))))"

definition call_list_datasets :: "('q, 'r) tool_services \<Rightarrow> string list option \<Rightarrow> (string, json) result" where
  "call_list_datasets ts allowlist =
     and_then (try_collect (ts_element ts) (get_dataset_elements (ts_parse_ref ts) (ts_app ts) allowlist))
       (\<lambda>vs. Inr (ts_array ts vs))"

fun tool_call :: "('q, 'r) tool_services \<Rightarrow> builtin_tool \<Rightarrow> string \<Rightarrow> (string, json) result" where
  "tool_call ts (DocumentSimilarityTool name description) arg = call_document_similarity ts arg"
| "tool_call ts (TableSchemaTool name description) arg = call_table_schema ts arg"
| "tool_call ts (SqlTool name description) arg = call_sql ts arg"
| "tool_call ts (ListDatasetsTool name description allowlist) arg = call_list_datasets ts allowlist"

section \<open>Lemmas\<close>

lemma split_once_append: "c \<notin> set p \<Longrightarrow> split_once c (p @ c # r) = Some (p, r)"
  by (simp add: split_once_def splitn2_def find_char_append)

lemma forge_builtin:
  assumes "t_from c = ''builtin:'' @ i"
  shows "forge (register_all_tools r) c ps = builtin_construct c ps"
    and "split_once colon (t_from c) = Some (''builtin'', i)"
proof -
  have fr: "t_from c = ''builtin'' @ colon # i" using assms by simp
  show split: "split_once colon (t_from c) = Some (''builtin'', i)" unfolding fr by (rule split_once_append) simp
  show "forge (register_all_tools r) c ps = builtin_construct c ps"
    by (simp add: forge_def split register_all_tools_def register_tool_factory_def update_conv)
qed

lemma builtin_construct_id:
  assumes "t_from c = ''builtin:'' @ i"
  shows "is_ok (builtin_construct c ps) \<longleftrightarrow> i \<in> {''document_similarity'', ''table_schema'', ''sql'', ''list_datasets''}"
    and "builtin_construct c ps = Inr t \<Longrightarrow> tool_name t = t_name c \<and> tool_description t = t_description c"
  by (auto simp: builtin_construct_def forge_builtin(2) [OF assms] split: if_splits)

lemma builtin_ids:
  "map tool_name get_builtin_tools = [''document_similarity'', ''table_schema'', ''sql'', ''list_datasets'']"
  by (simp add: get_builtin_tools_def default_document_similarity_def default_table_schema_def default_sql_def
      default_list_datasets_def)

lemma builtin_specs: "get_builtin_tool_spec = map tool_spec_of get_builtin_tools"
  by (simp add: get_builtin_tool_spec_def get_builtin_tools_def)

lemma forge_builtin_spec:
  assumes "t \<in> set get_builtin_tools"
  shows "forge (register_all_tools r) (tool_spec_of t) ps = Inr t"
proof -
  have fr: "t_from (tool_spec_of t) = ''builtin:'' @ tool_name t" by (simp add: tool_spec_of_def)
  show ?thesis
    unfolding forge_builtin(1) [OF fr] builtin_construct_def forge_builtin(2) [OF fr]
    using assms
    by (auto simp: get_builtin_tools_def default_document_similarity_def default_table_schema_def default_sql_def
        default_list_datasets_def tool_spec_of_def)
qed

text \<open>
  The specification each built-in tool is registered with builds exactly that tool again; a
  specification \<open>builtin:id\<close> is accepted if and only if the id names a built-in tool, and what it
  builds carries the name and the description of the specification.
\<close>

theorem builtin_tools_roundtrip:
  assumes "t_from c = ''builtin:'' @ i"
  shows "map (\<lambda>s. forge (register_all_tools r) s ps) get_builtin_tool_spec = map Inr get_builtin_tools \<and>
    (is_ok (forge (register_all_tools r) c ps) \<longleftrightarrow> i \<in> set (map tool_name get_builtin_tools)) \<and>
    (\<forall>t. forge (register_all_tools r) c ps = Inr t \<longrightarrow> tool_name t = t_name c \<and> tool_description t = t_description c)"
  using builtin_construct_id [OF assms] unfolding forge_builtin(1) [OF assms] builtin_ids
  by (simp add: builtin_specs forge_builtin_spec)

theorem builtin_tools_roundtrip_witness:
  "is_ok (forge (register_all_tools []) \<lparr>t_from = ''builtin:sql'', t_name = ''q'', t_description = None, t_params = [], t_depends_on = []\<rparr> [])"
  using builtin_tools_roundtrip [of "\<lparr>t_from = ''builtin:sql'', t_name = ''q'', t_description = None, t_params = [], t_depends_on = []\<rparr>"
      "''sql''" "[]" "[]"]
  by (simp add: builtin_ids)

end
