(* ===== verification/Tool_Use.thy ===== *)
theory Tool_Use
  imports Tools "HOL-Library.Word" "HOL-Library.Sublist"
begin

text \<open>
  A chat model that is given the runtime's tools (runtime/src/model/tool_use.rs): the system prompt,
  the tools added to a request, running the tools the model asks for, and asking the model again,
  for a plain and for a streamed answer. The wrapped model and the tools act on an outside world of
  type \<open>'k\<close>. The request builders of the client library succeed on what they are given here, and
  the receiver of a streamed answer is taken to stay until the end.
\<close>

section \<open>Messages\<close>

record function_call =
  fc_name :: string
  fc_arguments :: string

record message_tool_call =
  mc_id :: string
  mc_function :: function_call

datatype chat_message =
    SystemMessage string
  | AssistantMessage "message_tool_call list"
  | ToolMessage string string
  | OtherMessage string

record chat_tool =
  ct_name :: string
  ct_description :: "string option"
  ct_parameters :: "json option"

datatype tool_choice = ChoiceNone | ChoiceAuto | ChoiceRequired | ChoiceNamed string

text \<open>\<open>rq_settings\<close> stands for the optional settings of a request this code does not read.\<close>

record 'r completion_request =
  rq_model :: string
  rq_messages :: "chat_message list"
  rq_tools :: "chat_tool list option"
  rq_tool_choice :: "tool_choice option"
  rq_settings :: "'r option"

record completion_usage =
  us_prompt_tokens :: "32 word"
  us_completion_tokens :: "32 word"
  us_total_tokens :: "32 word"

record response_choice =
  rc_content :: "string option"
  rc_tool_calls :: "message_tool_call list option"

record chat_response =
  rs_choices :: "response_choice list"
  rs_usage :: "completion_usage option"

datatype finish_reason = FinishStop | FinishLength | FinishToolCalls | FinishContentFilter | FinishFunctionCall

record function_chunk =
  fk_name :: "string option"
  fk_arguments :: "string option"

record tool_call_chunk =
  tk_index :: int
  tk_id :: "string option"
  tk_function :: "function_chunk option"

record stream_choice =
  sc_index :: "32 word"
  sc_content :: "string option"
  sc_tool_calls :: "tool_call_chunk list option"
  sc_finish_reason :: "finish_reason option"

record stream_response =
  sr_id :: string
  sr_choices :: "stream_choice list"

type_synonym response_stream = "(string, stream_response) result list"

section \<open>The wrapped model and its tools\<close>

record 'k model_tool =
  mt_name :: string
  mt_description :: "string option"
  mt_parameters :: "json option"
  mt_call :: "string \<Rightarrow> 'k \<Rightarrow> (string, json) result \<times> 'k"

record ('k, 'r) tool_using_chat =
  uc_tools :: "'k model_tool list"
  uc_datasets :: "'k \<Rightarrow> list_dataset_element list"
  uc_string :: "string \<Rightarrow> json"
  uc_request :: "'r completion_request \<Rightarrow> 'k \<Rightarrow> (string, chat_response) result \<times> 'k"
  uc_stream :: "'r completion_request \<Rightarrow> 'k \<Rightarrow> (string, response_stream) result \<times> 'k"

definition runtime_tools :: "('k, 'r) tool_using_chat \<Rightarrow> chat_tool list" where
  "runtime_tools uc = map (\<lambda>t. \<lparr>ct_name = mt_name t, ct_description = mt_description t, ct_parameters = mt_parameters t\<rparr>) (uc_tools uc)"

definition runtime_tool_system_prompt :: "('k, 'r) tool_using_chat \<Rightarrow> string option" where
  "runtime_tool_system_prompt uc =
     (let tool_names = map ct_name (runtime_tools uc)
      in if tool_names = [] then None
         else Some (''You have access to the following runtime tools: '' @ join_str '', '' tool_names @ ''.''))"

definition available_tables_system_prompt :: "('k, 'r) tool_using_chat \<Rightarrow> 'k \<Rightarrow> string option" where
  "available_tables_system_prompt uc k =
     Some (''The following datasets are available in the runtime: \<newline>'' @
       join_str ''\<newline>---\<newline>'' (map to_text_llms (uc_datasets uc k)))"

definition prepare_req :: "('k, 'r) tool_using_chat \<Rightarrow> 'r completion_request \<Rightarrow> 'k \<Rightarrow> 'r completion_request" where
  "prepare_req uc req k =
     (let content = ''You have access to a runtime. '' @ (case available_tables_system_prompt uc k of Some p \<Rightarrow> p | None \<Rightarrow> []) @ '' '' @
            (case runtime_tool_system_prompt uc of Some p \<Rightarrow> p | None \<Rightarrow> [])
      in req\<lparr>rq_messages := SystemMessage content # rq_messages req\<rparr>)"

definition is_spiced_tool :: "('k, 'r) tool_using_chat \<Rightarrow> message_tool_call \<Rightarrow> bool" where
  "is_spiced_tool uc t \<longleftrightarrow> list_ex (\<lambda>tl. mt_name tl = fc_name (mc_function t)) (uc_tools uc)"

definition call_tool :: "('k, 'r) tool_using_chat \<Rightarrow> function_call \<Rightarrow> 'k \<Rightarrow> json \<times> 'k" where
  "call_tool uc func k = (case find (\<lambda>t. mt_name t = fc_name func) (uc_tools uc) of
      Some t \<Rightarrow> (case mt_call t (fc_arguments func) k of
          (Inr v, k') \<Rightarrow> (v, k')
        | (Inl e, k') \<Rightarrow> (uc_string uc (''Error calling tool '' @ mt_name t @ ''. Error: '' @ e), k'))
    | None \<Rightarrow> (''null'', k))"

fun call_tools :: "('k, 'r) tool_using_chat \<Rightarrow> message_tool_call list \<Rightarrow> 'k \<Rightarrow> (message_tool_call \<times> json) list \<times> 'k" where
  "call_tools uc [] k = ([], k)"
| "call_tools uc (t # ts) k =
     (let (content, k1) = call_tool uc (mc_function t) k; (rest, k2) = call_tools uc ts k1
      in ((t, content) # rest, k2))"

definition process_tool_calls_and_run_spice_tools ::
  "('k, 'r) tool_using_chat \<Rightarrow> chat_message list \<Rightarrow> message_tool_call list \<Rightarrow> 'k \<Rightarrow> chat_message list option \<times> 'k" where
  "process_tool_calls_and_run_spice_tools uc original_messages requested_tools k =
     (let spiced_tools = filter (is_spiced_tool uc) requested_tools
      in if spiced_tools = [] then (None, k)
         else (let (responses, k') = call_tools uc spiced_tools k
               in (Some (original_messages @ [AssistantMessage spiced_tools] @
                     map (\<lambda>(t, content). ToolMessage content (mc_id t)) responses), k')))"

definition add_runtime_tools :: "('k, 'r) tool_using_chat \<Rightarrow> 'r completion_request \<Rightarrow> 'r completion_request" where
  "add_runtime_tools uc req =
     (if runtime_tools uc = [] then req
      else req\<lparr>rq_tools := Some (runtime_tools uc @ (case rq_tools req of Some ts \<Rightarrow> ts | None \<Rightarrow> []))\<rparr>)"

section \<open>A plain answer\<close>

definition combine_usage :: "completion_usage option \<Rightarrow> completion_usage option \<Rightarrow> completion_usage option" where
  "combine_usage u1 u2 = (case (u1, u2) of
      (Some a, Some b) \<Rightarrow> Some \<lparr>us_prompt_tokens = us_prompt_tokens a + us_prompt_tokens b,
         us_completion_tokens = us_completion_tokens a + us_completion_tokens b,
         us_total_tokens = us_total_tokens a + us_total_tokens b\<rparr>
    | (Some a, None) \<Rightarrow> Some a
    | (None, Some b) \<Rightarrow> Some b
    | (None, None) \<Rightarrow> None)"

text \<open>The request of the next round: a default request with the model and the messages.\<close>

definition followup_request :: "'r completion_request \<Rightarrow> chat_message list \<Rightarrow> 'r completion_request" where
  "followup_request req messages =
     \<lparr>rq_model = rq_model req, rq_messages = messages, rq_tools = None, rq_tool_choice = None, rq_settings = None\<rparr>"

datatype ('k, 'r) chat_round =
    Finished (finished_answer: "(string, chat_response) result") (round_world: 'k)
  | Again (again_usage: "completion_usage option") (again_request: "'r completion_request") (round_world: 'k)

text \<open>One call of \<open>chat_request\<close> up to its recursive call.\<close>

definition run_round :: "('k, 'r) tool_using_chat \<Rightarrow> 'r completion_request \<Rightarrow> 'k \<Rightarrow> ('k, 'r) chat_round" where
  "run_round uc req k =
     (let inner_req = prepare_req uc req k
      in if rq_tool_choice inner_req = Some ChoiceNone
         then (case uc_request uc inner_req k of (r, k') \<Rightarrow> Finished r k')
         else (case uc_request uc (add_runtime_tools uc inner_req) k of
             (Inl e, k') \<Rightarrow> Finished (Inl e) k'
           | (Inr resp, k') \<Rightarrow>
               (let tools_used = (case rs_choices resp of [] \<Rightarrow> None | c # _ \<Rightarrow> rc_tool_calls c)
                in case process_tool_calls_and_run_spice_tools uc (rq_messages req)
                          (case tools_used of Some ts \<Rightarrow> ts | None \<Rightarrow> []) k' of
                     (None, k'') \<Rightarrow> Finished (Inr resp) k''
                   | (Some messages, k'') \<Rightarrow> Again (rs_usage resp) (followup_request req messages) k'')))"

definition add_usage :: "completion_usage option \<Rightarrow> (string, chat_response) result \<Rightarrow> (string, chat_response) result" where
  "add_usage u r = map_sum id (\<lambda>resp. resp\<lparr>rs_usage := combine_usage u (rs_usage resp)\<rparr>) r"

text \<open>The model may ask for tools forever; then there is no answer.\<close>

partial_function (option) chat_request ::
  "('k, 'r) tool_using_chat \<Rightarrow> 'r completion_request \<Rightarrow> 'k \<Rightarrow> ((string, chat_response) result \<times> 'k) option" where
  "chat_request uc req k =
     (let r = run_round uc req k
      in if is_Finished r then Some (finished_answer r, round_world r)
         else Option.bind (chat_request uc (again_request r) (round_world r))
                (\<lambda>x. Some (add_usage (again_usage r) (fst x), snd x)))"

section \<open>A streamed answer\<close>

record 'k stream_machine =
  sm_calls :: "(int \<times> int, message_tool_call) hmap"
  sm_sent :: response_stream
  sm_finished :: "stream_choice list"
  sm_world :: 'k
  sm_returned :: bool

text \<open>\<open>chat_choice.index.try_into()\<close> of a \<open>u32\<close> into an \<open>i32\<close>.\<close>

definition index_as_i32 :: "32 word \<Rightarrow> int option" where
  "index_as_i32 i = (if uint i < 2 ^ 31 then Some (uint i) else None)"

definition new_call :: "tool_call_chunk \<Rightarrow> message_tool_call" where
  "new_call c = \<lparr>mc_id = (case tk_id c of Some i \<Rightarrow> i | None \<Rightarrow> []),
     mc_function = \<lparr>fc_name = (case Option.bind (tk_function c) fk_name of Some n \<Rightarrow> n | None \<Rightarrow> []), fc_arguments = []\<rparr>\<rparr>"

definition push_arguments :: "tool_call_chunk \<Rightarrow> message_tool_call \<Rightarrow> message_tool_call" where
  "push_arguments c m = (case Option.bind (tk_function c) fk_arguments of
      Some a \<Rightarrow> m\<lparr>mc_function := (mc_function m)\<lparr>fc_arguments := fc_arguments (mc_function m) @ a\<rparr>\<rparr>
    | None \<Rightarrow> m)"

definition add_chunk :: "int \<Rightarrow> tool_call_chunk \<Rightarrow> (int \<times> int, message_tool_call) hmap \<Rightarrow> (int \<times> int, message_tool_call) hmap" where
  "add_chunk i c calls =
     (let entry = (case hm_get calls (i, tk_index c) of Some m \<Rightarrow> m | None \<Rightarrow> new_call c)
      in hm_insert (i, tk_index c) (push_arguments c entry) calls)"

definition collect_chunks :: "stream_choice \<Rightarrow> tool_call_chunk list \<Rightarrow> 'k stream_machine \<Rightarrow> 'k stream_machine" where
  "collect_chunks ch chunks s = (case index_as_i32 (sc_index ch) of
      None \<Rightarrow> if chunks = [] then s else s\<lparr>sm_returned := True\<rparr>
    | Some i \<Rightarrow> s\<lparr>sm_calls := fold (add_chunk i) chunks (sm_calls s)\<rparr>)"

text \<open>
  A choice that ends with tool calls: the collected calls are run and the model is asked again, in
  \<open>nested\<close>, with the request otherwise unchanged, and its answer is passed on.
\<close>

definition finish_tool_calls ::
  "('k, 'r) tool_using_chat \<Rightarrow> ('r completion_request \<Rightarrow> 'k \<Rightarrow> ((string, response_stream) result \<times> 'k) option) \<Rightarrow> 'r completion_request \<Rightarrow>
   stream_choice \<Rightarrow> 'k stream_machine \<Rightarrow> 'k stream_machine option" where
  "finish_tool_calls uc nested req ch s =
     (case process_tool_calls_and_run_spice_tools uc (rq_messages req) (map snd (sm_calls s)) (sm_world s) of
        (None, k) \<Rightarrow> Some (s\<lparr>sm_finished := sm_finished s @ [ch], sm_world := k\<rparr>)
      | (Some messages, k) \<Rightarrow>
          map_option (\<lambda>(r, k'). case r of
              Inr frames \<Rightarrow> s\<lparr>sm_sent := sm_sent s @ frames, sm_world := k'\<rparr>
            | Inl e \<Rightarrow> s\<lparr>sm_sent := sm_sent s @ [Inl e], sm_world := k', sm_returned := True\<rparr>)
          (nested (req\<lparr>rq_messages := messages\<rparr>) k))"

definition handle_choice ::
  "('k, 'r) tool_using_chat \<Rightarrow> ('r completion_request \<Rightarrow> 'k \<Rightarrow> ((string, response_stream) result \<times> 'k) option) \<Rightarrow> 'r completion_request \<Rightarrow>
   stream_choice \<Rightarrow> 'k stream_machine \<Rightarrow> 'k stream_machine option" where
  "handle_choice uc nested req ch s =
     (if sm_returned s then Some s
      else
        (let s1 = (case sc_tool_calls ch of
                Some chunks \<Rightarrow> collect_chunks ch chunks s
              | None \<Rightarrow> if sc_content ch \<noteq> None then s\<lparr>sm_finished := sm_finished s @ [ch]\<rparr> else s)
         in if sm_returned s1 then Some s1
            else case sc_finish_reason ch of
                Some FinishToolCalls \<Rightarrow> finish_tool_calls uc nested req ch s1
              | Some FinishStop \<Rightarrow> Some (s1\<lparr>sm_finished := sm_finished s1 @ [ch]\<rparr>)
              | Some FinishLength \<Rightarrow> Some (s1\<lparr>sm_finished := sm_finished s1 @ [ch]\<rparr>)
              | _ \<Rightarrow> Some s1))"

definition send_finished :: "stream_response \<Rightarrow> 'k stream_machine \<Rightarrow> 'k stream_machine" where
  "send_finished response s =
     (if sm_returned s \<or> sm_finished s = [] then s
      else s\<lparr>sm_sent := sm_sent s @ [Inr (response\<lparr>sr_choices := sm_finished s\<rparr>)]\<rparr>)"

definition handle_frame ::
  "('k, 'r) tool_using_chat \<Rightarrow> ('r completion_request \<Rightarrow> 'k \<Rightarrow> ((string, response_stream) result \<times> 'k) option) \<Rightarrow> 'r completion_request \<Rightarrow>
   (string, stream_response) result \<Rightarrow> 'k stream_machine \<Rightarrow> 'k stream_machine option" where
  "handle_frame uc nested req frame s =
     (if sm_returned s then Some s
      else case frame of
        Inl e \<Rightarrow> Some (s\<lparr>sm_sent := sm_sent s @ [Inl e], sm_returned := True\<rparr>)
      | Inr response \<Rightarrow>
          map_option (send_finished response)
            (fold (\<lambda>ch m. Option.bind m (handle_choice uc nested req ch)) (sr_choices response) (Some (s\<lparr>sm_finished := []\<rparr>))))"

definition make_a_stream ::
  "('k, 'r) tool_using_chat \<Rightarrow> ('r completion_request \<Rightarrow> 'k \<Rightarrow> ((string, response_stream) result \<times> 'k) option) \<Rightarrow> 'r completion_request \<Rightarrow>
   response_stream \<Rightarrow> 'k \<Rightarrow> 'k stream_machine option" where
  "make_a_stream uc nested req frames k =
     fold (\<lambda>f m. Option.bind m (handle_frame uc nested req f)) frames
       (Some \<lparr>sm_calls = [], sm_sent = [], sm_finished = [], sm_world = k, sm_returned = False\<rparr>)"

text \<open>The first argument bounds how often the model is asked; \<open>None\<close> when that is not enough.\<close>

fun chat_stream :: "nat \<Rightarrow> ('k, 'r) tool_using_chat \<Rightarrow> 'r completion_request \<Rightarrow> 'k \<Rightarrow> ((string, response_stream) result \<times> 'k) option" where
  "chat_stream 0 uc req k = None"
| "chat_stream (Suc n) uc req k =
     (let inner_req = prepare_req uc req k
      in if rq_tool_choice inner_req = Some ChoiceNone then Some (uc_stream uc inner_req k)
         else case uc_stream uc (add_runtime_tools uc inner_req) k of
             (Inl e, k') \<Rightarrow> Some (Inl e, k')
           | (Inr frames, k') \<Rightarrow>
               map_option (\<lambda>s. (Inr (sm_sent s), sm_world s)) (make_a_stream uc (chat_stream n uc) req frames k'))"

section \<open>Asking again\<close>

text \<open>The answer within \<open>n\<close> rounds after the first, and the outcome of a round.\<close>

primrec answer_after :: "('k, 'r) tool_using_chat \<Rightarrow> nat \<Rightarrow> 'r completion_request \<Rightarrow> 'k \<Rightarrow> ((string, chat_response) result \<times> 'k) option" where
  "answer_after uc 0 req k = (case run_round uc req k of Finished r k' \<Rightarrow> Some (r, k') | Again u req' k' \<Rightarrow> None)"
| "answer_after uc (Suc n) req k = (case run_round uc req k of
      Finished r k' \<Rightarrow> Some (r, k')
    | Again u req' k' \<Rightarrow> map_option (\<lambda>(r, k''). (add_usage u r, k'')) (answer_after uc n req' k'))"

primrec round_after :: "('k, 'r) tool_using_chat \<Rightarrow> nat \<Rightarrow> 'r completion_request \<Rightarrow> 'k \<Rightarrow> ('k, 'r) chat_round" where
  "round_after uc 0 req k = run_round uc req k"
| "round_after uc (Suc n) req k = (case run_round uc req k of
      Finished r k' \<Rightarrow> Finished r k'
    | Again u req' k' \<Rightarrow> round_after uc n req' k')"

lemma chat_request_finished: "run_round uc req k = Finished r k' \<Longrightarrow> chat_request uc req k = Some (r, k')"
  by (subst chat_request.simps) simp

lemma chat_request_again:
  "run_round uc req k = Again u req' k' \<Longrightarrow>
   chat_request uc req k = map_option (\<lambda>(r, k''). (add_usage u r, k'')) (chat_request uc req' k')"
  by (subst chat_request.simps) (simp add: map_option_case split_beta split: option.splits)

lemma answer_after_chat_request: "answer_after uc n req k = Some x \<Longrightarrow> chat_request uc req k = Some x"
  by (induction n arbitrary: req k x)
     (auto simp: chat_request_finished chat_request_again split: chat_round.splits)

lemma chat_request_answer_after:
  assumes ret: "chat_request uc req k = Some x"
  shows "\<exists>n. answer_after uc n req k = Some x"
proof (rule chat_request.raw_induct [where P = "\<lambda>uc req k x. \<exists>n. answer_after uc n req k = Some x", OF _ ret])
  fix f and uc :: "('k, 'r) tool_using_chat" and req k x
  assume IH: "\<And>uc req k x. f uc req k = Some x \<Longrightarrow> \<exists>n. answer_after uc n req k = Some x"
    and eq: "(let r = run_round uc req k
      in if is_Finished r then Some (finished_answer r, round_world r)
         else Option.bind (f uc (again_request r) (round_world r)) (\<lambda>x. Some (add_usage (again_usage r) (fst x), snd x))) = Some x"
  show "\<exists>n. answer_after uc n req k = Some x"
  proof (cases "run_round uc req k")
    case (Finished r k')
    with eq have "answer_after uc 0 req k = Some x" by simp
    then show ?thesis ..
  next
    case (Again u req' k')
    with eq obtain y where y: "f uc req' k' = Some y" and x: "x = (add_usage u (fst y), snd y)"
      by (auto simp: bind_eq_Some_conv)
    from IH [OF y] obtain n where "answer_after uc n req' k' = Some y" ..
    then have "answer_after uc (Suc n) req k = Some x" by (simp add: Again x split_beta)
    then show ?thesis ..
  qed
qed

lemma answer_after_finished: "(\<exists>x. answer_after uc n req k = Some x) \<longleftrightarrow> is_Finished (round_after uc n req k)"
proof (induction n arbitrary: req k)
  case (Suc n)
  show ?case
  proof (cases "run_round uc req k")
    case (Again u req' k')
    then show ?thesis using Suc.IH [of req' k'] by (auto simp: split_beta)
  qed simp
qed (simp split: chat_round.splits)


section \<open>The conversation\<close>

definition tool_turn :: "chat_message \<Rightarrow> bool" where
  "tool_turn m \<longleftrightarrow> (case m of AssistantMessage ts \<Rightarrow> True | ToolMessage c i \<Rightarrow> True | _ \<Rightarrow> False)"

lemma call_tools_calls: "map fst (fst (call_tools uc ts k)) = ts"
  by (induction ts arbitrary: k) (auto simp: Let_def split_beta)

lemma process_tool_calls_cases:
  assumes "process_tool_calls_and_run_spice_tools uc messages calls k = (Some messages', k')"
  shows "filter (is_spiced_tool uc) calls \<noteq> []"
    and "\<exists>results. messages' = messages @ AssistantMessage (filter (is_spiced_tool uc) calls) #
           map2 (\<lambda>t c. ToolMessage c (mc_id t)) (filter (is_spiced_tool uc) calls) results \<and>
           length results = length (filter (is_spiced_tool uc) calls)"
proof -
  let ?ts = "filter (is_spiced_tool uc) calls"
  show "?ts \<noteq> []" using assms by (auto simp: process_tool_calls_and_run_spice_tools_def)
  obtain rs k'' where rs: "call_tools uc ?ts k = (rs, k'')" by fastforce
  have "map fst rs = ?ts" using call_tools_calls [of uc ?ts k] rs by simp
  then have "rs = zip ?ts (map snd rs)" and "length (map snd rs) = length ?ts"
    by (metis zip_map_fst_snd, metis length_map)
  then show "\<exists>results. messages' = messages @ AssistantMessage ?ts # map2 (\<lambda>t c. ToolMessage c (mc_id t)) ?ts results \<and>
      length results = length ?ts"
    using assms rs by (intro exI [of _ "map snd rs"])
      (auto simp: process_tool_calls_and_run_spice_tools_def Let_def split: if_splits)
qed

lemma run_round_again:
  assumes "run_round uc req k = Again u req' k'"
  shows "\<exists>added. req' = followup_request req (rq_messages req @ added) \<and> added \<noteq> [] \<and> list_all tool_turn added"
proof -
  from assms obtain calls k1 messages where p: "process_tool_calls_and_run_spice_tools uc (rq_messages req) calls k1 = (Some messages, k')"
    and req': "req' = followup_request req messages"
    by (auto simp: run_round_def Let_def split: if_splits prod.splits sum.splits option.splits list.splits)
  from process_tool_calls_cases(2) [OF p] obtain results where
    "messages = rq_messages req @ AssistantMessage (filter (is_spiced_tool uc) calls) #
      map2 (\<lambda>t c. ToolMessage c (mc_id t)) (filter (is_spiced_tool uc) calls) results" by blast
  then show ?thesis unfolding req'
    by (intro exI [of _ "AssistantMessage (filter (is_spiced_tool uc) calls) #
          map2 (\<lambda>t c. ToolMessage c (mc_id t)) (filter (is_spiced_tool uc) calls) results"])
       (auto simp: tool_turn_def list_all_iff)
qed

text \<open>
  Every further round goes on from the conversation the client sent: its messages come first and
  only tool calls and their results are added, never a second system prompt. But of the client's
  request nothing except the model and the messages is kept: from the second round on its own tools,
  its choice of tools and all its settings are gone.
\<close>

theorem further_rounds_extend_conversation:
  assumes "round_after uc n req k = Again u req' k'"
  shows "(\<exists>added. rq_messages req' = rq_messages req @ added \<and> added \<noteq> [] \<and> list_all tool_turn added) \<and>
    rq_model req' = rq_model req \<and> rq_tools req' = None \<and> rq_tool_choice req' = None \<and> rq_settings req' = None"
  using assms
proof (induction n arbitrary: req k)
  case 0
  then show ?case using run_round_again [of uc req k u req' k'] by (auto simp: followup_request_def)
next
  case (Suc n)
  then obtain u1 req1 k1 where r1: "run_round uc req k = Again u1 req1 k1" and rest: "round_after uc n req1 k1 = Again u req' k'"
    by (auto split: chat_round.splits)
  from run_round_again [OF r1] obtain added where "req1 = followup_request req (rq_messages req @ added)" "list_all tool_turn added" by blast
  with Suc.IH [OF rest] show ?case by (auto simp: followup_request_def)
qed

text \<open>A model that asks for a tool in its first answer; its world counts what it was asked.\<close>

definition demo_call :: "string \<Rightarrow> message_tool_call" where
  "demo_call name = \<lparr>mc_id = ''1'', mc_function = \<lparr>fc_name = name, fc_arguments = ''{}''\<rparr>\<rparr>"

definition demo_chat :: "stream_response list \<Rightarrow> (nat, unit) tool_using_chat" where
  "demo_chat frames = \<lparr>
     uc_tools = [\<lparr>mt_name = ''sql'', mt_description = None, mt_parameters = None, mt_call = \<lambda>arg k. (Inr ''[]'', k)\<rparr>],
     uc_datasets = \<lambda>k. [], uc_string = \<lambda>s. s,
     uc_request = \<lambda>req k. (Inr \<lparr>rs_choices = [\<lparr>rc_content = None, rc_tool_calls = (if k = 0 then Some [demo_call ''sql''] else None)\<rparr>],
        rs_usage = None\<rparr>, Suc k),
     uc_stream = \<lambda>req k. (Inr (map Inr frames), Suc k)\<rparr>"

definition demo_request :: "unit completion_request" where
  "demo_request = \<lparr>rq_model = ''m'', rq_messages = [OtherMessage ''hi''],
     rq_tools = Some [\<lparr>ct_name = ''mine'', ct_description = None, ct_parameters = None\<rparr>],
     rq_tool_choice = None, rq_settings = Some ()\<rparr>"

theorem further_rounds_extend_conversation_witness:
  "\<exists>u req' k'. round_after (demo_chat []) 0 demo_request 0 = Again u req' k' \<and> rq_tools demo_request \<noteq> None \<and> rq_tools req' = None"
proof -
  have "round_after (demo_chat []) 0 demo_request 0 =
      Again None (followup_request demo_request [OtherMessage ''hi'', AssistantMessage [demo_call ''sql''], ToolMessage ''[]'' ''1'']) 1"
    by (simp add: run_round_def prepare_req_def demo_chat_def demo_request_def add_runtime_tools_def runtime_tools_def
        process_tool_calls_and_run_spice_tools_def is_spiced_tool_def call_tool_def demo_call_def Let_def)
  from further_rounds_extend_conversation [OF this] this show ?thesis by (auto simp: demo_request_def)
qed

section \<open>Streamed answers\<close>

text \<open>A choice that carries pieces of tool calls before it is finished.\<close>

definition quiet_choice :: "stream_choice \<Rightarrow> bool" where
  "quiet_choice ch \<longleftrightarrow> sc_tool_calls ch = None \<or> sc_finish_reason ch \<noteq> None"

definition quiet_frame :: "(string, stream_response) result \<Rightarrow> bool" where
  "quiet_frame f \<longleftrightarrow> (case f of Inl e \<Rightarrow> True | Inr r \<Rightarrow> list_all quiet_choice (sr_choices r))"

definition quiet_machine :: "'k stream_machine \<Rightarrow> bool" where
  "quiet_machine s \<longleftrightarrow> list_all quiet_frame (sm_sent s) \<and> list_all quiet_choice (sm_finished s)"

definition quiet_nested :: "('r completion_request \<Rightarrow> 'k \<Rightarrow> ((string, response_stream) result \<times> 'k) option) \<Rightarrow> 'r completion_request \<Rightarrow> bool" where
  "quiet_nested nested req \<longleftrightarrow> (\<forall>messages k frames k'. nested (req\<lparr>rq_messages := messages\<rparr>) k = Some (Inr frames, k') \<longrightarrow> list_all quiet_frame frames)"

lemma finish_tool_calls_quiet:
  assumes nested: "quiet_nested nested req" and h: "finish_tool_calls uc nested req ch s = Some t"
    and q: "quiet_machine s" and ch: "quiet_choice ch"
  shows "quiet_machine t"
proof -
  obtain m k where p: "process_tool_calls_and_run_spice_tools uc (rq_messages req) (map snd (sm_calls s)) (sm_world s) = (m, k)"
    by fastforce
  show ?thesis
  proof (cases m)
    case None
    with h p q ch show ?thesis by (auto simp: finish_tool_calls_def quiet_machine_def)
  next
    case (Some messages)
    with h p obtain r k' where r: "nested (req\<lparr>rq_messages := messages\<rparr>) k = Some (r, k')"
      by (auto simp: finish_tool_calls_def)
    show ?thesis
    proof (cases r)
      case (Inl e)
      with h p r Some q show ?thesis by (auto simp: finish_tool_calls_def quiet_machine_def quiet_frame_def)
    next
      case (Inr frames)
      with nested r have "list_all quiet_frame frames" by (auto simp: quiet_nested_def)
      with h p r Some Inr q show ?thesis by (auto simp: finish_tool_calls_def quiet_machine_def)
    qed
  qed
qed

lemma handle_choice_quiet:
  assumes nested: "quiet_nested nested req" and h: "handle_choice uc nested req ch s = Some t" and q: "quiet_machine s"
  shows "quiet_machine t"
proof (cases "sm_returned s")
  case True
  with h q show ?thesis by (simp add: handle_choice_def)
next
  case False
  let ?s1 = "case sc_tool_calls ch of
      Some chunks \<Rightarrow> collect_chunks ch chunks s
    | None \<Rightarrow> if sc_content ch \<noteq> None then s\<lparr>sm_finished := sm_finished s @ [ch]\<rparr> else s"
  have s1: "quiet_machine ?s1"
    using q by (auto simp: quiet_machine_def quiet_choice_def collect_chunks_def split: option.splits)
  have fin: "quiet_machine (?s1\<lparr>sm_finished := sm_finished ?s1 @ [ch]\<rparr>)" if "sc_finish_reason ch \<noteq> None"
    using s1 that by (simp add: quiet_machine_def quiet_choice_def)
  have "quiet_choice ch" if "sc_finish_reason ch \<noteq> None" using that by (simp add: quiet_choice_def)
  with h False s1 fin finish_tool_calls_quiet [OF nested _ s1] show ?thesis
    unfolding handle_choice_def Let_def by (auto split: if_splits option.splits finish_reason.splits)
qed

lemma handle_frame_quiet:
  assumes "quiet_nested nested req" and "handle_frame uc nested req f s = Some t" and "quiet_machine s"
  shows "quiet_machine t"
proof -
  have "quiet_machine m" if "fold (\<lambda>ch m. Option.bind m (handle_choice uc nested req ch)) chs (Some (s\<lparr>sm_finished := []\<rparr>)) = Some m" for chs m
    by (rule fold_bind_invariant [OF that])
       (use assms(3) in \<open>simp add: quiet_machine_def\<close>, rule handle_choice_quiet [OF assms(1)])
  with assms(2,3) show ?thesis
    by (auto simp: handle_frame_def send_finished_def quiet_machine_def quiet_frame_def split: if_splits sum.splits)
qed

text \<open>
  A streamed answer, where tools may be used at all, never carries a piece of a tool call before the
  frame that finishes the choice: the pieces are collected for the runtime's tools and are not passed
  on, also when they belong to tools of the client. The client is told that tools were called, but not
  which and with what arguments.
\<close>

theorem stream_hides_tool_calls:
  assumes "chat_stream n uc req k = Some (Inr frames, k')" and "rq_tool_choice req \<noteq> Some ChoiceNone"
  shows "list_all quiet_frame frames"
  using assms
proof (induction n arbitrary: req k frames k')
  case (Suc n)
  have nested: "quiet_nested (chat_stream n uc) req"
    using Suc.IH Suc.prems(2) by (auto simp: quiet_nested_def)
  from Suc.prems obtain fs k1 s where s: "make_a_stream uc (chat_stream n uc) req fs k1 = Some s" and frames: "frames = sm_sent s"
    by (auto simp: prepare_req_def Let_def split: prod.splits sum.splits if_splits)
  have "quiet_machine s"
    by (rule fold_bind_invariant [OF s [unfolded make_a_stream_def]])
       (use handle_frame_quiet [OF nested] in \<open>auto simp: quiet_machine_def\<close>)
  then show ?case by (simp add: frames quiet_machine_def)
qed simp

text \<open>A client's tool called in a stream: only the closing frame reaches the client.\<close>

definition demo_frames :: "stream_response list" where
  "demo_frames = [
     \<lparr>sr_id = ''1'', sr_choices = [\<lparr>sc_index = 0, sc_content = None, sc_tool_calls = Some [\<lparr>tk_index = 0, tk_id = Some ''c'',
        tk_function = Some \<lparr>fk_name = Some ''mine'', fk_arguments = Some ''{}''\<rparr>\<rparr>], sc_finish_reason = None\<rparr>]\<rparr>,
     \<lparr>sr_id = ''2'', sr_choices = [\<lparr>sc_index = 0, sc_content = None, sc_tool_calls = None, sc_finish_reason = Some FinishToolCalls\<rparr>]\<rparr>]"

theorem stream_hides_tool_calls_witness:
  "\<exists>frames k'. chat_stream 1 (demo_chat demo_frames) demo_request 0 = Some (Inr frames, k') \<and> frames = [Inr (demo_frames ! 1)] \<and>
     list_all quiet_frame frames"
proof -
  have run: "chat_stream 1 (demo_chat demo_frames) demo_request 0 = Some (Inr [Inr (demo_frames ! 1)], 1)"
    by (simp add: prepare_req_def demo_chat_def demo_request_def add_runtime_tools_def runtime_tools_def make_a_stream_def
        demo_frames_def handle_frame_def handle_choice_def collect_chunks_def index_as_i32_def add_chunk_def new_call_def push_arguments_def
        finish_tool_calls_def process_tool_calls_and_run_spice_tools_def is_spiced_tool_def send_finished_def)
  show ?thesis using stream_hides_tool_calls [OF run] run by (auto simp: demo_request_def)
qed

end
