(* ===== verification/GraphQL.thy ===== *)
theory GraphQL
  imports Spicepod_Models "HOL-Library.Multiset"
begin

text \<open>
  The GraphQL data connector (data_components/src/graphql): pagination of a query, flattening of the
  objects of a response, errors of the server, one request and the loop over the pages, and the table
  provider. Parameters are the regular expressions, JSON pointers, the HTTP server (over an outside
  world of type \<open>'k\<close>), and Arrow's inference and reading of JSON. Numbers are \<open>usize\<close> values that stay
  far from overflow except where the code subtracts; there, whether the build checks for overflow is an
  argument.
\<close>

section \<open>JSON\<close>

datatype json_value =
    JNull
  | JBool bool
  | JUint nat
  | JNumber string
  | JString string
  | JArray "json_value list"
  | JObject "(string \<times> json_value) list"

fun json_get :: "json_value \<Rightarrow> string \<Rightarrow> json_value" where
  "json_get (JObject kvs) k = (case map_of kvs k of Some v \<Rightarrow> v | None \<Rightarrow> JNull)"
| "json_get _ k = JNull"

fun json_first :: "json_value \<Rightarrow> json_value" where
  "json_first (JArray (v # vs)) = v"
| "json_first _ = JNull"

fun json_as_str :: "json_value \<Rightarrow> string option" where
  "json_as_str (JString s) = Some s"
| "json_as_str _ = None"

fun json_as_u64 :: "json_value \<Rightarrow> nat option" where
  "json_as_u64 (JUint n) = Some n"
| "json_as_u64 _ = None"

fun json_as_bool :: "json_value \<Rightarrow> bool option" where
  "json_as_bool (JBool b) = Some b"
| "json_as_bool _ = None"

section \<open>Errors\<close>

datatype graphql_error =
    ReqwestInternal string
  | InvalidReqwestStatus nat string
  | ArrowInternal string
  | InvalidObjectAccess string
  | InvalidCredentialsOrPermissions string
  | ResultTransformError string
  | InvalidGraphQLQuery string nat nat string

section \<open>Pagination\<close>

record pagination_parameters =
  pp_resource_name :: string
  pp_count :: nat
  pp_page_info_path :: string

text \<open>
  \<open>re_pagination\<close>: the two groups of the pagination pattern; \<open>re_up_to\<close>: the shortest prefix of the
  pointer that ends in the resource; \<open>re_replace\<close>: the replacement of the first match of the resource
  with its arguments.
\<close>

record graphql_regexes =
  re_pagination :: "string \<Rightarrow> (string \<times> string) option"
  re_parse_usize :: "string \<Rightarrow> nat option"
  re_up_to :: "string \<Rightarrow> string \<Rightarrow> string option"
  re_replace :: "string \<Rightarrow> string \<Rightarrow> string \<Rightarrow> string"

definition pagination_parse :: "graphql_regexes \<Rightarrow> string \<Rightarrow> string \<Rightarrow> pagination_parameters option" where
  "pagination_parse re query ptr = (case re_pagination re query of
      None \<Rightarrow> None
    | Some (resource_name, number) \<Rightarrow>
        (case re_parse_usize re number of
           None \<Rightarrow> None
         | Some cnt \<Rightarrow> map_option (\<lambda>p. \<lparr>pp_resource_name = resource_name, pp_count = cnt, pp_page_info_path = p @ ''/pageInfo''\<rparr>)
             (re_up_to re resource_name ptr)))"

text \<open>The number of items asked for, and whether the limit is reached with them.\<close>

definition page_count :: "pagination_parameters \<Rightarrow> nat option \<Rightarrow> nat \<times> bool" where
  "page_count pp limit = (case limit of
      Some l \<Rightarrow> if l \<le> pp_count pp then (l, True) else (pp_count pp, False)
    | None \<Rightarrow> (pp_count pp, False))"

definition pagination_apply ::
  "graphql_regexes \<Rightarrow> pagination_parameters \<Rightarrow> string \<Rightarrow> nat option \<Rightarrow> string option \<Rightarrow> string \<times> bool" where
  "pagination_apply re pp query limit cursor =
     (let (cnt, limit_reached) = page_count pp limit;
          replace_query = (case cursor of
             Some c \<Rightarrow> pp_resource_name pp @ '' (first: '' @ digits cnt @ '', after: \"'' @ c @ ''\")''
           | None \<Rightarrow> pp_resource_name pp @ '' (first: '' @ digits cnt @ '')'')
      in (re_replace re (pp_resource_name pp) query replace_query, limit_reached))"

definition get_next_cursor_from_response :: "(string \<Rightarrow> json_value \<Rightarrow> json_value option) \<Rightarrow> pagination_parameters \<Rightarrow> json_value \<Rightarrow> string option" where
  "get_next_cursor_from_response pointer pp response =
     (let page_info = (case pointer (pp_page_info_path pp) response of Some v \<Rightarrow> v | None \<Rightarrow> JNull);
          end_cursor = json_as_str (json_get page_info ''endCursor'');
          has_next_page = (case json_as_bool (json_get page_info ''hasNextPage'') of Some b \<Rightarrow> b | None \<Rightarrow> False)
      in if has_next_page then end_cursor else None)"

section \<open>Flattening\<close>

type_synonym json_fields = "(string \<times> json_value) list"

definition unnest_json_object_duplicate_columns :: "json_fields \<Rightarrow> string \<Rightarrow> (graphql_error, string) result" where
  "unnest_json_object_duplicate_columns new_object k =
     (if map_of new_object k \<noteq> None
      then Inl (InvalidObjectAccess (''Column '' @ [CHR 39] @ k @ [CHR 39] @ '' already exists in the object.''))
      else Inr k)"

text \<open>The fields of the object-valued fields, which are taken out.\<close>

fun inner_fields :: "string \<times> json_value \<Rightarrow> json_fields" where
  "inner_fields (k, JObject kvs) = kvs"
| "inner_fields (k, v) = []"

fun is_object :: "json_value \<Rightarrow> bool" where
  "is_object (JObject kvs) = True"
| "is_object v = False"

fun add_fields :: "json_fields \<Rightarrow> json_fields \<Rightarrow> (graphql_error, json_fields) result" where
  "add_fields [] obj = Inr obj"
| "add_fields ((k, v) # kvs) obj =
     and_then (unnest_json_object_duplicate_columns obj k) (\<lambda>new_key. add_fields kvs (hm_insert new_key v obj))"

fun unnest_loop :: "nat \<Rightarrow> json_fields \<Rightarrow> (graphql_error, json_fields) result" where
  "unnest_loop 0 obj = Inr obj"
| "unnest_loop (Suc depth) obj =
     (let additions = concat (map inner_fields obj); kept = filter (\<lambda>kv. \<not> is_object (snd kv)) obj
      in if additions = [] then Inr kept
         else and_then (add_fields additions kept) (unnest_loop depth))"

definition unnest_json_object :: "(json_value \<Rightarrow> string) \<Rightarrow> nat \<Rightarrow> json_value \<Rightarrow> (graphql_error, json_value list) result" where
  "unnest_json_object show_json depth object = (case object of
      JObject obj \<Rightarrow> and_then (unnest_loop depth obj) (\<lambda>new_object. Inr [JObject new_object])
    | JArray arr \<Rightarrow> Inr arr
    | _ \<Rightarrow> Inl (InvalidObjectAccess (''Unsupported unnest type: '' @ show_json object)))"

definition unnest_json_objects :: "(json_value \<Rightarrow> string) \<Rightarrow> nat \<Rightarrow> json_value list \<Rightarrow> (graphql_error, json_value list) result" where
  "unnest_json_objects show_json depth objects =
     and_then (try_collect (unnest_json_object show_json depth) objects) (\<lambda>vs. Inr (concat vs))"

section \<open>Errors of the server\<close>

fun first_some :: "'a option list \<Rightarrow> 'a option" where
  "first_some [] = None"
| "first_some (Some x # xs) = Some x"
| "first_some (None # xs) = first_some xs"

definition handle_http_error :: "(nat \<Rightarrow> string) \<Rightarrow> nat \<Rightarrow> json_value \<Rightarrow> (graphql_error, unit) result" where
  "handle_http_error show_status status response =
     (if 400 \<le> status \<and> status < 600 then
        (let message = (case first_some (map json_as_str
                 [json_get response ''message'', json_get (json_get response ''error'') ''message'',
                  json_get (json_first (json_get response ''errors'')) ''message'']) of
               Some m \<Rightarrow> m | None \<Rightarrow> ''No message provided'')
         in if status = 401 then Inl (InvalidCredentialsOrPermissions (''The API failed with status code '' @ show_status status @
                ''; Please check if provided credentials are correct.''))
            else if status = 403 then Inl (InvalidCredentialsOrPermissions (''The API failed with status code '' @ show_status status @
                ''; Please check if provided credentials have the necessary permissions.''))
            else Inl (InvalidReqwestStatus status message))
      else Inr ())"

text \<open>The first piece of \<open>str::split\<close> at a string.\<close>

fun before_str :: "string \<Rightarrow> string \<Rightarrow> string" where
  "before_str sep [] = []"
| "before_str sep (c # s) = (if take (length sep) (c # s) = sep then [] else c # before_str sep s)"

definition pad4 :: "string \<Rightarrow> string" where
  "pad4 s = replicate (4 - length s) CHR '' '' @ s"

abbreviation newline :: string where "newline \<equiv> [CHR 10]"

text \<open>
  \<open>None\<close> is a panic. Without overflow checks \<open>line - 1\<close> wraps around and finds no line, but a column of
  zero asks for \<open>usize::MAX\<close> blanks.
\<close>

definition format_query_with_context :: "bool \<Rightarrow> string \<Rightarrow> nat \<Rightarrow> nat \<Rightarrow> string option" where
  "format_query_with_context overflow_checks query line column =
     (let query_lines = split_on (CHR 10) query;
          error_line = (if 1 \<le> line \<and> line - 1 < length query_lines then query_lines ! (line - 1) else []);
          marker = replicate (column - 1) CHR '' '' @ ''^''
      in if overflow_checks \<and> line = 0 then None
         else if column = 0 then None
         else if line > 1 then
           (if line - 2 < length query_lines
            then Some (pad4 (digits (line - 1)) @ '' | '' @ query_lines ! (line - 2) @ newline @
                       pad4 (digits line) @ '' | '' @ error_line @ newline @ pad4 [] @ '' | '' @ marker)
            else None)
         else Some (pad4 (digits line) @ '' | '' @ error_line @ newline @ pad4 [] @ '' | '' @ marker))"

definition handle_graphql_query_error :: "bool \<Rightarrow> json_value \<Rightarrow> string \<Rightarrow> (graphql_error, unit) result option" where
  "handle_graphql_query_error overflow_checks response query =
     (let graphql_error = json_first (json_get response ''errors'')
      in if graphql_error = JNull then Some (Inr ())
         else
           (let location_of = json_first (json_get graphql_error ''locations'');
                message = before_str '' at ['' (case json_as_str (json_get graphql_error ''message'') of Some m \<Rightarrow> m | None \<Rightarrow> [])
            in if (case json_as_str (json_get graphql_error ''type'') of Some t \<Rightarrow> to_lowercase t = ''forbidden'' | None \<Rightarrow> False)
               then Some (Inl (InvalidCredentialsOrPermissions
                      (''The API returned a '' @ [CHR 39] @ ''FORBIDDEN'' @ [CHR 39] @
                       '' error. Please check if the credentials have the necessary permissions. '' @ message)))
               else case (json_as_u64 (json_get location_of ''line''), json_as_u64 (json_get location_of ''column'')) of
                 (Some line, Some column) \<Rightarrow>
                   map_option (\<lambda>q. Inl (InvalidGraphQLQuery message line column q)) (format_query_with_context overflow_checks query line column)
               | _ \<Rightarrow> Some (Inl (InvalidGraphQLQuery message 0 0 query))))"

section \<open>Requests\<close>

datatype graphql_auth = Basic string "string option" | Bearer string

record ('k, 's, 'b) graphql_client =
  gc_query :: string
  gc_pointer :: string
  gc_unnest_depth :: nat
  gc_pagination :: "pagination_parameters option"
  gc_auth :: "graphql_auth option"
  gc_regexes :: graphql_regexes
  gc_json_pointer :: "string \<Rightarrow> json_value \<Rightarrow> json_value option"
  gc_send :: "graphql_auth option \<Rightarrow> string \<Rightarrow> 'k \<Rightarrow> (string, nat \<times> json_value) result \<times> 'k"
  gc_infer :: "json_value list \<Rightarrow> (string, 's) result"
  gc_read :: "'s \<Rightarrow> json_value \<Rightarrow> (string, 'b list) result"
  gc_show_json :: "json_value \<Rightarrow> string"
  gc_show_status :: "nat \<Rightarrow> string"
  gc_overflow_checks :: bool

text \<open>The settings \<open>GraphQLClient::new\<close> derives: the pagination and the kind of authentication.\<close>

definition graphql_auth_of :: "string option \<Rightarrow> string option \<Rightarrow> string option \<Rightarrow> graphql_auth option" where
  "graphql_auth_of token user pass = (case (token, user) of
      (Some t, _) \<Rightarrow> Some (Bearer t)
    | (None, Some u) \<Rightarrow> Some (Basic u pass)
    | (None, None) \<Rightarrow> None)"

definition configure_client ::
  "string \<Rightarrow> string \<Rightarrow> string option \<Rightarrow> string option \<Rightarrow> string option \<Rightarrow> nat \<Rightarrow> ('k, 's, 'b) graphql_client \<Rightarrow> ('k, 's, 'b) graphql_client" where
  "configure_client query ptr token user pass unnest_depth gc =
     gc\<lparr>gc_query := query, gc_pointer := ptr, gc_unnest_depth := unnest_depth,
        gc_pagination := pagination_parse (gc_regexes gc) query ptr, gc_auth := graphql_auth_of token user pass\<rparr>"

fun unwrap_data :: "json_value \<Rightarrow> (graphql_error, json_value list) result" where
  "unwrap_data (JArray vs) = Inr vs"
| "unwrap_data (JObject kvs) = Inr [JObject kvs]"
| "unwrap_data JNull = Inl (InvalidObjectAccess ''Null value access.'')"
| "unwrap_data v = Inl (InvalidObjectAccess ''Primitive value access.'')"

text \<open>
  What is done with a response; \<open>None\<close> is the panic of the error message. The schema is inferred also
  when one is given, and only its failure is noticed then.
\<close>

definition read_response ::
  "('k, 's, 'b) graphql_client \<Rightarrow> 's option \<Rightarrow> string \<Rightarrow> bool \<Rightarrow> nat \<Rightarrow> json_value \<Rightarrow>
   (graphql_error, 'b list \<times> 's \<times> string option) result option" where
  "read_response gc schema query limit_reached status response =
     (case handle_http_error (gc_show_status gc) status response of
        Inl e \<Rightarrow> Some (Inl e)
      | Inr _ \<Rightarrow>
          map_option (\<lambda>checked.
            and_then checked (\<lambda>_.
            and_then (unwrap_data (case gc_json_pointer gc (gc_pointer gc) response of Some v \<Rightarrow> v | None \<Rightarrow> JNull)) (\<lambda>unwrapped.
            and_then (if gc_unnest_depth gc > 0 then unnest_json_objects (gc_show_json gc) (gc_unnest_depth gc) unwrapped
                      else Inr unwrapped) (\<lambda>rows.
            and_then (map_err ArrowInternal (gc_infer gc rows)) (\<lambda>inferred.
            (let used = (case schema of Some s \<Rightarrow> s | None \<Rightarrow> inferred);
                 next_cursor = (if limit_reached then None
                   else Option.bind (gc_pagination gc) (\<lambda>pp. get_next_cursor_from_response (gc_json_pointer gc) pp response))
             in and_then (map_err ArrowInternal (try_collect (gc_read gc used) rows)) (\<lambda>batches.
                  Inr (concat batches, used, next_cursor))))))))
          (handle_graphql_query_error (gc_overflow_checks gc) response query))"

definition execute ::
  "('k, 's, 'b) graphql_client \<Rightarrow> 's option \<Rightarrow> nat option \<Rightarrow> string option \<Rightarrow> 'k \<Rightarrow>
   (graphql_error, 'b list \<times> 's \<times> string option) result option \<times> 'k" where
  "execute gc schema limit cursor k =
     (let (query, limit_reached) = (case gc_pagination gc of
            Some pp \<Rightarrow> pagination_apply (gc_regexes gc) pp (gc_query gc) limit cursor
          | None \<Rightarrow> (gc_query gc, False))
      in case gc_send gc (gc_auth gc) query k of
           (Inl e, k') \<Rightarrow> (Some (Inl (ReqwestInternal e)), k')
         | (Inr (status, response), k') \<Rightarrow> (read_response gc schema query limit_reached status response, k'))"

text \<open>
  The pages after the first; the answer is missing when the server names a next page forever.
  A page that panics ends the loop with \<open>None\<close> in the answer.
\<close>

type_synonym 'b pages_answer = "(graphql_error, 'b list list) result option"

definition next_limit :: "('k, 's, 'b) graphql_client \<Rightarrow> nat option \<Rightarrow> nat option" where
  "next_limit gc limit = map_option (\<lambda>l. l - (case gc_pagination gc of Some pp \<Rightarrow> pp_count pp | None \<Rightarrow> 0)) limit"

partial_function (option) page_loop ::
  "('k, 's, 'b) graphql_client \<Rightarrow> 's \<Rightarrow> nat option \<Rightarrow> string option \<Rightarrow> 'b list list \<Rightarrow> 'k \<Rightarrow> ('b pages_answer \<times> 'k) option" where
  "page_loop gc schema limit cursor res k =
     (case cursor of
        None \<Rightarrow> Some (Some (Inr res), k)
      | Some c \<Rightarrow>
          (let r = execute gc (Some schema) (next_limit gc limit) (Some c) k
           in case fst r of
                None \<Rightarrow> Some (None, snd r)
              | Some answer \<Rightarrow>
                  (case answer of
                     Inl e \<Rightarrow> Some (Some (Inl e), snd r)
                   | Inr x \<Rightarrow> page_loop gc schema (next_limit gc limit) (snd (snd x)) (res @ [fst x]) (snd r))))"

definition execute_paginated ::
  "('k, 's, 'b) graphql_client \<Rightarrow> 's \<Rightarrow> nat option \<Rightarrow> 'k \<Rightarrow> ('b pages_answer \<times> 'k) option" where
  "execute_paginated gc schema limit k =
     (case execute gc (Some schema) limit None k of
        (None, k') \<Rightarrow> Some (None, k')
      | (Some (Inl e), k') \<Rightarrow> Some (Some (Inl e), k')
      | (Some (Inr (first_batch, used, next_cursor)), k') \<Rightarrow> page_loop gc schema limit next_cursor [first_batch] k')"

section \<open>The table provider\<close>

record ('k, 's, 'b) graphql_table =
  gt_client :: "('k, 's, 'b) graphql_client"
  gt_gql_schema :: 's
  gt_table_schema :: 's
  gt_transform_fn :: "('b \<Rightarrow> (string, 'b) result) option"

definition graphql_table_build ::
  "('b \<Rightarrow> 's) \<Rightarrow> ('k, 's, 'b) graphql_client \<Rightarrow> ('b \<Rightarrow> (string, 'b) result) option \<Rightarrow> 'k \<Rightarrow>
   (graphql_error, ('k, 's, 'b) graphql_table) result option \<times> 'k" where
  "graphql_table_build batch_schema gc transform_fn k =
     (case execute gc None None None k of
        (r, k') \<Rightarrow> (map_option (\<lambda>answer. and_then answer (\<lambda>(res, gql_schema, _).
            and_then (case (transform_fn, res) of
                (Some f, b # _) \<Rightarrow> map_err ResultTransformError (map_sum id batch_schema (f b))
              | _ \<Rightarrow> Inr gql_schema) (\<lambda>table_schema.
            Inr \<lparr>gt_client = gc, gt_gql_schema = gql_schema, gt_table_schema = table_schema, gt_transform_fn = transform_fn\<rparr>))) r, k'))"

text \<open>The partitions a scan hands to the in-memory table; an error of the transformation is \<open>External\<close>.\<close>

definition graphql_scan ::
  "('k, 's, 'b) graphql_table \<Rightarrow> nat option \<Rightarrow> 'k \<Rightarrow> ('b pages_answer \<times> 'k) option" where
  "graphql_scan gt limit k =
     map_option (\<lambda>(answer, k'). (map_option (\<lambda>r. and_then r (\<lambda>pages.
         case gt_transform_fn gt of
           None \<Rightarrow> Inr pages
         | Some f \<Rightarrow> map_err ResultTransformError (try_collect (try_collect f) pages))) answer, k'))
       (execute_paginated (gt_client gt) (gt_gql_schema gt) limit k)"

section \<open>Flattening, as a specification\<close>

text \<open>A field with its nested objects opened up to the given depth.\<close>

fun flatten :: "nat \<Rightarrow> string \<times> json_value \<Rightarrow> json_fields" where
  "flatten 0 kv = [kv]"
| "flatten (Suc n) (k, v) = (case v of JObject kvs \<Rightarrow> concat (map (flatten n) kvs) | _ \<Rightarrow> [(k, v)])"

lemma flatten_plain: "\<not> is_object v \<Longrightarrow> flatten n (k, v) = [(k, v)]"
  by (cases n; cases v) simp_all

lemma update_fresh: "map_of al k = None \<Longrightarrow> hm_insert k v al = al @ [(k, v)]"
  by (induction al) (auto split: if_splits)

lemma add_fields_ok:
  "add_fields kvs obj = Inr r \<Longrightarrow> distinct (map fst obj) \<Longrightarrow> r = obj @ kvs \<and> distinct (map fst r)"
proof (induction kvs arbitrary: obj)
  case (Cons kv kvs)
  obtain k v where kv: "kv = (k, v)" by (cases kv)
  with Cons.prems(1) have fresh: "map_of obj k = None" and rest: "add_fields kvs (obj @ [(k, v)]) = Inr r"
    by (auto simp: and_then_eq_Inr unnest_json_object_duplicate_columns_def update_fresh split: if_splits)
  have "distinct (map fst (obj @ [(k, v)]))" using Cons.prems(2) fresh by (simp add: map_of_eq_None_iff)
  note r = Cons.IH [OF rest this]
  then show ?case by (metis kv append.assoc append_Cons append_Nil)
qed simp

lemma no_additions:
  "concat (map inner_fields obj) = [] \<Longrightarrow> concat (map (flatten (Suc n)) obj) = filter (\<lambda>kv. \<not> is_object (snd kv)) obj"
proof (induction obj)
  case (Cons kv obj)
  obtain k v where "kv = (k, v)" by (cases kv)
  with Cons show ?case by (cases v) auto
qed simp

lemma mset_flatten_step:
  "mset (concat (map (flatten n) (filter (\<lambda>kv. \<not> is_object (snd kv)) obj @ concat (map inner_fields obj)))) =
   mset (concat (map (flatten (Suc n)) obj))"
proof (induction obj)
  case (Cons kv obj)
  obtain k v where "kv = (k, v)" by (cases kv)
  with Cons show ?case by (cases v) (auto simp: flatten_plain ac_simps)
qed simp

lemma unnest_loop_flattens:
  "unnest_loop depth obj = Inr r \<Longrightarrow> distinct (map fst obj) \<Longrightarrow>
   mset r = mset (concat (map (flatten depth) obj)) \<and> distinct (map fst r)"
proof (induction depth arbitrary: obj)
  case 0
  then show ?case by (simp flip: map_map add: comp_def)
next
  case (Suc depth)
  let ?adds = "concat (map inner_fields obj)" and ?kept = "filter (\<lambda>kv. \<not> is_object (snd kv)) obj"
  have dist: "distinct (map fst ?kept)" using Suc.prems(2) by (rule distinct_map_filter)
  show ?case
  proof (cases "?adds = []")
    case True
    with Suc.prems dist show ?thesis using no_additions [OF True, of depth] by simp
  next
    case False
    then have "unnest_loop (Suc depth) obj = and_then (add_fields ?adds ?kept) (unnest_loop depth)"
      by (simp only: unnest_loop.simps Let_def if_False)
    with Suc.prems(1) have "and_then (add_fields ?adds ?kept) (unnest_loop depth) = Inr r" by (simp only:)
    then obtain obj1 where "add_fields ?adds ?kept = Inr obj1" and loop: "unnest_loop depth obj1 = Inr r"
      unfolding and_then_eq_Inr by blast
    from add_fields_ok [OF this(1) dist] have obj1: "obj1 = ?kept @ ?adds" and dist1: "distinct (map fst obj1)" by blast+
    from Suc.IH [OF loop dist1] have "mset r = mset (concat (map (flatten depth) (?kept @ ?adds)))" and "distinct (map fst r)"
      unfolding obj1 by blast+
    then show ?thesis by (simp only: mset_flatten_step)
  qed
qed


text \<open>
  (C38) Opening nested objects yields exactly the fields the specification gives, each once and under
  different names: nothing is lost, renamed or overwritten. A clash of names is an error instead.
\<close>

theorem unnest_flattens:
  assumes "unnest_json_object show_json depth (JObject obj) = Inr rs" and "distinct (map fst obj)"
  shows "\<exists>r. rs = [JObject r] \<and> mset r = mset (concat (map (flatten depth) obj)) \<and> distinct (map fst r)"
  using assms unnest_loop_flattens [of depth obj] by (auto simp: unnest_json_object_def and_then_eq_Inr)

theorem unnest_flattens_witness:
  "\<exists>r. unnest_json_object (\<lambda>_. []) 2 (JObject [(''a'', JObject [(''b'', JObject [(''c'', JUint 1)])]), (''d'', JNull)]) = Inr [JObject r] \<and>
     mset r = {#(''d'', JNull), (''c'', JUint 1)#}"
proof -
  let ?obj = "[(''a'', JObject [(''b'', JObject [(''c'', JUint 1)])]), (''d'', JNull)]"
  have run: "unnest_json_object (\<lambda>_. []) 2 (JObject ?obj) = Inr [JObject [(''d'', JNull), (''c'', JUint 1)]]"
    by (simp add: unnest_json_object_def numeral_2_eq_2 unnest_json_object_duplicate_columns_def)
  from unnest_flattens [OF run] run show ?thesis by (auto simp: add_mset_commute)
qed

section \<open>Pages\<close>

lemma execute_limit_reached:
  assumes "execute gc schema (Some l) cursor k = (Some (Inr (batches, used, next_cursor)), k')"
    and "gc_pagination gc = Some pp" and "l \<le> pp_count pp"
  shows "next_cursor = None"
  using assms
  by (auto simp: execute_def pagination_apply_def page_count_def read_response_def and_then_eq_Inr Let_def
      split: prod.splits sum.splits option.splits)

lemma page_loop_None: "page_loop gc schema limit None res k = Some (Some (Inr res), k)"
  by (subst page_loop.simps) simp

lemma page_loop_bounded:
  assumes "gc_pagination gc = Some pp" and "0 < pp_count pp"
  shows "\<exists>answer k'. page_loop gc schema (Some l) cursor res k = Some (answer, k') \<and>
    (\<forall>pages. answer = Some (Inr pages) \<longrightarrow>
       (\<exists>m. length pages = length res + m \<and> (m \<le> 1 \<or> m * pp_count pp < l)))"
proof (induction l arbitrary: cursor res k rule: less_induct)
  case (less l)
  let ?c = "pp_count pp" and ?r = "execute gc (Some schema) (Some (l - pp_count pp))"
  show ?case
  proof (cases cursor)
    case None
    then show ?thesis by (simp add: page_loop_None)
  next
    case (Some cur)
    obtain a k1 where a: "?r (Some cur) k = (a, k1)" by fastforce
    have loop: "page_loop gc schema (Some l) cursor res k = (case a of
        None \<Rightarrow> Some (None, k1)
      | Some (Inl e) \<Rightarrow> Some (Some (Inl e), k1)
      | Some (Inr x) \<Rightarrow> page_loop gc schema (Some (l - ?c)) (snd (snd x)) (res @ [fst x]) k1)"
      by (subst page_loop.simps) (simp add: Some next_limit_def assms(1) a Let_def split: option.splits sum.splits)
    show ?thesis
    proof (cases "\<exists>x. a = Some (Inr x)")
      case False
      then show ?thesis by (cases a rule: option.exhaust; cases "the a") (auto simp: loop)
    next
      case True
      then obtain b u cur' where x: "a = Some (Inr (b, u, cur'))" by auto
      show ?thesis
      proof (cases "l - ?c \<le> ?c")
        case True
        with execute_limit_reached [OF a [unfolded x] assms(1)] have "cur' = None" by simp
        then show ?thesis by (simp add: loop x page_loop_None)
      next
        case False
        then have "l - ?c < l" using assms(2) by simp
        from less.IH [OF this, of cur' "res @ [b]" k1] obtain answer k' where
          rest: "page_loop gc schema (Some (l - ?c)) cur' (res @ [b]) k1 = Some (answer, k')"
          and pages: "\<And>pages. answer = Some (Inr pages) \<Longrightarrow>
            \<exists>m. length pages = length res + Suc m \<and> (m \<le> 1 \<or> m * ?c < l - ?c)" by auto
        have "\<exists>m. length pages = length res + m \<and> (m \<le> 1 \<or> m * ?c < l)" if "answer = Some (Inr pages)" for pages
        proof -
          from pages [OF that] obtain m where m: "length pages = length res + Suc m" "m \<le> 1 \<or> m * ?c < l - ?c" by blast
          have "Suc m \<le> 1 \<or> Suc m * ?c < l" using m(2) False by (cases m) (auto simp: le_Suc_eq)
          with m(1) show ?thesis by blast
        qed
        with rest show ?thesis by (simp add: loop x)
      qed
    qed
  qed
qed

text \<open>
  (C37) With a limit and pages of at least one item the loop over the pages ends, whatever the server
  answers, and asks for no page beyond those the limit needs. (Without a limit it goes on as long as
  the server names a next page.)
\<close>

theorem paginated_bounded:
  assumes "gc_pagination gc = Some pp" and "0 < pp_count pp"
  shows "\<exists>answer k'. execute_paginated gc schema (Some l) k = Some (answer, k') \<and>
    (\<forall>pages. answer = Some (Inr pages) \<longrightarrow> length pages = 1 \<or> (length pages - 1) * pp_count pp < l)"
proof -
  obtain a k1 where a: "execute gc (Some schema) (Some l) None k = (a, k1)" by fastforce
  show ?thesis
  proof (cases "\<exists>x. a = Some (Inr x)")
    case False
    then show ?thesis by (auto simp: execute_paginated_def a split: option.splits sum.splits)
  next
    case True
    then obtain b u cur where x: "a = Some (Inr (b, u, cur))" by auto
    have run: "execute_paginated gc schema (Some l) k = page_loop gc schema (Some l) cur [b] k1"
      by (simp add: execute_paginated_def a x)
    show ?thesis
    proof (cases "l \<le> pp_count pp")
      case True
      with execute_limit_reached [OF a [unfolded x] assms(1)] have "cur = None" by simp
      then show ?thesis by (simp add: run page_loop_None)
    next
      case False
      from page_loop_bounded [OF assms, of schema l cur "[b]" k1] obtain answer k' where
        "page_loop gc schema (Some l) cur [b] k1 = Some (answer, k')" and
        pages: "\<And>pages. answer = Some (Inr pages) \<Longrightarrow> \<exists>m. length pages = 1 + m \<and> (m \<le> 1 \<or> m * pp_count pp < l)" by auto
      moreover have "length pages = 1 \<or> (length pages - 1) * pp_count pp < l" if "answer = Some (Inr pages)" for pages
        using pages [OF that] False by (auto simp: le_Suc_eq)
      ultimately show ?thesis by (auto simp: run)
    qed
  qed
qed

section \<open>Locations of errors\<close>

text \<open>
  The message for an error of the query panics on locations a server may well send: column zero, line
  zero when overflow is checked, or a line more than one past the end of the query.
\<close>

theorem query_context_panics_iff:
  "format_query_with_context overflow_checks query line column = None \<longleftrightarrow>
     column = 0 \<or> (overflow_checks \<and> line = 0) \<or> length (split_on (CHR 10) query) + 1 < line"
  by (auto simp: format_query_with_context_def Let_def)

text \<open>A server that names a next page in every answer; its world counts the requests.\<close>

definition demo_client :: "(nat, unit, json_value) graphql_client" where
  "demo_client = \<lparr>gc_query = ''q'', gc_pointer = ''/items'', gc_unnest_depth = 0,
     gc_pagination = Some \<lparr>pp_resource_name = ''items'', pp_count = 2, pp_page_info_path = ''/pageInfo''\<rparr>,
     gc_auth = None,
     gc_regexes = \<lparr>re_pagination = \<lambda>q. None, re_parse_usize = \<lambda>s. None, re_up_to = \<lambda>r p. None, re_replace = \<lambda>r q new. new\<rparr>,
     gc_json_pointer = \<lambda>p v. (if p = ''/items'' then Some (JArray []) else Some (json_get v ''pageInfo'')),
     gc_send = \<lambda>auth q k. (Inr (200, JObject [(''pageInfo'', JObject [(''hasNextPage'', JBool True), (''endCursor'', JString ''c'')])]), Suc k),
     gc_infer = \<lambda>rows. Inr (), gc_read = \<lambda>s v. Inr [v], gc_show_json = \<lambda>v. [], gc_show_status = digits, gc_overflow_checks = False\<rparr>"

theorem paginated_bounded_witness:
  "\<exists>answer k'. execute_paginated demo_client () (Some 5) 0 = Some (answer, k') \<and>
     (\<forall>pages. answer = Some (Inr pages) \<longrightarrow> length pages = 1 \<or> (length pages - 1) * 2 < 5)"
  using paginated_bounded [of demo_client "\<lparr>pp_resource_name = ''items'', pp_count = 2, pp_page_info_path = ''/pageInfo''\<rparr>" "()" 5 0]
  by (simp add: demo_client_def)

end
