(* ===== verification/Health_Monitor.thy ===== *)
theory Health_Monitor
  imports Table_Registry
begin

text \<open>
  The availability checks of federated datasets (runtime/src/datasets_health_monitor.rs): which
  datasets are monitored, which of them are due for a check, and what a check records. Times are
  in nanoseconds since the epoch; the connectivity test is a parameter, as the result of its three
  steps. The gauge is what was last reported for a dataset, zero meaning available.
\<close>

section \<open>State and operations\<close>

definition DATASETS_AVAILABILITY_CHECK_INTERVAL_SECONDS :: nat where
  "DATASETS_AVAILABILITY_CHECK_INTERVAL_SECONDS = 60"

definition DATASET_UNAVAILABLE_THRESHOLD_SECONDS :: nat where
  "DATASET_UNAVAILABLE_THRESHOLD_SECONDS = 10 * 60"

record 't dataset_availability_info =
  da_name :: string
  da_table_provider :: 't
  da_last_available_time :: nat

record 't health_monitor =
  hm_monitored :: "(string, 't dataset_availability_info) hmap"
  hm_unavailable_time :: "string \<rightharpoonup> nat"

datatype availability_result = Available | Unavailable nat string

definition availability_new :: "string \<Rightarrow> 't \<Rightarrow> nat \<Rightarrow> 't dataset_availability_info" where
  "availability_new name t now = \<lparr>da_name = name, da_table_provider = t, da_last_available_time = now\<rparr>"

definition report_dataset_unavailable_time :: "string \<Rightarrow> nat option \<Rightarrow> 't health_monitor \<Rightarrow> 't health_monitor" where
  "report_dataset_unavailable_time name since h =
     h\<lparr>hm_unavailable_time := (hm_unavailable_time h)(name \<mapsto> (case since of Some t \<Rightarrow> t | None \<Rightarrow> 0))\<rparr>"

text \<open>\<open>provider\<close> is the session context's lookup of the dataset, \<open>name\<close> the text of its reference.\<close>

definition monitor_register_dataset ::
  "(df_error, 't) result \<Rightarrow> string \<Rightarrow> nat \<Rightarrow> 's dataset \<Rightarrow> 't health_monitor \<Rightarrow> (df_error, unit) result \<times> 't health_monitor" where
  "monitor_register_dataset provider name now d h =
     (if is_accelerated d then (Inr (), h)
      else case provider of
        Inl e \<Rightarrow> (Inl e, h)
      | Inr t \<Rightarrow> (Inr (), report_dataset_unavailable_time name None
           (h\<lparr>hm_monitored := hm_insert name (availability_new name t now) (hm_monitored h)\<rparr>)))"

definition deregister_dataset :: "string \<Rightarrow> 't health_monitor \<Rightarrow> 't health_monitor" where
  "deregister_dataset name h = h\<lparr>hm_monitored := hm_remove name (hm_monitored h)\<rparr>"

text \<open>\<open>now.duration_since(..)\<close> of a later time is an error, which counts as zero.\<close>

definition due_for_check :: "nat \<Rightarrow> 't dataset_availability_info \<Rightarrow> bool" where
  "due_for_check now i \<longleftrightarrow> as_secs (now - da_last_available_time i) > DATASET_UNAVAILABLE_THRESHOLD_SECONDS"

definition datasets_for_availability_check :: "nat \<Rightarrow> 't health_monitor \<Rightarrow> 't dataset_availability_info list" where
  "datasets_for_availability_check now h = filter (due_for_check now) (map snd (hm_monitored h))"

definition update_dataset_availability_info ::
  "string \<Rightarrow> availability_result \<Rightarrow> nat \<Rightarrow> 't health_monitor \<Rightarrow> 't health_monitor" where
  "update_dataset_availability_info name r now h = (case r of
      Available \<Rightarrow> report_dataset_unavailable_time name None
        (case hm_get (hm_monitored h) name of
           Some i \<Rightarrow> h\<lparr>hm_monitored := hm_insert name (i\<lparr>da_last_available_time := now\<rparr>) (hm_monitored h)\<rparr>
         | None \<Rightarrow> h)
    | Unavailable since err \<Rightarrow> report_dataset_unavailable_time name (Some since) h)"

text \<open>\<open>test_connectivity\<close>: plan a scan of one row, execute its first partition, read it to the end.\<close>

definition test_connectivity :: "('t \<Rightarrow> (df_error, 'p) result) \<Rightarrow> ('p \<Rightarrow> (df_error, 'b stream) result) \<Rightarrow> 't \<Rightarrow> (df_error, unit) result" where
  "test_connectivity scan execute t =
     and_then (scan t) (\<lambda>plan. and_then (execute plan) (\<lambda>stream.
     and_then (try_collect (\<lambda>x. x) stream) (\<lambda>_. Inr ())))"

text \<open>One round: the checks run concurrently, each ending in an update; \<open>ends\<close> is the time of each.\<close>

definition check_one ::
  "('t \<Rightarrow> (df_error, unit) result) \<Rightarrow> (df_error \<Rightarrow> string) \<Rightarrow> 't dataset_availability_info \<times> nat \<Rightarrow> 't health_monitor \<Rightarrow> 't health_monitor" where
  "check_one connectivity show_error item h = (case item of (i, now) \<Rightarrow>
     update_dataset_availability_info (da_name i)
       (case connectivity (da_table_provider i) of
          Inr _ \<Rightarrow> Available | Inl e \<Rightarrow> Unavailable (da_last_available_time i) (show_error e)) now h)"

definition check_round ::
  "('t \<Rightarrow> (df_error, unit) result) \<Rightarrow> (df_error \<Rightarrow> string) \<Rightarrow> nat \<Rightarrow> nat list \<Rightarrow> 't health_monitor \<Rightarrow> 't health_monitor" where
  "check_round connectivity show_error now ends h =
     fold (check_one connectivity show_error) (zip (datasets_for_availability_check now h) ends) h"

section \<open>Lemmas\<close>

text \<open>Every entry is stored under its own name.\<close>

definition monitor_wf :: "'t health_monitor \<Rightarrow> bool" where
  "monitor_wf h \<longleftrightarrow> hm_wf (hm_monitored h) \<and> (\<forall>n i. hm_get (hm_monitored h) n = Some i \<longrightarrow> da_name i = n)"

lemma report_monitored [simp]: "hm_monitored (report_dataset_unavailable_time n l h) = hm_monitored h"
  by (simp add: report_dataset_unavailable_time_def)

lemma update_monitored:
  "hm_get (hm_monitored (update_dataset_availability_info name r now h)) n =
     (if n = name \<and> r = Available
      then map_option (\<lambda>i. i\<lparr>da_last_available_time := now\<rparr>) (hm_get (hm_monitored h) n)
      else hm_get (hm_monitored h) n)"
  by (cases r) (auto simp: update_dataset_availability_info_def update_conv split: option.splits)

lemma update_gauge:
  "hm_unavailable_time (update_dataset_availability_info name r now h) =
     (hm_unavailable_time h)(name \<mapsto> (case r of Available \<Rightarrow> 0 | Unavailable t e \<Rightarrow> t))"
  by (cases r) (simp_all add: update_dataset_availability_info_def report_dataset_unavailable_time_def split: option.splits)

lemma check_one_other:
  "da_name (fst item) \<noteq> n \<Longrightarrow> hm_get (hm_monitored (check_one c se item h)) n = hm_get (hm_monitored h) n \<and>
     hm_unavailable_time (check_one c se item h) n = hm_unavailable_time h n"
  by (cases item) (simp add: check_one_def update_monitored update_gauge)

lemma fold_check_other:
  "n \<notin> da_name ` fst ` set items \<Longrightarrow>
   hm_get (hm_monitored (fold (check_one c se) items h)) n = hm_get (hm_monitored h) n \<and>
   hm_unavailable_time (fold (check_one c se) items h) n = hm_unavailable_time h n"
  by (induction items arbitrary: h) (auto simp: check_one_other)

lemma fold_check_one:
  assumes "distinct (map (da_name \<circ> fst) items)" and "(i, now) \<in> set items"
  shows "hm_get (hm_monitored (fold (check_one c se) items h)) (da_name i) =
      (if is_ok (c (da_table_provider i))
       then map_option (\<lambda>j. j\<lparr>da_last_available_time := now\<rparr>) (hm_get (hm_monitored h) (da_name i))
       else hm_get (hm_monitored h) (da_name i))"
    and "hm_unavailable_time (fold (check_one c se) items h) (da_name i) =
      Some (if is_ok (c (da_table_provider i)) then 0 else da_last_available_time i)"
proof -
  from assms(2) obtain xs ys where items: "items = xs @ (i, now) # ys" by (meson split_list)
  with assms(1) have notin: "da_name i \<notin> da_name ` fst ` set xs" "da_name i \<notin> da_name ` fst ` set ys"
    by (auto simp: image_image)
  let ?h1 = "fold (check_one c se) xs h"
  note other = fold_check_other [OF notin(1)] fold_check_other [OF notin(2)]
  show "hm_get (hm_monitored (fold (check_one c se) items h)) (da_name i) =
      (if is_ok (c (da_table_provider i))
       then map_option (\<lambda>j. j\<lparr>da_last_available_time := now\<rparr>) (hm_get (hm_monitored h) (da_name i))
       else hm_get (hm_monitored h) (da_name i))"
    by (simp add: items other check_one_def update_monitored split: sum.splits)
  show "hm_unavailable_time (fold (check_one c se) items h) (da_name i) =
      Some (if is_ok (c (da_table_provider i)) then 0 else da_last_available_time i)"
    by (simp add: items other check_one_def update_gauge split: sum.splits)
qed

lemma due_items:
  assumes "monitor_wf h" and "hm_get (hm_monitored h) n = Some i" and "due_for_check now i"
  shows "i \<in> set (datasets_for_availability_check now h)"
    and "distinct (map da_name (datasets_for_availability_check now h))"
proof -
  show "i \<in> set (datasets_for_availability_check now h)"
    using map_of_SomeD [OF assms(2)] assms(3) by (force simp: datasets_for_availability_check_def)
  have "\<forall>(k, j)\<in>set (hm_monitored h). da_name j = k"
    using assms(1) by (auto simp: monitor_wf_def hm_wf_def)
  then have "map da_name (map snd (hm_monitored h)) = map fst (hm_monitored h)" by auto
  moreover have "distinct (map fst (hm_monitored h))" using assms(1) by (simp add: monitor_wf_def hm_wf_def)
  ultimately have "distinct (map da_name (map snd (hm_monitored h)))" by metis
  then show "distinct (map da_name (datasets_for_availability_check now h))"
    unfolding datasets_for_availability_check_def by (rule distinct_map_filter)
qed

text \<open>
  A dataset that is due is checked in the round, whatever the others do: if it answers, it is
  recorded as available at the time of its check and the gauge shows zero; if it does not, it keeps
  the time it was last available, the gauge shows that time, and it is due again in every later
  round.
\<close>

theorem health_check_round:
  assumes "monitor_wf h" and "hm_get (hm_monitored h) n = Some i" and "due_for_check now i"
    and "length ends = length (datasets_for_availability_check now h)" and "now \<le> later"
  shows "if is_ok (connectivity (da_table_provider i))
    then \<exists>t\<in>set ends. hm_get (hm_monitored (check_round connectivity show_error now ends h)) n = Some (i\<lparr>da_last_available_time := t\<rparr>) \<and>
      hm_unavailable_time (check_round connectivity show_error now ends h) n = Some 0
    else i \<in> set (datasets_for_availability_check later (check_round connectivity show_error now ends h)) \<and>
      hm_unavailable_time (check_round connectivity show_error now ends h) n = Some (da_last_available_time i)"
proof -
  let ?items = "zip (datasets_for_availability_check now h) ends"
  have name: "da_name i = n" using assms(1,2) by (simp add: monitor_wf_def)
  from due_items(1) [OF assms(1-3)] assms(4) obtain t where t: "(i, t) \<in> set ?items"
    by (metis in_set_impl_in_set_zip1)
  have "map (da_name \<circ> fst) ?items = map da_name (datasets_for_availability_check now h)"
    using assms(4) by (simp flip: map_map)
  then have dist: "distinct (map (da_name \<circ> fst) ?items)" using due_items(2) [OF assms(1-3)] by simp
  note one = fold_check_one [OF dist t, of connectivity show_error h, unfolded name assms(2)]
  show ?thesis
  proof (cases "is_ok (connectivity (da_table_provider i))")
    case True
    then show ?thesis using one t by (auto simp: check_round_def dest: set_zip_rightD)
  next
    case False
    have "due_for_check later i"
      using assms(3,5) div_le_mono [of "now - da_last_available_time i" "later - da_last_available_time i" nanos_per_sec]
      by (simp add: due_for_check_def as_secs_def)
    moreover have "hm_get (hm_monitored (check_round connectivity show_error now ends h)) n = Some i"
      using one(1) False by (simp add: check_round_def)
    ultimately have "i \<in> set (datasets_for_availability_check later (check_round connectivity show_error now ends h))"
      by (force simp: datasets_for_availability_check_def dest: map_of_SomeD)
    then show ?thesis using one(2) False by (simp add: check_round_def)
  qed
qed

definition demo_monitor :: "string health_monitor" where
  "demo_monitor = \<lparr>hm_monitored = [(''a'', availability_new ''a'' ''A'' 0), (''b'', availability_new ''b'' ''B'' 0)],
     hm_unavailable_time = Map.empty\<rparr>"

theorem health_check_round_witness:
  "\<exists>i. i \<in> set (datasets_for_availability_check (from_secs 700)
       (check_round (\<lambda>t. if t = ''A'' then Inr () else Inl (Retriable ''refused'')) (\<lambda>_. []) (from_secs 601) [from_secs 602, from_secs 602] demo_monitor)) \<and>
     da_name i = ''b''"
proof -
  let ?i = "availability_new ''b'' ''B'' 0"
  have wf: "monitor_wf demo_monitor"
    by (auto simp: monitor_wf_def hm_wf_def demo_monitor_def availability_new_def split: if_splits)
  have get: "hm_get (hm_monitored demo_monitor) ''b'' = Some ?i" by (simp add: demo_monitor_def)
  have due: "due_for_check (from_secs 601) ?i"
    by (simp add: due_for_check_def availability_new_def from_secs_def as_secs_def DATASET_UNAVAILABLE_THRESHOLD_SECONDS_def)
  have ends: "length [from_secs 602, from_secs 602] = length (datasets_for_availability_check (from_secs 601) demo_monitor)"
    by (simp add: datasets_for_availability_check_def demo_monitor_def due_for_check_def availability_new_def from_secs_def
        as_secs_def DATASET_UNAVAILABLE_THRESHOLD_SECONDS_def)
  have later: "from_secs 601 \<le> from_secs 700" by (simp add: from_secs_def)
  have name: "da_name ?i = ''b''" "da_table_provider ?i = ''B''" by (simp_all add: availability_new_def)
  from health_check_round [OF wf get due ends later, of "\<lambda>t. if t = ''A'' then Inr () else Inl (Retriable ''refused'')" "\<lambda>_. []"] name
  show ?thesis by auto
qed

end
