(* ===== verification/Runtime_Loading.thy ===== *)
theory Runtime_Loading
  imports Health_Monitor Parameters Tools
begin

text \<open>
  Loading the components of an app (runtime/src/lib.rs and status.rs): which definitions are valid,
  creating a connector, attaching, replacing and removing a dataset, loading catalogs, views,
  models, tools and embeddings, and the start-up. What lies outside (the registered connector
  factories, what a connector or an engine answers, chat models and tools) is the argument
  \<open>env\<close>, as a function of the number of attempts made so far; within one attempt the same question
  gets the same answer. A load that is retried forever has the value \<open>None\<close>.
\<close>

section \<open>State\<close>

datatype component_kind = Catalogs | Datasets | Views | Models | Llms | Tools | EmbeddingModels

datatype load_error =
    AcceleratedTableInvalidChanges
  | UnableToLoadDatasetConnector
  | UnableToInitializeDataConnector
  | UnknownDataConnector string
  | FederatedReadWriteTableWithoutReplication
  | AcceleratedReadWriteTableWithoutReplication
  | AcceleratorEngineNotAvailable
  | UnableToAttachDataConnector
  | UnableToCreateAcceleratedTable
  | UnableToReceiveAcceleratedTableStatus
  | DataConnectorDoesntSupportCatalogs string
  | UnableToLoadCatalogConnector string

text \<open>
  What a connector and the engine answer for a dataset. The argument of \<open>lo_attach\<close> says whether an
  accelerated table has already been created.
\<close>

record 't load_outcome =
  lo_supports_changes_stream :: bool
  lo_resolve_refresh_mode :: "refresh_mode option \<Rightarrow> refresh_mode"
  lo_read_provider :: bool
  lo_wrap_embeddings :: bool
  lo_engine_available :: bool
  lo_attach :: "bool \<Rightarrow> bool"
  lo_table_provider :: "(df_error, 't) result"
  lo_create_accelerated :: bool
  lo_ready :: bool

record ('s, 't, 'g, 'o, 'c) outside =
  ow_registry :: "nat \<Rightarrow> 'c factory_registry"
  ow_secrets :: secrets
  ow_dataset :: "nat \<Rightarrow> 'c \<Rightarrow> 's dataset \<Rightarrow> 't load_outcome"
  ow_catalog_provider :: "nat \<Rightarrow> 'c \<Rightarrow> 'g catalog \<Rightarrow> (string, 'o) result option"
  ow_register_catalog :: "nat \<Rightarrow> string \<Rightarrow> bool"
  ow_model :: "nat \<Rightarrow> model_type \<Rightarrow> model \<Rightarrow> (string, string) hmap \<Rightarrow> 'o option"
  ow_tool_factories :: "(string, 'o tool_factory) hmap"
  ow_embedding :: "nat \<Rightarrow> embeddings \<Rightarrow> (string, string) hmap \<Rightarrow> 'o option"
  ow_engine_init :: "'s dataset \<Rightarrow> bool"
  ow_attach_view :: "view \<Rightarrow> bool"
  ow_remove_table :: "table_reference \<Rightarrow> bool"
  ow_show_ref :: "table_reference \<Rightarrow> string"
  ow_show_engine :: "engine \<Rightarrow> string"
  ow_param_text :: "json \<Rightarrow> string"
  ow_now :: nat

text \<open>
  The gauges and counters of \<open>metrics\<close> are \<open>rt_status\<close> (the last status recorded), \<open>rt_load_errors\<close>
  and \<open>rt_count\<close> (with the two labels a component uses, the second one empty for some).
\<close>

record ('s, 't, 'o) runtime_state =
  rt_attempts :: nat
  rt_tables :: "table_reference \<rightharpoonup> 's dataset"
  rt_views :: "table_reference \<rightharpoonup> string"
  rt_catalogs :: "string \<rightharpoonup> 'o"
  rt_models :: "string \<rightharpoonup> 'o"
  rt_llms :: "string \<rightharpoonup> 'o"
  rt_tools :: "string \<rightharpoonup> 'o"
  rt_embeds :: "string \<rightharpoonup> 'o"
  rt_status :: "component_kind \<times> string \<rightharpoonup> component_status"
  rt_load_errors :: "component_kind \<Rightarrow> nat"
  rt_count :: "component_kind \<times> string \<times> string \<Rightarrow> int"
  rt_monitor :: "'t health_monitor option"

section \<open>Statuses and counters\<close>

definition record_status :: "component_kind \<Rightarrow> string \<Rightarrow> component_status \<Rightarrow> ('s, 't, 'o) runtime_state \<Rightarrow> ('s, 't, 'o) runtime_state" where
  "record_status k name c st = st\<lparr>rt_status := (rt_status st)((k, name) \<mapsto> c)\<rparr>"

definition add_load_error :: "component_kind \<Rightarrow> ('s, 't, 'o) runtime_state \<Rightarrow> ('s, 't, 'o) runtime_state" where
  "add_load_error k st = st\<lparr>rt_load_errors := (rt_load_errors st)(k := Suc (rt_load_errors st k))\<rparr>"

definition add_count :: "component_kind \<times> string \<times> string \<Rightarrow> int \<Rightarrow> ('s, 't, 'o) runtime_state \<Rightarrow> ('s, 't, 'o) runtime_state" where
  "add_count label n st = st\<lparr>rt_count := (rt_count st)(label := rt_count st label + n)\<rparr>"

definition update_catalog_status :: "string \<Rightarrow> component_status \<Rightarrow> ('s, 't, 'o) runtime_state \<Rightarrow> ('s, 't, 'o) runtime_state" where
  "update_catalog_status name = record_status Catalogs name"

definition update_dataset_status ::
  "(table_reference \<Rightarrow> string) \<Rightarrow> table_reference \<Rightarrow> component_status \<Rightarrow> ('s, 't, 'o) runtime_state \<Rightarrow> ('s, 't, 'o) runtime_state" where
  "update_dataset_status show_ref r = record_status Datasets (show_ref r)"

definition update_model_status :: "string \<Rightarrow> component_status \<Rightarrow> ('s, 't, 'o) runtime_state \<Rightarrow> ('s, 't, 'o) runtime_state" where
  "update_model_status name = record_status Models name"

definition update_tool_status :: "string \<Rightarrow> component_status \<Rightarrow> ('s, 't, 'o) runtime_state \<Rightarrow> ('s, 't, 'o) runtime_state" where
  "update_tool_status name = record_status Tools name"

definition update_llm_status :: "string \<Rightarrow> component_status \<Rightarrow> ('s, 't, 'o) runtime_state \<Rightarrow> ('s, 't, 'o) runtime_state" where
  "update_llm_status name = record_status Llms name"

definition update_embedding_status :: "string \<Rightarrow> component_status \<Rightarrow> ('s, 't, 'o) runtime_state \<Rightarrow> ('s, 't, 'o) runtime_state" where
  "update_embedding_status name = record_status EmbeddingModels name"

text \<open>A dataset that could not be loaded: its status and the error counter.\<close>

definition dataset_failed :: "(table_reference \<Rightarrow> string) \<Rightarrow> table_reference \<Rightarrow> ('s, 't, 'o) runtime_state \<Rightarrow> ('s, 't, 'o) runtime_state" where
  "dataset_failed show_ref r st = add_load_error Datasets (update_dataset_status show_ref r StatusError st)"

definition catalog_failed :: "string \<Rightarrow> ('s, 't, 'o) runtime_state \<Rightarrow> ('s, 't, 'o) runtime_state" where
  "catalog_failed name st = add_load_error Catalogs (update_catalog_status name StatusError st)"

lemmas rt_defs = record_status_def add_load_error_def add_count_def update_catalog_status_def update_dataset_status_def
  update_model_status_def update_tool_status_def update_llm_status_def update_embedding_status_def
  dataset_failed_def catalog_failed_def

section \<open>Valid definitions\<close>

text \<open>
  \<open>parse\<close> is \<open>Dataset::try_from\<close>; the app is attached to what it returns. \<open>log_invalid_datasets\<close> is
  what \<open>get_valid_datasets\<close> records when it is asked to log errors.
\<close>

definition datasets_iter :: "(dataset_def \<Rightarrow> (runtime_error, 's dataset) result) \<Rightarrow> app \<Rightarrow> (runtime_error, 's dataset) result list" where
  "datasets_iter parse a = map (\<lambda>d. map_sum id (with_app a) (parse d)) (app_datasets a)"

definition get_valid_datasets :: "(dataset_def \<Rightarrow> (runtime_error, 's dataset) result) \<Rightarrow> app \<Rightarrow> 's dataset list" where
  "get_valid_datasets parse a = List.map_filter result_ok (datasets_iter parse a)"

definition log_invalid_datasets ::
  "(table_reference \<Rightarrow> string) \<Rightarrow> (string \<Rightarrow> table_reference) \<Rightarrow> (dataset_def \<Rightarrow> (runtime_error, 's dataset) result) \<Rightarrow> app \<Rightarrow>
   ('s, 't, 'o) runtime_state \<Rightarrow> ('s, 't, 'o) runtime_state" where
  "log_invalid_datasets show_ref parse_str parse a st =
     fold (\<lambda>d st. if is_ok (parse d) then st else dataset_failed show_ref (parse_str (d_name d)) st) (app_datasets a) st"

definition get_valid_catalogs :: "(catalog_def \<Rightarrow> (runtime_error, 'g catalog) result) \<Rightarrow> app \<Rightarrow> 'g catalog list" where
  "get_valid_catalogs parse a = List.map_filter (\<lambda>c. result_ok (parse c)) (app_catalogs a)"

definition log_invalid_catalogs ::
  "(catalog_def \<Rightarrow> (runtime_error, 'g catalog) result) \<Rightarrow> app \<Rightarrow> ('s, 't, 'o) runtime_state \<Rightarrow> ('s, 't, 'o) runtime_state" where
  "log_invalid_catalogs parse a st =
     fold (\<lambda>c st. if is_ok (parse c) then st else catalog_failed (c_name c) st) (app_catalogs a) st"

definition valid_view :: "table_reference set \<Rightarrow> (view_def \<Rightarrow> (runtime_error, view) result) \<Rightarrow> view_def \<Rightarrow> view option" where
  "valid_view names parse v = (case parse v of
      Inr w \<Rightarrow> if vw_name w \<in> names then None else Some w
    | Inl e \<Rightarrow> None)"

definition get_valid_views ::
  "(dataset_def \<Rightarrow> (runtime_error, 's dataset) result) \<Rightarrow> (view_def \<Rightarrow> (runtime_error, view) result) \<Rightarrow> app \<Rightarrow> view list" where
  "get_valid_views parse_ds parse a =
     List.map_filter (valid_view (set (map ds_name (get_valid_datasets parse_ds a))) parse) (app_views a)"

text \<open>It asks for the valid datasets again, with logging, so that invalid datasets are recorded a second time.\<close>

definition log_invalid_views ::
  "(table_reference \<Rightarrow> string) \<Rightarrow> (string \<Rightarrow> table_reference) \<Rightarrow> (dataset_def \<Rightarrow> (runtime_error, 's dataset) result) \<Rightarrow>
   (view_def \<Rightarrow> (runtime_error, view) result) \<Rightarrow> app \<Rightarrow> ('s, 't, 'o) runtime_state \<Rightarrow> ('s, 't, 'o) runtime_state" where
  "log_invalid_views show_ref parse_str parse_ds parse a st =
     fold (\<lambda>v st. if valid_view (set (map ds_name (get_valid_datasets parse_ds a))) parse v = None
                  then add_load_error Views st else st)
       (app_views a) (log_invalid_datasets show_ref parse_str parse_ds a st)"

definition initialized_dataset :: "('s, 't, 'g, 'o, 'c) outside \<Rightarrow> 's dataset \<Rightarrow> bool" where
  "initialized_dataset env d \<longleftrightarrow> ds_acceleration d = None \<or> ow_engine_init env d"

definition initialize_accelerators ::
  "('s, 't, 'g, 'o, 'c) outside \<Rightarrow> 's dataset list \<Rightarrow> ('s, 't, 'o) runtime_state \<Rightarrow> 's dataset list \<times> ('s, 't, 'o) runtime_state" where
  "initialize_accelerators env datasets st =
     (filter (initialized_dataset env) datasets,
      fold (\<lambda>d st. if initialized_dataset env d then st else dataset_failed (ow_show_ref env) (ds_name d) st) datasets st)"

section \<open>Connectors\<close>

text \<open>The replacement of secrets always returns (Secrets), so nothing is lost by \<open>the\<close>.\<close>

definition get_params_with_secrets :: "secrets \<Rightarrow> (string, string) hmap \<Rightarrow> (string, string) hmap" where
  "get_params_with_secrets stores ps = fold (\<lambda>(k, v). hm_insert k (the (inject_secrets secret_lexer stores v))) ps []"

definition get_dataconnector_from_source ::
  "'c factory_registry \<Rightarrow> secrets \<Rightarrow> string \<Rightarrow> (string, string) hmap \<Rightarrow> (load_error, 'c) result" where
  "get_dataconnector_from_source reg stores source ps =
     (case create_new_connector reg source (get_params_with_secrets stores ps) stores of
        Some dc \<Rightarrow> map_err (\<lambda>_. UnableToInitializeDataConnector) dc
      | None \<Rightarrow> Inl (UnknownDataConnector source))"

text \<open>The connector of a dataset at the \<open>n\<close>th attempt.\<close>

definition dataset_connector :: "('s, 't, 'g, 'o, 'c) outside \<Rightarrow> nat \<Rightarrow> 's dataset \<Rightarrow> (load_error, 'c) result" where
  "dataset_connector env n d =
     get_dataconnector_from_source (ow_registry env n) (ow_secrets env) (dataset_source d) (ds_params d)"

definition load_dataset_connector ::
  "('s, 't, 'g, 'o, 'c) outside \<Rightarrow> nat \<Rightarrow> 's dataset \<Rightarrow> ('s, 't, 'o) runtime_state \<Rightarrow>
   (load_error, 'c) result \<times> ('s, 't, 'o) runtime_state" where
  "load_dataset_connector env n d st = (case dataset_connector env n d of
      Inr c \<Rightarrow> (Inr c, st)
    | Inl e \<Rightarrow> (Inl UnableToLoadDatasetConnector, dataset_failed (ow_show_ref env) (ds_name d) st))"

definition load_catalog_connector ::
  "('s, 't, 'g, 'o, 'c) outside \<Rightarrow> nat \<Rightarrow> 'g catalog \<Rightarrow> ('s, 't, 'o) runtime_state \<Rightarrow>
   (load_error, 'c) result \<times> ('s, 't, 'o) runtime_state" where
  "load_catalog_connector env n c st =
     (case get_dataconnector_from_source (ow_registry env n) (ow_secrets env) (cat_provider c) (cat_params c) of
        Inr dc \<Rightarrow> (Inr dc, st)
      | Inl e \<Rightarrow> (Inl UnableToLoadDatasetConnector, catalog_failed (cat_name c) st))"

text \<open>The next attempt and its number.\<close>

definition next_attempt :: "('s, 't, 'o) runtime_state \<Rightarrow> nat \<times> ('s, 't, 'o) runtime_state" where
  "next_attempt st = (rt_attempts st, st\<lparr>rt_attempts := Suc (rt_attempts st)\<rparr>)"

section \<open>Datasets\<close>

definition engine_label :: "(engine \<Rightarrow> string) \<Rightarrow> 's dataset \<Rightarrow> component_kind \<times> string \<times> string" where
  "engine_label show_engine d = (Datasets, (case ds_acceleration d of
      None \<Rightarrow> ''None'' | Some acc \<Rightarrow> if acc_enabled acc then show_engine (acc_engine acc) else ''None''), [])"

definition register_dataset :: "'t load_outcome \<Rightarrow> bool \<Rightarrow> 's dataset \<Rightarrow> (load_error, unit) result" where
  "register_dataset oc created d =
     (let replicate = (case ds_replication d of None \<Rightarrow> False | Some r \<Rightarrow> rep_enabled r)
      in if ds_embeddings d \<noteq> [] \<and> \<not> lo_wrap_embeddings oc then Inl UnableToInitializeDataConnector
         else if \<not> is_accelerated d
         then (if ds_mode d = ReadWrite \<and> \<not> replicate then Inl FederatedReadWriteTableWithoutReplication
               else if lo_attach oc created then Inr () else Inl UnableToAttachDataConnector)
         else if ds_mode d = ReadWrite \<and> \<not> replicate then Inl AcceleratedReadWriteTableWithoutReplication
         else if \<not> lo_engine_available oc then Inl AcceleratorEngineNotAvailable
         else if lo_attach oc created then Inr () else Inl UnableToAttachDataConnector)"

definition invalid_changes :: "'t load_outcome \<Rightarrow> 's dataset \<Rightarrow> bool" where
  "invalid_changes oc d = (case ds_acceleration d of
      None \<Rightarrow> False
    | Some acc \<Rightarrow> lo_resolve_refresh_mode oc (acc_refresh_mode acc) = Changes \<and> \<not> lo_supports_changes_stream oc)"

text \<open>What is recorded of a dataset whose table has been attached.\<close>

definition dataset_attached ::
  "('s, 't, 'g, 'o, 'c) outside \<Rightarrow> 't load_outcome \<Rightarrow> 's dataset \<Rightarrow> ('s, 't, 'o) runtime_state \<Rightarrow> ('s, 't, 'o) runtime_state" where
  "dataset_attached env oc d st =
     (let st1 = st\<lparr>rt_tables := (rt_tables st)(ds_name d \<mapsto> d),
            rt_monitor := map_option (\<lambda>h. snd (monitor_register_dataset (lo_table_provider oc)
              (ow_show_ref env (ds_name d)) (ow_now env) d h)) (rt_monitor st)\<rparr>
      in update_dataset_status (ow_show_ref env) (ds_name d) Ready (add_count (engine_label (ow_show_engine env) d) 1 st1))"

definition register_loaded_dataset ::
  "('s, 't, 'g, 'o, 'c) outside \<Rightarrow> 't load_outcome \<Rightarrow> bool \<Rightarrow> 's dataset \<Rightarrow> ('s, 't, 'o) runtime_state \<Rightarrow>
   (load_error, unit) result \<times> ('s, 't, 'o) runtime_state" where
  "register_loaded_dataset env oc created d st =
     (if invalid_changes oc d then (Inl AcceleratedTableInvalidChanges, st)
      else if \<not> lo_read_provider oc then (Inl UnableToLoadDatasetConnector, dataset_failed (ow_show_ref env) (ds_name d) st)
      else case register_dataset oc created d of
        Inl e \<Rightarrow> (Inl e, dataset_failed (ow_show_ref env) (ds_name d) st)
      | Inr _ \<Rightarrow> (Inr (), dataset_attached env oc d st))"

text \<open>
  One attempt of the closure in \<open>load_dataset\<close>; a connector that cannot be created is recorded by
  \<open>load_dataset_connector\<close> and again by its caller.
\<close>

definition load_attempt ::
  "('s, 't, 'g, 'o, 'c) outside \<Rightarrow> 's dataset \<Rightarrow> ('s, 't, 'o) runtime_state \<Rightarrow> bool \<times> ('s, 't, 'o) runtime_state" where
  "load_attempt env d st =
     (let (n, st0) = next_attempt st in
      case load_dataset_connector env n d st0 of
        (Inl e, st1) \<Rightarrow> (False, dataset_failed (ow_show_ref env) (ds_name d) st1)
      | (Inr c, st1) \<Rightarrow>
          (case register_loaded_dataset env (ow_dataset env n c d) False d st1 of
             (Inl e, st2) \<Rightarrow> (False, st2)
           | (Inr _, st2) \<Rightarrow> (True, update_dataset_status (ow_show_ref env) (ds_name d) Ready st2)))"

text \<open>The retry strategy has no limit and every error is transient: the attempt is repeated until it succeeds.\<close>

partial_function (option) load_dataset ::
  "('s, 't, 'g, 'o, 'c) outside \<Rightarrow> 's dataset \<Rightarrow> ('s, 't, 'o) runtime_state \<Rightarrow> ('s, 't, 'o) runtime_state option" where
  "load_dataset env d st =
     (let r = load_attempt env d st in if fst r then Some (snd r) else load_dataset env d (snd r))"

definition remove_dataset :: "('s, 't, 'g, 'o, 'c) outside \<Rightarrow> 's dataset \<Rightarrow> ('s, 't, 'o) runtime_state \<Rightarrow> ('s, 't, 'o) runtime_state" where
  "remove_dataset env d st =
     (if rt_tables st (ds_name d) = None then add_count (engine_label (ow_show_engine env) d) (- 1) st
      else
        (let st1 = st\<lparr>rt_monitor := map_option (deregister_dataset (ow_show_ref env (ds_name d))) (rt_monitor st)\<rparr>
         in if ow_remove_table env (ds_name d)
            then add_count (engine_label (ow_show_engine env) d) (- 1) (st1\<lparr>rt_tables := (rt_tables st1)(ds_name d := None)\<rparr>)
            else st1))"

definition accelerated_dataset_supports_hot_reload :: "'t load_outcome \<Rightarrow> 's dataset \<Rightarrow> bool" where
  "accelerated_dataset_supports_hot_reload oc d = (case ds_acceleration d of
      None \<Rightarrow> False
    | Some acc \<Rightarrow>
        if \<not> acc_enabled acc then False
        else if lo_supports_changes_stream oc \<and> is_file_accelerated d \<and> lo_resolve_refresh_mode oc (acc_refresh_mode acc) = Changes
        then False
        else if is_file_accelerated d then False
        else True)"

definition reload_accelerated_dataset ::
  "('s, 't, 'g, 'o, 'c) outside \<Rightarrow> 't load_outcome \<Rightarrow> 's dataset \<Rightarrow> ('s, 't, 'o) runtime_state \<Rightarrow>
   (load_error, unit) result \<times> ('s, 't, 'o) runtime_state" where
  "reload_accelerated_dataset env oc d st =
     (if \<not> lo_read_provider oc then (Inl UnableToLoadDatasetConnector, st)
      else if \<not> lo_create_accelerated oc then (Inl UnableToCreateAcceleratedTable, st)
      else if \<not> lo_ready oc then (Inl UnableToReceiveAcceleratedTableStatus, st)
      else register_loaded_dataset env oc True d st)"

text \<open>The full reload, which takes the table away before it attaches the new one.\<close>

definition replace_dataset ::
  "('s, 't, 'g, 'o, 'c) outside \<Rightarrow> 't load_outcome \<Rightarrow> 's dataset \<Rightarrow> ('s, 't, 'o) runtime_state \<Rightarrow> ('s, 't, 'o) runtime_state" where
  "replace_dataset env oc d st = (case register_loaded_dataset env oc False d (remove_dataset env d st) of
      (Inr _, st1) \<Rightarrow> update_dataset_status (ow_show_ref env) (ds_name d) Ready st1
    | (Inl _, st1) \<Rightarrow> update_dataset_status (ow_show_ref env) (ds_name d) StatusError st1)"

definition update_dataset ::
  "('s, 't, 'g, 'o, 'c) outside \<Rightarrow> 's dataset \<Rightarrow> ('s, 't, 'o) runtime_state \<Rightarrow> ('s, 't, 'o) runtime_state" where
  "update_dataset env d st =
     (let (n, st0) = next_attempt (update_dataset_status (ow_show_ref env) (ds_name d) Refreshing st) in
      case load_dataset_connector env n d st0 of
        (Inl e, st1) \<Rightarrow> update_dataset_status (ow_show_ref env) (ds_name d) StatusError st1
      | (Inr c, st1) \<Rightarrow>
          (let oc = ow_dataset env n c d
           in if accelerated_dataset_supports_hot_reload oc d
              then (case reload_accelerated_dataset env oc d st1 of
                  (Inr _, st2) \<Rightarrow> update_dataset_status (ow_show_ref env) (ds_name d) Ready st2
                | (Inl _, st2) \<Rightarrow> replace_dataset env oc d st2)
              else replace_dataset env oc d st1))"

section \<open>Catalogs and views\<close>

definition register_catalog ::
  "('s, 't, 'g, 'o, 'c) outside \<Rightarrow> nat \<Rightarrow> 'c \<Rightarrow> 'g catalog \<Rightarrow> ('s, 't, 'o) runtime_state \<Rightarrow>
   (load_error, unit) result \<times> ('s, 't, 'o) runtime_state" where
  "register_catalog env n dc c st = (case ow_catalog_provider env n dc c of
      None \<Rightarrow> (Inl (DataConnectorDoesntSupportCatalogs (cat_provider c)), st)
    | Some (Inl e) \<Rightarrow> (Inl (UnableToLoadCatalogConnector (cat_name c)), st)
    | Some (Inr p) \<Rightarrow>
        (if ow_register_catalog env n (cat_name c)
         then (Inr (), st\<lparr>rt_catalogs := (rt_catalogs st)(cat_name c \<mapsto> p)\<rparr>)
         else (Inl (UnableToLoadCatalogConnector (cat_name c)), st)))"

definition load_catalog_attempt ::
  "('s, 't, 'g, 'o, 'c) outside \<Rightarrow> 'g catalog \<Rightarrow> ('s, 't, 'o) runtime_state \<Rightarrow> bool \<times> ('s, 't, 'o) runtime_state" where
  "load_catalog_attempt env c st =
     (let (n, st0) = next_attempt st in
      case load_catalog_connector env n c st0 of
        (Inl e, st1) \<Rightarrow> (False, catalog_failed (cat_name c) st1)
      | (Inr dc, st1) \<Rightarrow> (case register_catalog env n dc c st1 of
          (Inl e, st2) \<Rightarrow> (False, st2)
        | (Inr _, st2) \<Rightarrow> (True, update_catalog_status (cat_name c) Ready st2)))"

partial_function (option) load_catalog ::
  "('s, 't, 'g, 'o, 'c) outside \<Rightarrow> 'g catalog \<Rightarrow> ('s, 't, 'o) runtime_state \<Rightarrow> ('s, 't, 'o) runtime_state option" where
  "load_catalog env c st =
     (let r = load_catalog_attempt env c st in if fst r then Some (snd r) else load_catalog env c (snd r))"

definition load_view :: "('s, 't, 'g, 'o, 'c) outside \<Rightarrow> view \<Rightarrow> ('s, 't, 'o) runtime_state \<Rightarrow> ('s, 't, 'o) runtime_state" where
  "load_view env v st = (if ow_attach_view env v then st\<lparr>rt_views := (rt_views st)(vw_name v \<mapsto> vw_sql v)\<rparr> else st)"

text \<open>How definitions are read: \<open>Dataset::try_from\<close>, \<open>Catalog::try_from\<close>, \<open>View::try_from\<close> and \<open>TableReference::parse_str\<close>.\<close>

record ('s, 'g) definition_readers =
  read_dataset :: "dataset_def \<Rightarrow> (runtime_error, 's dataset) result"
  read_catalog :: "catalog_def \<Rightarrow> (runtime_error, 'g catalog) result"
  read_view :: "view_def \<Rightarrow> (runtime_error, view) result"
  read_reference :: "string \<Rightarrow> table_reference"

definition load_views ::
  "('s, 't, 'g, 'o, 'c) outside \<Rightarrow> ('s, 'g) definition_readers \<Rightarrow> app \<Rightarrow> ('s, 't, 'o) runtime_state \<Rightarrow> ('s, 't, 'o) runtime_state" where
  "load_views env rd a st =
     fold (load_view env) (get_valid_views (read_dataset rd) (read_view rd) a)
       (log_invalid_views (ow_show_ref env) (read_reference rd) (read_dataset rd) (read_view rd) a st)"

section \<open>Start-up of the datasets\<close>

text \<open>
  The datasets are loaded concurrently, all of them with \<open>join_all\<close> and at most \<open>n\<close> at a time with
  \<open>buffer_unordered(n)\<close>, which starts the next one when one has finished. A step is one attempt on
  one of those in progress, which are the first of the list of unfinished ones; a schedule is the
  list of positions.
\<close>

definition in_progress :: "nat option \<Rightarrow> nat \<Rightarrow> bool" where
  "in_progress limit i \<longleftrightarrow> (case limit of None \<Rightarrow> True | Some n \<Rightarrow> i < n)"

definition startup_step ::
  "('s, 't, 'g, 'o, 'c) outside \<Rightarrow> nat option \<Rightarrow> nat \<Rightarrow> 's dataset list \<times> ('s, 't, 'o) runtime_state \<Rightarrow>
   's dataset list \<times> ('s, 't, 'o) runtime_state" where
  "startup_step env limit i s = (case s of (pending, st) \<Rightarrow>
     if i < length pending \<and> in_progress limit i
     then (let (done_now, st') = load_attempt env (pending ! i) st
           in (if done_now then take i pending @ drop (Suc i) pending else pending, st'))
     else s)"

definition startup_run ::
  "('s, 't, 'g, 'o, 'c) outside \<Rightarrow> nat option \<Rightarrow> nat list \<Rightarrow> 's dataset list \<times> ('s, 't, 'o) runtime_state \<Rightarrow>
   's dataset list \<times> ('s, 't, 'o) runtime_state" where
  "startup_run env limit schedule s = fold (startup_step env limit) schedule s"

text \<open>
  The state after a schedule, with the datasets still being loaded; the views follow when there are
  none, unless the number of parallel loads is configured, where the function returns before them.
\<close>

definition load_datasets ::
  "('s, 't, 'g, 'o, 'c) outside \<Rightarrow> ('s, 'g) definition_readers \<Rightarrow> nat list \<Rightarrow> app option \<Rightarrow> ('s, 't, 'o) runtime_state \<Rightarrow>
   's dataset list \<times> ('s, 't, 'o) runtime_state" where
  "load_datasets env rd schedule app_opt st = (case app_opt of
      None \<Rightarrow> ([], st)
    | Some a \<Rightarrow>
        (let st0 = log_invalid_datasets (ow_show_ref env) (read_reference rd) (read_dataset rd) a st;
             (ds, st1) = initialize_accelerators env (get_valid_datasets (read_dataset rd) a) st0;
             st2 = fold (\<lambda>d. update_dataset_status (ow_show_ref env) (ds_name d) Initializing) ds st1;
             limit = r_num_of_parallel_loading_at_start_up (app_runtime a);
             (pending, st3) = startup_run env limit schedule (ds, st2)
         in if limit \<noteq> None \<or> pending \<noteq> [] then (pending, st3) else ([], load_views env rd a st3)))"

section \<open>Models, tools and embeddings\<close>

text \<open>\<open>ow_param_text\<close> is \<open>as_str\<close> of a JSON string and \<open>to_string\<close> of any other value.\<close>

definition model_params :: "('s, 't, 'g, 'o, 'c) outside \<Rightarrow> model \<Rightarrow> (string, string) hmap" where
  "model_params env m = get_params_with_secrets (ow_secrets env) (hm_collect (map (\<lambda>(k, v). (k, ow_param_text env v)) (m_params m)))"

definition source_label :: "model \<Rightarrow> string" where
  "source_label m = (case model_get_source m of Some s \<Rightarrow> display_model_source s | None \<Rightarrow> [])"

text \<open>
  \<open>load_llm\<close> with its health check, or \<open>Model::load\<close>, by the kind of the model; the loaded model goes
  into the map of its kind.
\<close>

definition place_model ::
  "('s, 't, 'g, 'o, 'c) outside \<Rightarrow> nat \<Rightarrow> model \<Rightarrow> ('s, 't, 'o) runtime_state \<Rightarrow> ('s, 't, 'o) runtime_state option" where
  "place_model env n m st = (case model_model_type m of
      Some Llm \<Rightarrow> map_option (\<lambda>l. st\<lparr>rt_llms := (rt_llms st)(m_name m \<mapsto> l)\<rparr>) (ow_model env n Llm m (model_params env m))
    | Some Ml \<Rightarrow> map_option (\<lambda>l. st\<lparr>rt_models := (rt_models st)(m_name m \<mapsto> l)\<rparr>) (ow_model env n Ml m (model_params env m))
    | None \<Rightarrow> None)"

definition load_model :: "('s, 't, 'g, 'o, 'c) outside \<Rightarrow> model \<Rightarrow> ('s, 't, 'o) runtime_state \<Rightarrow> ('s, 't, 'o) runtime_state" where
  "load_model env m st =
     (let (n, st0) = next_attempt st
      in case place_model env n m st0 of
           Some st1 \<Rightarrow> update_model_status (m_name m) Ready (add_count (Models, m_name m, source_label m) 1 st1)
         | None \<Rightarrow> update_model_status (m_name m) StatusError (add_load_error Models st0))"

definition remove_model :: "model \<Rightarrow> ('s, 't, 'o) runtime_state \<Rightarrow> ('s, 't, 'o) runtime_state" where
  "remove_model m st = (case model_model_type m of
      Some Ml \<Rightarrow> add_count (Models, m_name m, source_label m) (- 1) (st\<lparr>rt_models := (rt_models st)(m_name m := None)\<rparr>)
    | Some Llm \<Rightarrow> add_count (Models, m_name m, source_label m) (- 1) (st\<lparr>rt_llms := (rt_llms st)(m_name m := None)\<rparr>)
    | None \<Rightarrow> st)"

definition update_model :: "('s, 't, 'g, 'o, 'c) outside \<Rightarrow> model \<Rightarrow> ('s, 't, 'o) runtime_state \<Rightarrow> ('s, 't, 'o) runtime_state" where
  "update_model env m st = load_model env m (remove_model m (update_model_status (m_name m) Refreshing st))"

definition load_models :: "('s, 't, 'g, 'o, 'c) outside \<Rightarrow> app option \<Rightarrow> ('s, 't, 'o) runtime_state \<Rightarrow> ('s, 't, 'o) runtime_state" where
  "load_models env app_opt st = (case app_opt of
      None \<Rightarrow> st
    | Some a \<Rightarrow> fold (\<lambda>m st. load_model env m (update_model_status (m_name m) Initializing st)) (app_models a) st)"

definition load_tool :: "('s, 't, 'g, 'o, 'c) outside \<Rightarrow> tool \<Rightarrow> ('s, 't, 'o) runtime_state \<Rightarrow> ('s, 't, 'o) runtime_state" where
  "load_tool env t st =
     (let st0 = update_tool_status (t_name t) Initializing st
      in case forge (ow_tool_factories env) t (get_params_with_secrets (ow_secrets env) (t_params t)) of
           Inr x \<Rightarrow> update_tool_status (t_name t) Ready (add_count (Tools, t_name t, []) 1
                     (st0\<lparr>rt_tools := (rt_tools st0)(t_name t \<mapsto> x)\<rparr>))
         | Inl e \<Rightarrow> update_tool_status (t_name t) StatusError (add_load_error Tools st0))"

text \<open>The tools of the app first, then the built-in ones.\<close>

definition load_tools :: "('s, 't, 'g, 'o, 'c) outside \<Rightarrow> app option \<Rightarrow> ('s, 't, 'o) runtime_state \<Rightarrow> ('s, 't, 'o) runtime_state" where
  "load_tools env app_opt st =
     fold (load_tool env) get_builtin_tool_spec
       (case app_opt of None \<Rightarrow> st | Some a \<Rightarrow> fold (load_tool env) (app_tools a) st)"

definition load_embedding :: "('s, 't, 'g, 'o, 'c) outside \<Rightarrow> embeddings \<Rightarrow> ('s, 't, 'o) runtime_state \<Rightarrow> ('s, 't, 'o) runtime_state" where
  "load_embedding env e st =
     (let (n, st0) = next_attempt (update_embedding_status (e_name e) Initializing st)
      in case ow_embedding env n e (get_params_with_secrets (ow_secrets env) (e_params e)) of
           Some x \<Rightarrow> update_embedding_status (e_name e) Ready
             (add_count (EmbeddingModels, e_name e, case embeddings_get_prefix e of Some p \<Rightarrow> display_embedding_prefix p | None \<Rightarrow> []) 1
               (st0\<lparr>rt_embeds := (rt_embeds st0)(e_name e \<mapsto> x)\<rparr>))
         | None \<Rightarrow> update_embedding_status (e_name e) StatusError (add_load_error EmbeddingModels st0))"

definition load_embeddings :: "('s, 't, 'g, 'o, 'c) outside \<Rightarrow> app option \<Rightarrow> ('s, 't, 'o) runtime_state \<Rightarrow> ('s, 't, 'o) runtime_state" where
  "load_embeddings env app_opt st = (case app_opt of
      None \<Rightarrow> st
    | Some a \<Rightarrow> fold (load_embedding env) (app_embeddings a) st)"

section \<open>Repeating an attempt until it succeeds\<close>

text \<open>
  \<open>backoff::retry\<close> with a strategy that never gives up: the loop repeats the attempt on the state the
  last one left, and what it returns is built up by successful repetitions only.
\<close>

definition retried :: "('a \<Rightarrow> bool \<times> 'a) \<Rightarrow> nat \<Rightarrow> 'a \<Rightarrow> 'a" where
  "retried attempt n = (\<lambda>s. snd (attempt s)) ^^ n"

locale unlimited_retry =
  fixes attempt :: "'a \<Rightarrow> bool \<times> 'a" and loop :: "'a \<Rightarrow> 'a option"
  assumes loop_eq: "loop s = (if fst (attempt s) then Some (snd (attempt s)) else loop (snd (attempt s)))"
    and loop_least: "loop s = Some t \<Longrightarrow> (\<And>s. fst (attempt s) \<Longrightarrow> P s (snd (attempt s))) \<Longrightarrow>
      (\<And>s t. \<not> fst (attempt s) \<Longrightarrow> P (snd (attempt s)) t \<Longrightarrow> P s t) \<Longrightarrow> P s t"
begin

lemma retried_Suc: "retried attempt (Suc n) s = retried attempt n (snd (attempt s))"
  by (simp add: retried_def funpow_Suc_right del: funpow.simps)

lemma retried_0: "retried attempt 0 s = s"
  by (simp add: retried_def)

lemma loop_SomeD: "loop s = Some t \<Longrightarrow> \<exists>n. fst (attempt (retried attempt n s)) \<and> (\<forall>i<n. \<not> fst (attempt (retried attempt i s))) \<and> t = snd (attempt (retried attempt n s))"
proof (erule loop_least)
  fix s assume "fst (attempt s)"
  then show "\<exists>n. fst (attempt (retried attempt n s)) \<and> (\<forall>i<n. \<not> fst (attempt (retried attempt i s))) \<and> snd (attempt s) = snd (attempt (retried attempt n s))"
    by (intro exI [of _ 0]) (simp add: retried_0)
next
  fix s t
  assume no: "\<not> fst (attempt s)"
    and "\<exists>n. fst (attempt (retried attempt n (snd (attempt s)))) \<and> (\<forall>i<n. \<not> fst (attempt (retried attempt i (snd (attempt s))))) \<and>
      t = snd (attempt (retried attempt n (snd (attempt s))))"
  then obtain n where n: "fst (attempt (retried attempt (Suc n) s))" "\<forall>i<n. \<not> fst (attempt (retried attempt (Suc i) s))"
    "t = snd (attempt (retried attempt (Suc n) s))"
    by (auto simp: retried_Suc)
  have "\<forall>i<Suc n. \<not> fst (attempt (retried attempt i s))" using n(2) no by (auto simp: less_Suc_eq_0_disj retried_0)
  with n show "\<exists>n. fst (attempt (retried attempt n s)) \<and> (\<forall>i<n. \<not> fst (attempt (retried attempt i s))) \<and> t = snd (attempt (retried attempt n s))" by blast
qed

lemma loop_first: "fst (attempt (retried attempt n s)) \<Longrightarrow> \<exists>t. loop s = Some t"
proof (induction n arbitrary: s)
  case 0
  then show ?case by (subst loop_eq) (simp add: retried_0)
next
  case (Suc n)
  then have "\<exists>t. loop (snd (attempt s)) = Some t" by (simp add: retried_Suc)
  then show ?case by (subst loop_eq) simp
qed

lemma loop_returns_iff: "(\<exists>t. loop s = Some t) \<longleftrightarrow> (\<exists>n. fst (attempt (retried attempt n s)))"
  using loop_SomeD loop_first by blast

lemma loop_invariant:
  assumes "loop s = Some t" and "I s" and "\<And>s. I s \<Longrightarrow> \<not> fst (attempt s) \<Longrightarrow> I (snd (attempt s))"
  shows "\<exists>s'. I s' \<and> fst (attempt s') \<and> t = snd (attempt s')"
proof -
  have "I s \<longrightarrow> (\<exists>s'. I s' \<and> fst (attempt s') \<and> t = snd (attempt s'))"
    by (rule loop_least [OF assms(1)]) (use assms(3) in blast)+
  with assms(2) show ?thesis by blast
qed

lemma loop_never: "(\<And>n. \<not> fst (attempt (retried attempt n s))) \<Longrightarrow> loop s = None"
  using loop_returns_iff by fastforce

end

interpretation dataset_retry: unlimited_retry "load_attempt env d" "load_dataset env d" for env d
proof
  show "load_dataset env d s = (if fst (load_attempt env d s) then Some (snd (load_attempt env d s))
      else load_dataset env d (snd (load_attempt env d s)))" for s
    by (subst load_dataset.simps) (simp add: Let_def)
  show "P s t" if "load_dataset env d s = Some t" and "\<And>s. fst (load_attempt env d s) \<Longrightarrow> P s (snd (load_attempt env d s))"
    and "\<And>s t. \<not> fst (load_attempt env d s) \<Longrightarrow> P (snd (load_attempt env d s)) t \<Longrightarrow> P s t" for s t P
    by (rule load_dataset.raw_induct [where P = "\<lambda>e x s t. e = env \<longrightarrow> x = d \<longrightarrow> P s t", OF _ that(1), THEN mp, THEN mp])
       (use that(2,3) in \<open>auto simp: Let_def split: if_splits\<close>)
qed

interpretation catalog_retry: unlimited_retry "load_catalog_attempt env c" "load_catalog env c" for env c
proof
  show "load_catalog env c s = (if fst (load_catalog_attempt env c s) then Some (snd (load_catalog_attempt env c s))
      else load_catalog env c (snd (load_catalog_attempt env c s)))" for s
    by (subst load_catalog.simps) (simp add: Let_def)
  show "P s t" if "load_catalog env c s = Some t" and "\<And>s. fst (load_catalog_attempt env c s) \<Longrightarrow> P s (snd (load_catalog_attempt env c s))"
    and "\<And>s t. \<not> fst (load_catalog_attempt env c s) \<Longrightarrow> P (snd (load_catalog_attempt env c s)) t \<Longrightarrow> P s t" for s t P
    by (rule load_catalog.raw_induct [where P = "\<lambda>e x s t. e = env \<longrightarrow> x = c \<longrightarrow> P s t", OF _ that(1), THEN mp, THEN mp])
       (use that(2,3) in \<open>auto simp: Let_def split: if_splits\<close>)
qed

section \<open>What an attempt does\<close>

definition attempt_succeeds :: "('s, 't, 'g, 'o, 'c) outside \<Rightarrow> nat \<Rightarrow> 's dataset \<Rightarrow> bool" where
  "attempt_succeeds env n d = (case dataset_connector env n d of
      Inl e \<Rightarrow> False
    | Inr c \<Rightarrow> (let oc = ow_dataset env n c d
              in \<not> invalid_changes oc d \<and> lo_read_provider oc \<and> is_ok (register_dataset oc False d)))"

lemma rt_tables_simps [simp]:
  "rt_tables (record_status k x c st) = rt_tables st"
  "rt_tables (add_load_error k st) = rt_tables st"
  "rt_tables (add_count l n st) = rt_tables st"
  "rt_tables (update_dataset_status sr r c st) = rt_tables st"
  "rt_tables (update_catalog_status x c st) = rt_tables st"
  "rt_tables (update_model_status x c st) = rt_tables st"
  "rt_tables (dataset_failed sr r st) = rt_tables st"
  "rt_tables (catalog_failed x st) = rt_tables st"
  "rt_tables (dataset_attached env oc d st) = (rt_tables st)(ds_name d \<mapsto> d)"
  by (simp_all add: rt_defs dataset_attached_def Let_def)

lemma rt_attempts_simps [simp]:
  "rt_attempts (record_status k x c st) = rt_attempts st"
  "rt_attempts (add_load_error k st) = rt_attempts st"
  "rt_attempts (add_count l n st) = rt_attempts st"
  "rt_attempts (update_dataset_status sr r c st) = rt_attempts st"
  "rt_attempts (dataset_failed sr r st) = rt_attempts st"
  "rt_attempts (dataset_attached env oc d st) = rt_attempts st"
  by (simp_all add: rt_defs dataset_attached_def Let_def)

lemma rt_views_simps [simp]:
  "rt_views (record_status k x c st) = rt_views st"
  "rt_views (add_load_error k st) = rt_views st"
  "rt_views (add_count l n st) = rt_views st"
  "rt_views (update_dataset_status sr r c st) = rt_views st"
  "rt_views (dataset_failed sr r st) = rt_views st"
  "rt_views (dataset_attached env oc d st) = rt_views st"
  by (simp_all add: rt_defs dataset_attached_def Let_def)

lemma rt_status_update [simp]:
  "rt_status (update_dataset_status sr r c st) = (rt_status st)((Datasets, sr r) \<mapsto> c)"
  by (simp add: rt_defs)

lemma load_attempt_cases:
  "load_attempt env d st = (attempt_succeeds env (rt_attempts st) d, st') \<Longrightarrow>
   rt_attempts st' = Suc (rt_attempts st) \<and> rt_views st' = rt_views st \<and>
   rt_tables st' = (if attempt_succeeds env (rt_attempts st) d then (rt_tables st)(ds_name d \<mapsto> d) else rt_tables st) \<and>
   (attempt_succeeds env (rt_attempts st) d \<longrightarrow> rt_status st' (Datasets, ow_show_ref env (ds_name d)) = Some Ready)"
  by (auto simp: load_attempt_def next_attempt_def load_dataset_connector_def attempt_succeeds_def register_loaded_dataset_def
      Let_def split: sum.splits if_splits)

lemma load_attempt_fst: "fst (load_attempt env d st) = attempt_succeeds env (rt_attempts st) d"
  by (auto simp: load_attempt_def next_attempt_def load_dataset_connector_def attempt_succeeds_def register_loaded_dataset_def
      Let_def split: sum.splits)

lemma load_attempt_snd:
  "rt_attempts (snd (load_attempt env d st)) = Suc (rt_attempts st)"
  "rt_views (snd (load_attempt env d st)) = rt_views st"
  "rt_tables (snd (load_attempt env d st)) = (if attempt_succeeds env (rt_attempts st) d then (rt_tables st)(ds_name d \<mapsto> d) else rt_tables st)"
  "attempt_succeeds env (rt_attempts st) d \<Longrightarrow> rt_status (snd (load_attempt env d st)) (Datasets, ow_show_ref env (ds_name d)) = Some Ready"
proof -
  have "load_attempt env d st = (attempt_succeeds env (rt_attempts st) d, snd (load_attempt env d st))"
    by (simp add: prod_eq_iff load_attempt_fst)
  note facts = load_attempt_cases [OF this]
  from facts show "rt_attempts (snd (load_attempt env d st)) = Suc (rt_attempts st)" by simp
  from facts show "rt_views (snd (load_attempt env d st)) = rt_views st" by simp
  from facts show "rt_tables (snd (load_attempt env d st)) =
      (if attempt_succeeds env (rt_attempts st) d then (rt_tables st)(ds_name d \<mapsto> d) else rt_tables st)" by simp
  from facts show "attempt_succeeds env (rt_attempts st) d \<Longrightarrow>
      rt_status (snd (load_attempt env d st)) (Datasets, ow_show_ref env (ds_name d)) = Some Ready" by simp
qed

lemma after_attempts: "rt_attempts (retried (load_attempt env d) n st) = rt_attempts st + n"
  by (induction n arbitrary: st) (simp_all add: dataset_retry.retried_Suc dataset_retry.retried_0 load_attempt_snd)


section \<open>The start-up\<close>

lemma log_invalid_datasets_keeps [simp]:
  "rt_views (log_invalid_datasets sr ps parse a st) = rt_views st"
  "rt_tables (log_invalid_datasets sr ps parse a st) = rt_tables st"
  "rt_attempts (log_invalid_datasets sr ps parse a st) = rt_attempts st"
  unfolding log_invalid_datasets_def by (rule fold_keeps, simp)+

lemma initialize_accelerators_keeps [simp]:
  "rt_views (snd (initialize_accelerators env ds st)) = rt_views st"
  "rt_tables (snd (initialize_accelerators env ds st)) = rt_tables st"
  unfolding initialize_accelerators_def snd_conv by (rule fold_keeps, simp)+

lemma log_invalid_views_keeps [simp]:
  "rt_views (log_invalid_views sr ps parse pv a st) = rt_views st"
  "rt_tables (log_invalid_views sr ps parse pv a st) = rt_tables st"
  unfolding log_invalid_views_def by (subst fold_keeps [of rt_views] fold_keeps [of rt_tables], simp, simp)+

lemma startup_step_views: "rt_views (snd (startup_step env limit i s)) = rt_views (snd s)"
  by (cases s) (simp add: startup_step_def Let_def split_beta load_attempt_snd)

lemma startup_run_views: "rt_views (snd (startup_run env limit schedule s)) = rt_views (snd s)"
  unfolding startup_run_def by (rule fold_keeps) (rule startup_step_views)

definition add_view :: "('s, 't, 'g, 'o, 'c) outside \<Rightarrow> view \<Rightarrow> (table_reference \<rightharpoonup> string) \<Rightarrow> (table_reference \<rightharpoonup> string)" where
  "add_view env v m = (if ow_attach_view env v then m(vw_name v \<mapsto> vw_sql v) else m)"

lemma fold_load_view: "rt_views (fold (load_view env) vs st) = fold (add_view env) vs (rt_views st)"
  by (induction vs arbitrary: st) (simp_all add: load_view_def add_view_def)

text \<open>
  The views are loaded when every dataset has been loaded, and only if the app does not configure how
  many datasets are loaded in parallel: with that setting no view is ever loaded.
\<close>

theorem startup_skips_views:
  "rt_views (snd (load_datasets env rd schedule (Some a) st)) =
     (if r_num_of_parallel_loading_at_start_up (app_runtime a) = None \<and> fst (load_datasets env rd schedule (Some a) st) = []
      then fold (add_view env) (get_valid_views (read_dataset rd) (read_view rd) a) (rt_views st)
      else rt_views st)"
proof -
  let ?st0 = "log_invalid_datasets (ow_show_ref env) (read_reference rd) (read_dataset rd) a st"
  obtain ds st1 where ia: "initialize_accelerators env (get_valid_datasets (read_dataset rd) a) ?st0 = (ds, st1)" by fastforce
  let ?st2 = "fold (\<lambda>d. update_dataset_status (ow_show_ref env) (ds_name d) Initializing) ds st1"
  obtain pending st3 where run: "startup_run env (r_num_of_parallel_loading_at_start_up (app_runtime a)) schedule (ds, ?st2) = (pending, st3)"
    by fastforce
  have "rt_views st1 = rt_views st" using initialize_accelerators_keeps(1) [of env _ ?st0] ia by (metis log_invalid_datasets_keeps(1) snd_conv)
  moreover have "rt_views ?st2 = rt_views st1" by (rule fold_keeps) simp
  moreover have "rt_views st3 = rt_views ?st2" using startup_run_views [of env _ schedule "(ds, ?st2)"] run by (metis snd_conv)
  ultimately have views: "rt_views st3 = rt_views st" by simp
  show ?thesis by (simp add: load_datasets_def Let_def ia run views load_views_def fold_load_view)
qed

lemma startup_step_stuck:
  assumes "\<forall>d\<in>set (take n ds). \<forall>k. \<not> attempt_succeeds env k d"
  shows "fst (startup_step env (Some n) i (ds, st)) = ds \<and> rt_tables (snd (startup_step env (Some n) i (ds, st))) = rt_tables st"
proof (cases "i < length ds \<and> i < n")
  case True
  then have "ds ! i \<in> set (take n ds)" by (auto simp: in_set_conv_nth intro: exI [of _ i])
  with assms True show ?thesis
    by (simp add: startup_step_def in_progress_def Let_def split_beta load_attempt_fst load_attempt_snd)
qed (auto simp: startup_step_def in_progress_def)

text \<open>
  (C31) When at most \<open>n\<close> datasets are loaded in parallel and the first \<open>n\<close> can never be loaded, no other
  dataset is ever loaded, however often they are attempted. Without the limit each dataset is attempted
  on its own, and one that can be loaded is, whatever becomes of the others.
\<close>

theorem startup_limit_starves:
  assumes "\<forall>d\<in>set (take n ds). \<forall>k. \<not> attempt_succeeds env k d"
    and "i < length ds" and "attempt_succeeds env (rt_attempts st) (ds ! i)"
  shows "fst (startup_run env (Some n) schedule (ds, st)) = ds \<and>
    rt_tables (snd (startup_run env (Some n) schedule (ds, st))) = rt_tables st \<and>
    rt_tables (snd (startup_run env None [i] (ds, st))) = (rt_tables st)(ds_name (ds ! i) \<mapsto> ds ! i)"
proof (intro conjI)
  have "fst (startup_run env (Some n) schedule (ds, st)) = ds \<and> rt_tables (snd (startup_run env (Some n) schedule (ds, st))) = rt_tables st" for st
  proof (induction schedule arbitrary: st)
    case (Cons j schedule)
    obtain st' where "startup_step env (Some n) j (ds, st) = (ds, st')" "rt_tables st' = rt_tables st"
      using startup_step_stuck [OF assms(1), of j st] by (metis prod.collapse)
    with Cons show ?case by (simp add: startup_run_def)
  qed (simp add: startup_run_def)
  then show "fst (startup_run env (Some n) schedule (ds, st)) = ds"
    and "rt_tables (snd (startup_run env (Some n) schedule (ds, st))) = rt_tables st" by blast+
  show "rt_tables (snd (startup_run env None [i] (ds, st))) = (rt_tables st)(ds_name (ds ! i) \<mapsto> ds ! i)"
    using assms(2,3) by (simp add: startup_run_def startup_step_def in_progress_def Let_def split_beta load_attempt_snd)
qed

section \<open>An example\<close>

definition demo_outcome :: "unit load_outcome" where
  "demo_outcome = \<lparr>lo_supports_changes_stream = False, lo_resolve_refresh_mode = \<lambda>m. Full, lo_read_provider = True,
     lo_wrap_embeddings = True, lo_engine_available = True, lo_attach = \<lambda>b. True, lo_table_provider = Inr (),
     lo_create_accelerated = True, lo_ready = True\<rparr>"

text \<open>One connector, called \<open>good\<close>, without parameters.\<close>

definition demo_outside :: "(unit, unit, unit, unit, unit) outside" where
  "demo_outside = \<lparr>
     ow_registry = \<lambda>n. [(''good'', \<lparr>factory_prefix = ''good'', factory_parameters = [], factory_create = \<lambda>p. Inr ()\<rparr>)],
     ow_secrets = [], ow_dataset = \<lambda>n c d. demo_outcome, ow_catalog_provider = \<lambda>n c g. None, ow_register_catalog = \<lambda>n g. True,
     ow_model = \<lambda>n k m ps. Some (), ow_tool_factories = [], ow_embedding = \<lambda>n e ps. Some (), ow_engine_init = \<lambda>d. True,
     ow_attach_view = \<lambda>v. True, ow_remove_table = \<lambda>r. True, ow_show_ref = table_of, ow_show_engine = \<lambda>e. [],
     ow_param_text = \<lambda>v. v, ow_now = 0\<rparr>"

definition demo_state :: "(unit, unit, unit) runtime_state" where
  "demo_state = \<lparr>rt_attempts = 0, rt_tables = Map.empty, rt_views = Map.empty, rt_catalogs = Map.empty, rt_models = Map.empty,
     rt_llms = Map.empty, rt_tools = Map.empty, rt_embeds = Map.empty, rt_status = Map.empty, rt_load_errors = \<lambda>k. 0,
     rt_count = \<lambda>k. 0, rt_monitor = None\<rparr>"

definition demo_dataset :: "string \<Rightarrow> string \<Rightarrow> unit dataset" where
  "demo_dataset source name = \<lparr>ds_from = source @ '':t'', ds_name = Bare name, ds_mode = Read, ds_params = [],
     ds_has_metadata_table = False, ds_replication = None, ds_time_column = None, ds_time_format = None,
     ds_acceleration = None, ds_embeddings = [], ds_app = None, ds_schema = None\<rparr>"

lemma demo_good: "attempt_succeeds demo_outside n (demo_dataset ''good'' name)"
  by (simp add: attempt_succeeds_def dataset_connector_def get_dataconnector_from_source_def create_new_connector_def
      demo_outside_def demo_dataset_def dataset_source_def splitn2_def Let_def get_params_with_secrets_def parameters_try_new_def
      invalid_changes_def demo_outcome_def register_dataset_def is_accelerated_def autoload_secrets_def)

lemma demo_bad: "\<not> attempt_succeeds demo_outside n (demo_dataset ''bad'' name)"
  by (simp add: attempt_succeeds_def dataset_connector_def get_dataconnector_from_source_def create_new_connector_def
      demo_outside_def demo_dataset_def dataset_source_def splitn2_def Let_def)


theorem startup_limit_starves_witness:
  "rt_tables (snd (startup_run demo_outside (Some 1) [0, 0, 1] ([demo_dataset ''bad'' ''a'', demo_dataset ''good'' ''b''], demo_state))) = Map.empty \<and>
   rt_tables (snd (startup_run demo_outside None [1] ([demo_dataset ''bad'' ''a'', demo_dataset ''good'' ''b''], demo_state))) \<noteq> Map.empty"
proof -
  let ?ds = "[demo_dataset ''bad'' ''a'', demo_dataset ''good'' ''b'']"
  have stuck: "\<forall>d\<in>set (take 1 ?ds). \<forall>k. \<not> attempt_succeeds demo_outside k d" using demo_bad by simp
  have ok: "attempt_succeeds demo_outside (rt_attempts demo_state) (?ds ! 1)" using demo_good by simp
  have len: "1 < length ?ds" by simp
  have "rt_tables demo_state = Map.empty" by (simp add: demo_state_def)
  with startup_limit_starves [OF stuck len ok, of "[0, 0, 1]"] show ?thesis by simp
qed

end
