(* ===== verification/Runtime_Reload.thy ===== *)
theory Runtime_Reload
  imports Runtime_Loading
begin

text \<open>
  Following the files of an app (runtime/src/podswatcher.rs and the loop \<open>start_pods_watcher\<close> of
  runtime/src/lib.rs): which file events lead to a new app, and how the running components are brought
  in line with it. The loop holds the lock on the app while it works on one app, so a load that never
  returns (\<open>None\<close>) ends the following of the files.
\<close>

section \<open>File events\<close>

datatype event_kind = CreateFile | RemoveFile | ModifyData | OtherEvent

record notify_event =
  ev_kind :: event_kind
  ev_paths :: "string list"

text \<open>The components of a Unix path; \<open>Path::starts_with\<close> and \<open>==\<close> compare them.\<close>

definition path_parts :: "string \<Rightarrow> string list" where
  "path_parts s =
     (let ps = split_on CHR ''/'' s
      in (if s \<noteq> [] \<and> hd s = CHR ''/'' then [''/''] else if hd ps = ''.'' then [''.''] else []) @
         filter (\<lambda>p. p \<noteq> [] \<and> p \<noteq> ''.'') ps)"

definition path_starts_with :: "string \<Rightarrow> string \<Rightarrow> bool" where
  "path_starts_with p d \<longleftrightarrow> take (length (path_parts d)) (path_parts p) = path_parts d"

definition reference_paths :: "string \<Rightarrow> 'c component_or_reference list \<Rightarrow> string list" where
  "reference_paths root_path items = List.map_filter (\<lambda>item. case item of
      Reference r \<Rightarrow> Some (path_join root_path (path_join root_path (cr_ref r)))
    | Component c \<Rightarrow> None) items"

definition get_watch_paths :: "(string \<Rightarrow> ('y spicepod_error, spicepod_definition) result) \<Rightarrow> string \<Rightarrow> string list" where
  "get_watch_paths load_definition root_path =
     [path_join root_path ''spicepod.yaml'', path_join root_path ''spicepod.yml''] @
     (case load_definition root_path of
        Inl e \<Rightarrow> []
      | Inr sd \<Rightarrow> map (path_join (path_join root_path ''spicepods'')) (sd_dependencies sd) @
          reference_paths root_path (sd_datasets sd) @ reference_paths root_path (sd_models sd))"

definition is_spicepods_modification_event :: "string list \<Rightarrow> notify_event \<Rightarrow> bool" where
  "is_spicepods_modification_event spicepod_paths event \<longleftrightarrow>
     ev_kind event \<noteq> OtherEvent \<and>
     list_ex (\<lambda>event_path. list_ex (path_starts_with event_path) spicepod_paths) (ev_paths event)"

text \<open>The callback: the watched paths and the apps sent; the files are what the two readers see.\<close>

definition on_event ::
  "(string \<Rightarrow> ('y spicepod_error, spicepod_definition) result) \<Rightarrow> (string \<Rightarrow> ('y spicepod_error, spicepod) result) \<Rightarrow> string \<Rightarrow>
   notify_event \<Rightarrow> string list \<times> app list \<Rightarrow> string list \<times> app list" where
  "on_event load_definition load root_path event s = (case s of (watch_paths, sent) \<Rightarrow>
     if \<not> is_spicepods_modification_event watch_paths event then s
     else
       (let root_files = [path_join root_path ''spicepod.yaml'', path_join root_path ''spicepod.yml''];
            watch_paths' = (if list_ex (\<lambda>p. list_ex (\<lambda>f. path_parts p = path_parts f) root_files) (ev_paths event)
                            then get_watch_paths load_definition root_path else watch_paths)
        in case build_from_filesystem_path load root_path of
             Inr a \<Rightarrow> (watch_paths', sent @ [a])
           | Inl e \<Rightarrow> (watch_paths', sent)))"

section \<open>Bringing the components in line\<close>

definition sync_catalog ::
  "('s, 't, 'g, 'o, 'c) outside \<Rightarrow> 'g catalog list \<Rightarrow> 'g catalog \<Rightarrow> ('s, 't, 'o) runtime_state \<Rightarrow> ('s, 't, 'o) runtime_state option" where
  "sync_catalog env existing c st =
     (case find (\<lambda>x. cat_name x = cat_name c) existing of
        Some current \<Rightarrow> if catalog_eq c current then Some st else load_catalog env c st
      | None \<Rightarrow> load_catalog env c (update_catalog_status (cat_name c) Initializing st))"

definition sync_dataset ::
  "('s, 't, 'g, 'o, 'c) outside \<Rightarrow> 's dataset list \<Rightarrow> 's dataset \<Rightarrow> ('s, 't, 'o) runtime_state \<Rightarrow> ('s, 't, 'o) runtime_state option" where
  "sync_dataset env existing d st =
     (case find (\<lambda>x. ds_name x = ds_name d) existing of
        Some current \<Rightarrow> Some (if dataset_eq d current then st else update_dataset env d st)
      | None \<Rightarrow> load_dataset env d (update_dataset_status (ow_show_ref env) (ds_name d) Initializing st))"

definition drop_dataset ::
  "('s, 't, 'g, 'o, 'c) outside \<Rightarrow> ('s, 'g) definition_readers \<Rightarrow> dataset_def list \<Rightarrow> dataset_def \<Rightarrow>
   ('s, 't, 'o) runtime_state \<Rightarrow> ('s, 't, 'o) runtime_state" where
  "drop_dataset env rd new_defs old st =
     (if list_ex (\<lambda>d. d_name d = d_name old) new_defs then st
      else case read_dataset rd old of
        Inl e \<Rightarrow> st
      | Inr d \<Rightarrow> remove_dataset env d (update_dataset_status (ow_show_ref env) (ds_name d) StatusDisabled st))"

text \<open>The derived equality of models, whose maps are compared without their order.\<close>

definition model_eq :: "model \<Rightarrow> model \<Rightarrow> bool" where
  "model_eq m n \<longleftrightarrow> m\<lparr>m_metadata := [], m_params := []\<rparr> = n\<lparr>m_metadata := [], m_params := []\<rparr> \<and>
     hm_eq (m_metadata m) (m_metadata n) \<and> hm_eq (m_params m) (m_params n)"

definition sync_model ::
  "('s, 't, 'g, 'o, 'c) outside \<Rightarrow> model list \<Rightarrow> model \<Rightarrow> ('s, 't, 'o) runtime_state \<Rightarrow> ('s, 't, 'o) runtime_state" where
  "sync_model env existing m st =
     (case find (\<lambda>x. m_name x = m_name m) existing of
        Some current \<Rightarrow> if model_eq current m then st else update_model env m st
      | None \<Rightarrow> load_model env m (update_model_status (m_name m) Initializing st))"

definition drop_model :: "model list \<Rightarrow> model \<Rightarrow> ('s, 't, 'o) runtime_state \<Rightarrow> ('s, 't, 'o) runtime_state" where
  "drop_model new_models m st =
     (if list_ex (\<lambda>x. m_name x = m_name m) new_models then st
      else remove_model m (update_model_status (m_name m) StatusDisabled st))"

definition sync_catalogs ::
  "('s, 't, 'g, 'o, 'c) outside \<Rightarrow> ('s, 'g) definition_readers \<Rightarrow> app \<Rightarrow> app \<Rightarrow> ('s, 't, 'o) runtime_state \<Rightarrow> ('s, 't, 'o) runtime_state option" where
  "sync_catalogs env rd current new st =
     fold (\<lambda>c m. Option.bind m (sync_catalog env (get_valid_catalogs (read_catalog rd) current) c))
       (get_valid_catalogs (read_catalog rd) new) (Some (log_invalid_catalogs (read_catalog rd) new st))"

definition sync_datasets ::
  "('s, 't, 'g, 'o, 'c) outside \<Rightarrow> ('s, 'g) definition_readers \<Rightarrow> app \<Rightarrow> app \<Rightarrow> ('s, 't, 'o) runtime_state \<Rightarrow> ('s, 't, 'o) runtime_state option" where
  "sync_datasets env rd current new st =
     map_option (fold (drop_dataset env rd (app_datasets new)) (app_datasets current))
       (fold (\<lambda>d m. Option.bind m (sync_dataset env (get_valid_datasets (read_dataset rd) current) d))
         (get_valid_datasets (read_dataset rd) new)
         (Some (log_invalid_datasets (ow_show_ref env) (read_reference rd) (read_dataset rd) new st)))"

definition sync_models ::
  "('s, 't, 'g, 'o, 'c) outside \<Rightarrow> app \<Rightarrow> app \<Rightarrow> ('s, 't, 'o) runtime_state \<Rightarrow> ('s, 't, 'o) runtime_state" where
  "sync_models env current new st =
     fold (drop_model (app_models new)) (app_models current) (fold (sync_model env (app_models current)) (app_models new) st)"

definition sync_app ::
  "('s, 't, 'g, 'o, 'c) outside \<Rightarrow> ('s, 'g) definition_readers \<Rightarrow> app \<Rightarrow> app \<Rightarrow> ('s, 't, 'o) runtime_state \<Rightarrow> ('s, 't, 'o) runtime_state option" where
  "sync_app env rd current new st =
     Option.bind (sync_catalogs env rd current new st) (\<lambda>st1.
       map_option (sync_models env current new) (sync_datasets env rd current new st1))"

text \<open>
  One app from the channel; \<open>same\<close> is the derived equality of apps. The lock is held until the end of
  the step.
\<close>

definition watch_step ::
  "('s, 't, 'g, 'o, 'c) outside \<Rightarrow> ('s, 'g) definition_readers \<Rightarrow> (app \<Rightarrow> app \<Rightarrow> bool) \<Rightarrow> app \<Rightarrow>
   app option \<times> ('s, 't, 'o) runtime_state \<Rightarrow> (app option \<times> ('s, 't, 'o) runtime_state) option" where
  "watch_step env rd same new s = (case s of
      (Some current, st) \<Rightarrow>
        (if same current new then Some s
         else map_option (\<lambda>st'. (Some new, st')) (sync_app env rd current new st))
    | (None, st) \<Rightarrow> Some (Some new, st))"

definition start_pods_watcher ::
  "('s, 't, 'g, 'o, 'c) outside \<Rightarrow> ('s, 'g) definition_readers \<Rightarrow> (app \<Rightarrow> app \<Rightarrow> bool) \<Rightarrow> app list \<Rightarrow>
   app option \<times> ('s, 't, 'o) runtime_state \<Rightarrow> (app option \<times> ('s, 't, 'o) runtime_state) option" where
  "start_pods_watcher env rd same apps s = fold (\<lambda>a m. Option.bind m (watch_step env rd same a)) apps (Some s)"

section \<open>One dataset\<close>

lemma register_loaded_tables:
  "rt_tables (snd (register_loaded_dataset env oc created d st)) =
     (if is_ok (fst (register_loaded_dataset env oc created d st)) then (rt_tables st)(ds_name d \<mapsto> d) else rt_tables st)"
  by (auto simp: register_loaded_dataset_def split: sum.splits)

lemma remove_dataset_tables:
  "rt_tables (remove_dataset env d st) = (if ow_remove_table env (ds_name d) then (rt_tables st)(ds_name d := None) else rt_tables st)"
  by (auto simp: remove_dataset_def Let_def)

lemma replace_dataset_tables:
  "rt_tables (replace_dataset env oc d st) =
     (if is_ok (fst (register_loaded_dataset env oc False d (remove_dataset env d st))) then (rt_tables st)(ds_name d \<mapsto> d)
      else rt_tables (remove_dataset env d st))"
  using register_loaded_tables [of env oc False d "remove_dataset env d st"]
  by (auto simp: replace_dataset_def remove_dataset_tables split: prod.splits sum.splits)

lemma register_loaded_ok:
  "is_ok (fst (register_loaded_dataset env oc created d st)) \<longleftrightarrow>
     \<not> invalid_changes oc d \<and> lo_read_provider oc \<and> is_ok (register_dataset oc created d)"
  by (auto simp: register_loaded_dataset_def split: sum.splits)

lemma attempt_succeeds_parts:
  assumes "attempt_succeeds env n d"
  obtains c where "dataset_connector env n d = Inr c"
    and "\<And>st. is_ok (fst (register_loaded_dataset env (ow_dataset env n c d) False d st))"
  using assms by (auto simp: attempt_succeeds_def register_loaded_ok Let_def split: sum.splits)

lemma reload_accelerated_tables:
  "reload_accelerated_dataset env oc d st = (r, st') \<Longrightarrow>
   rt_tables st' = (if is_ok r then (rt_tables st)(ds_name d \<mapsto> d) else rt_tables st)"
  using register_loaded_tables [of env oc True d st]
  by (auto simp: reload_accelerated_dataset_def split: if_splits)

text \<open>A hot reload or a full one: either way the new definition takes the place of the old.\<close>

lemma update_dataset_tables:
  assumes "attempt_succeeds env (rt_attempts st) d"
  shows "rt_tables (update_dataset env d st) = (rt_tables st)(ds_name d \<mapsto> d)"
proof -
  from attempt_succeeds_parts [OF assms] obtain c where c: "dataset_connector env (rt_attempts st) d = Inr c"
    and ok: "\<And>st'. is_ok (fst (register_loaded_dataset env (ow_dataset env (rt_attempts st) c d) False d st'))" by blast
  let ?st0 = "(update_dataset_status (ow_show_ref env) (ds_name d) Refreshing st)\<lparr>rt_attempts := Suc (rt_attempts st)\<rparr>"
  let ?oc = "ow_dataset env (rt_attempts st) c d"
  have replace: "rt_tables (replace_dataset env ?oc d st1) = (rt_tables st1)(ds_name d \<mapsto> d)" for st1
    by (simp add: replace_dataset_tables ok)
  obtain r st1 where re: "reload_accelerated_dataset env ?oc d ?st0 = (r, st1)" by fastforce
  show ?thesis
    using reload_accelerated_tables [OF re]
    by (auto simp: update_dataset_def next_attempt_def load_dataset_connector_def c re replace Let_def split: sum.splits)
qed

lemma dataset_eq_refl: "dataset_eq d d"
  by (simp add: dataset_eq_def hm_eq_def acceleration_eq_def option.rel_refl)

lemma dataset_eq_trans: "dataset_eq d e \<Longrightarrow> dataset_eq e f \<Longrightarrow> dataset_eq d f"
  unfolding dataset_eq_def hm_eq_def
  by (auto simp: option_rel_Some1 option_rel_Some2 rel_option_iff acceleration_eq_def hm_eq_def split: option.splits)

section \<open>Following an app\<close>

definition unchanged :: "'s dataset list \<Rightarrow> 's dataset \<Rightarrow> bool" where
  "unchanged existing d = (case find (\<lambda>x. ds_name x = ds_name d) existing of Some c \<Rightarrow> dataset_eq d c | None \<Rightarrow> False)"

lemma sync_dataset_tables:
  assumes "\<And>n. attempt_succeeds env n d"
  shows "\<exists>st'. sync_dataset env existing d st = Some st' \<and>
    rt_tables st' = (if unchanged existing d then rt_tables st else (rt_tables st)(ds_name d \<mapsto> d))"
proof (cases "find (\<lambda>x. ds_name x = ds_name d) existing")
  case None
  let ?st0 = "update_dataset_status (ow_show_ref env) (ds_name d) Initializing st"
  from assms obtain st' where st': "load_dataset env d ?st0 = Some st'"
    using dataset_retry.loop_returns_iff load_attempt_fst by metis
  have "\<exists>s'. rt_tables s' = rt_tables ?st0 \<and> fst (load_attempt env d s') \<and> st' = snd (load_attempt env d s')"
    by (rule dataset_retry.loop_invariant [OF st']) (simp_all add: load_attempt_snd load_attempt_fst)
  then show ?thesis using st' None by (auto simp: sync_dataset_def unchanged_def load_attempt_snd load_attempt_fst)
qed (use assms in \<open>simp add: sync_dataset_def unchanged_def update_dataset_tables\<close>)

lemma sync_fold_tables:
  assumes "distinct (map ds_name ds)" and "\<forall>d\<in>set ds. \<forall>n. attempt_succeeds env n d"
  shows "\<exists>st'. fold (\<lambda>d m. Option.bind m (sync_dataset env existing d)) ds (Some st) = Some st' \<and>
    (\<forall>r. rt_tables st' r = (case find (\<lambda>d. ds_name d = r) ds of
        None \<Rightarrow> rt_tables st r
      | Some d \<Rightarrow> if unchanged existing d then rt_tables st r else Some d))"
  using assms
proof (induction ds arbitrary: st)
  case (Cons d ds)
  from sync_dataset_tables [of env d existing st] Cons.prems(2) obtain st1 where st1: "sync_dataset env existing d st = Some st1"
    and tables: "rt_tables st1 = (if unchanged existing d then rt_tables st else (rt_tables st)(ds_name d \<mapsto> d))" by auto
  from Cons obtain st' where st': "fold (\<lambda>d m. Option.bind m (sync_dataset env existing d)) ds (Some st1) = Some st'"
    "\<forall>r. rt_tables st' r = (case find (\<lambda>d. ds_name d = r) ds of
        None \<Rightarrow> rt_tables st1 r | Some d \<Rightarrow> if unchanged existing d then rt_tables st1 r else Some d)" by fastforce
  have "find (\<lambda>e. ds_name e = ds_name d) ds = None" using Cons.prems(1) by (simp add: find_None_iff) (metis image_eqI)
  with st' st1 tables show ?case by (auto split: option.splits)
qed simp

definition dropped :: "('s, 'g) definition_readers \<Rightarrow> dataset_def list \<Rightarrow> dataset_def list \<Rightarrow> table_reference set" where
  "dropped rd new_defs olds = {ds_name e |x e. x \<in> set olds \<and> d_name x \<notin> d_name ` set new_defs \<and> read_dataset rd x = Inr e}"

lemma drop_fold_tables:
  assumes "\<And>r. ow_remove_table env r"
  shows "rt_tables (fold (drop_dataset env rd new_defs) olds st) r = (if r \<in> dropped rd new_defs olds then None else rt_tables st r)"
proof (induction olds arbitrary: st)
  case (Cons x olds)
  have "rt_tables (drop_dataset env rd new_defs x st) r = (if r \<in> dropped rd new_defs [x] then None else rt_tables st r)"
    by (cases "read_dataset rd x") (auto simp: drop_dataset_def dropped_def remove_dataset_tables assms list_ex_iff image_iff)
  moreover have "dropped rd new_defs (x # olds) = dropped rd new_defs [x] \<union> dropped rd new_defs olds"
    by (auto simp: dropped_def)
  ultimately show ?case by (simp add: Cons)
qed (simp add: dropped_def)

lemma valid_datasets_iff:
  "d \<in> set (get_valid_datasets parse a) \<longleftrightarrow> (\<exists>x\<in>set (app_datasets a). \<exists>e. parse x = Inr e \<and> d = with_app a e)"
proof -
  have ok: "result_ok (map_sum id f r) = Some d \<longleftrightarrow> (\<exists>e. r = Inr e \<and> d = f e)" for f :: "'a dataset \<Rightarrow> 'a dataset" and r :: "(runtime_error, 'a dataset) result"
    by (cases r) auto
  have "d \<in> set (get_valid_datasets parse a) \<longleftrightarrow> (\<exists>x\<in>set (app_datasets a). result_ok (map_sum id (with_app a) (parse x)) = Some d)"
    by (force simp: get_valid_datasets_def datasets_iter_def List.map_filter_def)
  then show ?thesis by (simp only: ok)
qed

lemma with_app_name [simp]: "ds_name (with_app a d) = ds_name d"
  by (simp add: with_app_def)

lemma valid_name_iff:
  "(\<exists>d\<in>set (get_valid_datasets parse a). ds_name d = r) \<longleftrightarrow> (\<exists>x\<in>set (app_datasets a). \<exists>e. parse x = Inr e \<and> ds_name e = r)"
  unfolding Bex_def valid_datasets_iff by (metis with_app_name)

text \<open>The tables are those of the valid datasets of the app, each with an equal definition.\<close>

definition follows :: "('s, 'g) definition_readers \<Rightarrow> app \<Rightarrow> ('s, 't, 'o) runtime_state \<Rightarrow> bool" where
  "follows rd a st \<longleftrightarrow> (\<forall>r. case rt_tables st r of
      None \<Rightarrow> \<forall>d\<in>set (get_valid_datasets (read_dataset rd) a). ds_name d \<noteq> r
    | Some t \<Rightarrow> \<exists>d\<in>set (get_valid_datasets (read_dataset rd) a). ds_name d = r \<and> dataset_eq d t)"

text \<open>
  Names are used once in each app, a name denotes the same table in both apps, and different names
  denote different tables.
\<close>

definition consistent_names :: "('s, 'g) definition_readers \<Rightarrow> app \<Rightarrow> app \<Rightarrow> bool" where
  "consistent_names rd current new \<longleftrightarrow>
     distinct (map ds_name (get_valid_datasets (read_dataset rd) current)) \<and>
     distinct (map ds_name (get_valid_datasets (read_dataset rd) new)) \<and>
     (\<forall>x\<in>set (app_datasets current). \<forall>y\<in>set (app_datasets new). \<forall>e f.
        read_dataset rd x = Inr e \<longrightarrow> read_dataset rd y = Inr f \<longrightarrow> (ds_name e = ds_name f \<longleftrightarrow> d_name x = d_name y))"

lemma dropped_iff:
  assumes "consistent_names rd current new" and "\<forall>y\<in>set (app_datasets new). is_ok (read_dataset rd y)"
  shows "r \<in> dropped rd (app_datasets new) (app_datasets current) \<longleftrightarrow>
    (\<exists>c\<in>set (get_valid_datasets (read_dataset rd) current). ds_name c = r) \<and>
    (\<forall>d\<in>set (get_valid_datasets (read_dataset rd) new). ds_name d \<noteq> r)"
proof -
  have names: "ds_name e = ds_name f \<longleftrightarrow> d_name x = d_name y"
    if "x \<in> set (app_datasets current)" "y \<in> set (app_datasets new)" "read_dataset rd x = Inr e" "read_dataset rd y = Inr f" for x y e f
    using assms(1) that unfolding consistent_names_def by blast
  have gone: "d_name x \<notin> d_name ` set (app_datasets new) \<longleftrightarrow> (\<forall>d\<in>set (get_valid_datasets (read_dataset rd) new). ds_name d \<noteq> ds_name e)"
    if x: "x \<in> set (app_datasets current)" "read_dataset rd x = Inr e" for x e
  proof -
    have "d_name x \<in> d_name ` set (app_datasets new) \<longleftrightarrow> (\<exists>y\<in>set (app_datasets new). \<exists>f. read_dataset rd y = Inr f \<and> d_name x = d_name y)"
      using assms(2) by (auto simp: is_ok_iff image_iff)
    also have "\<dots> \<longleftrightarrow> (\<exists>y\<in>set (app_datasets new). \<exists>f. read_dataset rd y = Inr f \<and> ds_name f = ds_name e)"
      using names [OF x(1) _ x(2)] by metis
    finally show ?thesis unfolding valid_name_iff [symmetric] by blast
  qed
  show ?thesis unfolding dropped_def mem_Collect_eq valid_name_iff using gone by metis
qed

lemma find_named:
  assumes "distinct (map ds_name ds)" and "d \<in> set ds"
  shows "find (\<lambda>x. ds_name x = ds_name d) ds = Some d"
  using assms by (induction ds) force+


section \<open>Where the reload fails\<close>

lemma fold_bind_stuck:
  assumes "x \<in> set xs" and "\<And>s. f x s = None"
  shows "fold (\<lambda>x m. Option.bind m (f x)) xs m = None"
  using assms(1)
proof (induction xs arbitrary: m)
  case (Cons y ys)
  show ?case
  proof (cases "y = x")
    case True
    then have "Option.bind m (f y) = None" using assms(2) by (cases m) simp_all
    then show ?thesis by (simp add: fold_bind_None)
  qed (use Cons in auto)
qed simp

lemma load_dataset_never: "(\<And>n. \<not> attempt_succeeds env n d) \<Longrightarrow> load_dataset env d st = None"
  by (rule dataset_retry.loop_never) (simp add: load_attempt_fst)

lemma unknown_source_never:
  assumes "\<And>n. hm_get (ow_registry env n) (dataset_source d) = None"
  shows "\<not> attempt_succeeds env n d"
  by (simp add: attempt_succeeds_def dataset_connector_def get_dataconnector_from_source_def create_new_connector_def assms)

text \<open>
  (C13) A new dataset that cannot be loaded, for instance because its source names no connector, stops the
  reload for good: the app is never brought up to date, and no app that arrives later is looked at, so
  that correcting the definition has no effect.
\<close>

theorem bad_dataset_blocks_reload:
  assumes "\<not> same current new" and "d \<in> set (get_valid_datasets (read_dataset rd) new)"
    and "\<forall>c\<in>set (get_valid_datasets (read_dataset rd) current). ds_name c \<noteq> ds_name d"
    and "\<forall>n. \<not> attempt_succeeds env n d"
  shows "start_pods_watcher env rd same (new # later) (Some current, st) = None"
proof -
  have "find (\<lambda>x. ds_name x = ds_name d) (get_valid_datasets (read_dataset rd) current) = None"
    using assms(3) by (auto simp: find_None_iff)
  then have stuck: "sync_dataset env (get_valid_datasets (read_dataset rd) current) d st1 = None" for st1
    using load_dataset_never [of env d] assms(4) by (simp add: sync_dataset_def)
  have "sync_datasets env rd current new st1 = None" for st1
    using fold_bind_stuck [OF assms(2), of "sync_dataset env (get_valid_datasets (read_dataset rd) current)", OF stuck]
    by (simp add: sync_datasets_def)
  then have "sync_app env rd current new st = None"
    by (cases "sync_catalogs env rd current new st") (simp_all add: sync_app_def)
  then show ?thesis using assms(1) by (simp add: start_pods_watcher_def watch_step_def fold_bind_None)
qed

text \<open>
  An update of a dataset is tried once: when the table has been taken away and the new one cannot be
  attached, the dataset is gone and marked as failed, and later apps with the same definition leave it
  at that.
\<close>

theorem failed_update_not_retried:
  assumes "dataset_connector env (rt_attempts st) d = Inr c"
    and "\<not> accelerated_dataset_supports_hot_reload (ow_dataset env (rt_attempts st) c d) d"
    and "\<not> attempt_succeeds env (rt_attempts st) d" and "ow_remove_table env (ds_name d)"
  shows "rt_tables (update_dataset env d st) (ds_name d) = None \<and>
    rt_status (update_dataset env d st) (Datasets, ow_show_ref env (ds_name d)) = Some StatusError \<and>
    (\<forall>existing e st'. find (\<lambda>x. ds_name x = ds_name e) existing = Some d \<longrightarrow> dataset_eq e d \<longrightarrow>
       sync_dataset env existing e st' = Some st')"
proof -
  let ?oc = "ow_dataset env (rt_attempts st) c d"
  have fails: "\<not> is_ok (fst (register_loaded_dataset env ?oc False d st1))" for st1
    using assms(1,3) by (simp add: attempt_succeeds_def register_loaded_ok Let_def)
  let ?st0 = "(update_dataset_status (ow_show_ref env) (ds_name d) Refreshing st)\<lparr>rt_attempts := Suc (rt_attempts st)\<rparr>"
  have upd: "update_dataset env d st = replace_dataset env ?oc d ?st0"
    using assms(1,2) by (simp add: update_dataset_def next_attempt_def load_dataset_connector_def Let_def)
  obtain e st1 where re: "register_loaded_dataset env ?oc False d (remove_dataset env d ?st0) = (Inl e, st1)"
    using fails [of "remove_dataset env d ?st0"] by (metis is_ok.simps(1) prod.collapse sum.exhaust)
  have "rt_tables (replace_dataset env ?oc d ?st0) (ds_name d) = None"
    by (simp add: replace_dataset_tables fails remove_dataset_tables assms(4))
  moreover have "rt_status (replace_dataset env ?oc d ?st0) (Datasets, ow_show_ref env (ds_name d)) = Some StatusError"
    by (simp add: replace_dataset_def re)
  ultimately show ?thesis by (simp add: upd sync_dataset_def)
qed

text \<open>The kind of a model decides where it is kept and where it is removed from.\<close>

theorem model_kind_change_keeps_old:
  assumes "model_model_type m = Some Llm" and "rt_models st (m_name m) = Some x"
  shows "rt_models (update_model env m st) (m_name m) = Some x"
  using assms
  by (auto simp: update_model_def load_model_def remove_model_def place_model_def next_attempt_def rt_defs Let_def split: option.splits)

section \<open>Examples\<close>

definition demo_readers :: "(unit, unit) definition_readers" where
  "demo_readers = \<lparr>read_dataset = \<lambda>x. Inr (demo_dataset (d_from x) (d_name x)), read_catalog = \<lambda>c. Inr (catalog_new (c_from c) (c_name c)),
     read_view = \<lambda>v. Inr \<lparr>vw_name = Bare (v_name v), vw_sql = []\<rparr>, read_reference = Bare\<rparr>"

definition demo_app :: "(string \<times> string) list \<Rightarrow> app" where
  "demo_app ds = (app_build (app_builder_new ''x''))\<lparr>app_datasets := map (\<lambda>(source, name). dataset_def_new source name) ds\<rparr>"

lemma demo_app_datasets: "app_datasets (demo_app ds) = map (\<lambda>(source, name). dataset_def_new source name) ds"
  by (simp add: demo_app_def)

lemma demo_valid:
  "get_valid_datasets (read_dataset demo_readers) (demo_app ds) = map (\<lambda>(source, name). with_app (demo_app ds) (demo_dataset source name)) ds"
  by (simp add: get_valid_datasets_def datasets_iter_def demo_app_datasets demo_readers_def dataset_def_new_def split_beta comp_def
      List.map_filter_def)

lemma attempt_with_app: "attempt_succeeds demo_outside n (with_app a d) = attempt_succeeds demo_outside n d"
proof -
  have "dataset_connector demo_outside n (with_app a d) = dataset_connector demo_outside n d"
    by (simp add: dataset_connector_def dataset_source_def with_app_def)
  moreover have "invalid_changes oc (with_app a d) = invalid_changes oc d"
    and "register_dataset oc created (with_app a d) = register_dataset oc created d" for oc :: "unit load_outcome" and created
    by (simp_all add: invalid_changes_def register_dataset_def is_accelerated_def with_app_def Let_def)
  moreover have "ow_dataset demo_outside n c e = demo_outcome" for c e by (simp add: demo_outside_def)
  ultimately show ?thesis unfolding attempt_succeeds_def by (simp add: Let_def split: sum.splits)
qed


theorem bad_dataset_blocks_reload_witness:
  "start_pods_watcher demo_outside demo_readers (\<lambda>a b. False)
     [demo_app [(''good'', ''a''), (''bad'', ''b'')], demo_app [(''good'', ''a''), (''good'', ''b'')]]
     (Some (demo_app [(''good'', ''a'')]), demo_state) = None"
proof (rule bad_dataset_blocks_reload [where d = "with_app (demo_app [(''good'', ''a''), (''bad'', ''b'')]) (demo_dataset ''bad'' ''b'')"])
  show "\<forall>n. \<not> attempt_succeeds demo_outside n (with_app (demo_app [(''good'', ''a''), (''bad'', ''b'')]) (demo_dataset ''bad'' ''b''))"
    by (simp add: attempt_with_app demo_bad)
  show "\<forall>c\<in>set (get_valid_datasets (read_dataset demo_readers) (demo_app [(''good'', ''a'')])).
      ds_name c \<noteq> ds_name (with_app (demo_app [(''good'', ''a''), (''bad'', ''b'')]) (demo_dataset ''bad'' ''b''))"
    by (simp add: demo_valid) (simp add: demo_dataset_def)
qed (simp_all add: demo_valid)

theorem failed_update_not_retried_witness:
  "rt_tables (update_dataset (demo_outside\<lparr>ow_dataset := \<lambda>n c d. demo_outcome\<lparr>lo_attach := \<lambda>b. False\<rparr>\<rparr>) (demo_dataset ''good'' ''a'')
     (demo_state\<lparr>rt_tables := [Bare ''a'' \<mapsto> demo_dataset ''good'' ''a'']\<rparr>)) (Bare ''a'') = None"
proof -
  let ?env = "demo_outside\<lparr>ow_dataset := \<lambda>n c d. demo_outcome\<lparr>lo_attach := \<lambda>b. False\<rparr>\<rparr>"
  let ?st = "demo_state\<lparr>rt_tables := [Bare ''a'' \<mapsto> demo_dataset ''good'' ''a'']\<rparr>"
  let ?d = "demo_dataset ''good'' ''a''"
  have name: "ds_name ?d = Bare ''a''" and acc: "ds_acceleration ?d = None" by (simp_all add: demo_dataset_def)
  have "attempt_succeeds demo_outside (rt_attempts ?st) ?d" by (rule demo_good)
  then obtain c where "dataset_connector demo_outside (rt_attempts ?st) ?d = Inr c" by (rule attempt_succeeds_parts)
  then have c: "dataset_connector ?env (rt_attempts ?st) ?d = Inr c" by (simp add: dataset_connector_def)
  have hot: "\<not> accelerated_dataset_supports_hot_reload (ow_dataset ?env (rt_attempts ?st) c ?d) ?d"
    by (simp add: accelerated_dataset_supports_hot_reload_def acc)
  have fails: "\<not> attempt_succeeds ?env (rt_attempts ?st) ?d"
    by (simp add: attempt_succeeds_def register_dataset_def Let_def split: sum.splits)
  show ?thesis using failed_update_not_retried [OF c hot fails] by (simp add: name demo_outside_def)
qed

end
