(* ===== verification/Spec2Isabelle.thy ===== *)
theory Spec2Isabelle
  imports Vector_Search Debezium Backoff Parameters Dataset Results_Cache Refresher Refresh_Task Tool_Use GraphQL Runtime_Reload
begin

text \<open>
  A verification development for the Spice runtime (the Rust crates under src/crates).

  \<^bold>\<open>The program.\<close> Spice reads a spicepod (a YAML file with datasets, catalogs, views, models, tools,
  secrets and settings), merges it with the spicepods it depends on into an app, loads the app's
  components into a running instance, and answers SQL queries over the datasets. A dataset is
  federated (every query goes to its source) or accelerated: a copy is kept in an accelerator and
  refreshed by a task of its own, in full, by appending, or from a stream of changes. Results of
  queries are cached, and invalidated by refreshes. The files of the app are watched, and a change
  is followed by loading, updating or removing the components concerned. Chat models can use tools
  of the runtime, which query the same datasets.

  \<^bold>\<open>Definitions and their sources.\<close> Each theory models the files it names in its opening text, one
  definition per function, under the source's names where they are free.

    \<^item> \<open>Spice_Prelude\<close>: results as sums, strings, hash maps as lists of entries, durations, and the
      interfaces the components share, as locales: keyed stores, references of the form
      provider:name, event loops and transition systems with an invariant.
    \<^item> \<open>Backoff\<close> (util/src/fibonacci_backoff.rs): the intervals, their randomisation and the retry
      limit; a 64-bit float is a rational with a rounding function as parameter.
    \<^item> \<open>Spicepod_Params\<close>, \<open>Spicepod_Models\<close>, \<open>Spicepod\<close> (crates/spicepod) and \<open>App_Builder\<close>
      (crates/app): the definitions of components, reading a spicepod with its references, the check
      for duplicate names, and merging dependencies.
    \<^item> \<open>Secret_Lexer\<close>, \<open>Secrets\<close> (runtime/src/secrets) and \<open>Parameters\<close> (runtime/src/parameters.rs,
      dataconnector.rs): references to secrets in strings, the stores in their order, and the
      parameters a component receives.
    \<^item> \<open>Acceleration\<close>, \<open>Dataset\<close> (runtime/src/component): the components of a running instance and
      their conversion from the spicepod.
    \<^item> \<open>Refresh_Config\<close>, \<open>Refresher\<close>, \<open>Refresh_Task\<close>, \<open>Change_Batch\<close>, \<open>Refresh_Changes\<close>,
      \<open>Accelerated_Table\<close> (runtime/src/accelerated_table, data_components/src/cdc.rs): the refresh
      settings and time filters; the refresher and its runner as one transition system; one refresh;
      change events and the tasks that apply them; reading, writing and retention.
    \<^item> \<open>Mem_Table\<close> (data_components/src/arrow, delete.rs, poly.rs) and \<open>Execution_Plans\<close>
      (runtime/src/execution_plan): the in-memory accelerator and the runtime's own plan nodes.
    \<^item> \<open>Results_Cache\<close> (crates/cache) and \<open>Query\<close> (runtime/src/datafusion/query.rs and query/): the
      cache of results, running a query, and tracking it to the query history and the HTTP answer.
    \<^item> \<open>Table_Registry\<close> (runtime/src/datafusion.rs, datafusion/schema.rs and refresh_sql.rs):
      registering, finding, writing and removing tables.
    \<^item> \<open>Health_Monitor\<close>, \<open>Runtime_Loading\<close>, \<open>Runtime_Reload\<close> (runtime/src/lib.rs, status.rs,
      datasets_health_monitor.rs, podswatcher.rs): loading components with retries, status and
      metrics, the start-up, availability checks, and following the app's files.
    \<^item> \<open>Tools\<close>, \<open>Tool_Use\<close> (runtime/src/tools, model/tool_use.rs): the built-in tools and the loop of
      a chat with tools, in whole answers and in streams.
    \<^item> \<open>GraphQL\<close> (data_components/src/graphql): pagination, flattening and the loop over the pages.
    \<^item> \<open>Embeddings\<close>, \<open>Vector_Search\<close> (runtime/src/embeddings, http/v1/search.rs): tables with vectors
      added to their text columns, and the search for the rows nearest to a text.
    \<^item> \<open>Debezium\<close> (data_components/src/debezium, debezium_kafka.rs, arrow/struct_builder.rs,
      runtime/src/dataconnector/debezium.rs): events of a Kafka topic as the change batches of
      \<open>Change_Batch\<close>, their Arrow schema and values, and the connector's stored metadata.

  \<^bold>\<open>Interfaces.\<close> \<open>lookup_store\<close> and its extensions are interpreted on parameters, connector factories
  and tables; \<open>prefixed_reference\<close> on the references of catalogs and secrets; \<open>logos_lexer\<close> on the
  secret lexer; \<open>event_loop\<close> on the two streaming refreshes; \<open>invariant_system\<close> on the refresher;
  \<open>row_store\<close> on the in-memory table, which the change stream uses; \<open>unlimited_retry\<close> on loading
  datasets and catalogs.

  \<^bold>\<open>What is shown.\<close> The refresher never forgets a refresh, announces readiness once and only after a
  success, makes progress, and can deadlock on its two bounded channels when triggered from outside
  often enough. An append refresh stores exactly the new rows. The in-memory table refines a table
  of rows under insertion and deletion, and applying a change stream to it keeps account of every
  change. Loading a dataset ends exactly when some attempt succeeds; after a reload the tables are
  those of the new app, unless one cannot be loaded, which blocks all later reloads. Parameters and
  secrets get the values their specification says. Only complete results without an error are
  cached by a query, they are served again unchanged, and each query is recorded once. A chat with
  tools ends exactly when the model stops asking for tools; pages are bounded by the limit. A
  search answers for exactly the tables it names, and a projection computes exactly the vectors it
  asks for. A change event becomes a batch that says the same change, and the columnar builder of
  its rows equals the row-wise conversion; decimals keep their value unless they are negative and
  shorter than 16 bytes. Several
  theorems state where the code does not do what it means to; they are the findings of the manifest.

  \<^bold>\<open>Partiality and parameters.\<close> A panic is \<open>None\<close>. Loops without a bound (retries, rounds of a chat,
  pages) are partial functions in the option type, \<open>None\<close> meaning that they do not return, and the
  theorems say for which inputs they do. The nesting of a streamed chat is bounded by a depth
  argument, because each round nests a stream in the one before; the theorems hold for every depth
  that suffices for the rounds the model asks for. No other definition has fuel. Code outside the
  repository (DataFusion, Arrow, the cache and regular expression libraries, YAML, HTTP, file system,
  clocks, random numbers) is a parameter, usually a record of functions; what is relied on of it is
  a hypothesis with a witness. Machine integers are words where they can wrap; where the code
  saturates or checks, this is written out.

  \<^bold>\<open>Not modelled.\<close> The servers (HTTP routes other than SQL, Flight, OpenTelemetry, metrics) and
  command line programs, which translate requests into the operations modelled here; the connectors
  and accelerators that hand a dataset to a database, object store or cloud service through a client
  library, the Kafka client included; language and embedding models; telemetry. Their logic is in the libraries they call.
\<close>

end
